(* ===== verification/Prelude.thy ===== *)
theory Prelude
  imports Main "HOL-Library.Word" "HOL-Library.Char_ord" "HOL-Library.List_Lexorder"
    "HOL-Library.Code_Target_Nat"
begin

text \<open>
  Shared vocabulary of the development: results, Rust's \<open>str\<close> as UTF-8 bytes, decimal
  printing and parsing, \<open>BTreeMap\<close> as a key-sorted association list, durations and the
  JSON value type. Only behaviour of the Rust language and standard library is defined
  here; third-party crates are arguments of the model (theory \<open>Externals\<close>).
\<close>

named_theorems text_simps \<open>facts about Rust strings\<close>
named_theorems outcome_simps \<open>fields of outcomes and errors built by the code\<close>
named_theorems frame_simps \<open>which parts of the world an operation leaves alone\<close>

section \<open>Results\<close>

abbreviation Err :: "'e \<Rightarrow> 'e + 'a" where "Err \<equiv> Inl"
abbreviation Ok :: "'a \<Rightarrow> 'e + 'a" where "Ok \<equiv> Inr"

definition and_then :: "'e + 'a \<Rightarrow> ('a \<Rightarrow> 'e + 'b) \<Rightarrow> 'e + 'b" where
  "and_then r f = (case r of Inl e \<Rightarrow> Inl e | Inr x \<Rightarrow> f x)"

definition map_err :: "('e \<Rightarrow> 'f) \<Rightarrow> 'e + 'a \<Rightarrow> 'f + 'a" where
  "map_err f r = (case r of Inl e \<Rightarrow> Inl (f e) | Inr x \<Rightarrow> Inr x)"

definition ok_or :: "'e \<Rightarrow> 'a option \<Rightarrow> 'e + 'a" where
  "ok_or e x = (case x of None \<Rightarrow> Inl e | Some y \<Rightarrow> Inr y)"

definition then_some :: "bool \<Rightarrow> 'a \<Rightarrow> 'a option" where
  "then_some b x = (if b then Some x else None)"

definition opt_filter :: "('a \<Rightarrow> bool) \<Rightarrow> 'a option \<Rightarrow> 'a option" where
  "opt_filter P x = (case x of Some y \<Rightarrow> if P y then Some y else None | None \<Rightarrow> None)"

definition is_some_and :: "('a \<Rightarrow> bool) \<Rightarrow> 'a option \<Rightarrow> bool" where
  "is_some_and P x = (case x of Some y \<Rightarrow> P y | None \<Rightarrow> False)"

definition is_none_or :: "('a \<Rightarrow> bool) \<Rightarrow> 'a option \<Rightarrow> bool" where
  "is_none_or P x = (case x of Some y \<Rightarrow> P y | None \<Rightarrow> True)"

definition unwrap_or :: "'a \<Rightarrow> 'a option \<Rightarrow> 'a" where
  "unwrap_or d x = (case x of Some y \<Rightarrow> y | None \<Rightarrow> d)"

definition or_else :: "'a option \<Rightarrow> 'a option \<Rightarrow> 'a option" where
  "or_else x y = (case x of Some z \<Rightarrow> Some z | None \<Rightarrow> y)"

text \<open>\<open>[..].into_iter().flatten().collect()\<close> over options.\<close>

fun flatten :: "'a option list \<Rightarrow> 'a list" where
  "flatten [] = []"
| "flatten (None # xs) = flatten xs"
| "flatten (Some x # xs) = x # flatten xs"

lemma and_then_simps [simp]:
  "and_then (Inl e) f = Inl e" "and_then (Inr x) f = f x"
  by (simp_all add: and_then_def)

lemma map_err_simps [simp]:
  "map_err f (Inl e) = Inl (f e)" "map_err f (Inr x) = Inr x"
  by (simp_all add: map_err_def)

lemma ok_or_simps [simp]: "ok_or e None = Inl e" "ok_or e (Some x) = Inr x"
  by (simp_all add: ok_or_def)

lemma then_some_simps [simp]: "then_some True x = Some x" "then_some False x = None"
  by (simp_all add: then_some_def)

lemma then_some_eq_None [simp]: "then_some b x = None \<longleftrightarrow> \<not> b"
  by (simp add: then_some_def)

lemma then_some_eq_Some [simp]: "then_some b x = Some y \<longleftrightarrow> b \<and> x = y"
  by (auto simp: then_some_def)

lemma Some_eq_then_some [simp]: "Some y = then_some b x \<longleftrightarrow> b \<and> x = y"
  by (auto simp: then_some_def)

lemma None_eq_then_some [simp]: "None = then_some b x \<longleftrightarrow> \<not> b"
  by (auto simp: then_some_def)

lemma opt_filter_simps [simp]:
  "opt_filter P None = None" "opt_filter P (Some x) = (if P x then Some x else None)"
  by (simp_all add: opt_filter_def)

lemma opt_filter_eq_Some: "opt_filter P x = Some y \<longleftrightarrow> x = Some y \<and> P y"
  by (auto simp: opt_filter_def split: option.splits if_splits)

lemma is_some_and_simps [simp]: "is_some_and P None = False" "is_some_and P (Some x) = P x"
  by (simp_all add: is_some_and_def)

lemma is_some_and_iff: "is_some_and P x \<longleftrightarrow> (\<exists>y. x = Some y \<and> P y)"
  by (cases x) auto

lemma is_none_or_simps [simp]: "is_none_or P None = True" "is_none_or P (Some x) = P x"
  by (simp_all add: is_none_or_def)

lemma unwrap_or_simps [simp]: "unwrap_or d None = d" "unwrap_or d (Some x) = x"
  by (simp_all add: unwrap_or_def)

lemma or_else_simps [simp]: "or_else None y = y" "or_else (Some x) y = Some x"
  by (simp_all add: or_else_def)

lemma and_then_eq_Ok: "and_then r f = Inr y \<longleftrightarrow> (\<exists>x. r = Inr x \<and> f x = Inr y)"
  by (cases r) auto

lemma and_then_rule:
  assumes "\<And>e. r = Inl e \<Longrightarrow> P (Inl e)" "\<And>n. r = Inr n \<Longrightarrow> P (f n)"
  shows "P (and_then r f)"
  using assms by (cases r) auto

lemma and_then_eq_Err: "and_then r f = Inl e \<longleftrightarrow> r = Inl e \<or> (\<exists>x. r = Inr x \<and> f x = Inl e)"
  by (cases r) auto

lemma map_err_eq_Ok [simp]: "map_err f r = Inr y \<longleftrightarrow> r = Inr y"
  by (cases r) auto

lemma map_err_eq_Err: "map_err f r = Inl e \<longleftrightarrow> (\<exists>e'. r = Inl e' \<and> e = f e')"
  by (cases r) auto

lemma ok_or_eq_Ok [simp]: "ok_or e x = Inr y \<longleftrightarrow> x = Some y"
  by (cases x) auto

lemma flatten_append [simp]: "flatten (xs @ ys) = flatten xs @ flatten ys"
  by (induction xs rule: flatten.induct) auto

lemma set_flatten: "set (flatten xs) = {x. Some x \<in> set xs}"
  by (induction xs rule: flatten.induct) auto

lemma flatten_eq_Nil: "flatten xs = [] \<longleftrightarrow> (\<forall>x \<in> set xs. x = None)"
  by (induction xs rule: flatten.induct) auto

lemma length_flatten: "length (flatten xs) \<le> length xs"
  by (induction xs rule: flatten.induct) auto

section \<open>Strings\<close>

text \<open>
  A Rust \<open>str\<close> is its UTF-8 bytes, a \<open>string\<close> of HOL with one \<open>char\<close> per byte:
  \<open>len()\<close> is \<open>length\<close>, \<open>as_bytes()\<close> the identity and \<open>chars()\<close> decodes.
\<close>

abbreviation byte_val :: "char \<Rightarrow> nat" where "byte_val c \<equiv> of_char c"

definition is_cont_byte :: "char \<Rightarrow> bool" where
  "is_cont_byte c \<longleftrightarrow> 128 \<le> byte_val c \<and> byte_val c < 192"

definition is_char_boundary :: "string \<Rightarrow> nat \<Rightarrow> bool" where
  "is_char_boundary s i \<longleftrightarrow>
     i = 0 \<or> i = length s \<or> (i < length s \<and> \<not> is_cont_byte (s ! i))"

text \<open>How many continuation bytes follow a leading byte; \<open>None\<close> if it cannot lead.\<close>

definition utf8_tail :: "nat \<Rightarrow> nat option" where
  "utf8_tail x =
     (if x < 128 then Some 0
      else if 194 \<le> x \<and> x < 224 then Some 1
      else if 224 \<le> x \<and> x < 240 then Some 2
      else if 240 \<le> x \<and> x < 245 then Some 3
      else None)"

text \<open>The second byte excludes overlong forms, surrogates and values above U+10FFFF.\<close>

fun utf8_second_ok :: "nat \<Rightarrow> string \<Rightarrow> bool" where
  "utf8_second_ok x [] = True"
| "utf8_second_ok x (c # _) =
     (if x = 224 then 160 \<le> byte_val c
      else if x = 237 then byte_val c < 160
      else if x = 240 then 144 \<le> byte_val c
      else if x = 244 then byte_val c < 144
      else True)"

fun valid_utf8 :: "string \<Rightarrow> bool" where
  "valid_utf8 [] = True"
| "valid_utf8 (b # bs) =
     (case utf8_tail (byte_val b) of
        None \<Rightarrow> False
      | Some n \<Rightarrow> n \<le> length bs \<and> list_all is_cont_byte (take n bs)
          \<and> utf8_second_ok (byte_val b) bs \<and> valid_utf8 (drop n bs))"

definition cont_val :: "string \<Rightarrow> nat \<Rightarrow> nat" where
  "cont_val bs i = (if i < length bs then byte_val (bs ! i) mod 64 else 0)"

text \<open>\<open>str::chars\<close>: the code points of the string.\<close>

fun chars :: "string \<Rightarrow> nat list" where
  "chars [] = []"
| "chars (b # bs) =
     (let x = byte_val b in
      if x < 128 then x # chars bs
      else if x < 224 then ((x mod 32) * 64 + cont_val bs 0) # chars (drop 1 bs)
      else if x < 240 then
        ((x mod 16) * 4096 + cont_val bs 0 * 64 + cont_val bs 1) # chars (drop 2 bs)
      else
        ((x mod 8) * 262144 + cont_val bs 0 * 4096 + cont_val bs 1 * 64 + cont_val bs 2)
          # chars (drop 3 bs))"

definition encode_utf8 :: "nat \<Rightarrow> string" where
  "encode_utf8 c =
     (if c < 128 then [char_of c]
      else if c < 2048 then [char_of (192 + c div 64), char_of (128 + c mod 64)]
      else if c < 65536 then
        [char_of (224 + c div 4096), char_of (128 + c div 64 mod 64), char_of (128 + c mod 64)]
      else
        [char_of (240 + c div 262144), char_of (128 + c div 4096 mod 64),
         char_of (128 + c div 64 mod 64), char_of (128 + c mod 64)])"

definition of_chars :: "nat list \<Rightarrow> string" where
  "of_chars cs = concat (map encode_utf8 cs)"

subsection \<open>Character classes, on code points\<close>

definition is_control :: "nat \<Rightarrow> bool" where
  "is_control c \<longleftrightarrow> c < 32 \<or> (127 \<le> c \<and> c < 160)"

definition is_whitespace :: "nat \<Rightarrow> bool" where
  "is_whitespace c \<longleftrightarrow>
     (9 \<le> c \<and> c \<le> 13) \<or> c = 32 \<or> c = 133 \<or> c = 160 \<or> c = 5760
     \<or> (8192 \<le> c \<and> c \<le> 8202) \<or> c = 8232 \<or> c = 8233 \<or> c = 8239 \<or> c = 8287 \<or> c = 12288"

definition is_ascii_digit :: "nat \<Rightarrow> bool" where
  "is_ascii_digit c \<longleftrightarrow> 48 \<le> c \<and> c \<le> 57"

definition is_ascii_uppercase :: "nat \<Rightarrow> bool" where
  "is_ascii_uppercase c \<longleftrightarrow> 65 \<le> c \<and> c \<le> 90"

definition is_ascii_lowercase :: "nat \<Rightarrow> bool" where
  "is_ascii_lowercase c \<longleftrightarrow> 97 \<le> c \<and> c \<le> 122"

definition is_ascii_alphanumeric :: "nat \<Rightarrow> bool" where
  "is_ascii_alphanumeric c \<longleftrightarrow>
     is_ascii_digit c \<or> is_ascii_uppercase c \<or> is_ascii_lowercase c"

definition is_ascii_hexdigit :: "nat \<Rightarrow> bool" where
  "is_ascii_hexdigit c \<longleftrightarrow>
     is_ascii_digit c \<or> (65 \<le> c \<and> c \<le> 70) \<or> (97 \<le> c \<and> c \<le> 102)"

definition is_ascii_graphic :: "nat \<Rightarrow> bool" where
  "is_ascii_graphic c \<longleftrightarrow> 33 \<le> c \<and> c \<le> 126"

text \<open>\<open>matches!(character, 'a' | 'b' | ..)\<close> over a literal list of ASCII characters.\<close>

definition one_of :: "string \<Rightarrow> nat \<Rightarrow> bool" where
  "one_of s c \<longleftrightarrow> c \<in> set (map byte_val s)"

definition any_char :: "(nat \<Rightarrow> bool) \<Rightarrow> string \<Rightarrow> bool" where
  "any_char P s \<longleftrightarrow> list_ex P (chars s)"

definition all_chars :: "(nat \<Rightarrow> bool) \<Rightarrow> string \<Rightarrow> bool" where
  "all_chars P s \<longleftrightarrow> list_all P (chars s)"

definition is_ascii :: "string \<Rightarrow> bool" where
  "is_ascii s \<longleftrightarrow> list_all (\<lambda>c. byte_val c < 128) s"

lemmas char_class_defs = is_control_def is_whitespace_def is_ascii_digit_def
  is_ascii_uppercase_def is_ascii_lowercase_def is_ascii_alphanumeric_def
  is_ascii_hexdigit_def is_ascii_graphic_def one_of_def

subsection \<open>String operations\<close>

definition trim_chars :: "nat list \<Rightarrow> nat list" where
  "trim_chars cs = rev (dropWhile is_whitespace (rev (dropWhile is_whitespace cs)))"

definition trim :: "string \<Rightarrow> string" where
  "trim s = of_chars (trim_chars (chars s))"

definition lower_byte :: "char \<Rightarrow> char" where
  "lower_byte c = (if is_ascii_uppercase (byte_val c) then char_of (byte_val c + 32) else c)"

definition to_ascii_lowercase :: "string \<Rightarrow> string" where
  "to_ascii_lowercase s = map lower_byte s"

definition starts_with :: "string \<Rightarrow> string \<Rightarrow> bool" where
  "starts_with p s \<longleftrightarrow> take (length p) s = p"

definition ends_with :: "string \<Rightarrow> string \<Rightarrow> bool" where
  "ends_with p s \<longleftrightarrow> starts_with (rev p) (rev s)"

definition strip_prefix :: "string \<Rightarrow> string \<Rightarrow> string option" where
  "strip_prefix p s = (if starts_with p s then Some (drop (length p) s) else None)"

definition strip_suffix :: "string \<Rightarrow> string \<Rightarrow> string option" where
  "strip_suffix p s = (if ends_with p s then Some (take (length s - length p) s) else None)"

fun contains_str :: "string \<Rightarrow> string \<Rightarrow> bool" where
  "contains_str p [] = (p = [])"
| "contains_str p (c # s) = (starts_with p (c # s) \<or> contains_str p s)"

text \<open>\<open>split_once\<close> and \<open>split\<close> at an ASCII character.\<close>

fun split_once :: "char \<Rightarrow> string \<Rightarrow> (string \<times> string) option" where
  "split_once d [] = None"
| "split_once d (c # s) =
     (if c = d then Some ([], s)
      else map_option (\<lambda>(a, b). (c # a, b)) (split_once d s))"

fun split_on :: "char \<Rightarrow> string \<Rightarrow> string list" where
  "split_on d [] = [[]]"
| "split_on d (c # s) =
     (if c = d then [] # split_on d s
      else (case split_on d s of [] \<Rightarrow> [[c]] | w # ws \<Rightarrow> (c # w) # ws))"

fun join_with :: "string \<Rightarrow> string list \<Rightarrow> string" where
  "join_with sep [] = []"
| "join_with sep [s] = s"
| "join_with sep (s # ss) = s @ sep @ join_with sep ss"

definition digit_char :: "nat \<Rightarrow> char" where
  "digit_char d = char_of (48 + d)"

fun show_nat :: "nat \<Rightarrow> string" where
  "show_nat n = (if n < 10 then [digit_char n] else show_nat (n div 10) @ [digit_char (n mod 10)])"

declare show_nat.simps [simp del]

fun digits_val :: "nat \<Rightarrow> string \<Rightarrow> nat option" where
  "digits_val acc [] = Some acc"
| "digits_val acc (c # s) =
     (if is_ascii_digit (byte_val c) then digits_val (acc * 10 + (byte_val c - 48)) s else None)"

definition parse_digits :: "string \<Rightarrow> nat option" where
  "parse_digits s = (if s = [] then None else digits_val 0 s)"

text \<open>
  \<open>str::parse::<uN>\<close>: an optional plus sign and at least one digit, the value below
  \<open>2 ^ N\<close>. \<open>parse::<iN>\<close> also takes a minus sign.
\<close>

definition parse_uint :: "nat \<Rightarrow> string \<Rightarrow> nat option" where
  "parse_uint n s =
     opt_filter (\<lambda>v. v < 2 ^ n)
       (case s of [] \<Rightarrow> None | c # r \<Rightarrow> parse_digits (if c = CHR ''+'' then r else s))"

definition parse_sint :: "nat \<Rightarrow> string \<Rightarrow> int option" where
  "parse_sint n s =
     opt_filter (\<lambda>v. - (2 ^ (n - 1)) \<le> v \<and> v < 2 ^ (n - 1))
       (case s of [] \<Rightarrow> None
        | c # r \<Rightarrow>
            if c = CHR ''-'' then map_option (\<lambda>v. - int v) (parse_digits r)
            else map_option int (parse_digits (if c = CHR ''+'' then r else s)))"

section \<open>Facts about strings\<close>

lemma starts_with_iff: "starts_with p s \<longleftrightarrow> (\<exists>r. s = p @ r)"
  unfolding starts_with_def by (metis append_eq_conv_conj append_take_drop_id)

text \<open>For evaluation: stop at the first difference.\<close>

lemma starts_with_code [code]:
  "starts_with [] s \<longleftrightarrow> True"
  "starts_with (c # p) [] \<longleftrightarrow> False"
  "starts_with (c # p) (d # s) \<longleftrightarrow> (if c = d then starts_with p s else False)"
  by (auto simp: starts_with_def)

lemma contains_str_set: "contains_str p s \<Longrightarrow> set p \<subseteq> set s"
proof (induction s)
  case (Cons c s)
  from Cons.prems consider "starts_with p (c # s)" | "contains_str p s" by auto
  then show ?case
  proof cases
    case 1
    then obtain r where "c # s = p @ r" by (auto simp: starts_with_iff)
    then have "set (c # s) = set p \<union> set r" by simp
    then show ?thesis by blast
  qed (use Cons.IH in auto)
qed simp

lemma starts_with_append [simp]: "starts_with p (p @ s)"
  by (simp add: starts_with_def)

lemma contains_str_append: "contains_str p (p @ s)"
proof (cases "p @ s")
  case (Cons c r)
  then show ?thesis using starts_with_append [of p s] by simp
qed simp

lemma ends_with_iff: "ends_with p s \<longleftrightarrow> (\<exists>r. s = r @ p)"
  unfolding ends_with_def starts_with_iff by (metis rev_append rev_rev_ident)

lemma strip_prefix_eq_Some: "strip_prefix p s = Some r \<longleftrightarrow> s = p @ r"
  by (auto simp: strip_prefix_def starts_with_iff)

lemma strip_prefix_append [simp]: "strip_prefix p (p @ r) = Some r"
  by (simp add: strip_prefix_eq_Some)

lemma strip_suffix_eq_Some: "strip_suffix p s = Some r \<longleftrightarrow> s = r @ p"
  by (auto simp: strip_suffix_def ends_with_iff)

lemma split_once_Some: "split_once d s = Some (a, b) \<Longrightarrow> s = a @ d # b \<and> d \<notin> set a"
  by (induction s arbitrary: a) (auto split: if_splits)

lemma split_once_append: "d \<notin> set a \<Longrightarrow> split_once d (a @ d # b) = Some (a, b)"
  by (induction a) auto

lemma split_once_eq_Some:
  "split_once d s = Some (a, b) \<longleftrightarrow> s = a @ d # b \<and> d \<notin> set a"
  using split_once_Some split_once_append by metis

lemma split_once_eq_None: "split_once d s = None \<longleftrightarrow> d \<notin> set s"
  by (induction s) auto

lemma split_on_nonempty [simp]: "split_on d s \<noteq> []"
  by (induction s) (auto split: list.splits)

lemma split_on_pieces: "w \<in> set (split_on d s) \<Longrightarrow> d \<notin> set w \<and> set w \<subseteq> set s"
proof (induction s arbitrary: w)
  case (Cons c s)
  then show ?case
    by (cases "split_on d s") (fastforce split: if_splits)+
qed simp

lemma join_with_Cons: "ss \<noteq> [] \<Longrightarrow> join_with sep (s # ss) = s @ sep @ join_with sep ss"
  by (cases ss) simp_all

lemma set_join_with: "set (join_with sep ss) \<subseteq> set sep \<union> \<Union> (set ` set ss)"
  by (induction sep ss rule: join_with.induct) auto

lemma ascii_Cons [simp]: "is_ascii (c # s) \<longleftrightarrow> byte_val c < 128 \<and> is_ascii s"
  and ascii_Nil [simp]: "is_ascii []"
  and ascii_append [simp]: "is_ascii (s @ t) \<longleftrightarrow> is_ascii s \<and> is_ascii t"
  by (auto simp: is_ascii_def)

lemma chars_ascii: "is_ascii s \<Longrightarrow> chars s = map byte_val s"
  by (induction s) auto

lemma chars_eq_Nil [simp]: "chars s = [] \<longleftrightarrow> s = []"
  by (cases s) (auto simp: Let_def)

lemma chars_ascii_append: "is_ascii s \<Longrightarrow> chars (s @ t) = map byte_val s @ chars t"
  by (induction s) (auto simp: Let_def)

lemma encode_utf8_nonempty [simp]: "encode_utf8 c \<noteq> []"
  by (simp add: encode_utf8_def)

lemma of_chars_eq_Nil [simp]: "of_chars cs = [] \<longleftrightarrow> cs = []"
  by (cases cs) (auto simp: of_chars_def)

lemma trim_chars_eq_Nil: "trim_chars cs = [] \<longleftrightarrow> list_all is_whitespace cs"
  by (auto simp: trim_chars_def list_all_iff dest: set_dropWhileD)
     (metis (no_types) dropWhile_eq_Nil_conv rev_is_Nil_conv set_rev hd_dropWhile list.set_sel(1) rev_rev_ident)

text \<open>\<open>s.trim().is_empty()\<close>: the string is blank.\<close>

lemma trim_eq_Nil: "trim s = [] \<longleftrightarrow> all_chars is_whitespace s"
  by (simp add: trim_def trim_chars_eq_Nil all_chars_def)

text \<open>Trimming text with no whitespace in it changes nothing.\<close>

lemma of_chars_ascii: "is_ascii s \<Longrightarrow> of_chars (map byte_val s) = s"
  by (induction s) (auto simp: of_chars_def encode_utf8_def)

lemma trim_ascii_id:
  assumes "\<And>c. c \<in> set (chars s) \<Longrightarrow> \<not> is_whitespace c" and "is_ascii s"
  shows "trim s = s"
proof -
  have drop: "dropWhile is_whitespace cs = cs" if "\<forall>c \<in> set cs. \<not> is_whitespace c" for cs
    using that by (cases cs) auto
  have "trim_chars (chars s) = chars s" using assms(1) by (simp add: trim_chars_def drop)
  then show ?thesis using assms(2) by (simp add: trim_def chars_ascii of_chars_ascii)
qed

lemma any_char_not_all: "any_char P s \<longleftrightarrow> \<not> all_chars (\<lambda>c. \<not> P c) s"
  by (auto simp: any_char_def all_chars_def list_ex_iff list_all_iff)

lemma any_char_append_ascii:
  "is_ascii s \<Longrightarrow> any_char P (s @ t) \<longleftrightarrow> any_char P s \<or> any_char P t"
  by (simp add: any_char_def chars_ascii_append chars_ascii)

lemma to_ascii_lowercase_length [simp]: "length (to_ascii_lowercase s) = length s"
  by (simp add: to_ascii_lowercase_def)

text \<open>A code point below 128 among the decoded ones is a byte of the string.\<close>

lemma ascii_in_chars: "c \<in> set (map byte_val s) \<Longrightarrow> c < 128 \<Longrightarrow> valid_utf8 s \<Longrightarrow> c \<in> set (chars s)"
proof (induction s rule: length_induct)
  case (1 s)
  show ?case
  proof (cases s)
    case Nil with "1.prems" show ?thesis by simp
  next
    case (Cons b bs)
    from "1.prems"(3) Cons obtain n where n: "utf8_tail (byte_val b) = Some n"
      and len: "n \<le> length bs" and cont: "list_all is_cont_byte (take n bs)"
      and rest: "valid_utf8 (drop n bs)" by (auto split: option.splits)
    have IH: "c \<in> set (map byte_val (drop n bs)) \<Longrightarrow> c \<in> set (chars (drop n bs))"
      using "1.IH" "1.prems"(2) rest Cons by (simp add: less_Suc_eq_le)
    have split: "set bs = set (take n bs) \<union> set (drop n bs)"
      by (metis append_take_drop_id set_append)
    from "1.prems"(1) Cons consider (here) "c = byte_val b" | (later) "c \<in> byte_val ` set bs"
      by auto
    then show ?thesis
    proof cases
      case here
      with "1.prems"(2) Cons show ?thesis by simp
    next
      case later
      with cont "1.prems"(2) have "c \<in> byte_val ` set (drop n bs)"
        unfolding split by (auto simp: list_all_iff is_cont_byte_def)
      with IH have "c \<in> set (chars (drop n bs))" by simp
      with n Cons show ?thesis
        by (auto simp: utf8_tail_def Let_def split: if_splits)
    qed
  qed
qed

subsection \<open>Decimal numbers\<close>

lemma byte_val_digit [simp]: "d < 10 \<Longrightarrow> byte_val (digit_char d) = 48 + d"
  by (simp add: digit_char_def)

lemma digits_val_append:
  "digits_val acc (s @ t) =
     (case digits_val acc s of None \<Rightarrow> None | Some v \<Rightarrow> digits_val v t)"
  by (induction acc s rule: digits_val.induct) auto

lemma show_nat_nonempty [simp]: "show_nat n \<noteq> []"
  by (subst show_nat.simps) simp

lemma digits_val_show_nat: "digits_val 0 (show_nat n) = Some n"
proof (induction n rule: show_nat.induct)
  case (1 n)
  show ?case
  proof (cases "n < 10")
    case True
    then show ?thesis by (subst show_nat.simps) (simp add: is_ascii_digit_def)
  next
    case False
    with "1.IH" show ?thesis
      by (subst show_nat.simps) (simp add: digits_val_append is_ascii_digit_def)
  qed
qed

lemma show_nat_digits: "c \<in> set (show_nat n) \<Longrightarrow> is_ascii_digit (byte_val c)"
proof (induction n rule: show_nat.induct)
  case (1 n)
  from "1.prems" show ?case
    by (subst (asm) show_nat.simps) (auto simp: is_ascii_digit_def dest: "1.IH" split: if_splits)
qed

lemma show_nat_inj: "show_nat m = show_nat n \<longleftrightarrow> m = n"
  using digits_val_show_nat by (metis option.inject)

lemma plus_not_digit: "\<not> is_ascii_digit (byte_val (CHR ''+''))"
  by (simp add: is_ascii_digit_def)

text \<open>\<open>n.to_string().parse()\<close> is the identity within the width.\<close>

lemma parse_uint_show_nat_iff:
  "parse_uint w (show_nat n) = (if n < 2 ^ w then Some n else None)"
proof -
  obtain c r where cr: "show_nat n = c # r"
    using show_nat_nonempty by (cases "show_nat n") blast+
  then have "c \<noteq> CHR ''+''" using show_nat_digits [of c n] plus_not_digit by auto
  then have "parse_uint w (show_nat n) = opt_filter (\<lambda>v. v < 2 ^ w) (parse_digits (show_nat n))"
    unfolding cr parse_uint_def by simp
  also have "parse_digits (show_nat n) = Some n"
    by (simp add: parse_digits_def digits_val_show_nat)
  finally show ?thesis by simp
qed

lemma parse_uint_show_nat: "n < 2 ^ w \<Longrightarrow> parse_uint w (show_nat n) = Some n"
  by (simp add: parse_uint_show_nat_iff)

lemma parse_uint_bound: "parse_uint w s = Some n \<Longrightarrow> n < 2 ^ w"
  by (auto simp: parse_uint_def opt_filter_eq_Some)

lemma parse_sint_bound: "parse_sint w s = Some n \<Longrightarrow> - (2 ^ (w - 1)) \<le> n \<and> n < 2 ^ (w - 1)"
  by (auto simp: parse_sint_def opt_filter_eq_Some)

subsection \<open>UTF-8 boundaries\<close>

text \<open>Cutting well-formed text at a character boundary leaves well-formed text.\<close>

lemma valid_utf8_take:
  "valid_utf8 s \<Longrightarrow> is_char_boundary s i \<Longrightarrow> i \<le> length s \<Longrightarrow> valid_utf8 (take i s)"
proof (induction s arbitrary: i rule: length_induct)
  case (1 s)
  show ?case
  proof (cases s)
    case Nil then show ?thesis by simp
  next
    case (Cons b bs)
    from "1.prems"(1) Cons obtain n where n: "utf8_tail (byte_val b) = Some n"
      and len: "n \<le> length bs" and cont: "list_all is_cont_byte (take n bs)"
      and second: "utf8_second_ok (byte_val b) bs"
      and rest: "valid_utf8 (drop n bs)" by (auto split: option.splits)
    show ?thesis
    proof (cases i)
      case 0 then show ?thesis by simp
    next
      case (Suc j)
      have "n \<le> j"
      proof (rule ccontr)
        assume "\<not> n \<le> j"
        then have "j < n" by simp
        with len have "is_cont_byte (bs ! j)"
          using cont by (auto simp: list_all_length)
        with "1.prems"(2) Suc Cons \<open>j < n\<close> len show False
          by (auto simp: is_char_boundary_def)
      qed
      then have j: "j - n \<le> length (drop n bs)" using "1.prems"(3) Suc Cons by simp
      have b: "is_char_boundary (drop n bs) (j - n)"
        using "1.prems"(2) Suc Cons \<open>n \<le> j\<close> len by (auto simp: is_char_boundary_def)
      have "valid_utf8 (take (j - n) (drop n bs))"
        using "1.IH" Cons rest b j by (simp add: less_Suc_eq_le)
      moreover have "drop n (take j bs) = take (j - n) (drop n bs)" by (simp add: drop_take)
      moreover have "take n (take j bs) = take n bs" using \<open>n \<le> j\<close> by (simp add: min_def)
      moreover have "n \<le> length (take j bs)" using \<open>n \<le> j\<close> len by simp
      moreover have "utf8_second_ok (byte_val b) (take j bs)"
        using second by (cases bs; cases j) auto
      ultimately show ?thesis using Suc Cons n cont by simp
    qed
  qed
qed

text \<open>In well-formed text a boundary is at most three bytes back.\<close>

lemma char_boundary_near:
  "valid_utf8 s \<Longrightarrow> i \<le> length s \<Longrightarrow> \<exists>j \<le> i. i - j \<le> 3 \<and> is_char_boundary s j"
proof (induction s arbitrary: i rule: length_induct)
  case (1 s)
  show ?case
  proof (cases s)
    case Nil with "1.prems" show ?thesis by (auto simp: is_char_boundary_def)
  next
    case (Cons b bs)
    from "1.prems"(1) Cons obtain n where n: "utf8_tail (byte_val b) = Some n"
      and len: "n \<le> length bs" and rest: "valid_utf8 (drop n bs)"
      by (auto split: option.splits)
    have n3: "n \<le> 3" using n by (auto simp: utf8_tail_def split: if_splits)
    show ?thesis
    proof (cases "i \<le> n")
      case True
      with n3 show ?thesis by (intro exI [of _ 0]) (simp add: is_char_boundary_def)
    next
      case False
      then have "i - Suc n \<le> length (drop n bs)" using "1.prems"(2) Cons by simp
      then obtain j where j: "j \<le> i - Suc n" "i - Suc n - j \<le> 3"
        "is_char_boundary (drop n bs) j"
        using "1.IH" rest Cons by (metis (no_types, lifting) length_Cons length_drop le_imp_less_Suc diff_le_self)
      show ?thesis
      proof (cases "j = 0")
        case True
        have "i - 0 \<le> 3 \<or> is_char_boundary s (Suc n)"
        proof (cases "n = length bs")
          case False
          with len rest obtain c cs where c: "drop n bs = c # cs" by (cases "drop n bs") auto
          with rest have "\<not> is_cont_byte c"
            by (auto simp: utf8_tail_def is_cont_byte_def split: option.splits if_splits)
          moreover have "bs ! n = c" using c by (metis nth_via_drop)
          ultimately show ?thesis using Cons len False by (simp add: is_char_boundary_def)
        qed (simp add: Cons is_char_boundary_def)
        with True j False show ?thesis
          by (auto intro: exI [of _ "Suc n"] exI [of _ 0] simp: is_char_boundary_def)
      next
        case j0: False
        then have "is_char_boundary s (Suc n + j)"
          using j(3) Cons len by (auto simp: is_char_boundary_def nth_append)
        with j False show ?thesis by (intro exI [of _ "Suc n + j"]) simp
      qed
    qed
  qed
qed

end
