(* ===== verification/Rust_Std.thy ===== *)
theory Rust_Std
  imports Prelude
begin

text \<open>
  The parts of Rust's standard library, and of the JSON value type, that the program's data
  is built from: fixed-width integers, \<open>Duration\<close>, \<open>BTreeMap\<close> and \<open>serde_json::Value\<close>.
  The locale \<open>lookup_map\<close> is the contract of a keyed store; everything the clients need
  of \<open>collect()\<close> and \<open>extend\<close> is proved once inside it and reaches the code's maps
  through the interpretation \<open>bt\<close>.
\<close>

section \<open>Integers and durations\<close>

type_synonym u8 = "8 word"
type_synonym u16 = "16 word"
type_synonym u32 = "32 word"
type_synonym u64 = "64 word"
type_synonym i64 = "64 word" \<comment> \<open>read with \<open>sint\<close>\<close>

text \<open>A \<open>Duration\<close> is its number of nanoseconds.\<close>

type_synonym duration = nat

definition from_secs :: "nat \<Rightarrow> duration" where "from_secs n = n * 1000000000"
definition from_millis :: "nat \<Rightarrow> duration" where "from_millis n = n * 1000000"
definition as_millis :: "duration \<Rightarrow> nat" where "as_millis d = d div 1000000"

definition u64_max :: nat where "u64_max = 2 ^ 64 - 1"
definition u128_max :: nat where "u128_max = 2 ^ 128 - 1"

text \<open>\<open>u64::try_from(n).unwrap_or(u64::MAX)\<close>.\<close>

definition saturate_u64 :: "nat \<Rightarrow> u64" where "saturate_u64 n = of_nat (min n u64_max)"

text \<open>\<open>u64::saturating_add\<close>, \<open>saturating_sub\<close> and \<open>u128::saturating_mul\<close>.\<close>

definition saturating_add_u64 :: "u64 \<Rightarrow> u64 \<Rightarrow> u64" where
  "saturating_add_u64 a b = saturate_u64 (unat a + unat b)"

definition saturating_sub_u64 :: "u64 \<Rightarrow> u64 \<Rightarrow> u64" where
  "saturating_sub_u64 a b = (if a < b then 0 else a - b)"

definition saturating_mul_u128 :: "nat \<Rightarrow> nat \<Rightarrow> nat" where
  "saturating_mul_u128 a b = min (a * b) u128_max"

lemma unat_saturate_u64: "unat (saturate_u64 n) = min n u64_max"
  by (simp add: saturate_u64_def u64_max_def unat_of_nat)

lemma unat_saturating_add: "unat (saturating_add_u64 a b) = min (unat a + unat b) u64_max"
  by (simp add: saturating_add_u64_def unat_saturate_u64)

lemma unat_saturating_sub: "unat (saturating_sub_u64 a b) = unat a - unat b"
  by (auto simp: saturating_sub_u64_def word_less_nat_alt unat_sub word_le_nat_alt)

lemma unat_u32_to_u64: "unat (ucast (x :: u32) :: u64) = unat x"
proof -
  have "unat x < 2 ^ 32" using unsigned_less [of x] by simp
  then show ?thesis by (simp add: unsigned_ucast_eq take_bit_nat_eq_self)
qed

lemma as_millis_mono: "a \<le> b \<Longrightarrow> as_millis a \<le> as_millis b"
  by (simp add: as_millis_def div_le_mono)

lemma as_millis_from_millis [simp]: "as_millis (from_millis n) = n"
  by (simp add: as_millis_def from_millis_def)

lemma as_millis_from_secs [simp]: "as_millis (from_secs n) = n * 1000"
  by (simp add: as_millis_def from_secs_def)

section \<open>Ordered maps\<close>

lemma map_of_rev_distinct: "distinct (map fst kvs) \<Longrightarrow> map_of (rev kvs) = map_of kvs"
proof (induction kvs)
  case (Cons kv kvs)
  then have "fst kv \<notin> dom (map_of kvs)" by (auto simp: dom_map_of_conv_image_fst)
  with Cons show ?case by (cases kv) (simp add: map_add_upd_left)
qed simp

locale lookup_map =
  fixes empty :: 'm
    and insert_key :: "'k \<Rightarrow> 'v \<Rightarrow> 'm \<Rightarrow> 'm"
    and get :: "'m \<Rightarrow> 'k \<Rightarrow> 'v option"
    and wf :: "'m \<Rightarrow> bool"
  assumes get_empty: "get empty k = None"
    and get_insert: "wf m \<Longrightarrow> get (insert_key k v m) j = (if j = k then Some v else get m j)"
    and wf_empty: "wf empty"
    and wf_insert: "wf m \<Longrightarrow> wf (insert_key k v m)"
begin

definition extend :: "('k \<times> 'v) list \<Rightarrow> 'm \<Rightarrow> 'm" where
  "extend kvs m = fold (\<lambda>(k, v). insert_key k v) kvs m"

lemma extend_simps [simp]:
  "extend [] m = m" "extend ((k, v) # kvs) m = extend kvs (insert_key k v m)"
  by (simp_all add: extend_def)

lemma extend_append: "extend (xs @ ys) m = extend ys (extend xs m)"
  by (simp add: extend_def)

lemma wf_extend: "wf m \<Longrightarrow> wf (extend kvs m)"
  by (induction kvs arbitrary: m) (auto simp: wf_insert)

text \<open>The last binding of a key wins; keys not inserted keep their value.\<close>

lemma get_extend:
  "wf m \<Longrightarrow> get (extend kvs m) k = (case map_of (rev kvs) k of None \<Rightarrow> get m k | Some v \<Rightarrow> Some v)"
proof (induction kvs arbitrary: m)
  case (Cons kv kvs)
  then show ?case
    by (cases kv) (auto simp: wf_insert get_insert map_add_def split: option.splits)
qed simp

lemma get_collect: "get (extend kvs empty) k = map_of (rev kvs) k"
  by (simp add: get_extend wf_empty get_empty split: option.splits)

lemma get_collect_distinct:
  "distinct (map fst kvs) \<Longrightarrow> get (extend kvs empty) k = map_of kvs k"
  by (simp add: get_collect map_of_rev_distinct)

end

text \<open>\<open>BTreeMap<String, V>\<close>: the entries in key order.\<close>

type_synonym 'v btree = "(string \<times> 'v) list"

fun bt_insert :: "'k::linorder \<Rightarrow> 'v \<Rightarrow> ('k \<times> 'v) list \<Rightarrow> ('k \<times> 'v) list" where
  "bt_insert k v [] = [(k, v)]"
| "bt_insert k v ((j, w) # m) =
     (if k < j then (k, v) # (j, w) # m
      else if k = j then (k, v) # m
      else (j, w) # bt_insert k v m)"

definition bt_wf :: "('k::linorder \<times> 'v) list \<Rightarrow> bool" where
  "bt_wf m \<longleftrightarrow> sorted_wrt (<) (map fst m)"

definition bt_collect :: "('k::linorder \<times> 'v) list \<Rightarrow> ('k \<times> 'v) list" where
  "bt_collect kvs = fold (\<lambda>(k, v). bt_insert k v) kvs []"

definition contains_key :: "('k \<times> 'v) list \<Rightarrow> 'k \<Rightarrow> bool" where
  "contains_key m k \<longleftrightarrow> map_of m k \<noteq> None"

lemma bt_insert_keys: "fst ` set (bt_insert k v m) = insert k (fst ` set m)"
  by (induction k v m rule: bt_insert.induct) auto

lemma bt_wf_Nil [simp]: "bt_wf []"
  by (simp add: bt_wf_def)

lemma bt_wf_insert: "bt_wf m \<Longrightarrow> bt_wf (bt_insert k v m)"
proof (induction k v m rule: bt_insert.induct)
  case (2 k v j w m)
  then show ?case
    using bt_insert_keys [of k v m] by (auto simp: bt_wf_def)
qed (simp add: bt_wf_def)

lemma bt_get_insert: "map_of (bt_insert k v m) j = (if j = k then Some v else map_of m j)"
  by (induction k v m rule: bt_insert.induct) auto

lemma bt_insert_last:
  "\<forall>j \<in> fst ` set m. j < k \<Longrightarrow> bt_insert k v m = m @ [(k, v)]"
  by (induction k v m rule: bt_insert.induct) auto

interpretation bt: lookup_map "[]" bt_insert map_of bt_wf
  by unfold_locales (simp_all add: bt_get_insert bt_wf_insert bt_wf_Nil)

lemma bt_collect_eq: "bt_collect kvs = bt.extend kvs []"
  by (simp add: bt.extend_def bt_collect_def)

lemma bt_wf_collect: "bt_wf (bt_collect kvs)"
  unfolding bt_collect_eq by (rule bt.wf_extend) (rule bt.wf_empty)

lemma map_of_bt_collect: "map_of (bt_collect kvs) = map_of (rev kvs)"
  unfolding bt_collect_eq using bt.get_collect [of kvs] by auto

lemma bt_wf_distinct: "bt_wf m \<Longrightarrow> distinct (map fst m)"
  unfolding bt_wf_def using strict_sorted_iff by blast

text \<open>A map is determined by its lookups: equal maps are equal lists.\<close>

lemma bt_wf_eqI: "bt_wf m \<Longrightarrow> bt_wf n \<Longrightarrow> map_of m = map_of n \<Longrightarrow> m = n"
proof (rule map_sorted_distinct_set_unique [of fst])
  assume wf: "bt_wf m" "bt_wf n" and eq: "map_of m = map_of n"
  show "inj_on fst (set m \<union> set n)"
  proof (rule inj_onI)
    fix x y assume "x \<in> set m \<union> set n" "y \<in> set m \<union> set n" "fst x = fst y"
    then have "map_of m (fst x) = Some (snd x)" "map_of m (fst y) = Some (snd y)"
      using wf eq by (metis Un_iff bt_wf_distinct map_of_eq_Some_iff prod.collapse)+
    with \<open>fst x = fst y\<close> show "x = y" by (simp add: prod_eq_iff)
  qed
  show "set m = set n"
    using wf eq by (metis bt_wf_distinct map_of_eq_Some_iff subrelI subset_antisym)
qed (auto simp: bt_wf_def strict_sorted_iff)

lemma contains_key_iff: "contains_key m k \<longleftrightarrow> k \<in> fst ` set m"
  by (simp add: contains_key_def map_of_eq_None_iff)

section \<open>JSON values\<close>

text \<open>
  \<open>serde_json::Number\<close> holds an unsigned, a negative or a floating-point number; the last
  is kept as the 64 bits it is stored in.
\<close>

datatype json_number = PosInt u64 | NegInt i64 | Float u64

datatype json =
    JNull
  | JBool bool
  | JNum json_number
  | JStr string
  | JArr "json list"
  | JObj "(string \<times> json) list"

fun json_get :: "json \<Rightarrow> string \<Rightarrow> json option" where
  "json_get (JObj m) k = map_of m k"
| "json_get _ k = None"

fun json_as_str :: "json \<Rightarrow> string option" where
  "json_as_str (JStr s) = Some s"
| "json_as_str _ = None"

fun json_as_array :: "json \<Rightarrow> json list option" where
  "json_as_array (JArr vs) = Some vs"
| "json_as_array _ = None"

fun json_as_object :: "json \<Rightarrow> (string \<times> json) list option" where
  "json_as_object (JObj m) = Some m"
| "json_as_object _ = None"

definition json_u64 :: "u64 \<Rightarrow> json" where "json_u64 n = JNum (PosInt n)"

text \<open>\<open>Map::from_iter\<close> of the members that are present.\<close>

definition json_members :: "(string \<times> json) option list \<Rightarrow> (string \<times> json) list" where
  "json_members ms = bt_collect (flatten ms)"

text \<open>Every object inside the value has its keys in order and each key once.\<close>

fun json_wf :: "json \<Rightarrow> bool" where
  "json_wf (JArr vs) = list_all json_wf vs"
| "json_wf (JObj m) = (bt_wf m \<and> list_all (\<lambda>(k, v). json_wf v) m)"
| "json_wf _ = True"

lemma bt_wf_members: "bt_wf (json_members ms)"
  by (simp add: json_members_def bt_wf_collect)

lemma map_of_members: "map_of (json_members ms) = map_of (rev (flatten ms))"
  by (simp add: json_members_def map_of_bt_collect)

text \<open>\<open>value[key]\<close>: \<open>Null\<close> for a key that is not there.\<close>

definition json_index :: "json \<Rightarrow> string \<Rightarrow> json" where
  "json_index v k = unwrap_or JNull (json_get v k)"

lemma json_index_obj [simp]: "json_index (JObj m) k = unwrap_or JNull (map_of m k)"
  by (simp add: json_index_def)

lemma json_get_members: "json_get (JObj (json_members ms)) k = map_of (rev (flatten ms)) k"
  by (simp add: map_of_members)

end
