(* ===== verification/Ip_Addr.thy ===== *)
theory Ip_Addr
  imports Rust_Std
begin

unbundle bit_operations_syntax

text \<open>
  \<open>std::net::IpAddr\<close>: addresses, the textual parser behind \<open>host.parse::<IpAddr>()\<close> and the
  classification predicates the Web Push adapter calls. An IPv6 address is the list of its
  eight 16-bit segments (\<open>ip_wf\<close>); the parser is the standard library's recursive-descent
  reader, with \<open>None\<close> for a parse error.
\<close>

datatype ipv4 = Ipv4 u8 u8 u8 u8

type_synonym ipv6 = "u16 list"

datatype ip_addr = V4 ipv4 | V6 ipv6

fun ip_wf :: "ip_addr \<Rightarrow> bool" where
  "ip_wf (V4 a) = True"
| "ip_wf (V6 ss) = (length ss = 8)"

section \<open>Parsing\<close>

definition digit_of :: "nat \<Rightarrow> char \<Rightarrow> nat option" where
  "digit_of radix c =
     (let b = byte_val c;
          v = (if is_ascii_digit b then Some (b - 48)
               else if 97 \<le> b \<and> b \<le> 122 then Some (b - 87)
               else if 65 \<le> b \<and> b \<le> 90 then Some (b - 55)
               else None)
      in opt_filter (\<lambda>d. d < radix) v)"

definition is_digit_of :: "nat \<Rightarrow> char \<Rightarrow> bool" where
  "is_digit_of radix c \<longleftrightarrow> digit_of radix c \<noteq> None"

definition number_of_digits :: "nat \<Rightarrow> string \<Rightarrow> nat" where
  "number_of_digits radix ds = foldl (\<lambda>n c. n * radix + unwrap_or 0 (digit_of radix c)) 0 ds"

text \<open>
  \<open>read_number\<close>: all digits that follow, at most \<open>max_digits\<close> of them, no redundant leading
  zero unless allowed, and a value that fits the target type (below \<open>limit\<close>).
\<close>

definition read_number :: "nat \<Rightarrow> nat \<Rightarrow> bool \<Rightarrow> nat \<Rightarrow> string \<Rightarrow> (nat \<times> string) option" where
  "read_number radix max_digits zero_prefix limit s =
     (let ds = takeWhile (is_digit_of radix) s; n = number_of_digits radix ds in
      if ds = [] \<or> length ds > max_digits
         \<or> (\<not> zero_prefix \<and> length ds > 1 \<and> hd ds = CHR ''0'') \<or> limit \<le> n
      then None
      else Some (n, drop (length ds) s))"

definition read_given_char :: "char \<Rightarrow> string \<Rightarrow> string option" where
  "read_given_char c s = (case s of [] \<Rightarrow> None | d # r \<Rightarrow> if c = d then Some r else None)"

definition read_separator ::
  "char \<Rightarrow> nat \<Rightarrow> (string \<Rightarrow> ('a \<times> string) option) \<Rightarrow> string \<Rightarrow> ('a \<times> string) option" where
  "read_separator c i f s =
     (if i = 0 then f s else case read_given_char c s of None \<Rightarrow> None | Some r \<Rightarrow> f r)"

fun read_octets :: "nat \<Rightarrow> nat \<Rightarrow> string \<Rightarrow> (nat list \<times> string) option" where
  "read_octets 0 i s = Some ([], s)"
| "read_octets (Suc n) i s =
     (case read_separator (CHR ''.'') i (read_number 10 3 False 256) s of
        None \<Rightarrow> None
      | Some (o1, r) \<Rightarrow>
          (case read_octets n (Suc i) r of
             None \<Rightarrow> None
           | Some (os, r') \<Rightarrow> Some (o1 # os, r')))"

definition read_ipv4_addr :: "string \<Rightarrow> (ipv4 \<times> string) option" where
  "read_ipv4_addr s =
     (case read_octets 4 0 s of
        Some ([a, b, c, d], r) \<Rightarrow> Some (Ipv4 (of_nat a) (of_nat b) (of_nat c) (of_nat d), r)
      | _ \<Rightarrow> None)"

definition join_octets :: "u8 \<Rightarrow> u8 \<Rightarrow> u16" where
  "join_octets a b = of_nat (unat a * 256 + unat b)"

text \<open>\<open>read_groups\<close> with \<open>n\<close> slots left, the next one numbered \<open>i\<close>.\<close>

fun read_groups :: "nat \<Rightarrow> nat \<Rightarrow> string \<Rightarrow> u16 list \<times> bool \<times> string" where
  "read_groups 0 i s = ([], False, s)"
| "read_groups (Suc n) i s =
     (case (if n = 0 then None else read_separator (CHR '':'') i read_ipv4_addr s) of
        Some (Ipv4 a b c d, r) \<Rightarrow> ([join_octets a b, join_octets c d], True, r)
      | None \<Rightarrow>
          (case read_separator (CHR '':'') i (read_number 16 4 True 65536) s of
             None \<Rightarrow> ([], False, s)
           | Some (g, r) \<Rightarrow>
               (case read_groups n (Suc i) r of (gs, v4, r') \<Rightarrow> (of_nat g # gs, v4, r'))))"

definition read_ipv6_addr :: "string \<Rightarrow> (ipv6 \<times> string) option" where
  "read_ipv6_addr s =
     (case read_groups 8 0 s of
        (hd_groups, hd_ipv4, r) \<Rightarrow>
          if length hd_groups = 8 then Some (hd_groups, r)
          else if hd_ipv4 then None
          else
            (case read_given_char (CHR '':'') r of
               None \<Rightarrow> None
             | Some r1 \<Rightarrow>
                 (case read_given_char (CHR '':'') r1 of
                    None \<Rightarrow> None
                  | Some r2 \<Rightarrow>
                      (case read_groups (8 - (length hd_groups + 1)) 0 r2 of
                         (tl_groups, _, r3) \<Rightarrow>
                           Some (hd_groups @ replicate (8 - length hd_groups - length tl_groups) 0
                                   @ tl_groups, r3)))))"

text \<open>\<open>str::parse::<IpAddr>\<close>: an address and nothing after it.\<close>

definition parse_ip_addr :: "string \<Rightarrow> ip_addr option" where
  "parse_ip_addr s =
     (case (case read_ipv4_addr s of
              Some (a, r) \<Rightarrow> Some (V4 a, r)
            | None \<Rightarrow> (case read_ipv6_addr s of Some (b, r) \<Rightarrow> Some (V6 b, r) | None \<Rightarrow> None)) of
        Some (a, []) \<Rightarrow> Some a
      | _ \<Rightarrow> None)"

lemma length_read_octets: "read_octets n i s = Some (os, r) \<Longrightarrow> length os = n"
  by (induction n i s arbitrary: os r rule: read_octets.induct) (auto split: option.splits prod.splits)

lemma length_read_groups: "read_groups n i s = (gs, v4, r) \<Longrightarrow> length gs \<le> n"
  by (induction n i s arbitrary: gs v4 r rule: read_groups.induct)
     (auto split: option.splits prod.splits ipv4.splits if_splits)

text \<open>The parser only yields well-formed addresses.\<close>

lemma parse_ip_addr_wf: "parse_ip_addr s = Some a \<Longrightarrow> ip_wf a"
proof -
  have v6: "length ss = 8" if "read_ipv6_addr s = Some (ss, r)" for ss r
  proof -
    obtain hg v4 r0 where h: "read_groups 8 0 s = (hg, v4, r0)" by (cases "read_groups 8 0 s") auto
    with that length_read_groups [OF h] show ?thesis
      by (auto simp: read_ipv6_addr_def split: if_splits option.splits prod.splits
               dest!: length_read_groups)
  qed
  then show "parse_ip_addr s = Some a \<Longrightarrow> ip_wf a"
    by (auto simp: parse_ip_addr_def split: option.splits prod.splits list.splits)
qed

section \<open>Prefix masks\<close>

lemma and_not_mask: "x AND NOT (mask n) = push_bit n (drop_bit n x)" for x :: "'a::len word"
  by (rule bit_eqI) (auto simp: bit_simps)

lemma unat_and_not_mask: "unat (x AND NOT (mask n)) = unat x div 2 ^ n * 2 ^ n" for x :: "'a::len word"
proof -
  have "unat x div 2 ^ n * 2 ^ n \<le> unat x" by simp
  also have "unat x < 2 ^ LENGTH('a)" by (rule unsigned_less)
  finally have "unat x div 2 ^ n * 2 ^ n < 2 ^ LENGTH('a)" .
  moreover have "unat (drop_bit n x) = unat x div 2 ^ n"
    by (metis unat_drop_bit_eq drop_bit_eq_div)
  ultimately show ?thesis
    unfolding and_not_mask unsigned_push_bit_eq by (simp only: push_bit_eq_mult take_bit_nat_eq_self)
qed

text \<open>Comparing the bits a prefix mask keeps is comparing quotients.\<close>

lemma prefix_test: "x AND NOT (mask n) = c \<longleftrightarrow> unat x div 2 ^ n = unat c div 2 ^ n" if "2 ^ n dvd unat c" for x c :: "'a::len word"
proof -
  have "x AND NOT (mask n) = c \<longleftrightarrow> unat x div 2 ^ n * 2 ^ n = unat c div 2 ^ n * 2 ^ n"
    using that unfolding unat_and_not_mask [symmetric] word_unat_eq_iff
    by (simp add: unat_and_not_mask)
  then show ?thesis by simp
qed
section \<open>Classification\<close>

fun ipv4_is_private :: "ipv4 \<Rightarrow> bool" where
  "ipv4_is_private (Ipv4 a b c d) \<longleftrightarrow>
     a = 10 \<or> (a = 172 \<and> 16 \<le> b \<and> b \<le> 31) \<or> (a = 192 \<and> b = 168)"

fun ipv4_is_loopback :: "ipv4 \<Rightarrow> bool" where
  "ipv4_is_loopback (Ipv4 a b c d) \<longleftrightarrow> a = 127"

fun ipv4_is_link_local :: "ipv4 \<Rightarrow> bool" where
  "ipv4_is_link_local (Ipv4 a b c d) \<longleftrightarrow> a = 169 \<and> b = 254"

fun ipv4_is_unspecified :: "ipv4 \<Rightarrow> bool" where
  "ipv4_is_unspecified (Ipv4 a b c d) \<longleftrightarrow> a = 0 \<and> b = 0 \<and> c = 0 \<and> d = 0"

fun ipv4_is_broadcast :: "ipv4 \<Rightarrow> bool" where
  "ipv4_is_broadcast (Ipv4 a b c d) \<longleftrightarrow> a = 255 \<and> b = 255 \<and> c = 255 \<and> d = 255"

fun ipv4_is_documentation :: "ipv4 \<Rightarrow> bool" where
  "ipv4_is_documentation (Ipv4 a b c d) \<longleftrightarrow>
     (a = 192 \<and> b = 0 \<and> c = 2) \<or> (a = 198 \<and> b = 51 \<and> c = 100) \<or> (a = 203 \<and> b = 0 \<and> c = 113)"

fun ipv4_is_multicast :: "ipv4 \<Rightarrow> bool" where
  "ipv4_is_multicast (Ipv4 a b c d) \<longleftrightarrow> 224 \<le> a \<and> a \<le> 239"

definition ipv6_is_loopback :: "ipv6 \<Rightarrow> bool" where
  "ipv6_is_loopback ss \<longleftrightarrow> ss = [0, 0, 0, 0, 0, 0, 0, 1]"

definition ipv6_is_unspecified :: "ipv6 \<Rightarrow> bool" where
  "ipv6_is_unspecified ss \<longleftrightarrow> ss = [0, 0, 0, 0, 0, 0, 0, 0]"

definition ipv6_is_multicast :: "ipv6 \<Rightarrow> bool" where
  "ipv6_is_multicast ss \<longleftrightarrow> (ss ! 0) AND 0xff00 = 0xff00"

text \<open>\<open>to_ipv4_mapped\<close>: the IPv4 address inside \<open>::ffff:a.b.c.d\<close>.\<close>

fun to_ipv4_mapped :: "ipv6 \<Rightarrow> ipv4 option" where
  "to_ipv4_mapped [a, b, c, d, e, f, g, h] =
     (if a = 0 \<and> b = 0 \<and> c = 0 \<and> d = 0 \<and> e = 0 \<and> f = 0xffff
      then Some (Ipv4 (of_nat (unat g div 256)) (of_nat (unat g mod 256))
                      (of_nat (unat h div 256)) (of_nat (unat h mod 256)))
      else None)"
| "to_ipv4_mapped _ = None"

end
