(* ===== verification/Externals.thy ===== *)
theory Externals
  imports Ip_Addr
begin

text \<open>
  What the program calls and does not define. The record \<open>externals\<close> collects the functions
  of third-party crates (\<open>sha2\<close>, \<open>hex\<close>, \<open>url\<close>, \<open>httpdate\<close>, \<open>serde_json\<close>) as arguments of
  the model; the record \<open>world\<close> is the environment of an adapter: clocks, the network, DNS,
  and the token caches that live behind a mutex. A property that relies on documented
  behaviour of a crate names it as a hypothesis (\<open>digest_spec\<close>).
\<close>

section \<open>Third-party functions\<close>

text \<open>A parsed URL is what its accessors return.\<close>

record url =
  url_scheme :: string
  url_host_str :: "string option"
  url_port :: "u16 option" \<comment> \<open>\<open>None\<close> also for the scheme's default port\<close>
  url_username :: string
  url_password :: "string option"
  url_fragment :: "string option"
  url_origin :: string \<comment> \<open>\<open>origin().ascii_serialization()\<close>\<close>
  url_as_str :: string

record externals =
  x_sha256 :: "string \<Rightarrow> string"
  x_hex :: "string \<Rightarrow> string"
  x_parse_url :: "string \<Rightarrow> url option"
  x_join_url :: "url \<Rightarrow> string \<Rightarrow> url option"
  x_parse_http_date :: "string \<Rightarrow> int option" \<comment> \<open>nanoseconds since the Unix epoch\<close>
  x_json_to_vec :: "json \<Rightarrow> string option"
  x_json_from_str :: "string \<Rightarrow> json option"

definition hex_digits :: string where
  "hex_digits = ''0123456789abcdef''"

text \<open>SHA-256 yields 32 bytes and \<open>hex::encode\<close> two lowercase hex digits per byte.\<close>

definition digest_spec :: "externals \<Rightarrow> bool" where
  "digest_spec X \<longleftrightarrow>
     (\<forall>s. length (x_sha256 X s) = 32)
     \<and> (\<forall>s. length (x_hex X s) = 2 * length s \<and> set (x_hex X s) \<subseteq> set hex_digits)"

section \<open>HTTP\<close>

datatype http_auth = NoAuth | Bearer string | Basic string string

datatype http_body = NoBody | JsonBody json | FormBody "(string \<times> string) list" | BytesBody string

record http_request =
  rq_url :: url
  rq_auth :: http_auth
  rq_headers :: "(string \<times> string) list"
  rq_body :: http_body

text \<open>
  A response: the status, the headers as \<open>headers.get(name)\<close> followed by \<open>to_str().ok()\<close>
  gives them, and the body text, \<open>None\<close> when reading it fails.
\<close>

record http_response =
  rs_status :: nat
  rs_header :: "string \<Rightarrow> string option"
  rs_text :: "string option"

record transport_error =
  te_text :: string
  te_is_timeout :: bool
  te_is_connect :: bool

datatype http_answer = Failed transport_error | Answered http_response

definition is_success :: "nat \<Rightarrow> bool" where
  "is_success status \<longleftrightarrow> 200 \<le> status \<and> status < 300"

section \<open>The world of an adapter\<close>

text \<open>\<open>CachedAccessToken\<close> and \<open>CachedProviderToken\<close>: a token and the instant it expires.\<close>

record cached_token =
  ct_value :: string
  ct_expires_at :: duration

text \<open>
  Clocks and the network are oracles: the n-th reading of a clock, and the answer to the
  last request of a history. \<open>w_sent\<close> is the history so far, \<open>w_resolved\<close> the host names
  looked up.
\<close>

record world =
  w_system_clock :: "nat \<Rightarrow> int"
  w_monotonic_clock :: "nat \<Rightarrow> duration"
  w_reads :: nat
  w_answers :: "http_request list \<Rightarrow> http_answer"
  w_dns :: "string \<Rightarrow> ip_addr list option"
  w_sent :: "http_request list"
  w_resolved :: "string list"
  w_fcm_token :: "cached_token option"
  w_apns_production_token :: "cached_token option"
  w_apns_sandbox_token :: "cached_token option"

definition system_now :: "world \<Rightarrow> int \<times> world" where
  "system_now w = (w_system_clock w (w_reads w), w\<lparr>w_reads := Suc (w_reads w)\<rparr>)"

definition instant_now :: "world \<Rightarrow> duration \<times> world" where
  "instant_now w = (w_monotonic_clock w (w_reads w), w\<lparr>w_reads := Suc (w_reads w)\<rparr>)"

definition http_send :: "http_request \<Rightarrow> world \<Rightarrow> http_answer \<times> world" where
  "http_send rq w =
     (let history = w_sent w @ [rq] in (w_answers w history, w\<lparr>w_sent := history\<rparr>))"

definition lookup_host :: "string \<Rightarrow> world \<Rightarrow> ip_addr list option \<times> world" where
  "lookup_host name w = (w_dns w name, w\<lparr>w_resolved := w_resolved w @ [name]\<rparr>)"

text \<open>The requests an operation sent between two worlds.\<close>

definition traffic :: "world \<Rightarrow> world \<Rightarrow> http_request list" where
  "traffic w w' = drop (length (w_sent w)) (w_sent w')"

definition silent :: "world \<Rightarrow> world \<Rightarrow> bool" where
  "silent w w' \<longleftrightarrow> w_sent w' = w_sent w"

lemma traffic_silent [simp]: "silent w w' \<Longrightarrow> traffic w w' = []"
  by (simp add: silent_def traffic_def)

lemma silent_refl [simp]: "silent w w"
  by (simp add: silent_def)

lemma silent_trans: "silent w w' \<Longrightarrow> silent w' w'' \<Longrightarrow> silent w w''"
  by (simp add: silent_def)

lemma clock_frame [frame_simps]:
  "snd (system_now w) = w\<lparr>w_reads := Suc (w_reads w)\<rparr>"
  "snd (instant_now w) = w\<lparr>w_reads := Suc (w_reads w)\<rparr>"
  by (simp_all add: system_now_def instant_now_def)

lemma silent_clock: "system_now w = (t, w') \<Longrightarrow> silent w w'" "instant_now w = (i, w') \<Longrightarrow> silent w w'"
  by (auto simp: system_now_def instant_now_def silent_def)

lemma http_send_sent: "http_send rq w = (a, w') \<Longrightarrow> w_sent w' = w_sent w @ [rq]"
  by (auto simp: http_send_def Let_def)

section \<open>A concrete instance\<close>

text \<open>
  Stand-ins with the documented shape, used only to show that hypotheses about the
  parameters can hold and to run the model on concrete inputs.
\<close>

definition demo_hex_byte :: "char \<Rightarrow> string" where
  "demo_hex_byte c = [hex_digits ! (byte_val c div 16), hex_digits ! (byte_val c mod 16)]"

definition demo_sha256 :: "string \<Rightarrow> string" where
  "demo_sha256 s = take 32 (rev s @ replicate 32 (CHR 0x00))"

definition demo_url :: "string \<Rightarrow> string \<Rightarrow> url" where
  "demo_url host s = \<lparr>url_scheme = ''https'', url_host_str = Some host, url_port = None,
     url_username = [], url_password = None, url_fragment = None,
     url_origin = ''https://'' @ host, url_as_str = s\<rparr>"

text \<open>Understands \<open>https://host/path\<close> and nothing else.\<close>

definition demo_parse_url :: "string \<Rightarrow> url option" where
  "demo_parse_url s =
     (case strip_prefix ''https://'' s of
        None \<Rightarrow> None
      | Some r \<Rightarrow> Some (demo_url (takeWhile (\<lambda>c. c \<noteq> CHR ''/'') r) s))"

definition demo_externals :: externals where
  "demo_externals = \<lparr>
     x_sha256 = demo_sha256,
     x_hex = (\<lambda>s. concat (map demo_hex_byte s)),
     x_parse_url = demo_parse_url,
     x_join_url = (\<lambda>u p. demo_parse_url (url_as_str u @ p)),
     x_parse_http_date = (\<lambda>s. None),
     x_json_to_vec = (\<lambda>v. Some ''{}''),
     x_json_from_str = (\<lambda>s. None)\<rparr>"

definition demo_world :: world where
  "demo_world = \<lparr>
     w_system_clock = (\<lambda>n. 1000000000 * (1000 + int n)),
     w_monotonic_clock = (\<lambda>n. 1000000000 * n),
     w_reads = 0,
     w_answers = (\<lambda>h. Answered \<lparr>rs_status = 200, rs_header = (\<lambda>n. None), rs_text = Some ''{}''\<rparr>),
     w_dns = (\<lambda>h. None),
     w_sent = [], w_resolved = [],
     w_fcm_token = None, w_apns_production_token = None, w_apns_sandbox_token = None\<rparr>"

lemma demo_digest_spec: "digest_spec demo_externals"
proof -
  have len: "length (concat (map demo_hex_byte s)) = 2 * length s" for s
    by (induction s) (simp_all add: demo_hex_byte_def)
  have digit: "hex_digits ! n \<in> set hex_digits" if "n < 16" for n
    using that by (intro nth_mem) (simp add: hex_digits_def)
  have byte: "byte_val c < 256" for c by (rule nat_of_char_less_256)
  have "byte_val c div 16 < 16" for c
    using byte [of c] by (intro div_less_iff_less_mult [THEN iffD2]) simp_all
  then have "set (demo_hex_byte c) \<subseteq> set hex_digits" for c
    using digit by (simp add: demo_hex_byte_def)
  then have "set (concat (map demo_hex_byte s)) \<subseteq> set hex_digits" for s by auto
  then show ?thesis
    using len by (simp add: digest_spec_def demo_externals_def demo_sha256_def min_def)
qed

end
