(* ===== verification/Contracts.thy ===== *)
theory Contracts
  imports Externals
begin

text \<open>
  The provider-neutral push contract (\<open>src/contracts.rs\<close>) and target redaction
  (\<open>src/redaction.rs\<close>): the job and outcome records, target fingerprints and UTF-8-safe
  truncation. The lemmas show that truncation returns the longest well-formed prefix within
  its bound and that the bytes fed to SHA-256 determine a validated target.
\<close>

section \<open>Contract types\<close>

datatype contract_version = V1

datatype provider_kind = Fcm | Apns | Expo | WebPush

fun provider_kind_as_str :: "provider_kind \<Rightarrow> string" where
  "provider_kind_as_str Fcm = ''fcm''"
| "provider_kind_as_str Apns = ''apns''"
| "provider_kind_as_str Expo = ''expo''"
| "provider_kind_as_str WebPush = ''web_push''"

datatype provider_environment = Production | Sandbox

datatype push_target =
    FcmTarget string
  | ApnsTarget string provider_environment
  | ExpoTarget string
  | WebPushTarget string string string \<comment> \<open>endpoint, p256dh, auth\<close>

fun target_provider :: "push_target \<Rightarrow> provider_kind" where
  "target_provider (FcmTarget _) = Fcm"
| "target_provider (ApnsTarget _ _) = Apns"
| "target_provider (ExpoTarget _) = Expo"
| "target_provider (WebPushTarget _ _ _) = WebPush"

fun fingerprint_material :: "push_target \<Rightarrow> string \<times> string list" where
  "fingerprint_material (FcmTarget t) = (''fcm'', [t])"
| "fingerprint_material (ApnsTarget t env) =
     (''apns'', [case env of Production \<Rightarrow> ''production'' | Sandbox \<Rightarrow> ''sandbox'', t])"
| "fingerprint_material (ExpoTarget t) = (''expo'', [t])"
| "fingerprint_material (WebPushTarget e p a) = (''web_push'', [e, p, a])"

record notification =
  nt_title :: "string option"
  nt_body :: "string option"
  nt_image_url :: "string option"
  nt_data :: "json btree"

datatype push_priority = Normal | High

record push_options =
  op_ttl_seconds :: "u32 option"
  op_priority :: push_priority
  op_collapse_key :: "string option"
  op_dry_run :: bool

record trace_metadata =
  tr_traceparent :: "string option"
  tr_tracestate :: "string option"
  tr_correlation_id :: "string option"

record push_job =
  pj_version :: contract_version
  pj_job_id :: string
  pj_tenant_id :: string
  pj_application_id :: string
  pj_idempotency_key :: string
  pj_provider :: provider_kind
  pj_target :: push_target
  pj_notification :: notification
  pj_options :: push_options
  pj_trace :: trace_metadata

datatype outcome_class =
    Accepted
  | InvalidToken
  | InvalidPayload
  | Throttled
  | TransientProviderFailure
  | PermanentProviderFailure
  | InternalFailure

fun is_retryable :: "outcome_class \<Rightarrow> bool" where
  "is_retryable Throttled = True"
| "is_retryable TransientProviderFailure = True"
| "is_retryable InternalFailure = True"
| "is_retryable _ = False"

text \<open>A \<open>TargetFingerprint\<close> is a transparent wrapper of its text.\<close>

type_synonym target_fingerprint = string

record push_outcome =
  po_version :: contract_version
  po_job_id :: string
  po_provider :: provider_kind
  po_target_fingerprint :: target_fingerprint
  po_class :: outcome_class
  po_provider_code :: "string option"
  po_retry_after_ms :: "u64 option"
  po_safe_detail :: "string option"

definition empty_notification :: notification where
  "empty_notification = \<lparr>nt_title = None, nt_body = None, nt_image_url = None, nt_data = []\<rparr>"

definition default_options :: push_options where
  "default_options = \<lparr>op_ttl_seconds = None, op_priority = Normal, op_collapse_key = None, op_dry_run = False\<rparr>"

definition default_trace :: trace_metadata where
  "default_trace = \<lparr>tr_traceparent = None, tr_tracestate = None, tr_correlation_id = None\<rparr>"

section \<open>Redaction\<close>

definition fingerprint_hex_length :: nat where "fingerprint_hex_length = 24"

text \<open>
  The bytes the hasher absorbs: a domain separator, the provider name and every part, the
  parts separated by NUL bytes. \<open>chain_update\<close> appends.
\<close>

definition fingerprint_bytes :: "push_target \<Rightarrow> string" where
  "fingerprint_bytes target =
     (case fingerprint_material target of
        (provider, parts) \<Rightarrow>
          foldl (\<lambda>hasher part. hasher @ [CHR 0x00] @ part)
            (''push-target-v1'' @ [CHR 0x00] @ provider) parts)"

definition fingerprint_target :: "externals \<Rightarrow> push_target \<Rightarrow> target_fingerprint" where
  "fingerprint_target X target =
     (let digest = x_hex X (x_sha256 X (fingerprint_bytes target))
      in fst (fingerprint_material target) @ '':'' @ take fingerprint_hex_length digest)"

text \<open>
  \<open>(0..=max_bytes).rev().find(..)\<close>: the largest boundary not above \<open>n\<close>; index 0 always is
  one.
\<close>

fun last_boundary :: "string \<Rightarrow> nat \<Rightarrow> nat" where
  "last_boundary s 0 = 0"
| "last_boundary s (Suc n) = (if is_char_boundary s (Suc n) then Suc n else last_boundary s n)"

definition truncate_utf8 :: "string \<Rightarrow> nat \<Rightarrow> string" where
  "truncate_utf8 s max_bytes =
     (if length s \<le> max_bytes then s else take (last_boundary s max_bytes) s)"

definition outcome_accepted :: "externals \<Rightarrow> push_job \<Rightarrow> push_outcome" where
  "outcome_accepted X job = \<lparr>
     po_version = pj_version job,
     po_job_id = pj_job_id job,
     po_provider = pj_provider job,
     po_target_fingerprint = fingerprint_target X (pj_target job),
     po_class = Accepted,
     po_provider_code = None,
     po_retry_after_ms = None,
     po_safe_detail = None\<rparr>"

lemma outcome_accepted_sel [simp, outcome_simps]:
  "po_job_id (outcome_accepted X job) = pj_job_id job"
  "po_provider (outcome_accepted X job) = pj_provider job"
  "po_target_fingerprint (outcome_accepted X job) = fingerprint_target X (pj_target job)"
  "po_class (outcome_accepted X job) = Accepted"
  "po_safe_detail (outcome_accepted X job) = None"
  "po_retry_after_ms (outcome_accepted X job) = None"
  by (simp_all add: outcome_accepted_def)

subsection \<open>Truncation\<close>

lemma last_boundary_le: "last_boundary s n \<le> n"
  by (induction n) auto

lemma last_boundary_boundary: "is_char_boundary s (last_boundary s n)"
  by (induction n) (auto simp: is_char_boundary_def)

lemma last_boundary_greatest: "j \<le> n \<Longrightarrow> is_char_boundary s j \<Longrightarrow> j \<le> last_boundary s n"
  by (induction n) (auto simp: le_Suc_eq)

lemma truncate_length: "length (truncate_utf8 s n) \<le> n"
  using last_boundary_le [of s n] by (simp add: truncate_utf8_def)

lemma truncate_prefix: "\<exists>r. s = truncate_utf8 s n @ r"
  unfolding truncate_utf8_def by (metis append_take_drop_id append_Nil2)

lemma truncate_valid: "valid_utf8 s \<Longrightarrow> valid_utf8 (truncate_utf8 s n)"
  using last_boundary_le [of s n]
  by (auto simp: truncate_utf8_def intro!: valid_utf8_take last_boundary_boundary)

lemma truncate_short [simp]: "length s \<le> n \<Longrightarrow> truncate_utf8 s n = s"
  by (simp add: truncate_utf8_def)

lemma truncate_idem: "truncate_utf8 (truncate_utf8 s n) n = truncate_utf8 s n"
  by (simp add: truncate_length)

text \<open>At most three bytes of the budget are lost to a character that does not fit.\<close>

lemma truncate_tight: "valid_utf8 s \<Longrightarrow> n \<le> length s \<Longrightarrow> n \<le> length (truncate_utf8 s n) + 3"
proof -
  assume v: "valid_utf8 s" and n: "n \<le> length s"
  from char_boundary_near [OF v n] obtain j where "j \<le> n" "n - j \<le> 3" "is_char_boundary s j"
    by blast
  with last_boundary_greatest [of j n s] have "n \<le> last_boundary s n + 3" by simp
  with n last_boundary_le [of s n] show ?thesis by (auto simp: truncate_utf8_def)
qed

subsection \<open>What a fingerprint depends on\<close>

lemma fingerprint_bytes_eq:
  "fingerprint_bytes target =
     ''push-target-v1'' @ [CHR 0x00] @ fst (fingerprint_material target)
       @ concat (map (\<lambda>part. [CHR 0x00] @ part) (snd (fingerprint_material target)))"
proof -
  have "foldl (\<lambda>h p. h @ [CHR 0x00] @ p) acc ps = acc @ concat (map (\<lambda>p. [CHR 0x00] @ p) ps)"
    for acc and ps :: "string list"
    by (induction ps arbitrary: acc) auto
  then show ?thesis by (simp add: fingerprint_bytes_def case_prod_unfold)
qed

lemma length_fingerprint_target:
  "digest_spec X \<Longrightarrow>
     length (fingerprint_target X t) = length (provider_kind_as_str (target_provider t)) + 25"
  by (cases t) (simp_all add: fingerprint_target_def digest_spec_def fingerprint_hex_length_def)

lemma fingerprint_target_prefix:
  "starts_with (provider_kind_as_str (target_provider t) @ '':'') (fingerprint_target X t)"
  by (cases t) (simp_all add: fingerprint_target_def starts_with_iff)

text \<open>Targets whose key material and tokens hold no NUL byte have distinct hash inputs.\<close>

fun nul_free_target :: "push_target \<Rightarrow> bool" where
  "nul_free_target (FcmTarget t) = (CHR 0x00 \<notin> set t)"
| "nul_free_target (ApnsTarget t env) = (CHR 0x00 \<notin> set t)"
| "nul_free_target (ExpoTarget t) = (CHR 0x00 \<notin> set t)"
| "nul_free_target (WebPushTarget e p a) = (CHR 0x00 \<notin> set p \<and> CHR 0x00 \<notin> set a)"

lemma append_cons_inj_right:
  fixes a b c d :: string
  shows "x \<notin> set b \<Longrightarrow> x \<notin> set d \<Longrightarrow> a @ x # b = c @ x # d \<longleftrightarrow> a = c \<and> b = d"
proof
  assume nx: "x \<notin> set b" "x \<notin> set d" and eq: "a @ x # b = c @ x # d"
  have "rev b @ x # rev a = rev (a @ x # b)" by simp
  also have "\<dots> = rev (c @ x # d)" by (simp only: eq)
  also have "\<dots> = rev d @ x # rev c" by simp
  finally have r: "rev b @ x # rev a = rev d @ x # rev c" .
  have "Some (rev b, rev a) = split_once x (rev b @ x # rev a)"
    using nx(1) by (simp add: split_once_append)
  also have "\<dots> = Some (rev d, rev c)"
    unfolding r using nx(2) by (simp add: split_once_append)
  finally show "a = c \<and> b = d" by simp
qed simp

lemma append_cons_inj_right2:
  fixes a b c a' b' c' :: string
  assumes "x \<notin> set b" "x \<notin> set c" "x \<notin> set b'" "x \<notin> set c'"
    and eq: "a @ x # b @ x # c = a' @ x # b' @ x # c'"
  shows "a = a' \<and> b = b' \<and> c = c'"
proof -
  from eq have "(a @ x # b) @ x # c = (a' @ x # b') @ x # c'" by simp
  with assms(2,4) have "a @ x # b = a' @ x # b'" "c = c'"
    using append_cons_inj_right by blast+
  with assms(1,3) show ?thesis using append_cons_inj_right by blast
qed

lemma fingerprint_bytes_inj:
  assumes "nul_free_target s" "nul_free_target t" "fingerprint_bytes s = fingerprint_bytes t"
  shows "s = t"
proof -
  show ?thesis
  proof (cases "\<exists>e p a e' p' a'. s = WebPushTarget e p a \<and> t = WebPushTarget e' p' a'")
    case True
    then obtain e p a e' p' a' where st: "s = WebPushTarget e p a" "t = WebPushTarget e' p' a'"
      by blast
    with assms have "e @ CHR 0x00 # p @ CHR 0x00 # a = e' @ CHR 0x00 # p' @ CHR 0x00 # a'"
      by (simp add: fingerprint_bytes_eq)
    from append_cons_inj_right2 [OF _ _ _ _ this] assms(1,2) st show ?thesis by simp
  next
    case False
    with assms show ?thesis
      by (cases s; cases t)
         (auto simp: fingerprint_bytes_eq split: provider_environment.splits)
  qed
qed

end
