(* ===== verification/Retry.thy ===== *)
theory Retry
  imports Contracts
begin

text \<open>
  Retry decisions and the bounded backoff schedule (\<open>src/retry.rs\<close>). Milliseconds are
  \<open>u128\<close> in the code; the one multiplication that could overflow there saturates, and so
  does the model. The lemmas bound every delay, place the jitter in its window and show
  when the schedule gives up.
\<close>

definition max_retry_after :: duration where "max_retry_after = from_secs (24 * 60 * 60)"
definition max_jitter_basis_points :: u16 where "max_jitter_basis_points = 5000"

record retry_decision =
  rd_retryable :: bool
  rd_retry_after :: "duration option"

definition retry_permanent :: retry_decision where
  "retry_permanent = \<lparr>rd_retryable = False, rd_retry_after = None\<rparr>"

definition retry_retryable :: "duration option \<Rightarrow> retry_decision" where
  "retry_retryable retry_after =
     \<lparr>rd_retryable = True, rd_retry_after = map_option (\<lambda>d. min d max_retry_after) retry_after\<rparr>"

record retry_policy =
  rp_base_delay :: duration
  rp_max_delay :: duration
  rp_max_attempts :: u32
  rp_jitter_basis_points :: u16

definition retry_policy_new ::
  "duration \<Rightarrow> duration \<Rightarrow> u32 \<Rightarrow> u16 \<Rightarrow> retry_policy" where
  "retry_policy_new base_delay max_delay max_attempts jitter_basis_points =
     (let base_delay = max base_delay (from_millis 1);
          max_delay = min (max max_delay base_delay) max_retry_after
      in \<lparr>rp_base_delay = base_delay,
          rp_max_delay = max_delay,
          rp_max_attempts = max max_attempts 1,
          rp_jitter_basis_points = min jitter_basis_points max_jitter_basis_points\<rparr>)"

definition retry_policy_default :: retry_policy where
  "retry_policy_default = retry_policy_new (from_secs 1) (from_secs (5 * 60)) 8 2000"

definition duration_from_millis :: "nat \<Rightarrow> duration" where
  "duration_from_millis millis = from_millis (if millis \<le> u64_max then millis else u64_max)"

definition capped_millis :: "retry_policy \<Rightarrow> u32 \<Rightarrow> nat" where
  "capped_millis p attempt =
     (let exponent = min (unat attempt) 63;
          uncapped = saturating_mul_u128 (as_millis (rp_base_delay p)) (2 ^ exponent)
      in min uncapped (as_millis (rp_max_delay p)))"

definition jitter_window :: "retry_policy \<Rightarrow> u32 \<Rightarrow> nat" where
  "jitter_window p attempt =
     saturating_mul_u128 (capped_millis p attempt) (unat (rp_jitter_basis_points p)) div 10000"

definition delay_for_attempt ::
  "retry_policy \<Rightarrow> u32 \<Rightarrow> u64 \<Rightarrow> duration option \<Rightarrow> duration option" where
  "delay_for_attempt p attempt entropy retry_after =
     (if rp_max_attempts p \<le> attempt then None
      else
        let window = jitter_window p attempt;
            jitter_offset = (if window = 0 then 0 else unat entropy mod (window + 1));
            jittered = duration_from_millis (capped_millis p attempt - jitter_offset);
            provider_floor = unwrap_or 0 (map_option (\<lambda>d. min d max_retry_after) retry_after)
        in Some (min (max jittered provider_floor) max_retry_after))"

text \<open>
  \<open>now\<close> is nanoseconds since the epoch; \<open>duration_since\<close> of an earlier instant is an
  error, replaced by zero.
\<close>

definition parse_retry_after :: "externals \<Rightarrow> string \<Rightarrow> int \<Rightarrow> duration option" where
  "parse_retry_after X s now =
     (let v = trim s in
      case parse_uint 64 v of
        Some seconds \<Rightarrow> Some (min (from_secs seconds) max_retry_after)
      | None \<Rightarrow>
          (case x_parse_http_date X v of
             None \<Rightarrow> None
           | Some retry_at \<Rightarrow> Some (min (nat (retry_at - now)) max_retry_after)))"

definition classify_http_status :: "nat \<Rightarrow> duration option \<Rightarrow> retry_decision" where
  "classify_http_status status retry_after =
     (if status = 408 \<or> status = 425 \<or> status = 429 \<or> (500 \<le> status \<and> status \<le> 599)
      then retry_retryable retry_after
      else retry_permanent)"

text \<open>\<open>duration_to_millis\<close>, as every adapter defines it.\<close>

definition duration_to_millis :: "duration \<Rightarrow> u64" where
  "duration_to_millis d = saturate_u64 (as_millis d)"

section \<open>The invariant of a policy\<close>

definition retry_policy_wf :: "retry_policy \<Rightarrow> bool" where
  "retry_policy_wf p \<longleftrightarrow>
     from_millis 1 \<le> rp_base_delay p \<and> from_millis 1 \<le> rp_max_delay p
     \<and> rp_max_delay p \<le> max_retry_after
     \<and> 1 \<le> rp_max_attempts p \<and> unat (rp_jitter_basis_points p) \<le> 5000"

lemma retry_policy_new_wf: "retry_policy_wf (retry_policy_new b m n j)"
  by (auto simp: retry_policy_wf_def retry_policy_new_def Let_def max_jitter_basis_points_def
      max_retry_after_def from_millis_def from_secs_def min_def word_le_nat_alt max_def)

section \<open>Bounds\<close>

lemma max_retry_after_millis: "as_millis max_retry_after = 86400000"
  by (simp add: max_retry_after_def)

lemma from_millis_mono: "a \<le> b \<Longrightarrow> from_millis a \<le> from_millis b"
  by (simp add: from_millis_def)

lemma from_millis_as_millis_le: "from_millis (as_millis d) \<le> d"
  by (simp add: from_millis_def as_millis_def)

lemma capped_millis_le: "capped_millis p attempt \<le> as_millis (rp_max_delay p)"
  by (simp add: capped_millis_def Let_def)

lemma capped_millis_small: "retry_policy_wf p \<Longrightarrow> capped_millis p attempt \<le> 86400000"
  using capped_millis_le [of p attempt] as_millis_mono [of "rp_max_delay p" max_retry_after]
  by (simp add: retry_policy_wf_def max_retry_after_millis)

lemma jitter_window_eq:
  assumes "retry_policy_wf p"
  shows "jitter_window p attempt =
    capped_millis p attempt * unat (rp_jitter_basis_points p) div 10000"
proof -
  have "capped_millis p attempt * unat (rp_jitter_basis_points p) \<le> 86400000 * 5000"
    using capped_millis_small [OF assms] assms by (intro mult_le_mono) (auto simp: retry_policy_wf_def)
  also have "\<dots> \<le> u128_max" by (simp add: u128_max_def)
  finally show ?thesis by (simp add: jitter_window_def saturating_mul_u128_def)
qed

lemma jitter_window_half:
  assumes "retry_policy_wf p"
  shows "2 * jitter_window p attempt \<le> capped_millis p attempt"
proof -
  have "capped_millis p attempt * unat (rp_jitter_basis_points p) \<le> capped_millis p attempt * 5000"
    using assms by (intro mult_le_mono) (auto simp: retry_policy_wf_def)
  then show ?thesis unfolding jitter_window_eq [OF assms] by linarith
qed

lemma capped_millis_exact:
  assumes "retry_policy_wf p"
  shows "capped_millis p attempt =
    min (as_millis (rp_base_delay p) * 2 ^ min (unat attempt) 63) (as_millis (rp_max_delay p))"
proof -
  have "as_millis (rp_max_delay p) \<le> as_millis max_retry_after"
    using assms by (intro as_millis_mono) (simp add: retry_policy_wf_def)
  also have "\<dots> \<le> u128_max" by (simp add: max_retry_after_millis u128_max_def)
  finally show ?thesis by (simp add: capped_millis_def saturating_mul_u128_def Let_def)
qed

lemma parse_retry_after_bound: "parse_retry_after X s now = Some d \<Longrightarrow> d \<le> max_retry_after"
  by (auto simp: parse_retry_after_def Let_def split: option.splits)

lemma classify_http_status_bound:
  "rd_retry_after (classify_http_status st ra) = Some d \<Longrightarrow> d \<le> max_retry_after"
  by (auto simp: classify_http_status_def retry_retryable_def retry_permanent_def split: if_splits)

lemma classify_http_status_retryable:
  "rd_retryable (classify_http_status st ra) \<longleftrightarrow> st \<in> {408, 425, 429} \<or> st \<in> {500..599}"
  by (auto simp: classify_http_status_def retry_retryable_def retry_permanent_def)

lemma unat_duration_to_millis:
  "d \<le> max_retry_after \<Longrightarrow> unat (duration_to_millis d) = as_millis d"
  using as_millis_mono [of d max_retry_after]
  by (simp add: duration_to_millis_def unat_saturate_u64 max_retry_after_millis u64_max_def)

section \<open>The schedule\<close>

definition provider_floor :: "duration option \<Rightarrow> duration" where
  "provider_floor retry_after = (case retry_after of None \<Rightarrow> 0 | Some d \<Rightarrow> min d max_retry_after)"

text \<open>The delay before jitter, without any saturation: \<open>min (base * 2 ^ attempt) cap\<close>.\<close>

definition schedule_millis :: "retry_policy \<Rightarrow> u32 \<Rightarrow> nat" where
  "schedule_millis p attempt =
     min (as_millis (rp_base_delay p) * 2 ^ min (unat attempt) 63) (as_millis (rp_max_delay p))"

lemma duration_from_millis_small: "n \<le> u64_max \<Longrightarrow> duration_from_millis n = from_millis n"
  by (simp add: duration_from_millis_def)

lemma jittered_range:
  assumes wf: "retry_policy_wf p" and d: "delay_for_attempt p attempt entropy ra = Some d"
  obtains o' where "o' \<le> jitter_window p attempt"
    "d = min (max (from_millis (schedule_millis p attempt - o')) (provider_floor ra)) max_retry_after"
proof -
  define o' where "o' = (if jitter_window p attempt = 0 then 0
     else unat entropy mod (jitter_window p attempt + 1))"
  have "o' \<le> jitter_window p attempt"
    using mod_less_divisor [of "jitter_window p attempt + 1" "unat entropy"]
    by (simp add: o'_def less_Suc_eq_le)
  moreover have "d = min (max (from_millis (schedule_millis p attempt - o')) (provider_floor ra)) max_retry_after"
  proof -
    have small: "capped_millis p attempt - o' \<le> u64_max"
      using capped_millis_small [OF wf, of attempt] by (simp add: u64_max_def)
    have sched: "schedule_millis p attempt = capped_millis p attempt"
      by (simp only: capped_millis_exact [OF wf] schedule_millis_def)
    have floor: "unwrap_or 0 (map_option (\<lambda>d. min d max_retry_after) ra) = provider_floor ra"
      by (cases ra) (simp_all add: provider_floor_def)
    from d have "Some d = Some (min (max (duration_from_millis (capped_millis p attempt - o'))
        (unwrap_or 0 (map_option (\<lambda>d. min d max_retry_after) ra))) max_retry_after)"
      unfolding delay_for_attempt_def o'_def Let_def
      by (cases "rp_max_attempts p \<le> attempt") (simp_all only: if_True if_False simp_thms option.simps)
    then show ?thesis
      by (simp only: option.inject sched floor duration_from_millis_small [OF small])
  qed
  ultimately show thesis by (rule that)
qed

text \<open>
  C24: For every policy the constructor can build, a retry is refused exactly when the
  attempt budget is used up; otherwise the delay is at least the provider's (capped)
  \<open>Retry-After\<close>, at least the exponential schedule minus its jitter window, never above the
  schedule and that floor, and never above 24 hours, for any entropy.
\<close>

theorem delay_for_attempt_spec:
  "let p = retry_policy_new base cap attempts jitter;
       top = schedule_millis p attempt;
       window = top * unat (rp_jitter_basis_points p) div 10000
   in case delay_for_attempt p attempt entropy ra of
        None \<Rightarrow> rp_max_attempts p \<le> attempt
      | Some d \<Rightarrow> attempt < rp_max_attempts p
          \<and> provider_floor ra \<le> d \<and> d \<le> max_retry_after
          \<and> from_millis (top - window) \<le> d
          \<and> d \<le> max (from_millis top) (provider_floor ra)
          \<and> 2 * window \<le> top"
proof -
  define p where "p = retry_policy_new base cap attempts jitter"
  have wf: "retry_policy_wf p" by (simp add: p_def retry_policy_new_wf)
  define top where "top = schedule_millis p attempt"
  have top: "capped_millis p attempt = top"
    by (simp add: top_def schedule_millis_def capped_millis_exact [OF wf])
  have window: "top * unat (rp_jitter_basis_points p) div 10000 = jitter_window p attempt"
    by (simp add: jitter_window_eq [OF wf] top)
  have top_max: "from_millis top \<le> max_retry_after"
    using capped_millis_small [OF wf, of attempt]
    by (simp add: top from_millis_def max_retry_after_def from_secs_def)
  have floor: "provider_floor ra \<le> max_retry_after"
    by (simp add: provider_floor_def split: option.splits)
  show ?thesis
  proof (cases "delay_for_attempt p attempt entropy ra")
    case None
    then show ?thesis
      by (simp add: p_def [symmetric] delay_for_attempt_def Let_def split: if_splits)
  next
    case (Some d)
    then obtain o' where o': "o' \<le> jitter_window p attempt"
      and d: "d = min (max (from_millis (top - o')) (provider_floor ra)) max_retry_after"
      unfolding top_def by (rule jittered_range [OF wf])
    have att: "attempt < rp_max_attempts p"
      using Some by (simp add: delay_for_attempt_def not_le split: if_splits)
    have "from_millis (top - jitter_window p attempt) \<le> from_millis (top - o')"
      "from_millis (top - o') \<le> from_millis top"
      using o' by (auto intro: from_millis_mono)
    with d top_max floor att jitter_window_half [OF wf, of attempt] Some show ?thesis
      by (simp add: p_def [symmetric] top_def [symmetric] window top Let_def le_max_iff_disj)
         linarith
  qed
qed

text \<open>
  A \<open>Retry-After\<close> header is honoured up to 24 hours and no further: the delta-seconds
  form gives \<open>min seconds 24h\<close>, the date form the time left until then (zero when it has
  passed), and whatever text a provider sends the parsed wait is bounded.
\<close>

theorem parse_retry_after_spec:
  "(case parse_retry_after X s now of None \<Rightarrow> True | Some d \<Rightarrow> d \<le> max_retry_after)
   \<and> parse_retry_after X (show_nat n) now =
       (if n < 2 ^ 64 then Some (min (from_secs n) max_retry_after)
        else map_option (\<lambda>t. min (nat (t - now)) max_retry_after) (x_parse_http_date X (show_nat n)))"
proof -
  have ascii: "is_ascii (show_nat n)"
    using show_nat_digits by (fastforce simp: is_ascii_def list_all_iff is_ascii_digit_def)
  have no_space: "\<not> is_whitespace c" if "c \<in> set (chars (show_nat n))" for c
    using that ascii show_nat_digits
    by (auto simp: chars_ascii is_ascii_digit_def is_whitespace_def dest!: show_nat_digits)
  have "trim (show_nat n) = show_nat n"
    using no_space ascii by (rule trim_ascii_id)
  moreover have "parse_uint 64 (show_nat n) = (if n < 2 ^ 64 then Some n else None)"
    by (rule parse_uint_show_nat_iff)
  ultimately have "parse_retry_after X (show_nat n) now =
      (if n < 2 ^ 64 then Some (min (from_secs n) max_retry_after)
       else map_option (\<lambda>t. min (nat (t - now)) max_retry_after) (x_parse_http_date X (show_nat n)))"
    by (cases "n < 2 ^ 64"; cases "x_parse_http_date X (show_nat n)")
       (simp_all only: parse_retry_after_def Let_def if_True if_False option.case option.map)
  then show ?thesis using parse_retry_after_bound by (auto split: option.split)
qed

end
