(* ===== verification/Validation.thy ===== *)
theory Validation
  imports Contracts
begin

text \<open>
  Validation of push jobs (\<open>src/validation.rs\<close>): every rule as the code checks it, in report
  order, and the text each error prints. The lemmas characterise acceptance by a
  declarative predicate, and show that an error report is drawn from a fixed set of messages
  and so cannot carry anything of the job.
\<close>

section \<open>Errors\<close>

datatype validation_error =
    Required string
  | TooLong string nat
  | InvalidLength string
  | InvalidCharacters string
  | ProviderTargetMismatch
  | EmptyNotification
  | DataTooLarge nat
  | TtlTooLarge nat
  | InvalidWebPushEndpoint
  | InvalidWebPushKeyMaterial

fun validation_error_text :: "validation_error \<Rightarrow> string" where
  "validation_error_text (Required field) = field @ '' is required''"
| "validation_error_text (TooLong field n) = field @ '' exceeds '' @ show_nat n @ '' bytes''"
| "validation_error_text (InvalidLength field) = field @ '' has an invalid length''"
| "validation_error_text (InvalidCharacters field) = field @ '' contains invalid characters''"
| "validation_error_text ProviderTargetMismatch = ''job provider does not match target provider''"
| "validation_error_text EmptyNotification =
     ''notification must contain title, body, image_url, or data''"
| "validation_error_text (DataTooLarge n) =
     ''notification data exceeds '' @ show_nat n @ '' bytes''"
| "validation_error_text (TtlTooLarge n) = ''ttl_seconds exceeds '' @ show_nat n"
| "validation_error_text InvalidWebPushEndpoint =
     ''web push endpoint must be an https URL using port 443 without credentials''"
| "validation_error_text InvalidWebPushKeyMaterial =
     ''web push subscription key material is invalid''"

section \<open>Limits\<close>

definition max_id_bytes :: nat where "max_id_bytes = 128"
definition max_idempotency_key_bytes :: nat where "max_idempotency_key_bytes = 256"
definition max_title_bytes :: nat where "max_title_bytes = 256"
definition max_body_bytes :: nat where "max_body_bytes = 4096"
definition max_image_url_bytes :: nat where "max_image_url_bytes = 2048"
definition max_data_bytes :: nat where "max_data_bytes = 4096"
definition max_collapse_key_bytes :: nat where "max_collapse_key_bytes = 128"
definition max_trace_field_bytes :: nat where "max_trace_field_bytes = 512"
definition max_ttl_seconds :: nat where "max_ttl_seconds = 28 * 24 * 60 * 60"
definition min_token_bytes :: nat where "min_token_bytes = 8"
definition max_token_bytes :: nat where "max_token_bytes = 4096"

lemmas push_limits = max_id_bytes_def max_idempotency_key_bytes_def max_title_bytes_def
  max_body_bytes_def max_image_url_bytes_def max_data_bytes_def max_collapse_key_bytes_def
  max_trace_field_bytes_def max_ttl_seconds_def min_token_bytes_def max_token_bytes_def

section \<open>The rules\<close>

definition control_or_space :: "nat \<Rightarrow> bool" where
  "control_or_space c \<longleftrightarrow> is_control c \<or> is_whitespace c"

definition identifier_errors :: "string \<Rightarrow> string \<Rightarrow> nat \<Rightarrow> validation_error list" where
  "identifier_errors field s max_bytes =
     (if trim s = [] then [Required field]
      else flatten
        [then_some (length s > max_bytes) (TooLong field max_bytes),
         then_some (any_char control_or_space s) (InvalidCharacters field)])"

definition optional_length_error :: "string \<Rightarrow> string option \<Rightarrow> nat \<Rightarrow> validation_error option" where
  "optional_length_error field s max_bytes =
     then_some (is_some_and (\<lambda>v. length v > max_bytes) s) (TooLong field max_bytes)"

definition not_blank :: "string option \<Rightarrow> bool" where
  "not_blank s = is_some_and (\<lambda>v. trim v \<noteq> []) s"

definition has_content :: "notification \<Rightarrow> bool" where
  "has_content n \<longleftrightarrow>
     not_blank (nt_title n) \<or> not_blank (nt_body n) \<or> not_blank (nt_image_url n) \<or> nt_data n \<noteq> []"

definition data_too_large :: "externals \<Rightarrow> json btree \<Rightarrow> bool" where
  "data_too_large X d =
     unwrap_or True (map_option (\<lambda>encoded. length encoded > max_data_bytes) (x_json_to_vec X (JObj d)))"

definition notification_errors :: "externals \<Rightarrow> push_job \<Rightarrow> validation_error list" where
  "notification_errors X job =
     (let n = pj_notification job in
      flatten
        [then_some (\<not> has_content n) EmptyNotification,
         optional_length_error ''notification.title'' (nt_title n) max_title_bytes,
         optional_length_error ''notification.body'' (nt_body n) max_body_bytes,
         optional_length_error ''notification.image_url'' (nt_image_url n) max_image_url_bytes,
         then_some (data_too_large X (nt_data n)) (DataTooLarge max_data_bytes)])"

definition option_errors :: "push_job \<Rightarrow> validation_error list" where
  "option_errors job =
     flatten
       [then_some (is_some_and (\<lambda>ttl. unat ttl > max_ttl_seconds) (op_ttl_seconds (pj_options job)))
          (TtlTooLarge max_ttl_seconds),
        optional_length_error ''options.collapse_key'' (op_collapse_key (pj_options job))
          max_collapse_key_bytes]"

definition trace_errors :: "push_job \<Rightarrow> validation_error list" where
  "trace_errors job =
     flatten
       [optional_length_error ''trace.traceparent'' (tr_traceparent (pj_trace job))
          max_trace_field_bytes,
        optional_length_error ''trace.tracestate'' (tr_tracestate (pj_trace job))
          max_trace_field_bytes,
        optional_length_error ''trace.correlation_id'' (tr_correlation_id (pj_trace job))
          max_trace_field_bytes]"

text \<open>The characters a token may not contain: \<open>/\<close>, backslash, \<open>?\<close>, \<open>#\<close> and \<open>&\<close>.\<close>

definition url_metacharacter :: "nat \<Rightarrow> bool" where
  "url_metacharacter c \<longleftrightarrow> c = 47 \<or> c = 92 \<or> c = 63 \<or> c = 35 \<or> c = 38"

definition token_errors :: "string \<Rightarrow> string \<Rightarrow> validation_error list" where
  "token_errors field t =
     (if length t < min_token_bytes \<or> length t > max_token_bytes then [InvalidLength field]
      else flatten
        [then_some (any_char (\<lambda>c. is_control c \<or> is_whitespace c \<or> url_metacharacter c) t)
           (InvalidCharacters field)])"

definition https_443_endpoint :: "url \<Rightarrow> bool" where
  "https_443_endpoint u \<longleftrightarrow>
     url_scheme u = ''https'' \<and> url_host_str u \<noteq> None
     \<and> (url_port u = None \<or> url_port u = Some 443)
     \<and> url_username u = [] \<and> url_password u = None"

definition web_push_endpoint_error :: "externals \<Rightarrow> string \<Rightarrow> validation_error option" where
  "web_push_endpoint_error X e =
     then_some (\<not> is_some_and https_443_endpoint (x_parse_url X e)) InvalidWebPushEndpoint"

definition valid_subscription_key :: "string \<Rightarrow> bool" where
  "valid_subscription_key s \<longleftrightarrow>
     8 \<le> length s \<and> length s \<le> 512 \<and> \<not> any_char control_or_space s"

fun target_errors :: "externals \<Rightarrow> push_target \<Rightarrow> validation_error list" where
  "target_errors X (FcmTarget t) = token_errors ''target.fcm.token'' t"
| "target_errors X (ApnsTarget t env) = token_errors ''target.apns.token'' t"
| "target_errors X (ExpoTarget t) = token_errors ''target.expo.token'' t"
| "target_errors X (WebPushTarget e p a) =
     flatten
       [web_push_endpoint_error X e,
        then_some (\<not> valid_subscription_key p \<or> \<not> valid_subscription_key a)
          InvalidWebPushKeyMaterial]"

definition push_job_errors :: "externals \<Rightarrow> push_job \<Rightarrow> validation_error list" where
  "push_job_errors X job =
     identifier_errors ''job_id'' (pj_job_id job) max_id_bytes
     @ identifier_errors ''tenant_id'' (pj_tenant_id job) max_id_bytes
     @ identifier_errors ''application_id'' (pj_application_id job) max_id_bytes
     @ identifier_errors ''idempotency_key'' (pj_idempotency_key job) max_idempotency_key_bytes
     @ flatten [then_some (pj_provider job \<noteq> target_provider (pj_target job)) ProviderTargetMismatch]
     @ notification_errors X job
     @ option_errors job
     @ trace_errors job
     @ target_errors X (pj_target job)"

definition validate_push_job :: "externals \<Rightarrow> push_job \<Rightarrow> validation_error list + unit" where
  "validate_push_job X job =
     (let errors = push_job_errors X job in if errors = [] then Ok () else Err errors)"

text \<open>\<open>errors.into_iter().map(to_string).collect::<Vec<_>>().join("; ")\<close>.\<close>

definition validation_report :: "validation_error list \<Rightarrow> string" where
  "validation_report errors = join_with ''; '' (map validation_error_text errors)"

section \<open>What validation accepts\<close>

definition identifier_ok :: "string \<Rightarrow> nat \<Rightarrow> bool" where
  "identifier_ok s n \<longleftrightarrow> s \<noteq> [] \<and> length s \<le> n \<and> all_chars (\<lambda>c. \<not> control_or_space c) s"

definition short :: "string option \<Rightarrow> nat \<Rightarrow> bool" where
  "short s n \<longleftrightarrow> is_none_or (\<lambda>v. length v \<le> n) s"

definition token_ok :: "string \<Rightarrow> bool" where
  "token_ok t \<longleftrightarrow> 8 \<le> length t \<and> length t \<le> 4096
     \<and> all_chars (\<lambda>c. \<not> control_or_space c \<and> \<not> url_metacharacter c) t"

fun target_ok :: "externals \<Rightarrow> push_target \<Rightarrow> bool" where
  "target_ok X (WebPushTarget e p a) \<longleftrightarrow>
     is_some_and https_443_endpoint (x_parse_url X e) \<and> valid_subscription_key p \<and> valid_subscription_key a"
| "target_ok X (FcmTarget t) = token_ok t"
| "target_ok X (ApnsTarget t _) = token_ok t"
| "target_ok X (ExpoTarget t) = token_ok t"

definition notification_ok :: "externals \<Rightarrow> notification \<Rightarrow> bool" where
  "notification_ok X n \<longleftrightarrow>
     has_content n \<and> short (nt_title n) 256 \<and> short (nt_body n) 4096 \<and> short (nt_image_url n) 2048
     \<and> is_some_and (\<lambda>bytes. length bytes \<le> 4096) (x_json_to_vec X (JObj (nt_data n)))"

definition push_job_ok :: "externals \<Rightarrow> push_job \<Rightarrow> bool" where
  "push_job_ok X job \<longleftrightarrow>
     identifier_ok (pj_job_id job) 128 \<and> identifier_ok (pj_tenant_id job) 128
     \<and> identifier_ok (pj_application_id job) 128 \<and> identifier_ok (pj_idempotency_key job) 256
     \<and> pj_provider job = target_provider (pj_target job)
     \<and> notification_ok X (pj_notification job)
     \<and> is_none_or (\<lambda>ttl. unat ttl \<le> 2419200) (op_ttl_seconds (pj_options job))
     \<and> short (op_collapse_key (pj_options job)) 128
     \<and> short (tr_traceparent (pj_trace job)) 512 \<and> short (tr_tracestate (pj_trace job)) 512
     \<and> short (tr_correlation_id (pj_trace job)) 512
     \<and> target_ok X (pj_target job)"

lemma flatten_two_Nil: "flatten [x, y] = [] \<longleftrightarrow> x = None \<and> y = None"
  by (simp add: flatten_eq_Nil)

lemma identifier_errors_Nil: "identifier_errors f s n = [] \<longleftrightarrow> identifier_ok s n"
proof (cases "s = []")
  case True
  then show ?thesis by (simp add: identifier_errors_def identifier_ok_def trim_def trim_chars_def of_chars_def)
next
  case False
  have "\<not> all_chars is_whitespace s" if "all_chars (\<lambda>c. \<not> control_or_space c) s"
    using that False
    by (cases "chars s") (auto simp: all_chars_def control_or_space_def)
  with False show ?thesis
    by (auto simp: identifier_errors_def identifier_ok_def flatten_two_Nil trim_eq_Nil any_char_not_all)
qed

lemma optional_length_error_None: "optional_length_error f s n = None \<longleftrightarrow> short s n"
  by (cases s) (auto simp: optional_length_error_def short_def)

lemma token_errors_Nil: "token_errors f t = [] \<longleftrightarrow> token_ok t"
  by (auto simp: token_errors_def token_ok_def flatten_eq_Nil any_char_not_all push_limits
      control_or_space_def)

lemma target_errors_Nil: "target_errors X t = [] \<longleftrightarrow> target_ok X t"
  by (cases t) (auto simp: token_errors_Nil flatten_two_Nil web_push_endpoint_error_def)

lemma notification_errors_Nil: "notification_errors X job = [] \<longleftrightarrow> notification_ok X (pj_notification job)"
  by (auto simp: notification_errors_def notification_ok_def flatten_eq_Nil Let_def
      optional_length_error_None data_too_large_def unwrap_or_def push_limits not_less
      split: option.splits)

lemma option_errors_Nil: "option_errors job = [] \<longleftrightarrow>
   is_none_or (\<lambda>ttl. unat ttl \<le> 2419200) (op_ttl_seconds (pj_options job))
   \<and> short (op_collapse_key (pj_options job)) 128"
  by (auto simp: option_errors_def flatten_two_Nil optional_length_error_None push_limits
      is_some_and_def not_less split: option.splits)

lemma trace_errors_Nil: "trace_errors job = [] \<longleftrightarrow>
   short (tr_traceparent (pj_trace job)) 512 \<and> short (tr_tracestate (pj_trace job)) 512
   \<and> short (tr_correlation_id (pj_trace job)) 512"
  by (auto simp: trace_errors_def flatten_eq_Nil optional_length_error_None push_limits)

lemmas push_error_lists_Nil = identifier_errors_Nil notification_errors_Nil option_errors_Nil
  trace_errors_Nil target_errors_Nil

lemma push_job_errors_Nil: "push_job_errors X job = [] \<longleftrightarrow> push_job_ok X job"
  by (simp add: push_job_errors_def push_job_ok_def push_error_lists_Nil push_limits
      then_some_def conj_assoc)

lemma validate_push_job_Ok: "validate_push_job X job = Ok u \<longleftrightarrow> push_job_ok X job"
  by (simp add: validate_push_job_def Let_def push_job_errors_Nil)

lemma validate_push_job_Err:
  "validate_push_job X job = Err es \<longleftrightarrow> es = push_job_errors X job \<and> \<not> push_job_ok X job"
  by (auto simp: validate_push_job_def Let_def push_job_errors_Nil)

section \<open>Error reports carry nothing of the job\<close>

definition push_static_errors :: "validation_error list" where
  "push_static_errors =
     [Required ''job_id'', TooLong ''job_id'' 128, InvalidCharacters ''job_id'',
      Required ''tenant_id'', TooLong ''tenant_id'' 128, InvalidCharacters ''tenant_id'',
      Required ''application_id'', TooLong ''application_id'' 128, InvalidCharacters ''application_id'',
      Required ''idempotency_key'', TooLong ''idempotency_key'' 256,
      InvalidCharacters ''idempotency_key'',
      ProviderTargetMismatch, EmptyNotification, TooLong ''notification.title'' 256,
      TooLong ''notification.body'' 4096, TooLong ''notification.image_url'' 2048,
      DataTooLarge 4096, TtlTooLarge 2419200, TooLong ''options.collapse_key'' 128,
      TooLong ''trace.traceparent'' 512, TooLong ''trace.tracestate'' 512,
      TooLong ''trace.correlation_id'' 512,
      InvalidLength ''target.fcm.token'', InvalidCharacters ''target.fcm.token'',
      InvalidLength ''target.apns.token'', InvalidCharacters ''target.apns.token'',
      InvalidLength ''target.expo.token'', InvalidCharacters ''target.expo.token'',
      InvalidWebPushEndpoint, InvalidWebPushKeyMaterial]"

lemma identifier_errors_set:
  "set (identifier_errors f s n) \<subseteq> {Required f, TooLong f n, InvalidCharacters f}"
  by (auto simp: identifier_errors_def set_flatten split: if_splits)

lemma optional_length_error_Some: "optional_length_error f s n = Some e \<Longrightarrow> e = TooLong f n"
  by (simp add: optional_length_error_def)

lemma target_errors_set: "set (target_errors X t) \<subseteq> set push_static_errors"
  by (cases t)
     (auto simp: token_errors_def push_static_errors_def set_flatten web_push_endpoint_error_def
       split: if_splits)

lemma push_job_errors_static: "set (push_job_errors X job) \<subseteq> set push_static_errors"
proof -
  have n: "set (notification_errors X job) \<subseteq> set push_static_errors"
    by (auto simp: notification_errors_def push_static_errors_def set_flatten push_limits Let_def
        dest!: optional_length_error_Some sym [of "Some _"])
  have o: "set (option_errors job) \<subseteq> set push_static_errors"
    by (auto simp: option_errors_def push_static_errors_def set_flatten push_limits
        dest!: optional_length_error_Some sym [of "Some _"])
  have t: "set (trace_errors job) \<subseteq> set push_static_errors"
    by (auto simp: trace_errors_def push_static_errors_def set_flatten push_limits
        dest!: optional_length_error_Some sym [of "Some _"])
  have i: "set (identifier_errors f s n) \<subseteq> set push_static_errors"
    if "{Required f, TooLong f n, InvalidCharacters f} \<subseteq> set push_static_errors" for f s n
    using identifier_errors_set that by (rule order_trans)
  have p: "set (flatten [then_some b ProviderTargetMismatch]) \<subseteq> set push_static_errors" for b
    by (cases b) (simp_all add: push_static_errors_def)
  show ?thesis
    unfolding push_job_errors_def set_append push_limits
    by (intro Un_least n o t p target_errors_set i) (simp_all add: push_static_errors_def)
qed

section \<open>Properties\<close>

definition demo_push_job :: push_job where
  "demo_push_job = \<lparr>pj_version = V1, pj_job_id = ''job-1'', pj_tenant_id = ''tenant-1'',
     pj_application_id = ''app-1'', pj_idempotency_key = ''event-1'', pj_provider = Fcm,
     pj_target = FcmTarget ''fcm:token_123456'',
     pj_notification = empty_notification\<lparr>nt_title := Some ''Hello''\<rparr>,
     pj_options = default_options, pj_trace = default_trace\<rparr>"

lemma demo_push_job_ok: "push_job_ok demo_externals demo_push_job"
  by code_simp

text \<open>
  C15: Validation accepts exactly the jobs described by \<open>push_job_ok\<close> (bounded, printable
  identifiers; provider matching the target; some content; every length and TTL ceiling; a
  well-shaped target); a rejection reports at least one error and only errors from a fixed
  list, so that its text cannot repeat a token, an endpoint or key material.
\<close>

theorem validate_push_job_spec:
  "case validate_push_job X job of
     Inr _ \<Rightarrow> push_job_ok X job
   | Inl es \<Rightarrow> \<not> push_job_ok X job \<and> es \<noteq> [] \<and> set es \<subseteq> set push_static_errors"
proof (cases "push_job_errors X job = []")
  case True
  then show ?thesis by (simp add: validate_push_job_def push_job_errors_Nil [symmetric])
next
  case False
  then show ?thesis
    using push_job_errors_static [of X job]
    by (simp add: validate_push_job_def push_job_errors_Nil [symmetric])
qed

fun target_text :: "push_target \<Rightarrow> string list" where
  "target_text (FcmTarget t) = [t]"
| "target_text (ApnsTarget t env) = [t]"
| "target_text (ExpoTarget t) = [t]"
| "target_text (WebPushTarget e p a) = [e, p, a]"

lemma no_control_no_nul:
  assumes "valid_utf8 s" and "all_chars P s" and "\<And>c. P c \<Longrightarrow> \<not> is_control c"
  shows "CHR 0x00 \<notin> set s"
proof
  assume "CHR 0x00 \<in> set s"
  then have "0 \<in> set (map byte_val s)" by force
  then have "0 \<in> set (chars s)" using assms(1) by (intro ascii_in_chars) simp_all
  with assms(2,3) have "\<not> is_control 0" by (auto simp: all_chars_def list_all_iff)
  then show False by (simp add: is_control_def)
qed

lemma target_ok_nul_free:
  assumes "target_ok X t" and "list_all valid_utf8 (target_text t)"
  shows "nul_free_target t"
proof -
  have token: "CHR 0x00 \<notin> set s" if "token_ok s" "valid_utf8 s" for s
    using that
      no_control_no_nul [of s "\<lambda>c. \<not> control_or_space c \<and> \<not> url_metacharacter c"]
    by (simp add: token_ok_def control_or_space_def)
  have key: "CHR 0x00 \<notin> set s" if "valid_subscription_key s" "valid_utf8 s" for s
    using that no_control_no_nul [of s "\<lambda>c. \<not> control_or_space c"]
    by (simp add: valid_subscription_key_def any_char_not_all control_or_space_def)
  show ?thesis using assms by (cases t) (auto dest: token key)
qed

text \<open>
  C38: The hashed material of a fingerprint is unambiguous: two validated jobs whose targets
  feed SHA-256 the same bytes have the same target (provider, environment and every part),
  although the parts are only separated by NUL bytes.
\<close>

theorem fingerprint_material_injective:
  assumes "push_job_ok X job" and "push_job_ok X job'"
    and "list_all valid_utf8 (target_text (pj_target job))"
    and "list_all valid_utf8 (target_text (pj_target job'))"
    and "fingerprint_bytes (pj_target job) = fingerprint_bytes (pj_target job')"
  shows "pj_target job = pj_target job'"
  using assms
  by (intro fingerprint_bytes_inj target_ok_nul_free [of X]) (simp_all add: push_job_ok_def)

theorem fingerprint_material_injective_witness:
  "pj_target (demo_push_job\<lparr>pj_job_id := ''job-2''\<rparr>) = pj_target demo_push_job"
proof (rule fingerprint_material_injective [of demo_externals])
  have "identifier_ok ''job-2'' 128" by code_simp
  with demo_push_job_ok show "push_job_ok demo_externals (demo_push_job\<lparr>pj_job_id := ''job-2''\<rparr>)"
    by (simp add: push_job_ok_def)
  show "push_job_ok demo_externals demo_push_job" by (rule demo_push_job_ok)
qed (code_simp+)

text \<open>
  A target fingerprint is the provider's name, a colon and 24 hexadecimal digits of a
  SHA-256 digest: nothing of the target but its digest reaches an outcome.
\<close>

theorem fingerprint_shape:
  assumes "digest_spec X"
  shows "\<exists>digest24. fingerprint_target X t = provider_kind_as_str (target_provider t) @ '':'' @ digest24
    \<and> length digest24 = 24 \<and> set digest24 \<subseteq> set hex_digits
    \<and> digest24 = take 24 (x_hex X (x_sha256 X (fingerprint_bytes t)))"
proof -
  let ?d = "x_hex X (x_sha256 X (fingerprint_bytes t))"
  have "length ?d = 64" "set ?d \<subseteq> set hex_digits" using assms by (simp_all add: digest_spec_def)
  then have "length (take 24 ?d) = 24" "set (take 24 ?d) \<subseteq> set hex_digits"
    using set_take_subset [of 24 ?d] by auto
  then show ?thesis
    by (cases t) (simp_all add: fingerprint_target_def fingerprint_hex_length_def)
qed

theorem fingerprint_shape_witness:
  "\<exists>digest24. fingerprint_target demo_externals (pj_target demo_push_job) = ''fcm:'' @ digest24
    \<and> length digest24 = 24 \<and> set digest24 \<subseteq> set hex_digits
    \<and> digest24 = take 24 (x_hex demo_externals
        (x_sha256 demo_externals (fingerprint_bytes (pj_target demo_push_job))))"
  using fingerprint_shape [OF demo_digest_spec, of "pj_target demo_push_job"]
  by (simp add: demo_push_job_def)

end
