(* ===== verification/Provider.thy ===== *)
theory Provider
  imports Validation Retry
begin

text \<open>
  The adapter interface (\<open>src/provider.rs\<close>) and the provider registry (\<open>src/dispatch.rs\<close>).
  A trait object is a record of its methods; \<open>send\<close> maps a job and a state of the world to a
  result and the next state. What a caller may assume of any adapter is the locale
  \<open>push_adapter\<close>, what the registry adds is \<open>push_registry\<close>; the adapters' theories and
  \<open>Runtime\<close> interpret them.
\<close>

section \<open>Errors and readiness\<close>

definition max_safe_error_bytes :: nat where "max_safe_error_bytes = 512"

record provider_readiness =
  pr_configured :: bool
  pr_safe_reason :: "string option"

definition readiness_ready :: provider_readiness where
  "readiness_ready = \<lparr>pr_configured = True, pr_safe_reason = None\<rparr>"

definition readiness_not_ready :: "string \<Rightarrow> provider_readiness" where
  "readiness_not_ready reason =
     \<lparr>pr_configured = False, pr_safe_reason = Some (truncate_utf8 reason max_safe_error_bytes)\<rparr>"

datatype provider_error =
    NotConfigured string
  | Delivery outcome_class string "duration option" "string option"
  | Internal string

definition err_not_configured :: "string \<Rightarrow> provider_error" where
  "err_not_configured reason = NotConfigured (truncate_utf8 reason max_safe_error_bytes)"

definition err_delivery ::
  "outcome_class \<Rightarrow> string \<Rightarrow> duration option \<Rightarrow> string option \<Rightarrow> provider_error" where
  "err_delivery class detail retry_after code =
     Delivery class (truncate_utf8 detail max_safe_error_bytes) retry_after code"

definition err_internal :: "string \<Rightarrow> provider_error" where
  "err_internal detail = Internal (truncate_utf8 detail max_safe_error_bytes)"

text \<open>\<open>invalid_payload\<close>, as the APNs, Expo and Web Push adapters define it.\<close>

definition invalid_payload :: "string \<Rightarrow> string \<Rightarrow> provider_error" where
  "invalid_payload detail code = err_delivery InvalidPayload detail None (Some code)"

text \<open>The class an error is reported under.\<close>

fun error_class :: "provider_error \<Rightarrow> outcome_class" where
  "error_class (NotConfigured _) = PermanentProviderFailure"
| "error_class (Delivery c _ _ _) = c"
| "error_class (Internal _) = InternalFailure"

fun error_detail :: "provider_error \<Rightarrow> string" where
  "error_detail (NotConfigured s) = s"
| "error_detail (Delivery _ s _ _) = s"
| "error_detail (Internal s) = s"

fun error_retry_after :: "provider_error \<Rightarrow> duration option" where
  "error_retry_after (Delivery _ _ r _) = r"
| "error_retry_after _ = None"

definition error_bounded :: "provider_error \<Rightarrow> bool" where
  "error_bounded e \<longleftrightarrow> length (error_detail e) \<le> max_safe_error_bytes
     \<and> is_none_or (\<lambda>d. d \<le> max_retry_after) (error_retry_after e)"

lemma err_sel [simp, outcome_simps]:
  "error_class (err_delivery c s r k) = c"
  "error_class (err_not_configured s) = PermanentProviderFailure"
  "error_class (err_internal s) = InternalFailure"
  "error_class (invalid_payload s k') = InvalidPayload"
  by (simp_all add: err_delivery_def err_not_configured_def err_internal_def invalid_payload_def)

lemma error_bounded_intros [simp, intro]:
  "is_none_or (\<lambda>d. d \<le> max_retry_after) r \<Longrightarrow> error_bounded (err_delivery c s r k)"
  "error_bounded (err_not_configured s)"
  "error_bounded (err_internal s)"
  "error_bounded (invalid_payload s k')"
  by (simp_all add: error_bounded_def err_delivery_def err_not_configured_def err_internal_def
      invalid_payload_def truncate_length)

section \<open>The adapter interface\<close>

record push_provider =
  pp_kind :: provider_kind
  pp_readiness :: provider_readiness
  pp_send :: "push_job \<Rightarrow> world \<Rightarrow> (provider_error + push_outcome) \<times> world"

locale push_adapter =
  fixes X :: externals and p :: push_provider
  assumes outcome_identity:
      "pp_send p job w = (Inr out, w') \<Longrightarrow>
        po_job_id out = pj_job_id job \<and> po_provider out = pp_kind p
        \<and> po_target_fingerprint out = fingerprint_target X (pj_target job)"
    and error_is_bounded: "pp_send p job w = (Inl e, w') \<Longrightarrow> error_bounded e"
    and invalid_refused: "\<not> push_job_ok X job \<Longrightarrow>
        \<exists>e w'. pp_send p job w = (Inl e, w') \<and> error_class e = InvalidPayload \<and> silent w w'"
    and foreign_refused: "target_provider (pj_target job) \<noteq> pp_kind p \<Longrightarrow>
        \<exists>e w'. pp_send p job w = (Inl e, w') \<and> error_class e = InvalidPayload \<and> silent w w'"
    and is_ready: "pr_configured (pp_readiness p)"
begin

text \<open>Whatever reaches the network was a valid job for this adapter.\<close>

lemma sent_job_valid:
  assumes "pp_send p job w = (r, w')" and "\<not> silent w w'"
  shows "push_job_ok X job \<and> target_provider (pj_target job) = pp_kind p"
  using assms invalid_refused [of job w] foreign_refused [of job w] by auto

lemma accepted_job_valid:
  assumes "pp_send p job w = (Inr out, w')"
  shows "push_job_ok X job \<and> target_provider (pj_target job) = pp_kind p
    \<and> pj_provider job = po_provider out"
proof -
  have ok: "push_job_ok X job" using assms invalid_refused [of job w] by (cases "push_job_ok X job") auto
  have kind: "target_provider (pj_target job) = pp_kind p"
    using assms foreign_refused [of job w] by (cases "target_provider (pj_target job) = pp_kind p") auto
  have "pj_provider job = target_provider (pj_target job)" using ok by (simp add: push_job_ok_def)
  with ok kind outcome_identity [OF assms] show ?thesis by simp
qed

end

section \<open>The registry\<close>

datatype provider_slot = SlotFcm | SlotApnsProduction | SlotApnsSandbox | SlotExpo | SlotWebPush

fun expected_kind :: "provider_slot \<Rightarrow> provider_kind" where
  "expected_kind SlotFcm = Fcm"
| "expected_kind SlotApnsProduction = Apns"
| "expected_kind SlotApnsSandbox = Apns"
| "expected_kind SlotExpo = Expo"
| "expected_kind SlotWebPush = WebPush"

datatype registry_error = KindMismatch

record provider_registry =
  reg_fcm :: "push_provider option"
  reg_apns_production :: "push_provider option"
  reg_apns_sandbox :: "push_provider option"
  reg_expo :: "push_provider option"
  reg_web_push :: "push_provider option"

definition registry_new :: provider_registry where
  "registry_new = \<lparr>reg_fcm = None, reg_apns_production = None, reg_apns_sandbox = None,
     reg_expo = None, reg_web_push = None\<rparr>"

definition with_provider ::
  "provider_registry \<Rightarrow> provider_slot \<Rightarrow> push_provider \<Rightarrow> registry_error + provider_registry" where
  "with_provider reg slot p =
     (if pp_kind p \<noteq> expected_kind slot then Err KindMismatch
      else Ok (case slot of
          SlotFcm \<Rightarrow> reg\<lparr>reg_fcm := Some p\<rparr>
        | SlotApnsProduction \<Rightarrow> reg\<lparr>reg_apns_production := Some p\<rparr>
        | SlotApnsSandbox \<Rightarrow> reg\<lparr>reg_apns_sandbox := Some p\<rparr>
        | SlotExpo \<Rightarrow> reg\<lparr>reg_expo := Some p\<rparr>
        | SlotWebPush \<Rightarrow> reg\<lparr>reg_web_push := Some p\<rparr>))"

fun slot_provider :: "provider_registry \<Rightarrow> provider_slot \<Rightarrow> push_provider option" where
  "slot_provider reg SlotFcm = reg_fcm reg"
| "slot_provider reg SlotApnsProduction = reg_apns_production reg"
| "slot_provider reg SlotApnsSandbox = reg_apns_sandbox reg"
| "slot_provider reg SlotExpo = reg_expo reg"
| "slot_provider reg SlotWebPush = reg_web_push reg"

fun target_slot :: "push_target \<Rightarrow> provider_slot" where
  "target_slot (FcmTarget _) = SlotFcm"
| "target_slot (ApnsTarget _ env) =
     (case env of Production \<Rightarrow> SlotApnsProduction | Sandbox \<Rightarrow> SlotApnsSandbox)"
| "target_slot (ExpoTarget _) = SlotExpo"
| "target_slot (WebPushTarget _ _ _) = SlotWebPush"

definition provider_for :: "provider_registry \<Rightarrow> push_job \<Rightarrow> push_provider option" where
  "provider_for reg job = slot_provider reg (target_slot (pj_target job))"

definition dispatch ::
  "provider_registry \<Rightarrow> push_job \<Rightarrow> world \<Rightarrow> (provider_error + push_outcome) \<times> world" where
  "dispatch reg job w =
     (case provider_for reg job of
        None \<Rightarrow> (Err (err_not_configured
            (provider_kind_as_str (pj_provider job)
              @ '' provider is not configured for this target environment'')), w)
      | Some p \<Rightarrow> pp_send p job w)"

record readiness_view =
  rv_configured :: bool
  rv_safe_reason :: "string option"

definition readiness_view_of :: "provider_readiness \<Rightarrow> readiness_view" where
  "readiness_view_of r = \<lparr>rv_configured = pr_configured r, rv_safe_reason = pr_safe_reason r\<rparr>"

definition readiness :: "push_provider option \<Rightarrow> readiness_view" where
  "readiness p = readiness_view_of
     (case p of Some q \<Rightarrow> pp_readiness q
      | None \<Rightarrow> readiness_not_ready ''provider is not configured'')"

record registry_readiness =
  rr_fcm :: readiness_view
  rr_apns_production :: readiness_view
  rr_apns_sandbox :: readiness_view
  rr_expo :: readiness_view
  rr_web_push :: readiness_view

definition registry_readiness :: "provider_registry \<Rightarrow> registry_readiness" where
  "registry_readiness reg = \<lparr>
     rr_fcm = readiness (reg_fcm reg),
     rr_apns_production = readiness (reg_apns_production reg),
     rr_apns_sandbox = readiness (reg_apns_sandbox reg),
     rr_expo = readiness (reg_expo reg),
     rr_web_push = readiness (reg_web_push reg)\<rparr>"

definition has_configured_provider :: "provider_registry \<Rightarrow> bool" where
  "has_configured_provider reg =
     list_ex (\<lambda>p. pr_configured (pp_readiness p))
       (flatten [reg_fcm reg, reg_apns_production reg, reg_apns_sandbox reg, reg_expo reg,
         reg_web_push reg])"

lemma expected_kind_target_slot: "expected_kind (target_slot t) = target_provider t"
  by (cases t) (auto split: provider_environment.splits)

lemma slot_provider_with_provider:
  "with_provider reg slot p = Ok reg' \<Longrightarrow>
     slot_provider reg' s = (if s = slot then Some p else slot_provider reg s)"
  by (cases slot; cases s) (auto simp: with_provider_def split: if_splits)

lemma with_provider_kind: "with_provider reg slot p = Ok reg' \<Longrightarrow> pp_kind p = expected_kind slot"
  by (auto simp: with_provider_def split: if_splits)

locale push_registry =
  fixes X :: externals and reg :: provider_registry
  assumes registered: "slot_provider reg slot = Some p \<Longrightarrow>
      push_adapter X p \<and> pp_kind p = expected_kind slot"
begin

lemma provider_for_contract:
  assumes "provider_for reg job = Some p"
  shows "push_adapter X p" "pp_kind p = target_provider (pj_target job)"
  using assms registered [of "target_slot (pj_target job)" p]
  by (auto simp: provider_for_def expected_kind_target_slot)

lemma dispatch_identity:
  assumes "dispatch reg job w = (Inr out, w')"
  shows "po_job_id out = pj_job_id job \<and> po_provider out = pj_provider job
    \<and> po_target_fingerprint out = fingerprint_target X (pj_target job) \<and> push_job_ok X job"
proof -
  from assms obtain p where p: "provider_for reg job = Some p" and s: "pp_send p job w = (Inr out, w')"
    by (auto simp: dispatch_def split: option.splits)
  note adapter = provider_for_contract(1) [OF p]
  show ?thesis
    using push_adapter.outcome_identity [OF adapter s] push_adapter.accepted_job_valid [OF adapter s]
    by simp
qed

lemma dispatch_error_bounded: "dispatch reg job w = (Inl e, w') \<Longrightarrow> error_bounded e"
  using push_adapter.error_is_bounded provider_for_contract
  by (fastforce simp: dispatch_def split: option.splits)

lemma dispatch_sent_valid:
  assumes "dispatch reg job w = (r, w')" and "\<not> silent w w'"
  shows "push_job_ok X job"
proof -
  from assms obtain p where p: "provider_for reg job = Some p" and s: "pp_send p job w = (r, w')"
    by (auto simp: dispatch_def split: option.splits)
  show ?thesis
    using push_adapter.sent_job_valid [OF provider_for_contract(1) [OF p] s assms(2)] by simp
qed

lemma registered_with_provider:
  assumes "push_adapter X p" and "with_provider reg slot p = Ok reg'"
  shows "push_registry X reg'"
proof
  fix s q assume "slot_provider reg' s = Some q"
  then show "push_adapter X q \<and> pp_kind q = expected_kind s"
    using assms registered slot_provider_with_provider [OF assms(2), of s] with_provider_kind [OF assms(2)]
    by (auto split: if_splits)
qed

end

lemma push_registry_new: "push_registry X registry_new"
proof
  fix s q assume "slot_provider registry_new s = Some q"
  then show "push_adapter X q \<and> pp_kind q = expected_kind s"
    by (cases s) (simp_all add: registry_new_def)
qed

end
