(* ===== verification/Http_Api.thy ===== *)
theory Http_Api
  imports Provider
begin

unbundle bit_operations_syntax

text \<open>
  The push HTTP API (\<open>src/http_api.rs\<close>): request authenticators, the shared-secret comparison,
  job and batch submission, readiness. What axum's \<open>Json\<close> extractor hands to a handler is an
  argument of the route: the decoded body, or the rejection it answers with before the handler
  runs. The locale \<open>request_authenticator\<close> is the contract of an authenticator,
  \<open>job_service\<close> that of a batch handler; the contact API interprets the second as well.
\<close>

section \<open>Authenticators\<close>

type_synonym header_map = "string \<Rightarrow> string option"

record authenticator =
  auth_configured :: bool
  auth_mode :: string
  auth_authenticate :: "header_map \<Rightarrow> bool"

definition deny_all_authenticator :: authenticator where
  "deny_all_authenticator = \<lparr>auth_configured = False, auth_mode = ''disabled'',
     auth_authenticate = (\<lambda>headers. False)\<rparr>"

definition byte_word :: "char \<Rightarrow> u8" where
  "byte_word c = of_nat (byte_val c)"

definition constant_time_eq :: "string \<Rightarrow> string \<Rightarrow> bool" where
  "constant_time_eq left right =
     (if length left \<noteq> length right then False
      else foldl (\<lambda>difference (l, r). difference OR (byte_word l XOR byte_word r)) 0
             (zip left right) = 0)"

datatype auth_config_error = InvalidSharedSecret

definition shared_secret_new :: "string \<Rightarrow> auth_config_error + string" where
  "shared_secret_new s =
     (let secret = trim s in
      if length secret < 32 \<or> length secret > 4096 \<or> any_char is_control secret
      then Err InvalidSharedSecret
      else Ok secret)"

definition shared_secret_authenticate :: "string \<Rightarrow> header_map \<Rightarrow> bool" where
  "shared_secret_authenticate secret headers =
     (case Option.bind (headers ''authorization'') (strip_prefix ''Bearer '') of
        None \<Rightarrow> False
      | Some v \<Rightarrow> constant_time_eq v secret)"

definition shared_secret_authenticator :: "string \<Rightarrow> authenticator" where
  "shared_secret_authenticator secret = \<lparr>auth_configured = True,
     auth_mode = ''migration_shared_secret'',
     auth_authenticate = shared_secret_authenticate secret\<rparr>"

lemma byte_word_inj: "byte_word a = byte_word b \<longleftrightarrow> a = b"
proof
  have u: "unat (byte_word c) = byte_val c" for c
    using nat_of_char_less_256 [of c] by (simp add: byte_word_def unat_of_nat)
  assume "byte_word a = byte_word b"
  then have "byte_val a = byte_val b" by (metis u)
  then show "a = b" by simp
qed simp

lemma xor_eq_0_word: "a XOR b = 0 \<longleftrightarrow> a = b" for a b :: "'a::len word"
  by (metis xor_self_eq xor.assoc xor.left_neutral)

lemma difference_fold:
  "foldl (\<lambda>d (l, r). d OR (byte_word l XOR byte_word r)) d0 ps = 0 \<longleftrightarrow>
     d0 = 0 \<and> (\<forall>(l, r) \<in> set ps. l = r)"
proof (induction ps arbitrary: d0)
  case (Cons p ps)
  then show ?case by (cases p) (auto simp: or_eq_0_iff xor_eq_0_word byte_word_inj)
qed simp

text \<open>
  The constant-time comparison decides equality: folding every byte difference with
  \<open>OR\<close> and \<open>XOR\<close> on 8-bit words yields zero exactly for equal secrets.
\<close>

theorem constant_time_eq_correct: "constant_time_eq a b \<longleftrightarrow> a = b"
proof (cases "length a = length b")
  case True
  then show ?thesis
    by (simp add: constant_time_eq_def difference_fold)
       (auto simp: list_eq_iff_zip_eq)
qed (auto simp: constant_time_eq_def)

locale request_authenticator =
  fixes auth :: authenticator
  assumes fails_closed: "\<not> auth_configured auth \<Longrightarrow> \<not> auth_authenticate auth headers"
begin

lemma authenticated_configured: "auth_authenticate auth headers \<Longrightarrow> auth_configured auth"
  using fails_closed by blast

end

interpretation deny: request_authenticator deny_all_authenticator
  by unfold_locales (simp add: deny_all_authenticator_def)

interpretation shared: request_authenticator "shared_secret_authenticator secret" for secret
  by unfold_locales (simp add: shared_secret_authenticator_def)

section \<open>Responses\<close>

record error_body =
  eb_code :: string
  eb_safe_detail :: string

record batch_response =
  br_accepted :: nat
  br_rejected :: nat
  br_outcomes :: "push_outcome list"

record readiness_response =
  rdy_ok :: bool
  rdy_auth_configured :: bool
  rdy_auth_mode :: string
  rdy_providers :: registry_readiness

datatype response_body =
    HealthBody bool string
  | ReadinessBody readiness_response
  | OutcomeBody push_outcome
  | BatchBody batch_response
  | ErrorEnvelope error_body
  | ExtractorRejection string \<comment> \<open>axum's own text\<close>

record http_reply =
  hr_status :: nat
  hr_body :: response_body

definition reply :: "nat \<Rightarrow> response_body \<Rightarrow> http_reply" where
  "reply status body = \<lparr>hr_status = status, hr_body = body\<rparr>"

definition max_safe_detail_bytes :: nat where "max_safe_detail_bytes = 512"
definition max_batch_jobs :: nat where "max_batch_jobs = 100"
definition max_http_body_bytes :: nat where "max_http_body_bytes = 512 * 1024"

definition api_error :: "nat \<Rightarrow> string \<Rightarrow> string \<Rightarrow> http_reply" where
  "api_error status code detail =
     reply status (ErrorEnvelope
       \<lparr>eb_code = code, eb_safe_detail = truncate_utf8 detail max_safe_detail_bytes\<rparr>)"

definition unauthorized :: http_reply where
  "unauthorized = api_error 401 ''unauthorized'' ''request authentication failed''"

fun status_for_outcome :: "outcome_class \<Rightarrow> nat" where
  "status_for_outcome Accepted = 202"
| "status_for_outcome InvalidPayload = 400"
| "status_for_outcome InvalidToken = 422"
| "status_for_outcome Throttled = 429"
| "status_for_outcome TransientProviderFailure = 503"
| "status_for_outcome InternalFailure = 503"
| "status_for_outcome PermanentProviderFailure = 502"

section \<open>Dispatch of one job\<close>

fun provider_error_parts ::
  "provider_error \<Rightarrow> outcome_class \<times> string \<times> duration option \<times> string option" where
  "provider_error_parts (NotConfigured safe_reason) =
     (PermanentProviderFailure, safe_reason, None, Some ''provider_not_configured'')"
| "provider_error_parts (Delivery class safe_detail retry_after provider_code) =
     (class, safe_detail, retry_after, provider_code)"
| "provider_error_parts (Internal safe_detail) =
     (InternalFailure, safe_detail, None, Some ''internal_provider_error'')"

definition outcome_from_provider_error ::
  "externals \<Rightarrow> push_job \<Rightarrow> provider_error \<Rightarrow> push_outcome" where
  "outcome_from_provider_error X job e =
     (case provider_error_parts e of (class, safe_detail, retry_after, provider_code) \<Rightarrow>
       \<lparr>po_version = V1,
        po_job_id = pj_job_id job,
        po_provider = pj_provider job,
        po_target_fingerprint = fingerprint_target X (pj_target job),
        po_class = class,
        po_provider_code = provider_code,
        po_retry_after_ms = map_option duration_to_millis retry_after,
        po_safe_detail = Some (truncate_utf8 safe_detail max_safe_detail_bytes)\<rparr>)"

definition validation_outcome ::
  "externals \<Rightarrow> push_job \<Rightarrow> validation_error list \<Rightarrow> push_outcome" where
  "validation_outcome X job errors =
     \<lparr>po_version = V1,
      po_job_id = pj_job_id job,
      po_provider = pj_provider job,
      po_target_fingerprint = fingerprint_target X (pj_target job),
      po_class = InvalidPayload,
      po_provider_code = Some ''contract_validation_failed'',
      po_retry_after_ms = None,
      po_safe_detail = Some (truncate_utf8 (validation_report errors) max_safe_detail_bytes)\<rparr>"

definition dispatch_job ::
  "externals \<Rightarrow> provider_registry \<Rightarrow> push_job \<Rightarrow> world \<Rightarrow> push_outcome \<times> world" where
  "dispatch_job X reg job w =
     (case validate_push_job X job of
        Inl errors \<Rightarrow> (validation_outcome X job errors, w)
      | Inr _ \<Rightarrow>
          (case dispatch reg job w of
             (Inr outcome, w') \<Rightarrow> (outcome, w')
           | (Inl e, w') \<Rightarrow> (outcome_from_provider_error X job e, w')))"

section \<open>Handlers\<close>

record api_state =
  as_registry :: provider_registry
  as_authenticator :: authenticator

definition healthz :: http_reply where
  "healthz = reply 200 (HealthBody True ''push-notification-server'')"

definition readyz :: "api_state \<Rightarrow> http_reply" where
  "readyz st =
     (let auth_ok = auth_configured (as_authenticator st);
          provider_ok = has_configured_provider (as_registry st);
          status = (if auth_ok \<and> provider_ok then 200 else 503)
      in reply status (ReadinessBody
           \<lparr>rdy_ok = (status = 200), rdy_auth_configured = auth_ok,
            rdy_auth_mode = auth_mode (as_authenticator st),
            rdy_providers = registry_readiness (as_registry st)\<rparr>))"

definition submit_job ::
  "externals \<Rightarrow> api_state \<Rightarrow> header_map \<Rightarrow> push_job \<Rightarrow> world \<Rightarrow> http_reply \<times> world" where
  "submit_job X st headers job w =
     (if \<not> auth_authenticate (as_authenticator st) headers then (unauthorized, w)
      else case dispatch_job X (as_registry st) job w of
        (outcome, w') \<Rightarrow> (reply (status_for_outcome (po_class outcome)) (OutcomeBody outcome), w'))"

text \<open>\<open>stream::iter(jobs).then(f).collect()\<close>: one job after the other, in order.\<close>

fun run_each :: "('j \<Rightarrow> 'w \<Rightarrow> 'o \<times> 'w) \<Rightarrow> 'j list \<Rightarrow> 'w \<Rightarrow> 'o list \<times> 'w" where
  "run_each f [] w = ([], w)"
| "run_each f (j # js) w =
     (let (x, w1) = f j w; (xs, w2) = run_each f js w1 in (x # xs, w2))"

definition submit_batch ::
  "externals \<Rightarrow> api_state \<Rightarrow> header_map \<Rightarrow> push_job list \<Rightarrow> world \<Rightarrow> http_reply \<times> world" where
  "submit_batch X st headers jobs w =
     (if \<not> auth_authenticate (as_authenticator st) headers then (unauthorized, w)
      else if jobs = [] \<or> length jobs > max_batch_jobs
      then (api_error 400 ''invalid_batch_size''
              (''batch must contain 1 to '' @ show_nat max_batch_jobs @ '' jobs''), w)
      else case run_each (dispatch_job X (as_registry st)) jobs w of
        (outcomes, w') \<Rightarrow>
          let accepted = length (filter (\<lambda>out. po_class out = Accepted) outcomes);
              status = (if accepted = length outcomes then 202 else 207)
          in (reply status (BatchBody \<lparr>br_accepted = accepted,
                br_rejected = length outcomes - accepted, br_outcomes = outcomes\<rparr>), w'))"

text \<open>
  The router. \<open>extract\<close> and \<open>extract_batch\<close> stand for axum's \<open>Json\<close> extractor under the
  layer's body limit; a body they reject never reaches the handler.
\<close>

datatype api_request = GetHealthz | GetReadyz | PostJob string | PostBatch string

definition with_extracted ::
  "(nat \<times> string) + 'j \<Rightarrow> ('j \<Rightarrow> world \<Rightarrow> http_reply \<times> world) \<Rightarrow> world \<Rightarrow> http_reply \<times> world" where
  "with_extracted body handler w =
     (case body of Inl (status, rejection) \<Rightarrow> (reply status (ExtractorRejection rejection), w)
      | Inr j \<Rightarrow> handler j w)"

fun push_router ::
  "externals \<Rightarrow> (nat \<Rightarrow> string \<Rightarrow> (nat \<times> string) + push_job) \<Rightarrow>
   (nat \<Rightarrow> string \<Rightarrow> (nat \<times> string) + push_job list) \<Rightarrow> api_state \<Rightarrow> header_map \<Rightarrow> api_request \<Rightarrow>
   world \<Rightarrow> http_reply \<times> world" where
  "push_router X extract extract_batch st headers GetHealthz w = (healthz, w)"
| "push_router X extract extract_batch st headers GetReadyz w = (readyz st, w)"
| "push_router X extract extract_batch st headers (PostJob body) w =
     with_extracted (extract max_http_body_bytes body) (submit_job X st headers) w"
| "push_router X extract extract_batch st headers (PostBatch body) w =
     with_extracted (extract_batch max_http_body_bytes body) (submit_batch X st headers) w"

section \<open>Facts about submissions\<close>

lemma outcome_from_error_sel [simp, outcome_simps]:
  "po_job_id (outcome_from_provider_error X job e) = pj_job_id job"
  "po_provider (outcome_from_provider_error X job e) = pj_provider job"
  "po_target_fingerprint (outcome_from_provider_error X job e) = fingerprint_target X (pj_target job)"
  "po_class (outcome_from_provider_error X job e) = error_class e"
  by (cases e; simp add: outcome_from_provider_error_def)+

lemma validation_outcome_sel [simp, outcome_simps]:
  "po_job_id (validation_outcome X job es) = pj_job_id job"
  "po_provider (validation_outcome X job es) = pj_provider job"
  "po_target_fingerprint (validation_outcome X job es) = fingerprint_target X (pj_target job)"
  "po_class (validation_outcome X job es) = InvalidPayload"
  by (simp_all add: validation_outcome_def)

lemma dispatch_job_invalid:
  "\<not> push_job_ok X job \<Longrightarrow>
     dispatch_job X reg job w = (validation_outcome X job (push_job_errors X job), w)"
  by (simp add: dispatch_job_def validate_push_job_def push_job_errors_Nil [symmetric])

lemma dispatch_job_valid:
  "push_job_ok X job \<Longrightarrow>
     dispatch_job X reg job w =
       (case dispatch reg job w of
          (Inr outcome, w') \<Rightarrow> (outcome, w')
        | (Inl e, w') \<Rightarrow> (outcome_from_provider_error X job e, w'))"
  by (simp add: dispatch_job_def validate_push_job_def push_job_errors_Nil [symmetric])

text \<open>The outcome belongs to the job: same id, provider and target fingerprint.\<close>

definition outcome_of_job :: "externals \<Rightarrow> push_job \<Rightarrow> push_outcome \<Rightarrow> bool" where
  "outcome_of_job X job out \<longleftrightarrow> po_job_id out = pj_job_id job \<and> po_provider out = pj_provider job
     \<and> po_target_fingerprint out = fingerprint_target X (pj_target job)"

text \<open>
  What a batch handler relies on: every step yields an outcome that belongs to its job.
\<close>

locale job_service =
  fixes step :: "'j \<Rightarrow> 'w \<Rightarrow> 'o \<times> 'w" and belongs :: "'j \<Rightarrow> 'o \<Rightarrow> bool"
  assumes step_belongs: "step j w = (out, w') \<Longrightarrow> belongs j out"
begin

lemma run_each_belongs: "run_each step jobs w = (outs, w') \<Longrightarrow> list_all2 belongs jobs outs"
proof (induction jobs arbitrary: w outs w')
  case (Cons j js)
  then show ?case
    by (auto split: prod.splits dest: step_belongs)
qed simp

end

lemma run_each_length: "length (fst (run_each f jobs w)) = length jobs"
  by (induction jobs arbitrary: w) (auto split: prod.splits, metis fst_conv)

lemma run_each_append:
  "run_each f (js @ ks) w =
     (let (xs, w1) = run_each f js w; (ys, w2) = run_each f ks w1 in (xs @ ys, w2))"
  by (induction js arbitrary: w) (auto simp: Let_def split: prod.splits)

lemma all_counted: "length (filter P xs) = length xs \<longleftrightarrow> list_all P xs"
proof
  assume "length (filter P xs) = length xs"
  then show "list_all P xs"
    using length_filter_less [of _ xs P] by (force simp: list_all_iff)
qed (simp add: list_all_iff)

sublocale push_registry \<subseteq> jobs: job_service "dispatch_job X reg" "outcome_of_job X"
proof
  fix job w out w' assume d: "dispatch_job X reg job w = (out, w')"
  show "outcome_of_job X job out"
  proof (cases "push_job_ok X job")
    case True
    with d show ?thesis
      using dispatch_identity [of job w]
      by (auto simp: dispatch_job_valid outcome_of_job_def split: sum.splits prod.splits)
  next
    case False
    with d show ?thesis by (auto simp: dispatch_job_invalid outcome_of_job_def)
  qed
qed

section \<open>Properties\<close>

text \<open>
  A request that does not authenticate gets 401 and touches nothing; an authenticated job
  that fails validation gets 400 with an \<open>invalid_payload\<close> outcome and never reaches an
  adapter; every other job is dispatched once and answered with the status of its outcome
  class.
\<close>

theorem submit_job_spec:
  "submit_job X st headers job w =
     (if \<not> auth_authenticate (as_authenticator st) headers then (unauthorized, w)
      else if \<not> push_job_ok X job
      then (reply 400 (OutcomeBody (validation_outcome X job (push_job_errors X job))), w)
      else case dispatch (as_registry st) job w of
             (Inl e, w') \<Rightarrow> (reply (status_for_outcome (error_class e))
                (OutcomeBody (outcome_from_provider_error X job e)), w')
           | (Inr out, w') \<Rightarrow> (reply (status_for_outcome (po_class out)) (OutcomeBody out), w'))"
  by (auto simp: submit_job_def dispatch_job_invalid dispatch_job_valid split: prod.splits sum.splits)

text \<open>
  C19: A batch is answered as a whole: 401 or 400 without any effect, or one outcome per job in
  the order of the jobs, \<open>accepted\<close> counting the accepted ones, \<open>rejected\<close> the others, and
  202 exactly when all were accepted (207 otherwise).
\<close>

theorem submit_batch_spec:
  "case submit_batch X st headers jobs w of (rep, w') \<Rightarrow>
     if \<not> auth_authenticate (as_authenticator st) headers then rep = unauthorized \<and> w' = w
     else if \<not> (1 \<le> length jobs \<and> length jobs \<le> 100) then hr_status rep = 400 \<and> w' = w
     else \<exists>outs. run_each (dispatch_job X (as_registry st)) jobs w = (outs, w')
       \<and> length outs = length jobs
       \<and> hr_status rep = (if list_all (\<lambda>out. po_class out = Accepted) outs then 202 else 207)
       \<and> hr_body rep = BatchBody
           \<lparr>br_accepted = length (filter (\<lambda>out. po_class out = Accepted) outs),
            br_rejected = length (filter (\<lambda>out. po_class out \<noteq> Accepted) outs),
            br_outcomes = outs\<rparr>"
proof -
  obtain outs w' where r: "run_each (dispatch_job X (as_registry st)) jobs w = (outs, w')"
    by fastforce
  have len: "length outs = length jobs"
    using run_each_length [of "dispatch_job X (as_registry st)" jobs w] r by simp
  have rej: "length outs - length (filter (\<lambda>out. po_class out = Accepted) outs)
      = length (filter (\<lambda>out. po_class out \<noteq> Accepted) outs)"
    using sum_length_filter_compl [of "\<lambda>out. po_class out = Accepted" outs] by simp
  have size: "jobs = [] \<or> length jobs > max_batch_jobs \<longleftrightarrow> \<not> (1 \<le> length jobs \<and> length jobs \<le> 100)"
    by (cases jobs) (auto simp: max_batch_jobs_def)
  show ?thesis
    unfolding submit_batch_def size
    using r len rej by (simp add: reply_def api_error_def Let_def all_counted)
qed

lemma bearer_secret:
  "auth_authenticate (shared_secret_authenticator secret) headers
     \<longleftrightarrow> headers ''authorization'' = Some (''Bearer '' @ secret)"
proof -
  have "Option.bind (headers ''authorization'') (strip_prefix ''Bearer '') = Some v
      \<longleftrightarrow> headers ''authorization'' = Some (''Bearer '' @ v)" for v
    by (cases "headers ''authorization''") (auto simp: strip_prefix_def starts_with_iff)
  from this [of secret, symmetric] show ?thesis
    by (auto simp: shared_secret_authenticator_def shared_secret_authenticate_def
        constant_time_eq_def difference_fold list_eq_iff_zip_eq split: option.splits)
qed

text \<open>
  The shared-secret authenticator accepts exactly the header \<open>Bearer\<close> followed by the
  configured secret, a secret of 32 to 4096 bytes without control characters.
\<close>

theorem shared_secret_spec:
  "case shared_secret_new text of
     Inl _ \<Rightarrow> length (trim text) < 32 \<or> length (trim text) > 4096 \<or> any_char is_control (trim text)
   | Inr secret \<Rightarrow> 32 \<le> length secret \<and> length secret \<le> 4096
       \<and> (auth_authenticate (shared_secret_authenticator secret) headers
            \<longleftrightarrow> headers ''authorization'' = Some (''Bearer '' @ secret))"
  by (auto simp: shared_secret_new_def Let_def not_less bearer_secret)

end
