(* ===== verification/Environment.thy ===== *)
theory Environment
  imports Rust_Std
begin

text \<open>
  Reading configuration from environment variables, as the ingestion and runtime modules do:
  \<open>std::env::var\<close> and the small readers on top of it (\<open>src/nats_ingestion.rs\<close>,
  \<open>src/contact_nats_ingestion.rs\<close>, \<open>src/runtime.rs\<close> and \<open>src/contact/runtime.rs\<close> each define
  these readers).
\<close>

datatype env_var = NotPresent | NotUnicode | Present string

type_synonym environment = "string \<Rightarrow> env_var"

text \<open>\<open>env::var(name).ok()\<close>\<close>

definition env_ok :: "environment \<Rightarrow> string \<Rightarrow> string option" where
  "env_ok env name = (case env name of Present v \<Rightarrow> Some v | _ \<Rightarrow> None)"

definition non_empty_env :: "environment \<Rightarrow> string \<Rightarrow> string option" where
  "non_empty_env env name = opt_filter (\<lambda>v. v \<noteq> []) (map_option trim (env_ok env name))"

definition env_value :: "environment \<Rightarrow> string \<Rightarrow> string \<Rightarrow> string" where
  "env_value env name d = unwrap_or d (non_empty_env env name)"

definition is_truthy :: "string \<Rightarrow> bool" where
  "is_truthy v \<longleftrightarrow> v \<in> set [''1'', ''true'', ''yes'', ''on'']"

definition environment_flag :: "environment \<Rightarrow> string \<Rightarrow> bool" where
  "environment_flag env name =
     is_some_and (\<lambda>v. is_truthy (to_ascii_lowercase (trim v))) (env_ok env name)"

text \<open>\<open>parse().ok().filter(|value| *value > 0)\<close>; the error names the variable.\<close>

datatype env_error = InvalidPositiveInteger string

definition positive_u64 :: "environment \<Rightarrow> string \<Rightarrow> nat \<Rightarrow> env_error + nat" where
  "positive_u64 env name d =
     (case non_empty_env env name of
        None \<Rightarrow> Ok d
      | Some v \<Rightarrow> ok_or (InvalidPositiveInteger name) (opt_filter (\<lambda>n. 0 < n) (parse_uint 64 v)))"

definition positive_i64 :: "environment \<Rightarrow> string \<Rightarrow> i64 \<Rightarrow> env_error + i64" where
  "positive_i64 env name d =
     (case non_empty_env env name of
        None \<Rightarrow> Ok d
      | Some v \<Rightarrow> ok_or (InvalidPositiveInteger name)
          (map_option of_int (opt_filter (\<lambda>n. 0 < n) (parse_sint 64 v))))"

definition positive_usize :: "environment \<Rightarrow> string \<Rightarrow> nat \<Rightarrow> env_error + nat" where
  "positive_usize env name d =
     (case non_empty_env env name of
        None \<Rightarrow> Ok d
      | Some v \<Rightarrow> ok_or (InvalidPositiveInteger name) (opt_filter (\<lambda>n. 0 < n) (parse_uint 64 v)))"

lemma non_empty_env_Some: "non_empty_env env name = Some v \<Longrightarrow> v \<noteq> []"
  by (auto simp: non_empty_env_def opt_filter_eq_Some)

lemma env_value_non_empty: "d \<noteq> [] \<Longrightarrow> env_value env name d \<noteq> []"
  by (cases "non_empty_env env name") (auto simp: env_value_def dest: non_empty_env_Some)

lemma positive_error:
  "positive_u64 env name d = Inl e \<Longrightarrow> e = InvalidPositiveInteger name \<and> non_empty_env env name \<noteq> None"
  "positive_usize env name d = Inl e \<Longrightarrow> e = InvalidPositiveInteger name \<and> non_empty_env env name \<noteq> None"
  "positive_i64 env name n = Inl e \<Longrightarrow> e = InvalidPositiveInteger name \<and> non_empty_env env name \<noteq> None"
  by (auto simp: positive_u64_def positive_usize_def positive_i64_def ok_or_def split: option.splits)

lemma positive_u64_pos: "positive_u64 env name d = Ok n \<Longrightarrow> 0 < d \<Longrightarrow> 0 < n"
  by (auto simp: positive_u64_def opt_filter_eq_Some split: option.splits)

lemma positive_usize_pos: "positive_usize env name d = Ok n \<Longrightarrow> 0 < d \<Longrightarrow> 0 < n"
  by (auto simp: positive_usize_def opt_filter_eq_Some split: option.splits)

lemma positive_i64_pos: "positive_i64 env name d = Ok n \<Longrightarrow> 0 < sint d \<Longrightarrow> 0 < sint n"
proof (cases "non_empty_env env name")
  case (Some v)
  assume "positive_i64 env name d = Ok n"
  with Some obtain i where i: "parse_sint 64 v = Some i" "0 < i" and n: "n = of_int i"
    by (auto simp: positive_i64_def opt_filter_eq_Some)
  have "i < 2 ^ 63" using parse_sint_bound [OF i(1)] by simp
  then have "sint (of_int i :: i64) = i"
    using i(2) by (simp add: signed_of_int signed_take_bit_int_eq_self)
  with i n show "0 < sint n" by simp
qed (simp add: positive_i64_def)

section \<open>What the readers mean\<close>

text \<open>A set variable whose value is not a positive integer of the type, and the value it stands for.\<close>

definition bad_unsigned :: "environment \<Rightarrow> string \<Rightarrow> bool" where
  "bad_unsigned env name \<longleftrightarrow>
     is_some_and (\<lambda>v. parse_uint 64 v = None \<or> parse_uint 64 v = Some 0) (non_empty_env env name)"

definition bad_signed :: "environment \<Rightarrow> string \<Rightarrow> bool" where
  "bad_signed env name \<longleftrightarrow>
     is_some_and (\<lambda>v. is_none_or (\<lambda>i. i \<le> 0) (parse_sint 64 v)) (non_empty_env env name)"

definition env_unsigned :: "environment \<Rightarrow> string \<Rightarrow> nat \<Rightarrow> nat" where
  "env_unsigned env name d = unwrap_or d (Option.bind (non_empty_env env name) (parse_uint 64))"

definition env_signed :: "environment \<Rightarrow> string \<Rightarrow> int \<Rightarrow> int" where
  "env_signed env name d = unwrap_or d (Option.bind (non_empty_env env name) (parse_sint 64))"

lemma positive_unsigned_eq:
  "positive_u64 env name d =
     (if bad_unsigned env name then Err (InvalidPositiveInteger name) else Ok (env_unsigned env name d))"
  "positive_usize env name d =
     (if bad_unsigned env name then Err (InvalidPositiveInteger name) else Ok (env_unsigned env name d))"
  by (auto simp: positive_u64_def positive_usize_def bad_unsigned_def env_unsigned_def opt_filter_def
      ok_or_def split: option.splits)

lemma positive_i64_eq:
  "positive_i64 env name (of_int d) =
     (if bad_signed env name then Err (InvalidPositiveInteger name) else Ok (of_int (env_signed env name d)))"
  by (auto simp: positive_i64_def bad_signed_def env_signed_def opt_filter_def ok_or_def not_le
      split: option.splits)

lemma env_unsigned_pos: "\<not> bad_unsigned env name \<Longrightarrow> 0 < d \<Longrightarrow> 0 < env_unsigned env name d"
  by (cases "non_empty_env env name") (auto simp: bad_unsigned_def env_unsigned_def)

lemma env_signed_pos: "\<not> bad_signed env name \<Longrightarrow> 0 < d \<Longrightarrow> d < 2 ^ 63 \<Longrightarrow>
    0 < sint (of_int (env_signed env name d) :: i64)"
  using positive_i64_pos [of env name "of_int d" "of_int (env_signed env name d)"]
  by (simp add: positive_i64_eq signed_of_int signed_take_bit_int_eq_self)

end
