(* ===== verification/Adapter.thy ===== *)
theory Adapter
  imports Provider
begin

text \<open>
  What every provider adapter is written with: the sequencing of fallible steps on the world
  (Rust's \<open>.await?\<close>), the clock, \<open>Retry-After\<close> and transport helpers the adapter files
  repeat, and the token cache behind a mutex. \<open>step_frame\<close> is the contract of a relation
  between worlds that every step may be shown to respect, \<open>cache_slot\<close> that of the mutex
  guarding a cached token.
\<close>

section \<open>Fallible steps\<close>

type_synonym ('e, 'w, 'a) io = "'w \<Rightarrow> ('e + 'a) \<times> 'w"

definition io_return :: "'a \<Rightarrow> ('e, 'w, 'a) io" where "io_return x w = (Ok x, w)"
definition io_throw :: "'e \<Rightarrow> ('e, 'w, 'a) io" where "io_throw e w = (Err e, w)"
definition io_lift :: "'e + 'a \<Rightarrow> ('e, 'w, 'a) io" where "io_lift r w = (r, w)"

text \<open>\<open>let x = m.await?; f x\<close>.\<close>

definition io_bind :: "('e, 'w, 'a) io \<Rightarrow> ('a \<Rightarrow> ('e, 'w, 'b) io) \<Rightarrow> ('e, 'w, 'b) io" where
  "io_bind m f w = (case m w of (Inl e, w') \<Rightarrow> (Inl e, w') | (Inr x, w') \<Rightarrow> f x w')"

text \<open>A step that cannot fail.\<close>

definition io_step :: "('w \<Rightarrow> 'a \<times> 'w) \<Rightarrow> ('e, 'w, 'a) io" where
  "io_step m w = (case m w of (x, w') \<Rightarrow> (Ok x, w'))"

text \<open>Every error of \<open>m\<close> satisfies \<open>E\<close>, every result \<open>Q\<close>.\<close>

definition io_post :: "('e \<Rightarrow> bool) \<Rightarrow> ('a \<Rightarrow> bool) \<Rightarrow> ('e, 'w, 'a) io \<Rightarrow> bool" where
  "io_post E Q m \<longleftrightarrow> (\<forall>w. case fst (m w) of Inl e \<Rightarrow> E e | Inr x \<Rightarrow> Q x)"

lemma io_postD:
  "io_post E Q m \<Longrightarrow> m w = (Inl e, w') \<Longrightarrow> E e"
  "io_post E Q m \<Longrightarrow> m w = (Inr x, w') \<Longrightarrow> Q x"
  by (metis io_post_def fst_conv sum.case)+

named_theorems io_post_intros \<open>rules for the errors and results of a step\<close>
named_theorems io_frame_intros \<open>rules for the worlds a step relates\<close>

lemma io_post_simps [simp]:
  "io_post E Q (io_return x) \<longleftrightarrow> Q x"
  "io_post E Q (io_throw e) \<longleftrightarrow> E e"
  "io_post E Q (io_lift r) \<longleftrightarrow> (case r of Inl e \<Rightarrow> E e | Inr x \<Rightarrow> Q x)"
  by (simp_all add: io_post_def io_return_def io_throw_def io_lift_def)

lemma io_post_bind [io_post_intros]:
  assumes "io_post E R m" and "\<And>x. R x \<Longrightarrow> io_post E Q (f x)"
  shows "io_post E Q (io_bind m f)"
  unfolding io_post_def
proof
  fix w
  show "case fst (io_bind m f w) of Inl e \<Rightarrow> E e | Inr x \<Rightarrow> Q x"
  proof (cases "m w")
    case (Pair r w')
    with assms show ?thesis
      by (cases r) (auto simp: io_bind_def io_post_def, (metis fst_conv sum.case)+)
  qed
qed

lemma io_post_step [io_post_intros]:
  "(\<And>w. Q (fst (m w))) \<Longrightarrow> io_post E Q (io_step m)"
  by (simp add: io_post_def io_step_def split_beta)

lemma io_post_weaken:
  "io_post E R m \<Longrightarrow> (\<And>e. E e \<Longrightarrow> E' e) \<Longrightarrow> (\<And>x. R x \<Longrightarrow> Q x) \<Longrightarrow> io_post E' Q m"
  by (auto simp: io_post_def split: sum.splits)

lemma io_post_cases:
  "io_post E Q (if b then m else m') \<longleftrightarrow> (b \<longrightarrow> io_post E Q m) \<and> (\<not> b \<longrightarrow> io_post E Q m')"
  by simp

section \<open>Frames\<close>

text \<open>A reflexive and transitive relation between the world before and after a step.\<close>

definition io_frame :: "('w \<Rightarrow> 'w \<Rightarrow> bool) \<Rightarrow> ('e, 'w, 'a) io \<Rightarrow> bool" where
  "io_frame R m \<longleftrightarrow> (\<forall>w. R w (snd (m w)))"

locale step_frame =
  fixes R :: "'w \<Rightarrow> 'w \<Rightarrow> bool"
  assumes R_refl: "R w w" and R_trans: "R w w' \<Longrightarrow> R w' w'' \<Longrightarrow> R w w''"
begin

lemma frame_pure [simp]:
  "io_frame R (io_return x)" "io_frame R (io_throw e)" "io_frame R (io_lift r)"
  by (simp_all add: io_frame_def io_return_def io_throw_def io_lift_def R_refl)

lemma frame_bind: "io_frame R m \<Longrightarrow> (\<And>x. io_frame R (f x)) \<Longrightarrow> io_frame R (io_bind m f)"
  unfolding io_frame_def io_bind_def
  by (auto split: prod.splits sum.splits) (metis snd_conv R_trans)+

lemma frame_lift_bind:
  "(\<And>x. r = Ok x \<Longrightarrow> io_frame R (f x)) \<Longrightarrow> io_frame R (io_bind (io_lift r) f)"
  by (cases r) (auto simp: io_frame_def io_bind_def io_lift_def R_refl)

lemma frame_step: "(\<And>w. R w (snd (m w))) \<Longrightarrow> io_frame R (io_step m)"
  by (simp add: io_frame_def io_step_def split_beta)

end

lemma io_frameD: "io_frame R m \<Longrightarrow> m w = (r, w') \<Longrightarrow> R w w'"
  by (metis io_frame_def snd_conv)

text \<open>The requests of a step all satisfy \<open>P\<close>; with \<open>P\<close> false, it sends nothing.\<close>

definition sends :: "(http_request \<Rightarrow> bool) \<Rightarrow> world \<Rightarrow> world \<Rightarrow> bool" where
  "sends P w w' \<longleftrightarrow> (\<exists>rqs. w_sent w' = w_sent w @ rqs \<and> list_all P rqs)"

lemma sends_traffic: "sends P w w' \<longleftrightarrow> w_sent w' = w_sent w @ traffic w w' \<and> list_all P (traffic w w')"
  by (auto simp: sends_def traffic_def)

lemma sends_False: "sends (\<lambda>rq. False) w w' \<longleftrightarrow> silent w w'"
  by (auto simp: sends_def silent_def list_all_iff)

lemma sends_mono: "sends P w w' \<Longrightarrow> (\<And>rq. P rq \<Longrightarrow> Q rq) \<Longrightarrow> sends Q w w'"
  by (auto simp: sends_def list_all_iff)

text \<open>The token caches are the same.\<close>

definition same_caches :: "world \<Rightarrow> world \<Rightarrow> bool" where
  "same_caches w w' \<longleftrightarrow> w_fcm_token w' = w_fcm_token w
     \<and> w_apns_production_token w' = w_apns_production_token w
     \<and> w_apns_sandbox_token w' = w_apns_sandbox_token w"

interpretation sent: step_frame "sends P" for P
  by unfold_locales (auto simp: sends_def)

interpretation quiet: step_frame silent
  by unfold_locales (auto simp: silent_def)

interpretation caches: step_frame same_caches
  by unfold_locales (auto simp: same_caches_def)

lemma silent_steps [simp]:
  "silent w (snd (system_now w))" "silent w (snd (instant_now w))"
  "silent w (snd (lookup_host h w))"
  "same_caches w (snd (system_now w))" "same_caches w (snd (instant_now w))"
  "same_caches w (snd (http_send rq w))" "same_caches w (snd (lookup_host h w))"
  by (simp_all add: silent_def same_caches_def system_now_def instant_now_def http_send_def
      lookup_host_def Let_def)

lemma silent_sends: "silent w w' \<Longrightarrow> sends P w w'"
  by (auto simp: silent_def sends_def)

lemma sends_http [simp]: "P rq \<Longrightarrow> sends P w (snd (http_send rq w))"
  by (simp add: sends_def http_send_def Let_def)

section \<open>Helpers of the adapter files\<close>

text \<open>\<open>SystemTime::now().duration_since(UNIX_EPOCH)\<close>, in whole seconds.\<close>

definition unix_now :: "(provider_error, world, u64) io" where
  "unix_now = io_bind (io_step system_now) (\<lambda>now.
     if now < 0 then io_throw (err_internal ''system clock is before the Unix epoch'')
     else io_return (of_nat (nat now div 1000000000)))"

text \<open>
  The \<open>Retry-After\<close> header of a response; the clock is read only when the header is text.
\<close>

definition response_retry_after ::
  "externals \<Rightarrow> http_response \<Rightarrow> world \<Rightarrow> duration option \<times> world" where
  "response_retry_after X rs w =
     (case rs_header rs ''retry-after'' of
        None \<Rightarrow> (None, w)
      | Some v \<Rightarrow> (case system_now w of (now, w') \<Rightarrow> (parse_retry_after X v now, w')))"

text \<open>\<open>.send().await.map_err(..)?\<close>: a transport failure is a retryable delivery error.\<close>

definition send_request ::
  "string \<Rightarrow> string \<Rightarrow> http_request \<Rightarrow> (provider_error, world, http_response) io" where
  "send_request what code rq =
     io_bind (io_step (http_send rq)) (\<lambda>answer.
       case answer of
         Failed e \<Rightarrow> io_throw (err_delivery TransientProviderFailure (what @ '': '' @ te_text e)
           None (Some code))
       | Answered rs \<Rightarrow> io_return rs)"

text \<open>\<open>response.text().await.map_err(..)?\<close>\<close>

definition read_text ::
  "string \<Rightarrow> string \<Rightarrow> duration option \<Rightarrow> http_response \<Rightarrow> (provider_error, world, string) io" where
  "read_text what code retry_after rs =
     io_lift (ok_or (err_delivery TransientProviderFailure what retry_after (Some code)) (rs_text rs))"

definition string_entry :: "string \<Rightarrow> string option \<Rightarrow> (string \<times> json) option" where
  "string_entry key s = map_option (\<lambda>v. (key, JStr v)) s"

definition eq_ignore_ascii_case :: "string \<Rightarrow> string \<Rightarrow> bool" where
  "eq_ignore_ascii_case a b \<longleftrightarrow> to_ascii_lowercase a = to_ascii_lowercase b"

text \<open>The validation step every adapter starts with.\<close>

definition contract_check :: "externals \<Rightarrow> push_job \<Rightarrow> provider_error + unit" where
  "contract_check X job =
     map_err (\<lambda>errors. invalid_payload (validation_report errors) ''contract_validation_failed'')
       (validate_push_job X job)"

definition bounded_wait :: "duration option \<Rightarrow> bool" where
  "bounded_wait r \<longleftrightarrow> is_none_or (\<lambda>d. d \<le> max_retry_after) r"

lemma bounded_wait_None [simp]: "bounded_wait None"
  by (simp add: bounded_wait_def)

lemma error_bounded_delivery [simp]: "bounded_wait r \<Longrightarrow> error_bounded (err_delivery c s r k)"
  by (simp add: bounded_wait_def)

lemma bounded_retry_after [simp]: "bounded_wait (fst (response_retry_after X rs w))"
  by (auto simp: response_retry_after_def bounded_wait_def is_none_or_def
      dest: parse_retry_after_bound split: option.splits prod.splits)

lemma bounded_classify [simp]: "bounded_wait (rd_retry_after (classify_http_status st r))"
  by (auto simp: bounded_wait_def is_none_or_def dest: classify_http_status_bound split: option.splits)

lemma retry_after_steps [simp]:
  "silent w (snd (response_retry_after X rs w))" "same_caches w (snd (response_retry_after X rs w))"
  by (auto simp: response_retry_after_def system_now_def silent_def same_caches_def
      split: option.splits)

lemma contract_check_eq:
  "contract_check X job =
     (if push_job_ok X job then Ok ()
      else Err (invalid_payload (validation_report (push_job_errors X job))
             ''contract_validation_failed''))"
  by (simp add: contract_check_def validate_push_job_def push_job_errors_Nil)

lemma unix_now_post [io_post_intros]:
  "(\<And>t. Q t) \<Longrightarrow> io_post error_bounded Q unix_now"
  unfolding unix_now_def by (rule io_post_bind [where R = "\<lambda>_. True"]) (auto intro: io_post_step)

lemma send_request_post [io_post_intros]:
  "(\<And>rs. Q rs) \<Longrightarrow> io_post error_bounded Q (send_request what code rq)"
  unfolding send_request_def
  by (rule io_post_bind [where R = "\<lambda>_. True"]) (auto intro: io_post_step split: http_answer.splits)

lemma read_text_post [io_post_intros]:
  "bounded_wait r \<Longrightarrow> (\<And>t. Q t) \<Longrightarrow> io_post error_bounded Q (read_text what code r rs)"
  by (cases "rs_text rs") (simp_all add: read_text_def)

lemma retry_after_post [io_post_intros]:
  "(\<And>r. bounded_wait r \<Longrightarrow> Q r) \<Longrightarrow> io_post E Q (io_step (response_retry_after X rs))"
  by (rule io_post_step) simp

lemma contract_check_bind:
  "io_bind (io_lift (contract_check X job)) f w =
     (if push_job_ok X job then f () w
      else (Err (invalid_payload (validation_report (push_job_errors X job))
              ''contract_validation_failed''), w))"
  by (simp add: io_bind_def io_lift_def contract_check_eq)

lemma contract_check_post [io_post_intros]:
  "(push_job_ok X job \<Longrightarrow> Q ()) \<Longrightarrow> io_post error_bounded Q (io_lift (contract_check X job))"
  by (simp add: contract_check_eq)

lemma lift_ok_or_post [io_post_intros]:
  "E e \<Longrightarrow> (\<And>x. r = Some x \<Longrightarrow> Q x) \<Longrightarrow> io_post E Q (io_lift (ok_or e r))"
  by (cases r) simp_all

lemma sends_helpers [io_frame_intros]:
  "io_frame (sends P) unix_now"
  "P rq \<Longrightarrow> io_frame (sends P) (send_request what code rq)"
  "io_frame (sends P) (read_text what code r rs)"
  "io_frame (sends P) (io_step (response_retry_after X rs))"
  "io_frame (sends P) (io_step instant_now)"
  "io_frame (sends P) (io_step (lookup_host h))"
  by (auto simp: unix_now_def send_request_def read_text_def silent_sends
      intro!: sent.frame_bind sent.frame_step split: http_answer.splits)

lemma cache_helpers [io_frame_intros]:
  "io_frame same_caches unix_now"
  "io_frame same_caches (send_request what code rq)"
  "io_frame same_caches (read_text what code r rs)"
  "io_frame same_caches (io_step (response_retry_after X rs))"
  "io_frame same_caches (io_step instant_now)"
  "io_frame same_caches (io_step (lookup_host h))"
  by (auto simp: unix_now_def send_request_def read_text_def
      intro!: caches.frame_bind caches.frame_step split: http_answer.splits)

lemma quiet_helpers:
  "io_frame silent (read_text what code r rs)"
  "io_frame silent (io_step (response_retry_after X rs))"
  "io_frame silent (io_step instant_now)"
  by (auto simp: read_text_def intro!: quiet.frame_step)

lemmas [io_frame_intros] = sent.frame_bind caches.frame_bind

text \<open>A request followed by steps that send nothing is exactly one request.\<close>

lemma one_request:
  assumes "\<And>rs. io_frame silent (f rs)"
  shows "w_sent (snd (io_bind (send_request what code rq) f w)) = w_sent w @ [rq]"
  using assms
  by (auto simp: io_frame_def silent_def send_request_def io_bind_def io_step_def http_send_def Let_def
      io_throw_def io_return_def split: http_answer.splits)

lemma io_lift_simps [simp]:
  "io_bind (io_lift (Inl e)) f = io_throw e" "io_bind (io_lift (Inr x)) f = f x"
  "io_bind (io_throw e) f = io_throw e"
  by (simp_all add: io_bind_def io_lift_def io_throw_def fun_eq_iff)

lemma io_lift_and_then:
  "io_bind (io_lift (and_then r f)) g = io_bind (io_lift r) (\<lambda>x. io_bind (io_lift (f x)) g)"
  by (cases r) (auto simp: io_bind_def io_lift_def fun_eq_iff)

lemma io_bind_assoc: "io_bind (io_bind m f) g = io_bind m (\<lambda>x. io_bind (f x) g)"
  by (auto simp: io_bind_def fun_eq_iff split: prod.splits sum.splits)

text \<open>
  The outcome belongs to the job and to an adapter of kind \<open>k\<close>.
\<close>

definition answers :: "externals \<Rightarrow> provider_kind \<Rightarrow> push_job \<Rightarrow> push_outcome \<Rightarrow> bool" where
  "answers X k job out \<longleftrightarrow> po_job_id out = pj_job_id job \<and> po_provider out = k
     \<and> po_target_fingerprint out = fingerprint_target X (pj_target job)"

lemma push_job_ok_provider: "push_job_ok X job \<Longrightarrow> pj_provider job = target_provider (pj_target job)"
  by (simp add: push_job_ok_def)

text \<open>
  How an adapter is shown to meet the contract: its sending method checks the job, refuses
  foreign targets, and its answers satisfy \<open>io_post\<close>.
\<close>

lemma push_adapterI:
  assumes send: "\<And>job. pp_send p job = io_bind (io_lift (contract_check X job)) (\<lambda>_. deliver job)"
    and foreign: "\<And>job. target_provider (pj_target job) \<noteq> pp_kind p \<Longrightarrow>
        \<exists>detail code. deliver job = io_throw (invalid_payload detail code)"
    and post: "\<And>job. push_job_ok X job \<Longrightarrow>
        io_post error_bounded (answers X (pp_kind p) job) (deliver job)"
    and ready: "pr_configured (pp_readiness p)"
  shows "push_adapter X p"
proof
  fix job w out w' assume s: "pp_send p job w = (Inr out, w')"
  then have "push_job_ok X job" "deliver job w = (Inr out, w')"
    by (auto simp: send contract_check_bind split: if_splits)
  then show "po_job_id out = pj_job_id job \<and> po_provider out = pp_kind p
      \<and> po_target_fingerprint out = fingerprint_target X (pj_target job)"
    using io_postD(2) [OF post] by (auto simp: answers_def)
next
  fix job w e w' assume "pp_send p job w = (Inl e, w')"
  then show "error_bounded e"
    using io_postD(1) [OF post] by (auto simp: send contract_check_bind split: if_splits)
next
  fix job w assume "\<not> push_job_ok X job"
  then show "\<exists>e w'. pp_send p job w = (Inl e, w') \<and> error_class e = InvalidPayload \<and> silent w w'"
    by (simp add: send contract_check_bind)
next
  fix job :: push_job and w :: world assume "target_provider (pj_target job) \<noteq> pp_kind p"
  from foreign [OF this] obtain detail code where "deliver job = io_throw (invalid_payload detail code)"
    by blast
  then show "\<exists>e w'. pp_send p job w = (Inl e, w') \<and> error_class e = InvalidPayload \<and> silent w w'"
    by (simp add: send contract_check_bind io_throw_def)
qed (rule ready)

section \<open>The token cache\<close>

text \<open>
  A token is reused while the monotonic clock is before its expiry, otherwise minted under
  the lock and stored. \<open>get\<close> and \<open>put\<close> are the guarded slot.
\<close>

definition cached_or_mint ::
  "(world \<Rightarrow> cached_token option) \<Rightarrow> (cached_token \<Rightarrow> world \<Rightarrow> world) \<Rightarrow>
   (provider_error, world, cached_token) io \<Rightarrow> (provider_error, world, string) io" where
  "cached_or_mint get put mint w =
     (let refresh = io_bind mint (\<lambda>t w'. (Ok (ct_value t), put t w')) in
      case get w of
        None \<Rightarrow> refresh w
      | Some cached \<Rightarrow>
          (case instant_now w of (now, w') \<Rightarrow>
             if ct_expires_at cached > now then (Ok (ct_value cached), w') else refresh w'))"

locale cache_slot =
  fixes get :: "world \<Rightarrow> cached_token option" and put :: "cached_token \<Rightarrow> world \<Rightarrow> world"
  assumes get_put: "get (put t w) = Some t"
    and put_silent: "silent w (put t w)"
    and get_clock: "get (snd (instant_now w)) = get w"
begin

text \<open>A live token is returned without minting: nothing but the clock is touched.\<close>

lemma live_token_reused:
  assumes "get w = Some c" and "fst (instant_now w) < ct_expires_at c"
  shows "cached_or_mint get put mint w = (Ok (ct_value c), snd (instant_now w))"
  using assms by (simp add: cached_or_mint_def split_beta)

text \<open>An expired or absent token is never returned: the result is the freshly minted one.\<close>

lemma stale_token_replaced:
  assumes "\<And>c. get w = Some c \<Longrightarrow> ct_expires_at c \<le> fst (instant_now w)"
    and "cached_or_mint get put mint w = (Ok v, w')"
  shows "\<exists>t w0 w1. mint w0 = (Ok t, w1) \<and> silent w w0 \<and> v = ct_value t \<and> w' = put t w1
    \<and> get w' = Some t"
proof -
  have refresh: "\<exists>t w1. mint w0 = (Ok t, w1) \<and> v = ct_value t \<and> w' = put t w1"
    if "io_bind mint (\<lambda>t w'. (Ok (ct_value t), put t w')) w0 = (Ok v, w')" for w0
    using that by (auto simp: io_bind_def split: prod.splits sum.splits)
  show ?thesis
  proof (cases "get w")
    case None
    with assms(2) have "io_bind mint (\<lambda>t w'. (Ok (ct_value t), put t w')) w = (Ok v, w')"
      by (simp add: cached_or_mint_def)
    from refresh [OF this] show ?thesis using get_put silent_refl by blast
  next
    case (Some c)
    with assms have "io_bind mint (\<lambda>t w'. (Ok (ct_value t), put t w')) (snd (instant_now w)) = (Ok v, w')"
      by (force simp: cached_or_mint_def split_beta not_less)
    from refresh [OF this] show ?thesis using get_put silent_steps(2) by blast
  qed
qed

text \<open>A failed mint leaves the cache as the mint left it: no token is stored.\<close>

lemma failed_mint_stores_nothing:
  assumes "cached_or_mint get put mint w = (Err e, w')"
    and "\<And>w r w'. mint w = (r, w') \<Longrightarrow> get w' = get w"
  shows "get w' = get w"
  using assms get_clock
  by (auto simp: cached_or_mint_def io_bind_def split_beta Let_def
      split: option.splits prod.splits sum.splits if_splits) (metis prod.collapse)+

lemma cached_or_mint_post:
  assumes "io_post E (\<lambda>_. True) mint" and "\<And>v. Q v"
  shows "io_post E Q (cached_or_mint get put mint)"
proof -
  have "E e" if "fst (mint w) = Inl e" for w e
    using assms(1) that by (auto simp: io_post_def dest: spec [of _ w])
  then show ?thesis
    unfolding io_post_def cached_or_mint_def io_bind_def
    using assms(2) by (auto simp: split_beta Let_def split: option.splits prod.splits sum.splits)
qed

lemma cached_or_mint_sends:
  assumes "io_frame (sends P) mint"
  shows "io_frame (sends P) (cached_or_mint get put mint)"
proof -
  have put: "sends P w0 (put t w)" if "sends P w0 w" for t w w0
    using that put_silent [of w t] by (auto simp: sends_def silent_def)
  have refresh: "sends P w (snd (io_bind mint (\<lambda>t w'. (Ok (ct_value t), put t w')) w))" for w
    using assms [unfolded io_frame_def, rule_format, of w] put
    by (auto simp: io_bind_def split: prod.splits sum.splits)
  have "sends P w (snd (io_bind mint (\<lambda>t w'. (Ok (ct_value t), put t w')) (snd (instant_now w))))" for w
    using refresh [of "snd (instant_now w)"] sent.R_trans silent_sends silent_steps(2) by blast
  with refresh show ?thesis
    by (auto simp: io_frame_def cached_or_mint_def split_beta Let_def silent_sends split: option.splits)
qed

end

text \<open>The three slots of the program.\<close>

definition put_fcm_token :: "cached_token \<Rightarrow> world \<Rightarrow> world" where
  "put_fcm_token t w = w\<lparr>w_fcm_token := Some t\<rparr>"

definition apns_slot :: "provider_environment \<Rightarrow> world \<Rightarrow> cached_token option" where
  "apns_slot env w = (case env of Production \<Rightarrow> w_apns_production_token w
     | Sandbox \<Rightarrow> w_apns_sandbox_token w)"

definition put_apns_token :: "provider_environment \<Rightarrow> cached_token \<Rightarrow> world \<Rightarrow> world" where
  "put_apns_token env t w =
     (case env of Production \<Rightarrow> w\<lparr>w_apns_production_token := Some t\<rparr>
      | Sandbox \<Rightarrow> w\<lparr>w_apns_sandbox_token := Some t\<rparr>)"

interpretation fcm_cache: cache_slot w_fcm_token put_fcm_token
  by unfold_locales (simp_all add: put_fcm_token_def silent_def instant_now_def)

interpretation apns_cache: cache_slot "apns_slot env" "put_apns_token env" for env
  by unfold_locales (cases env; simp add: put_apns_token_def apns_slot_def silent_def instant_now_def)+

end
