(* ===== verification/Fcm.thy ===== *)
theory Fcm
  imports Adapter
begin

text \<open>
  The FCM HTTP v1 adapter (\<open>src/providers/fcm.rs\<close>): service-account configuration, the OAuth
  token mint behind the cache, the message body, delivery and the classification of answers.
  Typed JSON decoding and RSA signing are the codec argument. The adapter is an instance of
  \<open>push_adapter\<close>, and its token slot of \<open>cache_slot\<close>.
\<close>

section \<open>Configuration\<close>

record fcm_document =
  fd_client_email :: string
  fd_private_key :: string
  fd_token_uri :: string
  fd_project_id :: "string option"

record fcm_claims =
  fcl_iss :: string
  fcl_scope :: string
  fcl_aud :: string
  fcl_iat :: u64
  fcl_exp :: u64

record fcm_token_response =
  ftr_access_token :: string
  ftr_expires_in :: "u64 option"
  ftr_token_type :: "string option"

record fcm_oauth_error =
  foe_error :: "string option"
  foe_error_description :: "string option"

text \<open>\<open>serde\<close>'s decoding of the documents above, and \<open>jsonwebtoken\<close>.\<close>

record fcm_codec =
  fx_document :: "string \<Rightarrow> fcm_document option"
  fx_rsa_key :: "string \<Rightarrow> string option"
  fx_encode :: "fcm_claims \<Rightarrow> string \<Rightarrow> string option"
  fx_token_response :: "string \<Rightarrow> fcm_token_response option"
  fx_oauth_error :: "string \<Rightarrow> fcm_oauth_error option"

datatype fcm_config_error =
    FcmInvalidJson
  | FcmMissingField string
  | FcmInvalidProjectId
  | FcmInvalidTokenUri
  | FcmHttpClient
  | FcmConstantUrlPanic \<comment> \<open>the \<open>expect\<close> on the constant API URL\<close>

record fcm_config =
  fc_project_id :: string
  fc_client_email :: string
  fc_private_key :: string
  fc_token_uri :: url
  fc_api_base_url :: url
  fc_request_timeout :: duration

definition default_token_uri :: string where
  "default_token_uri = ''https://oauth2.googleapis.com/token''"
definition fcm_api_base_url :: string where
  "fcm_api_base_url = ''https://fcm.googleapis.com/''"
definition fcm_scope :: string where
  "fcm_scope = ''https://www.googleapis.com/auth/firebase.messaging''"
definition jwt_lifetime_seconds :: u64 where "jwt_lifetime_seconds = 3600"
definition access_token_refresh_margin_seconds :: u64 where
  "access_token_refresh_margin_seconds = 60"
definition default_request_timeout :: duration where
  "default_request_timeout = from_secs 20"

definition fcm_required :: "string \<Rightarrow> string \<Rightarrow> fcm_config_error + string" where
  "fcm_required s field = (let v = trim s in if v = [] then Err (FcmMissingField field) else Ok v)"

definition project_id_char :: "nat \<Rightarrow> bool" where
  "project_id_char c \<longleftrightarrow> is_ascii_alphanumeric c \<or> one_of ''-_.:'' c"

definition validate_project_id :: "string \<Rightarrow> fcm_config_error + unit" where
  "validate_project_id p =
     (if p = [] \<or> length p > 128 \<or> any_char (\<lambda>c. \<not> project_id_char c) p
      then Err FcmInvalidProjectId else Ok ())"

definition validate_token_uri :: "externals \<Rightarrow> string \<Rightarrow> fcm_config_error + url" where
  "validate_token_uri X s =
     (case x_parse_url X s of
        None \<Rightarrow> Err FcmInvalidTokenUri
      | Some u \<Rightarrow>
          if url_scheme u \<noteq> ''https'' \<or> url_host_str u = None \<or> url_username u \<noteq> []
             \<or> url_password u \<noteq> None
          then Err FcmInvalidTokenUri else Ok u)"

definition fcm_from_service_account_json ::
  "externals \<Rightarrow> fcm_codec \<Rightarrow> string \<Rightarrow> string option \<Rightarrow> fcm_config_error + fcm_config" where
  "fcm_from_service_account_json X C raw project_id_override =
     and_then (ok_or FcmInvalidJson (fx_document C raw)) (\<lambda>document.
     and_then (ok_or (FcmMissingField ''project_id'')
         (or_else (opt_filter (\<lambda>v. v \<noteq> []) (map_option trim project_id_override))
           (fd_project_id document))) (\<lambda>project_id.
     and_then (validate_project_id project_id) (\<lambda>_.
     and_then (fcm_required (fd_client_email document) ''client_email'') (\<lambda>client_email.
     and_then (fcm_required (fd_private_key document) ''private_key'') (\<lambda>private_key.
     and_then (validate_token_uri X (fd_token_uri document)) (\<lambda>token_uri.
     and_then (ok_or FcmConstantUrlPanic (x_parse_url X fcm_api_base_url)) (\<lambda>api_base_url.
       Ok \<lparr>fc_project_id = project_id, fc_client_email = client_email,
           fc_private_key = private_key, fc_token_uri = token_uri,
           fc_api_base_url = api_base_url,
           fc_request_timeout = default_request_timeout\<rparr>)))))))"

definition fcm_with_request_timeout :: "duration \<Rightarrow> fcm_config \<Rightarrow> fcm_config" where
  "fcm_with_request_timeout timeout cfg = cfg\<lparr>fc_request_timeout := timeout\<rparr>"

section \<open>Access tokens\<close>

definition build_oauth_claims :: "string \<Rightarrow> string \<Rightarrow> u64 \<Rightarrow> fcm_claims" where
  "build_oauth_claims client_email token_uri now =
     \<lparr>fcl_iss = client_email, fcl_scope = fcm_scope, fcl_aud = token_uri,
      fcl_iat = now, fcl_exp = now + jwt_lifetime_seconds\<rparr>"

definition oauth_request :: "fcm_config \<Rightarrow> string \<Rightarrow> http_request" where
  "oauth_request cfg assertion =
     \<lparr>rq_url = fc_token_uri cfg, rq_auth = NoAuth, rq_headers = [],
      rq_body = FormBody
        [(''grant_type'', ''urn:ietf:params:oauth:grant-type:jwt-bearer''),
         (''assertion'', assertion)]\<rparr>"

definition oauth_failure ::
  "fcm_codec \<Rightarrow> nat \<Rightarrow> duration option \<Rightarrow> string \<Rightarrow> provider_error" where
  "oauth_failure C status retry_after text =
     (let parsed = fx_oauth_error C text;
          detail = unwrap_or ''FCM OAuth token endpoint rejected the request''
            (Option.bind parsed foe_error_description);
          provider_code = or_else (Option.bind parsed foe_error)
            (Some (''oauth_http_'' @ show_nat status));
          decision = classify_http_status status retry_after;
          class = (if status = 429 then Throttled
                   else if rd_retryable decision then TransientProviderFailure
                   else PermanentProviderFailure)
      in err_delivery class detail (rd_retry_after decision) provider_code)"

definition permanent_oauth :: "string \<Rightarrow> string \<Rightarrow> provider_error" where
  "permanent_oauth detail code = err_delivery PermanentProviderFailure detail None (Some code)"

definition usable_seconds :: "u64 option \<Rightarrow> u64" where
  "usable_seconds expires_in =
     max (saturating_sub_u64 (unwrap_or jwt_lifetime_seconds expires_in)
            access_token_refresh_margin_seconds) 1"

definition accept_token_response ::
  "fcm_token_response \<Rightarrow> (provider_error, world, cached_token) io" where
  "accept_token_response r =
     (if trim (ftr_access_token r) = []
      then io_throw (permanent_oauth ''FCM OAuth token response omitted access_token''
             ''oauth_missing_access_token'')
      else if is_some_and (\<lambda>v. \<not> eq_ignore_ascii_case v ''bearer'') (ftr_token_type r)
      then io_throw (permanent_oauth ''FCM OAuth token response returned an unsupported token type''
             ''oauth_invalid_token_type'')
      else io_bind (io_step instant_now) (\<lambda>now.
        io_return \<lparr>ct_value = ftr_access_token r,
          ct_expires_at = now + from_secs (unat (usable_seconds (ftr_expires_in r)))\<rparr>))"

definition refresh_access_token ::
  "externals \<Rightarrow> fcm_codec \<Rightarrow> fcm_config \<Rightarrow> (provider_error, world, cached_token) io" where
  "refresh_access_token X C cfg =
     io_bind unix_now (\<lambda>now.
     io_bind (io_lift (ok_or (err_not_configured ''FCM service-account private key is invalid'')
         (fx_rsa_key C (fc_private_key cfg)))) (\<lambda>key.
     io_bind (io_lift (ok_or (err_internal ''FCM OAuth assertion signing failed'')
         (fx_encode C (build_oauth_claims (fc_client_email cfg) (url_as_str (fc_token_uri cfg)) now)
           key))) (\<lambda>assertion.
     io_bind (send_request ''FCM OAuth token request failed'' ''oauth_transport_error''
         (oauth_request cfg assertion)) (\<lambda>response.
     io_bind (io_step (response_retry_after X response)) (\<lambda>retry_after.
     io_bind (read_text ''FCM OAuth token response could not be read'' ''oauth_response_error''
         retry_after response) (\<lambda>text.
       if \<not> is_success (rs_status response)
       then io_throw (oauth_failure C (rs_status response) retry_after text)
       else case fx_token_response C text of
         None \<Rightarrow> io_throw (permanent_oauth ''FCM OAuth token response was not valid JSON''
             ''oauth_invalid_response'')
       | Some r \<Rightarrow> accept_token_response r))))))"

definition fcm_access_token ::
  "externals \<Rightarrow> fcm_codec \<Rightarrow> fcm_config \<Rightarrow> (provider_error, world, string) io" where
  "fcm_access_token X C cfg =
     cached_or_mint w_fcm_token put_fcm_token (refresh_access_token X C cfg)"

section \<open>Messages\<close>

definition fcm_message_url :: "externals \<Rightarrow> fcm_config \<Rightarrow> provider_error + url" where
  "fcm_message_url X cfg =
     ok_or (err_internal ''FCM message endpoint could not be constructed'')
       (x_join_url X (fc_api_base_url cfg)
         (''v1/projects/'' @ fc_project_id cfg @ ''/messages:send''))"

fun stringify_value :: "externals \<Rightarrow> json \<Rightarrow> string" where
  "stringify_value X (JStr s) = s"
| "stringify_value X v = unwrap_or ''null'' (x_json_to_vec X v)"

fun fcm_priority :: "push_priority \<Rightarrow> string" where
  "fcm_priority Normal = ''NORMAL''"
| "fcm_priority High = ''HIGH''"

definition fcm_notification :: "push_job \<Rightarrow> (string \<times> json) list" where
  "fcm_notification job = json_members
     [string_entry ''title'' (nt_title (pj_notification job)),
      string_entry ''body'' (nt_body (pj_notification job)),
      string_entry ''image'' (nt_image_url (pj_notification job))]"

definition fcm_data :: "externals \<Rightarrow> push_job \<Rightarrow> (string \<times> json) list option" where
  "fcm_data X job =
     (let d = nt_data (pj_notification job) in
      then_some (d \<noteq> [])
        (bt_collect (map (\<lambda>(key, v). (key, JStr (stringify_value X v))) d)))"

definition fcm_android :: "push_job \<Rightarrow> (string \<times> json) list" where
  "fcm_android job = json_members
     [Some (''priority'', JStr (fcm_priority (op_priority (pj_options job)))),
      map_option (\<lambda>ttl. (''ttl'', JStr (show_nat (unat ttl) @ ''s''))) (op_ttl_seconds (pj_options job)),
      string_entry ''collapse_key'' (op_collapse_key (pj_options job))]"

definition fcm_message :: "externals \<Rightarrow> push_job \<Rightarrow> string \<Rightarrow> (string \<times> json) list" where
  "fcm_message X job device_token = json_members
     [string_entry ''token'' (Some device_token),
      then_some (fcm_notification job \<noteq> []) (''notification'', JObj (fcm_notification job)),
      map_option (\<lambda>d. (''data'', JObj d)) (fcm_data X job),
      Some (''android'', JObj (fcm_android job))]"

definition build_send_body :: "externals \<Rightarrow> push_job \<Rightarrow> string \<Rightarrow> json" where
  "build_send_body X job device_token = JObj (json_members
     [Some (''message'', JObj (fcm_message X job device_token)),
      then_some (op_dry_run (pj_options job)) (''validate_only'', JBool True)])"

record classified_fcm_response =
  cf_class :: outcome_class
  cf_provider_code :: "string option"
  cf_safe_detail :: "string option"

text \<open>\<open>details.iter().find_map(..)\<close>\<close>

fun find_error_code :: "json list \<Rightarrow> string option" where
  "find_error_code [] = None"
| "find_error_code (d # ds) =
     (case Option.bind (json_get d ''errorCode'') json_as_str of
        Some s \<Rightarrow> Some s | None \<Rightarrow> find_error_code ds)"

definition fcm_status_class :: "nat \<Rightarrow> outcome_class" where
  "fcm_status_class status =
     (if status = 400 then InvalidPayload
      else if status = 401 \<or> status = 403 \<or> status = 404 then PermanentProviderFailure
      else if status = 429 then Throttled
      else if 500 \<le> status \<and> status \<le> 599 then TransientProviderFailure
      else PermanentProviderFailure)"

definition fcm_code_class :: "string \<Rightarrow> outcome_class option" where
  "fcm_code_class code =
     (if code \<in> set [''UNREGISTERED'', ''SENDER_ID_MISMATCH''] then Some InvalidToken
      else if code = ''INVALID_ARGUMENT'' then Some InvalidPayload
      else if code \<in> set [''QUOTA_EXCEEDED'', ''RESOURCE_EXHAUSTED''] then Some Throttled
      else if code \<in> set [''UNAVAILABLE'', ''INTERNAL''] then Some TransientProviderFailure
      else if code \<in> set [''THIRD_PARTY_AUTH_ERROR'', ''UNAUTHENTICATED'', ''PERMISSION_DENIED'']
      then Some PermanentProviderFailure
      else None)"

definition classify_fcm_response :: "nat \<Rightarrow> json \<Rightarrow> classified_fcm_response" where
  "classify_fcm_response status body =
     (let error = unwrap_or JNull (json_get body ''error'');
          status_name = Option.bind (json_get error ''status'') json_as_str;
          error_code = Option.bind (Option.bind (json_get error ''details'') json_as_array)
            find_error_code;
          provider_code = or_else error_code status_name
      in \<lparr>cf_class = unwrap_or (fcm_status_class status) (Option.bind provider_code fcm_code_class),
          cf_provider_code = provider_code,
          cf_safe_detail = map_option (\<lambda>m. truncate_utf8 m 512)
            (Option.bind (json_get error ''message'') json_as_str)\<rparr>)"

definition fcm_message_request ::
  "externals \<Rightarrow> url \<Rightarrow> string \<Rightarrow> push_job \<Rightarrow> string \<Rightarrow> http_request" where
  "fcm_message_request X u access_token job device_token =
     \<lparr>rq_url = u, rq_auth = Bearer access_token, rq_headers = [],
      rq_body = JsonBody (build_send_body X job device_token)\<rparr>"

definition fcm_outcome ::
  "externals \<Rightarrow> push_job \<Rightarrow> nat \<Rightarrow> duration option \<Rightarrow> string \<Rightarrow> push_outcome" where
  "fcm_outcome X job status retry_after text =
     (let response_json = unwrap_or JNull (x_json_from_str X text) in
      if is_success status
      then (outcome_accepted X job)\<lparr>po_provider_code :=
             Option.bind (json_get response_json ''name'') json_as_str\<rparr>
      else let classified = classify_fcm_response status response_json in
        \<lparr>po_version = V1,
         po_job_id = pj_job_id job,
         po_provider = Fcm,
         po_target_fingerprint = fingerprint_target X (pj_target job),
         po_class = cf_class classified,
         po_provider_code = cf_provider_code classified,
         po_retry_after_ms = map_option duration_to_millis retry_after,
         po_safe_detail = cf_safe_detail classified\<rparr>)"

definition fcm_deliver ::
  "externals \<Rightarrow> fcm_codec \<Rightarrow> fcm_config \<Rightarrow> push_job \<Rightarrow> string \<Rightarrow>
   (provider_error, world, push_outcome) io" where
  "fcm_deliver X C cfg job device_token =
     io_bind (fcm_access_token X C cfg) (\<lambda>access_token.
     io_bind (io_lift (fcm_message_url X cfg)) (\<lambda>u.
     io_bind (send_request ''FCM send request failed'' ''transport_error''
         (fcm_message_request X u access_token job device_token)) (\<lambda>response.
     io_bind (io_step (response_retry_after X response)) (\<lambda>retry_after.
     io_bind (read_text ''FCM response could not be read'' ''response_read_error''
         retry_after response) (\<lambda>text.
       io_return (fcm_outcome X job (rs_status response) retry_after text))))))"

definition fcm_send_message ::
  "externals \<Rightarrow> fcm_codec \<Rightarrow> fcm_config \<Rightarrow> push_job \<Rightarrow> (provider_error, world, push_outcome) io" where
  "fcm_send_message X C cfg job =
     io_bind (io_lift (contract_check X job)) (\<lambda>_.
       case pj_target job of
         FcmTarget device_token \<Rightarrow> fcm_deliver X C cfg job device_token
       | _ \<Rightarrow> io_throw (invalid_payload ''FCM provider received a non-FCM target''
                ''provider_target_mismatch''))"

definition fcm_provider :: "externals \<Rightarrow> fcm_codec \<Rightarrow> fcm_config \<Rightarrow> push_provider" where
  "fcm_provider X C cfg =
     \<lparr>pp_kind = Fcm, pp_readiness = readiness_ready, pp_send = fcm_send_message X C cfg\<rparr>"

section \<open>The adapter contract\<close>

lemma oauth_failure_bounded: "error_bounded (oauth_failure C status r text)"
  by (simp add: oauth_failure_def Let_def)

lemma accept_token_post: "io_post error_bounded (\<lambda>_. True) (accept_token_response r)"
  by (auto simp: accept_token_response_def permanent_oauth_def intro!: io_post_intros)

lemma refresh_post: "io_post error_bounded (\<lambda>_. True) (refresh_access_token X C cfg)"
  unfolding refresh_access_token_def
  by (intro io_post_bind [where R = "\<lambda>_. True"] unix_now_post lift_ok_or_post send_request_post
      io_post_bind [where R = bounded_wait] retry_after_post read_text_post)
     (auto simp: oauth_failure_bounded permanent_oauth_def intro: accept_token_post split: option.splits)

lemma access_token_post: "io_post error_bounded (\<lambda>_. True) (fcm_access_token X C cfg)"
  unfolding fcm_access_token_def by (intro fcm_cache.cached_or_mint_post refresh_post) simp

lemma fcm_outcome_sel [simp, outcome_simps]:
  "po_job_id (fcm_outcome X job st r t) = pj_job_id job"
  "po_provider (fcm_outcome X job st r t) = (if is_success st then pj_provider job else Fcm)"
  "po_target_fingerprint (fcm_outcome X job st r t) = fingerprint_target X (pj_target job)"
  by (simp_all add: fcm_outcome_def Let_def)

lemma fcm_deliver_post:
  assumes "push_job_ok X job" and "pj_target job = FcmTarget t"
  shows "io_post error_bounded (answers X Fcm job) (fcm_deliver X C cfg job t)"
  unfolding fcm_deliver_def fcm_message_url_def
  by (intro io_post_bind [where R = "\<lambda>_. True"] access_token_post lift_ok_or_post send_request_post
      io_post_bind [where R = bounded_wait] retry_after_post read_text_post)
     (use push_job_ok_provider [OF assms(1)] in \<open>auto simp: answers_def assms(2)\<close>)

lemma fcm_push_adapter: "push_adapter X (fcm_provider X C cfg)"
proof (rule push_adapterI)
  show "pp_send (fcm_provider X C cfg) job = io_bind (io_lift (contract_check X job))
      (\<lambda>_. case pj_target job of FcmTarget t \<Rightarrow> fcm_deliver X C cfg job t
        | _ \<Rightarrow> io_throw (invalid_payload ''FCM provider received a non-FCM target''
            ''provider_target_mismatch''))" for job
    by (simp add: fcm_provider_def fcm_send_message_def)
qed (auto simp: fcm_provider_def readiness_ready_def fcm_deliver_post
    dest: push_job_ok_provider split: push_target.splits)

interpretation fcm: push_adapter X "fcm_provider X C cfg" for X C cfg
  by (rule fcm_push_adapter)

text \<open>\<open>new\<close>: building the HTTP client may fail, as \<open>client\<close> says.\<close>

definition fcm_provider_new ::
  "externals \<Rightarrow> fcm_codec \<Rightarrow> bool \<Rightarrow> fcm_config \<Rightarrow> fcm_config_error + push_provider" where
  "fcm_provider_new X C client cfg =
     (if \<not> client then Err FcmHttpClient else Ok (fcm_provider X C cfg))"

section \<open>Properties\<close>

lemma accept_token_frames:
  "io_frame (sends P) (accept_token_response r)" "io_frame same_caches (accept_token_response r)"
  by (auto simp: accept_token_response_def intro!: io_frame_intros)

lemma refresh_same_caches: "io_frame same_caches (refresh_access_token X C cfg)"
  unfolding refresh_access_token_def
  by (intro io_frame_intros) (auto intro: accept_token_frames split: option.splits)

lemma refresh_sends:
  assumes "\<And>a. P (oauth_request cfg a)"
  shows "io_frame (sends P) (refresh_access_token X C cfg)"
  unfolding refresh_access_token_def
  by (intro io_frame_intros) (auto intro: accept_token_frames assms split: option.splits)

text \<open>A live FCM token, as the next reading of the monotonic clock will judge it.\<close>

definition live_fcm_token :: "world \<Rightarrow> cached_token option" where
  "live_fcm_token w = opt_filter (\<lambda>c. fst (instant_now w) < ct_expires_at c) (w_fcm_token w)"

text \<open>
  C25: An FCM access token is reused exactly while it is unexpired, without any request;
  otherwise the token returned is one just minted, which is stored; and a failed mint leaves
  the stored token as it was. Every request of this step is an OAuth request.
\<close>

theorem fcm_token_cache:
  "case fcm_access_token X C cfg w of (r, w') \<Rightarrow>
     sends (\<lambda>rq. \<exists>a. rq = oauth_request cfg a) w w'
     \<and> (case live_fcm_token w of
          Some c \<Rightarrow> r = Ok (ct_value c) \<and> silent w w' \<and> w_fcm_token w' = w_fcm_token w
        | None \<Rightarrow>
            (case r of
               Inl e \<Rightarrow> error_bounded e \<and> w_fcm_token w' = w_fcm_token w
             | Inr v \<Rightarrow> \<exists>t w0 w1. refresh_access_token X C cfg w0 = (Ok t, w1) \<and> silent w w0
                 \<and> v = ct_value t \<and> w_fcm_token w' = Some t))"
proof -
  obtain r w' where a: "fcm_access_token X C cfg w = (r, w')" by fastforce
  note c = a [unfolded fcm_access_token_def]
  have "io_frame (sends (\<lambda>rq. \<exists>a. rq = oauth_request cfg a)) (fcm_access_token X C cfg)"
    unfolding fcm_access_token_def by (intro fcm_cache.cached_or_mint_sends refresh_sends) blast
  then have s: "sends (\<lambda>rq. \<exists>a. rq = oauth_request cfg a) w w'" by (rule io_frameD) (rule a)
  show ?thesis
  proof (cases "live_fcm_token w")
    case (Some t)
    then have "(r, w') = (Ok (ct_value t), snd (instant_now w))"
      using fcm_cache.live_token_reused c by (simp add: live_fcm_token_def opt_filter_eq_Some)
    with a s Some show ?thesis by (simp add: fcm_cache.get_clock)
  next
    case None
    then have stale: "ct_expires_at t \<le> fst (instant_now w)" if "w_fcm_token w = Some t" for t
      using that by (auto simp: live_fcm_token_def split: if_splits)
    have "w_fcm_token w' = w_fcm_token w" if "r = Inl e" for e
      using fcm_cache.failed_mint_stores_nothing [OF c [unfolded that]]
        io_frameD [OF refresh_same_caches] by (simp add: same_caches_def)
    moreover have "error_bounded e" if "r = Inl e" for e
      using io_postD(1) [OF access_token_post a [unfolded that]] .
    moreover have "\<exists>t w0 w1. refresh_access_token X C cfg w0 = (Ok t, w1) \<and> silent w w0
        \<and> v = ct_value t \<and> w_fcm_token w' = Some t" if "r = Inr v" for v
      using fcm_cache.stale_token_replaced [OF stale c [unfolded that]] by blast
    ultimately show ?thesis using a s None by (cases r) simp_all
  qed
qed

text \<open>A request of the FCM adapter: an OAuth request, or the message of the job.\<close>

definition fcm_traffic_ok :: "externals \<Rightarrow> fcm_config \<Rightarrow> push_job \<Rightarrow> http_request \<Rightarrow> bool" where
  "fcm_traffic_ok X cfg job rq \<longleftrightarrow>
     (\<exists>a. rq = oauth_request cfg a)
     \<or> (\<exists>u token t. fcm_message_url X cfg = Ok u \<and> pj_target job = FcmTarget t
          \<and> rq = fcm_message_request X u token job t)"

text \<open>
  C13: Whatever the FCM adapter sends for a job is an OAuth request to the configured token
  endpoint, which carries nothing of the job, or the job's message posted to the configured
  project's URL; for a job that fails validation or is not for FCM it sends nothing.
\<close>

theorem fcm_traffic:
  "sends (\<lambda>rq. push_job_ok X job \<and> fcm_traffic_ok X cfg job rq) w
     (snd (pp_send (fcm_provider X C cfg) job w))"
proof (cases "push_job_ok X job")
  case ok: True
  let ?P = "\<lambda>rq. push_job_ok X job \<and> fcm_traffic_ok X cfg job rq"
  have access: "io_frame (sends ?P) (fcm_access_token X C cfg)"
    unfolding fcm_access_token_def
    by (intro fcm_cache.cached_or_mint_sends refresh_sends) (auto simp: fcm_traffic_ok_def ok)
  have "io_frame (sends ?P) (fcm_deliver X C cfg job t)" if "pj_target job = FcmTarget t" for t
    unfolding fcm_deliver_def
    by (intro sent.frame_lift_bind sent.frame_bind access io_frame_intros sent.frame_pure)
       (auto simp: fcm_traffic_ok_def ok that)
  then show ?thesis
    by (auto simp: fcm_provider_def fcm_send_message_def contract_check_bind ok io_frame_def
        io_throw_def sent.R_refl split: push_target.splits)
qed (simp add: fcm_provider_def fcm_send_message_def contract_check_bind sent.R_refl)

lemma map_of_map_snd: "map_of (map (\<lambda>(k, v). (k, f v)) xs) k = map_option f (map_of xs k)"
  by (induction xs) auto

text \<open>
  The FCM message body: \<open>validate_only\<close> appears exactly for a dry run; the message names
  the device token; every data value is sent as a string under its key, a string as itself;
  and every member is present exactly when the job has it.
\<close>

theorem build_send_body_spec:
  assumes "bt_wf (nt_data (pj_notification job))"
  shows "case json_get (build_send_body X job t) ''message'' of None \<Rightarrow> False | Some message \<Rightarrow>
      json_get (build_send_body X job t) ''validate_only''
        = (if op_dry_run (pj_options job) then Some (JBool True) else None)
      \<and> json_get message ''token'' = Some (JStr t)
      \<and> (json_get message ''data'' = None \<longleftrightarrow> nt_data (pj_notification job) = [])
      \<and> Option.bind (json_get message ''data'') (\<lambda>d. json_get d key)
          = map_option (\<lambda>v. JStr (stringify_value X v)) (map_of (nt_data (pj_notification job)) key)
      \<and> Option.bind (json_get message ''notification'') (\<lambda>n. json_get n ''title'')
          = map_option JStr (nt_title (pj_notification job))
      \<and> Option.bind (json_get message ''notification'') (\<lambda>n. json_get n ''body'')
          = map_option JStr (nt_body (pj_notification job))
      \<and> Option.bind (json_get message ''android'') (\<lambda>a. json_get a ''collapse_key'')
          = map_option JStr (op_collapse_key (pj_options job))"
proof -
  let ?n = "pj_notification job"
  have body: "json_get (build_send_body X job t) ''message'' = Some (JObj (fcm_message X job t))"
    "json_get (build_send_body X job t) ''validate_only''
      = (if op_dry_run (pj_options job) then Some (JBool True) else None)"
    by (simp_all add: build_send_body_def map_of_members then_some_def)
  have message: "map_of (fcm_message X job t) ''token'' = Some (JStr t)"
    "map_of (fcm_message X job t) ''data'' = map_option JObj (fcm_data X job)"
    "map_of (fcm_message X job t) ''notification''
       = then_some (fcm_notification job \<noteq> []) (JObj (fcm_notification job))"
    "map_of (fcm_message X job t) ''android'' = Some (JObj (fcm_android job))"
    by (cases "fcm_data X job"; cases "fcm_notification job = []";
        simp add: fcm_message_def map_of_members string_entry_def)+
  have data: "map_of (bt_collect (map (\<lambda>(key, v). (key, JStr (stringify_value X v))) (nt_data ?n))) key
      = map_option (\<lambda>v. JStr (stringify_value X v)) (map_of (nt_data ?n) key)"
  proof -
    let ?kvs = "map (\<lambda>(key, v). (key, JStr (stringify_value X v))) (nt_data ?n)"
    have "map fst ?kvs = map fst (nt_data ?n)" by (simp add: split_beta)
    then have "distinct (map fst ?kvs)" using bt_wf_distinct [OF assms] by metis
    then have "map_of (rev ?kvs) key = map_of ?kvs key" by (simp only: map_of_rev_distinct)
    then show ?thesis by (simp add: map_of_bt_collect map_of_map_snd)
  qed
  have notification: "map_of (fcm_notification job) ''title'' = map_option JStr (nt_title ?n)"
    "map_of (fcm_notification job) ''body'' = map_option JStr (nt_body ?n)"
    by (cases "nt_title ?n"; cases "nt_body ?n"; cases "nt_image_url ?n";
        simp add: fcm_notification_def map_of_members string_entry_def)+
  have android: "map_of (fcm_android job) ''collapse_key'' = map_option JStr (op_collapse_key (pj_options job))"
    by (cases "op_collapse_key (pj_options job)"; cases "op_ttl_seconds (pj_options job)";
        simp add: fcm_android_def map_of_members string_entry_def)
  show ?thesis
    using data notification
    by (auto simp: body message android fcm_data_def Let_def then_some_def)
qed

definition demo_fcm_config :: fcm_config where
  "demo_fcm_config = \<lparr>fc_project_id = ''proj'', fc_client_email = ''a@b.c'', fc_private_key = ''key'',
     fc_token_uri = demo_url ''oauth2.googleapis.com'' default_token_uri,
     fc_api_base_url = demo_url ''fcm.googleapis.com'' fcm_api_base_url,
     fc_request_timeout = default_request_timeout\<rparr>"

theorem build_send_body_spec_witness:
  "case json_get (build_send_body demo_externals demo_push_job ''tok'') ''message'' of None \<Rightarrow> False
   | Some message \<Rightarrow> json_get message ''token'' = Some (JStr ''tok'')
       \<and> Option.bind (json_get message ''notification'') (\<lambda>n. json_get n ''title'')
          = map_option JStr (nt_title (pj_notification demo_push_job))"
proof -
  have "bt_wf (nt_data (pj_notification demo_push_job))"
    by (simp add: demo_push_job_def empty_notification_def)
  from build_send_body_spec [OF this, where X = demo_externals and t = "''tok''" and key = "''k''"] show ?thesis
    by (auto split: option.splits)
qed

end
