(* ===== verification/Apns.thy ===== *)
theory Apns
  imports Adapter
begin

text \<open>
  The APNs adapter (\<open>src/providers/apns.rs\<close>): configuration, the provider-token cache of each
  environment, the request built from a job with its checks, delivery and classification.
  ES256 signing and the decoding of the error document are the codec argument.
\<close>

section \<open>Configuration\<close>

record jwt_header =
  jh_alg :: string
  jh_kid :: "string option"

record apns_claims =
  acl_iss :: string
  acl_iat :: u64

record apns_codec =
  ax_ec_key :: "string \<Rightarrow> string option"
  ax_encode :: "jwt_header \<Rightarrow> apns_claims \<Rightarrow> string \<Rightarrow> string option" \<comment> \<open>header, claims, key\<close>
  ax_error_reason :: "string \<Rightarrow> string option"

datatype apns_config_error =
    ApnsMissingField string
  | ApnsInvalidIdentifier string
  | ApnsInvalidTopic
  | ApnsInvalidPrivateKey
  | ApnsHttpClient
  | ApnsConstantUrlPanic \<comment> \<open>the \<open>expect\<close> on the constant API URL\<close>

record apns_config =
  ac_key_id :: string
  ac_team_id :: string
  ac_topic :: string
  ac_environment :: provider_environment
  ac_signing_key :: string
  ac_api_base_url :: url
  ac_request_timeout :: duration

definition provider_token_cache_seconds :: nat where "provider_token_cache_seconds = 50 * 60"
definition max_apns_payload_bytes :: nat where "max_apns_payload_bytes = 4096"
definition max_collapse_id_bytes :: nat where "max_collapse_id_bytes = 64"

definition apns_required :: "string \<Rightarrow> string \<Rightarrow> apns_config_error + string" where
  "apns_required s field = (let v = trim s in if v = [] then Err (ApnsMissingField field) else Ok v)"

definition validate_apple_identifier :: "string \<Rightarrow> string \<Rightarrow> apns_config_error + unit" where
  "validate_apple_identifier s field =
     (if length s \<noteq> 10 \<or> \<not> all_chars is_ascii_alphanumeric s
      then Err (ApnsInvalidIdentifier field) else Ok ())"

definition topic_char :: "nat \<Rightarrow> bool" where
  "topic_char c \<longleftrightarrow> is_ascii_alphanumeric c \<or> one_of ''-_.'' c"

definition validate_topic :: "string \<Rightarrow> apns_config_error + unit" where
  "validate_topic topic =
     (if length topic > 255 \<or> starts_with ''.'' topic \<or> ends_with ''.'' topic
         \<or> any_char (\<lambda>c. \<not> topic_char c) topic
      then Err ApnsInvalidTopic else Ok ())"

definition default_api_base_url :: "externals \<Rightarrow> provider_environment \<Rightarrow> url option" where
  "default_api_base_url X env = x_parse_url X
     (case env of Production \<Rightarrow> ''https://api.push.apple.com/''
      | Sandbox \<Rightarrow> ''https://api.sandbox.push.apple.com/'')"

definition apns_config_new ::
  "externals \<Rightarrow> apns_codec \<Rightarrow> string \<Rightarrow> string \<Rightarrow> string \<Rightarrow> string \<Rightarrow> provider_environment \<Rightarrow>
   apns_config_error + apns_config" where
  "apns_config_new X C key_id team_id topic private_key_p8 env =
     and_then (apns_required key_id ''key_id'') (\<lambda>key_id.
     and_then (apns_required team_id ''team_id'') (\<lambda>team_id.
     and_then (apns_required topic ''topic'') (\<lambda>topic.
     and_then (validate_apple_identifier key_id ''key_id'') (\<lambda>_.
     and_then (validate_apple_identifier team_id ''team_id'') (\<lambda>_.
     and_then (validate_topic topic) (\<lambda>_.
     and_then (ok_or ApnsInvalidPrivateKey (ax_ec_key C private_key_p8)) (\<lambda>signing_key.
     and_then (ok_or ApnsConstantUrlPanic (default_api_base_url X env)) (\<lambda>api_base_url.
       Ok \<lparr>ac_key_id = key_id, ac_team_id = team_id, ac_topic = topic, ac_environment = env,
           ac_signing_key = signing_key, ac_api_base_url = api_base_url,
           ac_request_timeout = from_secs 20\<rparr>))))))))"

definition apns_with_request_timeout :: "duration \<Rightarrow> apns_config \<Rightarrow> apns_config" where
  "apns_with_request_timeout timeout cfg = cfg\<lparr>ac_request_timeout := timeout\<rparr>"

text \<open>\<open>host_str().expect(..)\<close>: \<open>None\<close> would be the panic.\<close>

definition apns_endpoint_host :: "apns_config \<Rightarrow> string option" where
  "apns_endpoint_host cfg = url_host_str (ac_api_base_url cfg)"

section \<open>Provider tokens\<close>

definition provider_token_header :: "string \<Rightarrow> jwt_header" where
  "provider_token_header key_id = \<lparr>jh_alg = ''ES256'', jh_kid = Some key_id\<rparr>"

definition provider_token_claims :: "string \<Rightarrow> u64 \<Rightarrow> apns_claims" where
  "provider_token_claims team_id now = \<lparr>acl_iss = team_id, acl_iat = now\<rparr>"

definition encode_provider_token ::
  "apns_codec \<Rightarrow> apns_config \<Rightarrow> u64 \<Rightarrow> provider_error + string" where
  "encode_provider_token C cfg now =
     ok_or (err_not_configured ''APNs provider-token signing failed'')
       (ax_encode C (provider_token_header (ac_key_id cfg)) (provider_token_claims (ac_team_id cfg) now)
         (ac_signing_key cfg))"

definition mint_provider_token ::
  "apns_codec \<Rightarrow> apns_config \<Rightarrow> (provider_error, world, cached_token) io" where
  "mint_provider_token C cfg =
     io_bind unix_now (\<lambda>now.
     io_bind (io_lift (encode_provider_token C cfg now)) (\<lambda>token.
     io_bind (io_step instant_now) (\<lambda>instant.
       io_return \<lparr>ct_value = token,
         ct_expires_at = instant + from_secs provider_token_cache_seconds\<rparr>)))"

definition apns_token :: "apns_codec \<Rightarrow> apns_config \<Rightarrow> (provider_error, world, string) io" where
  "apns_token C cfg =
     cached_or_mint (apns_slot (ac_environment cfg)) (put_apns_token (ac_environment cfg))
       (mint_provider_token C cfg)"

section \<open>The request\<close>

record apns_request =
  ar_payload :: json
  ar_push_type :: string
  ar_priority :: string
  ar_expiration :: u64
  ar_collapse_id :: "string option"

definition has_visible_alert :: "push_job \<Rightarrow> bool" where
  "has_visible_alert job \<longleftrightarrow>
     not_blank (nt_title (pj_notification job)) \<or> not_blank (nt_body (pj_notification job))"

definition alert_dictionary :: "push_job \<Rightarrow> (string \<times> json) list" where
  "alert_dictionary job = json_members
     [map_option (\<lambda>v. (''title'', JStr v)) (nt_title (pj_notification job)),
      map_option (\<lambda>v. (''body'', JStr v)) (nt_body (pj_notification job))]"

definition apns_aps :: "push_job \<Rightarrow> (string \<times> json) list" where
  "apns_aps job = json_members
     [Some (if has_visible_alert job then (''alert'', JObj (alert_dictionary job))
            else (''content-available'', json_u64 1)),
      then_some (nt_image_url (pj_notification job) \<noteq> None) (''mutable-content'', json_u64 1)]"

definition apns_payload :: "push_job \<Rightarrow> json" where
  "apns_payload job =
     (let n = pj_notification job in
      JObj (bt_collect
        (nt_data n
         @ flatten [map_option (\<lambda>u. (''image_url'', JStr u)) (nt_image_url n)]
         @ [(''aps'', JObj (apns_aps job))])))"

definition build_request :: "externals \<Rightarrow> push_job \<Rightarrow> u64 \<Rightarrow> provider_error + apns_request" where
  "build_request X job now =
     (let visible = has_visible_alert job; payload = apns_payload job in
      if op_dry_run (pj_options job)
      then Err (invalid_payload ''APNs does not provide a validate-only delivery mode''
             ''dry_run_unsupported'')
      else if contains_key (nt_data (pj_notification job)) ''aps''
      then Err (invalid_payload ''APNs custom data may not replace the reserved aps dictionary''
             ''reserved_aps_key'')
      else if is_some_and (\<lambda>v. length v > max_collapse_id_bytes) (op_collapse_key (pj_options job))
      then Err (invalid_payload ''APNs collapse identifier exceeds 64 bytes'' ''collapse_id_too_long'')
      else if nt_image_url (pj_notification job) \<noteq> None \<and> \<not> visible
      then Err (invalid_payload ''APNs image notifications require an alert title or body''
             ''image_requires_alert'')
      else
        and_then (ok_or (invalid_payload ''APNs payload could not be serialized'' ''serialization'')
            (x_json_to_vec X payload)) (\<lambda>bytes.
          if length bytes > max_apns_payload_bytes
          then Err (invalid_payload ''APNs payload exceeds 4096 bytes'' ''payload_too_large'')
          else Ok \<lparr>
            ar_payload = payload,
            ar_push_type = (if visible then ''alert'' else ''background''),
            ar_priority = (if visible \<and> op_priority (pj_options job) = High then ''10'' else ''5''),
            ar_expiration = unwrap_or 0
              (map_option (\<lambda>ttl. saturating_add_u64 now (ucast ttl)) (op_ttl_seconds (pj_options job))),
            ar_collapse_id = op_collapse_key (pj_options job)\<rparr>))"

definition valid_device_token :: "string \<Rightarrow> bool" where
  "valid_device_token t \<longleftrightarrow> 32 \<le> length t \<and> length t \<le> 512 \<and> length t mod 2 = 0
     \<and> all_chars is_ascii_hexdigit t"

text \<open>\<open>str::char_indices\<close>: every character with the byte index it starts at.\<close>

definition char_indices :: "string \<Rightarrow> (nat \<times> nat) list" where
  "char_indices s = zip (filter (\<lambda>i. \<not> is_cont_byte (s ! i)) [0..<length s]) (chars s)"

definition canonical_uuid :: "string \<Rightarrow> bool" where
  "canonical_uuid s \<longleftrightarrow> length s = 36
     \<and> list_all (\<lambda>(i, c).
          if i \<in> set [8, 13, 18, 23] then c = 45
          else is_ascii_hexdigit c \<and> \<not> is_ascii_uppercase c) (char_indices s)"

definition apns_message_url ::
  "externals \<Rightarrow> apns_config \<Rightarrow> string \<Rightarrow> provider_error + url" where
  "apns_message_url X cfg device_token =
     (if \<not> valid_device_token device_token
      then Err (err_delivery InvalidToken ''APNs device token is not valid hexadecimal capability data''
             None (Some ''invalid_device_token''))
      else ok_or (err_internal ''APNs message endpoint could not be constructed'')
             (x_join_url X (ac_api_base_url cfg) (''3/device/'' @ device_token)))"

definition apns_message_request ::
  "apns_config \<Rightarrow> push_job \<Rightarrow> apns_request \<Rightarrow> url \<Rightarrow> string \<Rightarrow> http_request" where
  "apns_message_request cfg job request u provider_token =
     \<lparr>rq_url = u, rq_auth = Bearer provider_token,
      rq_headers = flatten
        [Some (''apns-topic'', ac_topic cfg),
         Some (''apns-push-type'', ar_push_type request),
         Some (''apns-priority'', ar_priority request),
         Some (''apns-expiration'', show_nat (unat (ar_expiration request))),
         map_option (\<lambda>c. (''apns-collapse-id'', c)) (ar_collapse_id request),
         then_some (canonical_uuid (pj_idempotency_key job)) (''apns-id'', pj_idempotency_key job)],
      rq_body = JsonBody (ar_payload request)\<rparr>"

section \<open>Answers\<close>

definition apns_reason_class :: "string \<Rightarrow> outcome_class option" where
  "apns_reason_class reason =
     (if reason \<in> set [''BadDeviceToken'', ''DeviceTokenNotForTopic'', ''Unregistered'']
      then Some InvalidToken
      else if reason \<in> set [''BadCollapseId'', ''BadExpirationDate'', ''BadMessageId'', ''BadPath'',
        ''BadPriority'', ''BadTopic'', ''DuplicateHeaders'', ''MethodNotAllowed'',
        ''MissingDeviceToken'', ''MissingTopic'', ''PayloadEmpty'', ''TooManyTopics'']
      then Some InvalidPayload
      else if reason \<in> set [''TooManyProviderTokenUpdates'', ''TooManyRequests'']
      then Some Throttled
      else if reason \<in> set [''IdleTimeout'', ''InternalServerError'', ''ServiceUnavailable'', ''Shutdown'']
      then Some TransientProviderFailure
      else if reason \<in> set [''BadCertificate'', ''BadCertificateEnvironment'', ''CertificateExpired'',
        ''CertificateRevoked'', ''ExpiredProviderToken'', ''Forbidden'', ''InvalidProviderToken'',
        ''MissingProviderToken'', ''TopicDisallowed'']
      then Some PermanentProviderFailure
      else None)"

definition apns_status_class :: "nat \<Rightarrow> outcome_class" where
  "apns_status_class status =
     (if status = 400 \<or> status = 404 \<or> status = 405 \<or> status = 413 then InvalidPayload
      else if status = 410 then InvalidToken
      else if status = 429 then Throttled
      else if 500 \<le> status \<and> status \<le> 599 then TransientProviderFailure
      else PermanentProviderFailure)"

definition classify_apns_response :: "nat \<Rightarrow> string option \<Rightarrow> outcome_class" where
  "classify_apns_response status reason =
     unwrap_or (apns_status_class status) (Option.bind reason apns_reason_class)"

definition apns_outcome ::
  "externals \<Rightarrow> apns_codec \<Rightarrow> push_job \<Rightarrow> http_response \<Rightarrow> duration option \<Rightarrow> string \<Rightarrow> push_outcome" where
  "apns_outcome X C job response retry_after body =
     (let status = rs_status response in
      if is_success status
      then (outcome_accepted X job)\<lparr>po_provider_code := rs_header response ''apns-id''\<rparr>
      else let reason = ax_error_reason C body in
        \<lparr>po_version = V1,
         po_job_id = pj_job_id job,
         po_provider = Apns,
         po_target_fingerprint = fingerprint_target X (pj_target job),
         po_class = classify_apns_response status reason,
         po_provider_code = or_else reason (Some (''http_'' @ show_nat status)),
         po_retry_after_ms = map_option duration_to_millis retry_after,
         po_safe_detail = map_option (\<lambda>r. truncate_utf8 r 512) reason\<rparr>)"

definition apns_deliver ::
  "externals \<Rightarrow> apns_codec \<Rightarrow> apns_config \<Rightarrow> push_job \<Rightarrow> string \<Rightarrow> provider_environment \<Rightarrow>
   (provider_error, world, push_outcome) io" where
  "apns_deliver X C cfg job device_token target_environment =
     (if target_environment \<noteq> ac_environment cfg
      then io_throw (invalid_payload ''APNs target environment does not match provider configuration''
             ''environment_mismatch'')
      else
        io_bind unix_now (\<lambda>now.
        io_bind (io_lift (build_request X job now)) (\<lambda>request.
        io_bind (apns_token C cfg) (\<lambda>provider_token.
        io_bind (io_lift (apns_message_url X cfg device_token)) (\<lambda>u.
        io_bind (send_request ''APNs send request failed'' ''transport_error''
            (apns_message_request cfg job request u provider_token)) (\<lambda>response.
        io_bind (io_step (response_retry_after X response)) (\<lambda>retry_after.
        io_bind (read_text ''APNs response could not be read'' ''response_read_error''
            retry_after response) (\<lambda>body.
          io_return (apns_outcome X C job response retry_after body)))))))))"

definition apns_validate_job :: "externals \<Rightarrow> push_job \<Rightarrow> provider_error + unit" where
  "apns_validate_job X job =
     map_err (\<lambda>errors. invalid_payload (join_with ''; '' (map validation_error_text errors))
         ''contract_validation_failed'') (validate_push_job X job)"

definition apns_target :: "push_job \<Rightarrow> provider_error + string \<times> provider_environment" where
  "apns_target job =
     (case pj_target job of
        ApnsTarget token env \<Rightarrow> Ok (token, env)
      | _ \<Rightarrow> Err (invalid_payload ''APNs provider received a non-APNs target'' ''provider_target_mismatch''))"

definition apns_send_message ::
  "externals \<Rightarrow> apns_codec \<Rightarrow> apns_config \<Rightarrow> push_job \<Rightarrow> (provider_error, world, push_outcome) io" where
  "apns_send_message X C cfg job =
     io_bind (io_lift (apns_validate_job X job)) (\<lambda>_.
     io_bind (io_lift (apns_target job)) (\<lambda>(device_token, target_environment).
       apns_deliver X C cfg job device_token target_environment))"

lemma apns_validate_job_eq: "apns_validate_job X job = contract_check X job"
  by (simp add: apns_validate_job_def contract_check_def validation_report_def)

lemma apns_send_message_eq:
  "apns_send_message X C cfg job =
     io_bind (io_lift (contract_check X job)) (\<lambda>_.
       case pj_target job of
         ApnsTarget device_token env \<Rightarrow> apns_deliver X C cfg job device_token env
       | _ \<Rightarrow> io_throw (invalid_payload ''APNs provider received a non-APNs target''
                ''provider_target_mismatch''))"
  by (cases "pj_target job") (simp_all add: apns_send_message_def apns_validate_job_eq apns_target_def)

definition apns_provider :: "externals \<Rightarrow> apns_codec \<Rightarrow> apns_config \<Rightarrow> push_provider" where
  "apns_provider X C cfg =
     \<lparr>pp_kind = Apns, pp_readiness = readiness_ready, pp_send = apns_send_message X C cfg\<rparr>"

section \<open>The adapter contract\<close>

lemma mint_post: "io_post error_bounded (\<lambda>_. True) (mint_provider_token C cfg)"
  unfolding mint_provider_token_def encode_provider_token_def
  by (intro io_post_bind [where R = "\<lambda>_. True"] unix_now_post lift_ok_or_post io_post_step) auto

lemma apns_token_post: "io_post error_bounded (\<lambda>_. True) (apns_token C cfg)"
  unfolding apns_token_def by (intro apns_cache.cached_or_mint_post mint_post) simp

lemma build_request_error: "build_request X job now = Err e \<Longrightarrow> error_bounded e \<and> error_class e = InvalidPayload"
  by (auto simp: build_request_def Let_def and_then_def ok_or_def split: if_splits option.splits sum.splits)

lemma apns_message_url_error: "apns_message_url X cfg t = Err e \<Longrightarrow> error_bounded e"
  by (auto simp: apns_message_url_def ok_or_def split: if_splits option.splits)

lemma apns_outcome_answers:
  "pj_provider job = Apns \<Longrightarrow> answers X Apns job (apns_outcome X C job rs r b)"
  by (simp add: apns_outcome_def answers_def Let_def)

lemma apns_deliver_post:
  assumes "push_job_ok X job" and "pj_target job = ApnsTarget t env"
  shows "io_post error_bounded (answers X Apns job) (apns_deliver X C cfg job t env')"
proof -
  have "pj_provider job = Apns" using push_job_ok_provider [OF assms(1)] assms(2) by simp
  then show ?thesis
    unfolding apns_deliver_def
    by (intro io_post_cases [THEN iffD2] conjI impI io_post_bind [where R = "\<lambda>_. True"] unix_now_post
        apns_token_post send_request_post io_post_bind [where R = bounded_wait] retry_after_post
        read_text_post)
       (auto simp: apns_outcome_answers dest: build_request_error apns_message_url_error
         split: sum.splits)
qed

lemma apns_push_adapter: "push_adapter X (apns_provider X C cfg)"
proof (rule push_adapterI)
  show "pp_send (apns_provider X C cfg) job = io_bind (io_lift (contract_check X job))
      (\<lambda>_. case pj_target job of ApnsTarget t env \<Rightarrow> apns_deliver X C cfg job t env
        | _ \<Rightarrow> io_throw (invalid_payload ''APNs provider received a non-APNs target''
            ''provider_target_mismatch''))" for job
    by (simp add: apns_provider_def apns_send_message_eq)
qed (auto simp: apns_provider_def readiness_ready_def apns_deliver_post
    dest: push_job_ok_provider split: push_target.splits)

interpretation apns: push_adapter X "apns_provider X C cfg" for X C cfg
  by (rule apns_push_adapter)

text \<open>\<open>new\<close>: building the HTTP client may fail, as \<open>client\<close> says.\<close>

definition apns_provider_new ::
  "externals \<Rightarrow> apns_codec \<Rightarrow> bool \<Rightarrow> apns_config \<Rightarrow> apns_config_error + push_provider" where
  "apns_provider_new X C client cfg =
     (if \<not> client then Err ApnsHttpClient else Ok (apns_provider X C cfg))"

section \<open>Properties\<close>

lemma mint_silent: "io_frame (sends P) (mint_provider_token C cfg)"
  unfolding mint_provider_token_def by (intro sent.frame_lift_bind io_frame_intros sent.frame_pure)

lemma mint_same_caches: "io_frame same_caches (mint_provider_token C cfg)"
  unfolding mint_provider_token_def by (intro caches.frame_lift_bind io_frame_intros caches.frame_pure)

lemma apns_slot_same: "same_caches w w' \<Longrightarrow> apns_slot env w' = apns_slot env w"
  by (cases env) (simp_all add: same_caches_def apns_slot_def)

text \<open>
  An APNs provider token is reused exactly while it is unexpired; otherwise a token is
  signed and cached for fifty minutes in the slot of the adapter's own environment. No step
  of it sends a request.
\<close>

theorem apns_token_cache:
  "case apns_token C cfg w of (r, w') \<Rightarrow>
     silent w w'
     \<and> (case opt_filter (\<lambda>c. fst (instant_now w) < ct_expires_at c) (apns_slot (ac_environment cfg) w) of
          Some c \<Rightarrow> r = Ok (ct_value c) \<and> w' = snd (instant_now w)
        | None \<Rightarrow>
            (case r of
               Inl e \<Rightarrow> apns_slot (ac_environment cfg) w' = apns_slot (ac_environment cfg) w
             | Inr v \<Rightarrow> \<exists>t w0 w1. mint_provider_token C cfg w0 = (Ok t, w1)
                 \<and> v = ct_value t \<and> apns_slot (ac_environment cfg) w' = Some t))"
proof -
  let ?env = "ac_environment cfg"
  obtain r w' where a: "apns_token C cfg w = (r, w')" by fastforce
  note c = a [unfolded apns_token_def]
  have "io_frame (sends (\<lambda>rq. False)) (apns_token C cfg)"
    unfolding apns_token_def by (intro apns_cache.cached_or_mint_sends mint_silent)
  then have s: "silent w w'" using a by (auto simp: sends_False dest: io_frameD)
  show ?thesis
  proof (cases "opt_filter (\<lambda>c. fst (instant_now w) < ct_expires_at c) (apns_slot ?env w)")
    case (Some t)
    then have "(r, w') = (Ok (ct_value t), snd (instant_now w))"
      using apns_cache.live_token_reused c by (simp add: opt_filter_eq_Some)
    with a s Some show ?thesis by simp
  next
    case None
    then have stale: "ct_expires_at t \<le> fst (instant_now w)" if "apns_slot ?env w = Some t" for t
      using that by (auto split: if_splits)
    have "apns_slot ?env w' = apns_slot ?env w" if "r = Inl e" for e
      using apns_cache.failed_mint_stores_nothing [OF c [unfolded that]]
        io_frameD [OF mint_same_caches] apns_slot_same by blast
    moreover have "\<exists>t w0 w1. mint_provider_token C cfg w0 = (Ok t, w1)
        \<and> v = ct_value t \<and> apns_slot ?env w' = Some t" if "r = Inr v" for v
      using apns_cache.stale_token_replaced [OF stale c [unfolded that]] by blast
    ultimately show ?thesis using a s None by (cases r) simp_all
  qed
qed

definition apns_traffic_ok :: "externals \<Rightarrow> apns_config \<Rightarrow> push_job \<Rightarrow> http_request \<Rightarrow> bool" where
  "apns_traffic_ok X cfg job rq \<longleftrightarrow>
     (\<exists>t now request token.
        pj_target job = ApnsTarget t (ac_environment cfg)
        \<and> 32 \<le> length t \<and> length t \<le> 512 \<and> all_chars is_ascii_hexdigit t
        \<and> x_join_url X (ac_api_base_url cfg) (''3/device/'' @ t) = Some (rq_url rq)
        \<and> build_request X job now = Ok request
        \<and> rq = apns_message_request cfg job request (rq_url rq) token)"

text \<open>
  C35: The APNs adapter only ever posts the request built for a valid job to the device URL
  below its own environment's base URL: a job for the other environment, an invalid job, a
  device token that is not 32 to 512 hexadecimal digits (so nothing that could change the
  path) sends nothing.
\<close>

theorem apns_traffic:
  "sends (\<lambda>rq. push_job_ok X job \<and> apns_traffic_ok X cfg job rq) w
     (snd (pp_send (apns_provider X C cfg) job w))"
proof (cases "push_job_ok X job")
  case ok: True
  let ?P = "\<lambda>rq. push_job_ok X job \<and> apns_traffic_ok X cfg job rq"
  have token: "io_frame (sends ?P) (apns_token C cfg)"
    unfolding apns_token_def by (intro apns_cache.cached_or_mint_sends mint_silent)
  have url: "valid_device_token t \<and> x_join_url X (ac_api_base_url cfg) (''3/device/'' @ t) = Some u"
    if "apns_message_url X cfg t = Ok u" for t u
    using that by (auto simp: apns_message_url_def split: if_splits)
  have "io_frame (sends ?P) (apns_deliver X C cfg job t env)" if t: "pj_target job = ApnsTarget t env" for t env
  proof (cases "env = ac_environment cfg")
    case True
    have P: "?P (apns_message_request cfg job request u token)"
      if "build_request X job now = Ok request" "apns_message_url X cfg t = Ok u" for now request u token
      using that(1) url [OF that(2)] ok t True
      by (auto simp: apns_traffic_ok_def apns_message_request_def valid_device_token_def)
    show ?thesis
      unfolding apns_deliver_def if_not_P [OF not_not [THEN iffD2, OF True]]
      by (intro sent.frame_lift_bind sent.frame_bind token io_frame_intros sent.frame_pure P)
  qed (simp add: apns_deliver_def)
  then show ?thesis
    by (auto simp: apns_provider_def apns_send_message_eq contract_check_bind ok io_frame_def
        io_throw_def sent.R_refl split: push_target.splits)
qed (simp add: apns_provider_def apns_send_message_eq contract_check_bind sent.R_refl)

definition apns_request_ok :: "externals \<Rightarrow> push_job \<Rightarrow> bool" where
  "apns_request_ok X job \<longleftrightarrow>
     \<not> op_dry_run (pj_options job)
     \<and> map_of (nt_data (pj_notification job)) ''aps'' = None
     \<and> short (op_collapse_key (pj_options job)) 64
     \<and> (nt_image_url (pj_notification job) = None \<or> has_visible_alert job)
     \<and> is_some_and (\<lambda>bytes. length bytes \<le> 4096) (x_json_to_vec X (apns_payload job))"

lemma build_request_ok_iff:
  "(case build_request X job now of Inl e \<Rightarrow> error_class e = InvalidPayload \<and> \<not> apns_request_ok X job
    | Inr r \<Rightarrow> apns_request_ok X job)"
  by (cases "x_json_to_vec X (apns_payload job)"; cases "op_collapse_key (pj_options job)")
     (auto simp: build_request_def apns_request_ok_def Let_def contains_key_def short_def
       max_collapse_id_bytes_def max_apns_payload_bytes_def not_less)

text \<open>
  A request is built exactly for live (not validate-only) jobs whose data leaves \<open>aps\<close>
  alone, with a collapse id of at most 64 bytes, an image only beside a visible alert, and a
  payload of at most 4096 bytes. In it \<open>aps\<close> is the code's dictionary, every other data key
  keeps its value except that the image URL takes the key \<open>image_url\<close>, only a visible
  high-priority alert has priority 10, and the expiration saturates.
\<close>

theorem build_request_spec:
  assumes "bt_wf (nt_data (pj_notification job))"
  shows "case build_request X job now of
      Inl e \<Rightarrow> error_class e = InvalidPayload \<and> \<not> apns_request_ok X job
    | Inr r \<Rightarrow> apns_request_ok X job
        \<and> json_get (ar_payload r) ''aps'' = Some (JObj (apns_aps job))
        \<and> json_get (ar_payload r) key =
            (if key = ''aps'' then Some (JObj (apns_aps job))
             else if key = ''image_url'' \<and> nt_image_url (pj_notification job) \<noteq> None
             then map_option JStr (nt_image_url (pj_notification job))
             else map_of (nt_data (pj_notification job)) key)
        \<and> (ar_priority r = ''10'' \<longleftrightarrow> has_visible_alert job \<and> op_priority (pj_options job) = High)
        \<and> (ar_push_type r = ''background'' \<longleftrightarrow> \<not> has_visible_alert job)
        \<and> (map_of (apns_aps job) ''content-available'' = None \<longleftrightarrow> has_visible_alert job)
        \<and> unat (ar_expiration r) =
            (case op_ttl_seconds (pj_options job) of None \<Rightarrow> 0
             | Some ttl \<Rightarrow> min (unat now + unat ttl) u64_max)"
proof (cases "build_request X job now")
  case (Inl e)
  with build_request_ok_iff [of X job now] show ?thesis by simp
next
  case (Inr r)
  let ?d = "nt_data (pj_notification job)"
  have ok: "apns_request_ok X job" using build_request_ok_iff [of X job now] Inr by simp
  have payload: "ar_payload r = apns_payload job"
    and priority: "ar_priority r = (if has_visible_alert job \<and> op_priority (pj_options job) = High
        then ''10'' else ''5'')"
    and kind: "ar_push_type r = (if has_visible_alert job then ''alert'' else ''background'')"
    and expiration: "ar_expiration r = unwrap_or 0 (map_option (\<lambda>ttl. saturating_add_u64 now (ucast ttl))
        (op_ttl_seconds (pj_options job)))"
    using Inr by (auto simp: build_request_def Let_def and_then_eq_Ok split: if_splits)
  have rev: "map_of (rev ?d) = map_of ?d" using assms by (simp add: map_of_rev_distinct bt_wf_distinct)
  have get: "json_get (apns_payload job) k =
      (if k = ''aps'' then Some (JObj (apns_aps job))
       else if k = ''image_url'' \<and> nt_image_url (pj_notification job) \<noteq> None
       then map_option JStr (nt_image_url (pj_notification job))
       else map_of ?d k)" for k
    by (cases "nt_image_url (pj_notification job)")
       (simp_all add: apns_payload_def Let_def map_of_bt_collect rev)
  have unat: "unat (saturating_add_u64 now (ucast ttl)) = min (unat now + unat ttl) u64_max"
    for ttl :: u32
    by (simp add: unat_saturating_add unat_u32_to_u64)
  show ?thesis
    using ok unat get
    by (auto simp: Inr payload priority kind expiration apns_aps_def map_of_members then_some_def
        split: option.splits)
qed

definition demo_apns_job :: push_job where
  "demo_apns_job = demo_push_job\<lparr>pj_provider := Apns,
     pj_target := ApnsTarget ''0123456789abcdef0123456789abcdef'' Sandbox\<rparr>"

theorem build_request_spec_witness:
  "case build_request demo_externals demo_apns_job 7 of
     Inl e \<Rightarrow> \<not> apns_request_ok demo_externals demo_apns_job
   | Inr r \<Rightarrow> json_get (ar_payload r) ''aps'' = Some (JObj (apns_aps demo_apns_job))"
proof -
  have "bt_wf (nt_data (pj_notification demo_apns_job))"
    by (simp add: demo_apns_job_def demo_push_job_def empty_notification_def)
  from build_request_spec [OF this, where X = demo_externals and now = 7 and key = "''k''"]
  show ?thesis by (auto split: sum.splits)
qed

end
