(* ===== verification/Expo.thy ===== *)
theory Expo
  imports Adapter
begin

text \<open>
  The Expo push-service adapter (\<open>src/providers/expo.rs\<close>): batches of push tickets, receipt
  lookups, and the mapping of tickets, receipts and request errors to outcomes. \<open>serde\<close>'s
  decoding of the response documents is the codec argument.
\<close>

section \<open>Configuration and documents\<close>

record expo_config =
  xc_access_token :: "string option"
  xc_send_url :: url
  xc_receipts_url :: url
  xc_request_timeout :: duration

datatype expo_config_error = ExpoInvalidEndpoint | ExpoHttpClient

definition max_batch_messages :: nat where "max_batch_messages = 100"
definition max_receipt_ids :: nat where "max_receipt_ids = 1000"
definition max_ticket_id_bytes :: nat where "max_ticket_id_bytes = 256"

definition expo_validate_endpoint :: "externals \<Rightarrow> string \<Rightarrow> expo_config_error + url" where
  "expo_validate_endpoint X s =
     (case x_parse_url X s of
        None \<Rightarrow> Err ExpoInvalidEndpoint
      | Some u \<Rightarrow>
          if url_scheme u \<noteq> ''https'' \<or> url_host_str u = None \<or> url_username u \<noteq> []
             \<or> url_password u \<noteq> None
          then Err ExpoInvalidEndpoint else Ok u)"

definition expo_config_new :: "externals \<Rightarrow> string option \<Rightarrow> expo_config_error + expo_config" where
  "expo_config_new X access_token =
     and_then (expo_validate_endpoint X ''https://exp.host/--/api/v2/push/send'') (\<lambda>send_url.
     and_then (expo_validate_endpoint X ''https://exp.host/--/api/v2/push/getReceipts'') (\<lambda>receipts_url.
       Ok \<lparr>xc_access_token = opt_filter (\<lambda>v. trim v \<noteq> []) access_token,
           xc_send_url = send_url, xc_receipts_url = receipts_url,
           xc_request_timeout = from_secs 20\<rparr>))"

definition expo_with_request_timeout :: "duration \<Rightarrow> expo_config \<Rightarrow> expo_config" where
  "expo_with_request_timeout timeout cfg = cfg\<lparr>xc_request_timeout := timeout\<rparr>"

definition access_token_configured :: "expo_config \<Rightarrow> bool" where
  "access_token_configured cfg \<longleftrightarrow> xc_access_token cfg \<noteq> None"

record expo_ticket =
  tk_status :: string
  tk_id :: "string option"
  tk_message :: "string option"
  tk_details :: "json option"

record expo_request_error =
  xe_code :: "string option"
  xe_message :: "string option"

record expo_send_response =
  sr_data :: "expo_ticket list option"
  sr_errors :: "expo_request_error list option"

record expo_receipt =
  rc_status :: string
  rc_message :: "string option"
  rc_details :: "json option"

record expo_receipt_response =
  rr_data :: "expo_receipt btree option"
  rr_errors :: "expo_request_error list option"

record expo_codec =
  ex_send_response :: "string \<Rightarrow> expo_send_response option"
  ex_receipt_response :: "string \<Rightarrow> expo_receipt_response option"

record expo_receipt_request =
  xr_job_id :: string
  xr_target_fingerprint :: target_fingerprint
  xr_ticket_id :: string

section \<open>Receipt requests\<close>

definition validate_ticket_id :: "string \<Rightarrow> provider_error + unit" where
  "validate_ticket_id ticket_id =
     (if ticket_id = [] \<or> length ticket_id > max_ticket_id_bytes
         \<or> any_char (\<lambda>c. is_control c \<or> is_whitespace c) ticket_id
      then Err (invalid_payload ''Expo ticket ID has an invalid shape'' ''invalid_ticket_id'')
      else Ok ())"

definition receipt_request_new ::
  "string \<Rightarrow> target_fingerprint \<Rightarrow> string \<Rightarrow> provider_error + expo_receipt_request" where
  "receipt_request_new job_id target_fingerprint ticket_id =
     and_then (validate_ticket_id ticket_id) (\<lambda>_.
       Ok \<lparr>xr_job_id = job_id, xr_target_fingerprint = target_fingerprint, xr_ticket_id = ticket_id\<rparr>)"

definition receipt_request_from_ticket ::
  "externals \<Rightarrow> push_job \<Rightarrow> push_outcome \<Rightarrow> provider_error + expo_receipt_request" where
  "receipt_request_from_ticket X job ticket =
     (if po_class ticket \<noteq> Accepted \<or> po_provider ticket \<noteq> Expo
      then Err (invalid_payload ''Expo receipt requests require an accepted Expo push ticket''
             ''invalid_ticket_outcome'')
      else and_then (ok_or (invalid_payload ''Expo accepted ticket omitted its receipt ID''
                ''missing_ticket_id'') (po_provider_code ticket)) (\<lambda>ticket_id.
             receipt_request_new (pj_job_id job) (fingerprint_target X (pj_target job)) ticket_id))"

section \<open>Messages\<close>

fun expo_check_jobs :: "externals \<Rightarrow> string \<Rightarrow> push_job list \<Rightarrow> provider_error + unit" where
  "expo_check_jobs X application_id [] = Ok ()"
| "expo_check_jobs X application_id (job # jobs) =
     and_then (contract_check X job) (\<lambda>_.
       if pj_provider job \<noteq> Expo \<or> \<not> (case pj_target job of ExpoTarget _ \<Rightarrow> True | _ \<Rightarrow> False)
       then Err (invalid_payload ''Expo batch contains a non-Expo provider or target''
              ''provider_target_mismatch'')
       else if pj_application_id job \<noteq> application_id
       then Err (invalid_payload ''Expo batches may contain messages for only one application/project''
              ''mixed_applications'')
       else if op_dry_run (pj_options job)
       then Err (invalid_payload ''Expo does not provide a validate-only delivery mode''
              ''dry_run_unsupported'')
       else expo_check_jobs X application_id jobs)"

definition validate_batch :: "externals \<Rightarrow> push_job list \<Rightarrow> provider_error + unit" where
  "validate_batch X jobs =
     (if jobs = [] \<or> length jobs > max_batch_messages
      then Err (invalid_payload (''Expo batches require 1 to '' @ show_nat max_batch_messages
             @ '' messages'') ''invalid_batch_size'')
      else expo_check_jobs X (pj_application_id (hd jobs)) jobs)"

definition expo_token_char :: "nat \<Rightarrow> bool" where
  "expo_token_char c \<longleftrightarrow> is_ascii_alphanumeric c \<or> one_of ''-_'' c"

definition valid_expo_push_token :: "string \<Rightarrow> bool" where
  "valid_expo_push_token token =
     is_some_and (\<lambda>v. 8 \<le> length v \<and> length v \<le> 256 \<and> all_chars expo_token_char v)
       (Option.bind (or_else (strip_prefix ''ExpoPushToken['' token)
           (strip_prefix ''ExponentPushToken['' token)) (strip_suffix '']''))"

fun expo_priority :: "push_priority \<Rightarrow> string" where
  "expo_priority Normal = ''normal''"
| "expo_priority High = ''high''"

definition expo_message :: "push_job \<Rightarrow> string \<Rightarrow> (string \<times> json) list" where
  "expo_message job token =
     (let n = pj_notification job; o' = pj_options job in
      json_members
        [Some (''to'', JStr token),
         string_entry ''title'' (nt_title n),
         string_entry ''body'' (nt_body n),
         then_some (nt_data n \<noteq> []) (''data'', JObj (bt_collect (nt_data n))),
         map_option (\<lambda>u. (''richContent'', JObj (bt_collect [(''image'', JStr u)]))) (nt_image_url n),
         map_option (\<lambda>ttl. (''ttl'', json_u64 (ucast ttl))) (op_ttl_seconds o'),
         Some (''priority'', JStr (expo_priority (op_priority o'))),
         string_entry ''collapseId'' (op_collapse_key o')])"

definition build_message :: "push_job \<Rightarrow> provider_error + json" where
  "build_message job =
     (case pj_target job of
        ExpoTarget token \<Rightarrow>
          if \<not> valid_expo_push_token token
          then Err (err_delivery InvalidToken ''Expo push token has an invalid shape'' None
                 (Some ''invalid_expo_push_token''))
          else Ok (JObj (expo_message job token))
      | _ \<Rightarrow> Err (invalid_payload ''Expo provider received a non-Expo target''
               ''provider_target_mismatch''))"

text \<open>\<open>.map(f).collect::<Result<Vec<_>, _>>()\<close>\<close>

fun collect_results :: "('a \<Rightarrow> 'e + 'b) \<Rightarrow> 'a list \<Rightarrow> 'e + 'b list" where
  "collect_results f [] = Ok []"
| "collect_results f (x # xs) =
     and_then (f x) (\<lambda>y. and_then (collect_results f xs) (\<lambda>ys. Ok (y # ys)))"

section \<open>Answers\<close>

definition expo_error_code :: "json option \<Rightarrow> string option" where
  "expo_error_code details =
     Option.bind (Option.bind details (\<lambda>v. json_get v ''error'')) json_as_str"

definition expo_error_class :: "string option \<Rightarrow> outcome_class" where
  "expo_error_class code =
     (if code = Some ''DeviceNotRegistered'' then InvalidToken
      else if code = Some ''MessageTooBig'' then InvalidPayload
      else if code = Some ''MessageRateExceeded'' then Throttled
      else if code = Some ''MismatchSenderId'' \<or> code = Some ''InvalidCredentials''
      then PermanentProviderFailure
      else InvalidPayload)"

definition outcome_for_expo_error ::
  "string \<Rightarrow> target_fingerprint \<Rightarrow> string option \<Rightarrow> string option \<Rightarrow> string option \<Rightarrow> push_outcome" where
  "outcome_for_expo_error job_id target_fingerprint code message fallback_provider_code =
     \<lparr>po_version = V1,
      po_job_id = job_id,
      po_provider = Expo,
      po_target_fingerprint = target_fingerprint,
      po_class = expo_error_class code,
      po_provider_code = or_else code fallback_provider_code,
      po_retry_after_ms = None,
      po_safe_detail = map_option (\<lambda>m. truncate_utf8 m 512) message\<rparr>"

definition expo_accepted :: "string \<Rightarrow> target_fingerprint \<Rightarrow> string \<Rightarrow> push_outcome" where
  "expo_accepted job_id target_fingerprint ticket_id =
     \<lparr>po_version = V1,
      po_job_id = job_id,
      po_provider = Expo,
      po_target_fingerprint = target_fingerprint,
      po_class = Accepted,
      po_provider_code = Some ticket_id,
      po_retry_after_ms = None,
      po_safe_detail = None\<rparr>"

definition internal_outcome :: "externals \<Rightarrow> push_job \<Rightarrow> string \<Rightarrow> push_outcome" where
  "internal_outcome X job detail =
     \<lparr>po_version = V1,
      po_job_id = pj_job_id job,
      po_provider = Expo,
      po_target_fingerprint = fingerprint_target X (pj_target job),
      po_class = InternalFailure,
      po_provider_code = Some ''invalid_ticket_response'',
      po_retry_after_ms = None,
      po_safe_detail = Some (truncate_utf8 detail 512)\<rparr>"

definition outcome_from_ticket :: "externals \<Rightarrow> push_job \<Rightarrow> expo_ticket \<Rightarrow> push_outcome" where
  "outcome_from_ticket X job ticket =
     (if tk_status ticket = ''ok''
      then case tk_id ticket of
             Some ticket_id \<Rightarrow>
               if validate_ticket_id ticket_id = Ok ()
               then expo_accepted (pj_job_id job) (fingerprint_target X (pj_target job)) ticket_id
               else internal_outcome X job ''Expo accepted ticket omitted a valid receipt ID''
           | None \<Rightarrow> internal_outcome X job ''Expo accepted ticket omitted a valid receipt ID''
      else outcome_for_expo_error (pj_job_id job) (fingerprint_target X (pj_target job))
             (expo_error_code (tk_details ticket)) (tk_message ticket) None)"

definition outcome_from_receipt :: "expo_receipt_request \<Rightarrow> expo_receipt \<Rightarrow> push_outcome" where
  "outcome_from_receipt request receipt =
     (if rc_status receipt = ''ok''
      then expo_accepted (xr_job_id request) (xr_target_fingerprint request) (xr_ticket_id request)
      else outcome_for_expo_error (xr_job_id request) (xr_target_fingerprint request)
             (expo_error_code (rc_details receipt)) (rc_message receipt)
             (Some (xr_ticket_id request)))"

definition receipt_pending :: "expo_receipt_request \<Rightarrow> push_outcome" where
  "receipt_pending request =
     \<lparr>po_version = V1,
      po_job_id = xr_job_id request,
      po_provider = Expo,
      po_target_fingerprint = xr_target_fingerprint request,
      po_class = TransientProviderFailure,
      po_provider_code = Some (xr_ticket_id request),
      po_retry_after_ms = None,
      po_safe_detail = Some ''Expo receipt is not available yet''\<rparr>"

definition classify_expo_code :: "string \<Rightarrow> outcome_class" where
  "classify_expo_code code =
     (if code = ''TOO_MANY_REQUESTS'' then Throttled
      else if code \<in> set [''PUSH_TOO_MANY_EXPERIENCE_IDS'', ''PUSH_TOO_MANY_NOTIFICATIONS'',
        ''PUSH_TOO_MANY_RECEIPTS''] then InvalidPayload
      else PermanentProviderFailure)"

definition first_request_error :: "expo_request_error list option \<Rightarrow> provider_error option" where
  "first_request_error errors =
     (case errors of
        Some (e # _) \<Rightarrow>
          let code = unwrap_or ''request_error'' (xe_code e) in
          Some (err_delivery (classify_expo_code code)
            (unwrap_or ''Expo rejected the request'' (xe_message e)) None (Some code))
      | _ \<Rightarrow> None)"

definition classify_request_failure ::
  "expo_codec \<Rightarrow> nat \<Rightarrow> string \<Rightarrow> duration option \<Rightarrow> provider_error" where
  "classify_request_failure C status body retry_after =
     (case Option.bind (ex_send_response C body) (\<lambda>d. first_request_error (sr_errors d)) of
        Some e \<Rightarrow> e
      | None \<Rightarrow>
          let decision = classify_http_status status retry_after;
              class = (if status = 429 then Throttled
                       else if rd_retryable decision then TransientProviderFailure
                       else if status = 400 \<or> status = 413 then InvalidPayload
                       else PermanentProviderFailure)
          in err_delivery class (''Expo request failed with HTTP '' @ show_nat status)
               (rd_retry_after decision) (Some (''http_'' @ show_nat status)))"

definition permanent_expo :: "string \<Rightarrow> string \<Rightarrow> provider_error" where
  "permanent_expo detail code = err_delivery PermanentProviderFailure detail None (Some code)"

section \<open>Sending\<close>

definition expo_auth :: "expo_config \<Rightarrow> http_auth" where
  "expo_auth cfg = (case xc_access_token cfg of Some t \<Rightarrow> Bearer t | None \<Rightarrow> NoAuth)"

definition expo_request :: "expo_config \<Rightarrow> url \<Rightarrow> json \<Rightarrow> http_request" where
  "expo_request cfg u body =
     \<lparr>rq_url = u, rq_auth = expo_auth cfg, rq_headers = [], rq_body = JsonBody body\<rparr>"

definition read_tickets ::
  "externals \<Rightarrow> expo_codec \<Rightarrow> push_job list \<Rightarrow> nat \<Rightarrow> duration option \<Rightarrow> string \<Rightarrow>
   provider_error + push_outcome list" where
  "read_tickets X C jobs status retry_after body =
     (if \<not> is_success status then Err (classify_request_failure C status body retry_after)
      else case ex_send_response C body of
        None \<Rightarrow> Err (permanent_expo ''Expo returned a non-JSON success response''
            ''invalid_success_response'')
      | Some document \<Rightarrow>
          case first_request_error (sr_errors document) of
            Some e \<Rightarrow> Err e
          | None \<Rightarrow>
              case sr_data document of
                None \<Rightarrow> Err (permanent_expo ''Expo success response omitted push tickets''
                    ''missing_tickets'')
              | Some tickets \<Rightarrow>
                  if length tickets \<noteq> length jobs
                  then Err (err_internal (''Expo returned '' @ show_nat (length tickets)
                         @ '' tickets for '' @ show_nat (length jobs) @ '' messages''))
                  else Ok (map (\<lambda>(job, ticket). outcome_from_ticket X job ticket) (zip jobs tickets)))"

definition post_messages ::
  "externals \<Rightarrow> expo_codec \<Rightarrow> expo_config \<Rightarrow> push_job list \<Rightarrow>
   (provider_error, world, push_outcome list) io" where
  "post_messages X C cfg jobs =
     io_bind (io_lift (collect_results build_message jobs)) (\<lambda>messages.
     io_bind (send_request ''Expo push-ticket request failed'' ''transport_error''
         (expo_request cfg (xc_send_url cfg) (JArr messages))) (\<lambda>response.
     io_bind (io_step (response_retry_after X response)) (\<lambda>retry_after.
     io_bind (read_text ''Expo push-ticket response could not be read'' ''response_read_error''
         retry_after response) (\<lambda>body.
       io_lift (read_tickets X C jobs (rs_status response) retry_after body)))))"

definition send_batch ::
  "externals \<Rightarrow> expo_codec \<Rightarrow> expo_config \<Rightarrow> push_job list \<Rightarrow>
   (provider_error, world, push_outcome list) io" where
  "send_batch X C cfg jobs =
     io_bind (io_lift (validate_batch X jobs)) (\<lambda>_. post_messages X C cfg jobs)"

text \<open>\<open>outcomes.pop()\<close>: the last outcome.\<close>

definition expo_send ::
  "externals \<Rightarrow> expo_codec \<Rightarrow> expo_config \<Rightarrow> push_job \<Rightarrow> (provider_error, world, push_outcome) io" where
  "expo_send X C cfg job =
     io_bind (send_batch X C cfg [job]) (\<lambda>outcomes.
       if outcomes = [] then io_throw (err_internal ''Expo single-send returned no outcome'')
       else io_return (last outcomes))"

definition read_receipts ::
  "expo_codec \<Rightarrow> expo_receipt_request list \<Rightarrow> nat \<Rightarrow> duration option \<Rightarrow> string \<Rightarrow>
   provider_error + push_outcome list" where
  "read_receipts C requests status retry_after body =
     (if \<not> is_success status then Err (classify_request_failure C status body retry_after)
      else case ex_receipt_response C body of
        None \<Rightarrow> Err (permanent_expo ''Expo returned a non-JSON receipt response''
            ''invalid_receipt_response'')
      | Some document \<Rightarrow>
          case first_request_error (rr_errors document) of
            Some e \<Rightarrow> Err e
          | None \<Rightarrow>
              let receipts = unwrap_or [] (rr_data document) in
              Ok (map (\<lambda>request.
                case map_of receipts (xr_ticket_id request) of
                  Some receipt \<Rightarrow> outcome_from_receipt request receipt
                | None \<Rightarrow> receipt_pending request) requests))"

fun check_ticket_ids :: "expo_receipt_request list \<Rightarrow> provider_error + unit" where
  "check_ticket_ids [] = Ok ()"
| "check_ticket_ids (r # rs) = and_then (validate_ticket_id (xr_ticket_id r)) (\<lambda>_. check_ticket_ids rs)"

definition receipts_body :: "expo_receipt_request list \<Rightarrow> json" where
  "receipts_body requests =
     JObj (bt_collect [(''ids'', JArr (map (\<lambda>r. JStr (xr_ticket_id r)) requests))])"

definition get_receipts ::
  "externals \<Rightarrow> expo_codec \<Rightarrow> expo_config \<Rightarrow> expo_receipt_request list \<Rightarrow>
   (provider_error, world, push_outcome list) io" where
  "get_receipts X C cfg requests =
     (if requests = [] \<or> length requests > max_receipt_ids
      then io_throw (invalid_payload (''Expo receipt lookup requires 1 to ''
             @ show_nat max_receipt_ids @ '' ticket IDs'') ''invalid_receipt_batch_size'')
      else
        io_bind (io_lift (check_ticket_ids requests)) (\<lambda>_.
        io_bind (send_request ''Expo receipt request failed'' ''transport_error''
            (expo_request cfg (xc_receipts_url cfg) (receipts_body requests))) (\<lambda>response.
        io_bind (io_step (response_retry_after X response)) (\<lambda>retry_after.
        io_bind (read_text ''Expo receipt response could not be read'' ''response_read_error''
            retry_after response) (\<lambda>body.
          io_lift (read_receipts C requests (rs_status response) retry_after body))))))"

definition expo_provider :: "externals \<Rightarrow> expo_codec \<Rightarrow> expo_config \<Rightarrow> push_provider" where
  "expo_provider X C cfg =
     \<lparr>pp_kind = Expo, pp_readiness = readiness_ready, pp_send = expo_send X C cfg\<rparr>"

section \<open>The adapter contract\<close>

lemma validate_ticket_id_error: "validate_ticket_id t = Err e \<Longrightarrow> error_bounded e"
  by (auto simp: validate_ticket_id_def split: if_splits)

lemma build_message_error: "build_message job = Err e \<Longrightarrow> error_bounded e"
  by (auto simp: build_message_def split: push_target.splits if_splits)

lemma collect_results_error: "collect_results f xs = Err e \<Longrightarrow> \<exists>x \<in> set xs. f x = Err e"
  by (induction f xs rule: collect_results.induct) (auto simp: and_then_def split: sum.splits)

lemma collect_results_ok: "collect_results f xs = Ok ys \<Longrightarrow> list_all2 (\<lambda>x y. f x = Ok y) xs ys"
  by (induction f xs arbitrary: ys rule: collect_results.induct) (auto simp: and_then_eq_Ok)

lemma first_request_error_bounded: "first_request_error es = Some e \<Longrightarrow> error_bounded e"
  by (auto simp: first_request_error_def Let_def split: option.splits list.splits)

lemma classify_request_failure_bounded: "error_bounded (classify_request_failure C st b r)"
  by (auto simp: classify_request_failure_def Let_def bind_eq_Some_conv
      dest: first_request_error_bounded split: option.splits)

lemma expo_check_jobs_error: "expo_check_jobs X a jobs = Err e \<Longrightarrow> error_bounded e"
  by (induction jobs) (auto simp: and_then_def contract_check_eq split: sum.splits if_splits)

lemma validate_batch_error: "validate_batch X jobs = Err e \<Longrightarrow> error_bounded e"
  by (auto simp: validate_batch_def dest: expo_check_jobs_error split: if_splits)

lemma ticket_outcome_answers: "answers X Expo job (outcome_from_ticket X job t)"
  by (auto simp: answers_def outcome_from_ticket_def expo_accepted_def internal_outcome_def
      outcome_for_expo_error_def split: option.splits)

lemma read_tickets_cases:
  "case read_tickets X C jobs st r body of
     Inl e \<Rightarrow> error_bounded e | Inr outs \<Rightarrow> list_all2 (answers X Expo) jobs outs"
  by (auto simp: read_tickets_def classify_request_failure_bounded permanent_expo_def
      first_request_error_bounded list_all2_conv_all_nth ticket_outcome_answers
      split: option.splits)

lemma post_messages_post:
  "io_post error_bounded (list_all2 (answers X Expo) jobs) (post_messages X C cfg jobs)"
  unfolding post_messages_def
  by (intro io_post_bind [where R = "\<lambda>_. True"] send_request_post io_post_bind [where R = bounded_wait]
      retry_after_post read_text_post)
     (use read_tickets_cases in \<open>auto dest!: collect_results_error dest: build_message_error
        split: sum.splits\<close>)

definition expo_deliver ::
  "externals \<Rightarrow> expo_codec \<Rightarrow> expo_config \<Rightarrow> push_job \<Rightarrow> (provider_error, world, push_outcome) io" where
  "expo_deliver X C cfg job =
     (if pj_provider job \<noteq> Expo \<or> \<not> (case pj_target job of ExpoTarget _ \<Rightarrow> True | _ \<Rightarrow> False)
      then io_throw (invalid_payload ''Expo batch contains a non-Expo provider or target''
             ''provider_target_mismatch'')
      else if op_dry_run (pj_options job)
      then io_throw (invalid_payload ''Expo does not provide a validate-only delivery mode''
             ''dry_run_unsupported'')
      else io_bind (post_messages X C cfg [job]) (\<lambda>outcomes.
        if outcomes = [] then io_throw (err_internal ''Expo single-send returned no outcome'')
        else io_return (last outcomes)))"

lemma expo_send_eq:
  "expo_send X C cfg job = io_bind (io_lift (contract_check X job)) (\<lambda>_. expo_deliver X C cfg job)"
  by (auto simp: expo_send_def send_batch_def validate_batch_def max_batch_messages_def
      io_bind_assoc io_lift_and_then expo_deliver_def
      intro!: arg_cong [of _ _ "io_bind (io_lift (contract_check X job))"] ext)

lemma expo_push_adapter: "push_adapter X (expo_provider X C cfg)"
proof (rule push_adapterI [where deliver = "expo_deliver X C cfg"])
  show "pp_send (expo_provider X C cfg) job
      = io_bind (io_lift (contract_check X job)) (\<lambda>_. expo_deliver X C cfg job)" for job
    by (simp add: expo_provider_def expo_send_eq)
  show "\<exists>detail code. expo_deliver X C cfg job = io_throw (invalid_payload detail code)"
    if "target_provider (pj_target job) \<noteq> pp_kind (expo_provider X C cfg)" for job
    using that by (cases "pj_target job") (auto simp: expo_deliver_def expo_provider_def)
  show "io_post error_bounded (answers X (pp_kind (expo_provider X C cfg)) job) (expo_deliver X C cfg job)"
    for job
    unfolding expo_deliver_def
    by (intro io_post_cases [THEN iffD2] conjI impI io_post_bind [OF post_messages_post])
       (auto simp: expo_provider_def list_all2_Cons1)
qed (simp add: expo_provider_def readiness_ready_def)

interpretation expo: push_adapter X "expo_provider X C cfg" for X C cfg
  by (rule expo_push_adapter)

text \<open>\<open>new\<close>: building the HTTP client may fail, as \<open>client\<close> says.\<close>

definition expo_provider_new ::
  "externals \<Rightarrow> expo_codec \<Rightarrow> bool \<Rightarrow> expo_config \<Rightarrow> expo_config_error + push_provider" where
  "expo_provider_new X C client cfg =
     (if \<not> client then Err ExpoHttpClient else Ok (expo_provider X C cfg))"

section \<open>Properties\<close>

lemma expo_check_jobs_ok:
  "expo_check_jobs X a jobs = Ok u \<Longrightarrow>
     list_all (\<lambda>job. push_job_ok X job \<and> target_provider (pj_target job) = Expo
       \<and> pj_application_id job = a \<and> \<not> op_dry_run (pj_options job)) jobs"
  by (induction jobs)
     (auto simp: and_then_eq_Ok contract_check_eq split: if_splits push_target.splits)

lemma post_messages_sent:
  assumes "collect_results build_message jobs = Ok messages"
  shows "w_sent (snd (post_messages X C cfg jobs w))
    = w_sent w @ [expo_request cfg (xc_send_url cfg) (JArr messages)]"
  unfolding post_messages_def assms io_lift_simps
  by (intro one_request quiet.frame_bind quiet_helpers quiet.frame_pure)

text \<open>A job that may be part of a batch for application \<open>a\<close>.\<close>

definition batchable :: "externals \<Rightarrow> string \<Rightarrow> push_job \<Rightarrow> bool" where
  "batchable X a job \<longleftrightarrow> push_job_ok X job \<and> target_provider (pj_target job) = Expo
     \<and> pj_application_id job = a \<and> \<not> op_dry_run (pj_options job)"

text \<open>
  C36: An Expo batch either fails as a whole or answers every job, in order, with an outcome
  for that very job. It sends at most one request, and only for 1 to 100 valid live jobs of
  one application with well-formed tokens: the array of their messages in order. An accepted
  batch never mixes applications.
\<close>

theorem send_batch_spec:
  "case send_batch X C cfg jobs w of (r, w') \<Rightarrow>
     (case r of Inl e \<Rightarrow> error_bounded e | Inr outs \<Rightarrow> list_all2 (answers X Expo) jobs outs)
     \<and> (silent w w' \<and> (\<exists>e. r = Err e)
        \<or> 1 \<le> length jobs \<and> length jobs \<le> 100
          \<and> list_all (batchable X (pj_application_id (hd jobs))) jobs
          \<and> (\<exists>messages. list_all2 (\<lambda>job m. build_message job = Ok m) jobs messages
               \<and> traffic w w' = [expo_request cfg (xc_send_url cfg) (JArr messages)]))"
proof -
  obtain r w' where s: "send_batch X C cfg jobs w = (r, w')" by fastforce
  have post: "io_post error_bounded (list_all2 (answers X Expo) jobs) (send_batch X C cfg jobs)"
    unfolding send_batch_def
    by (intro io_post_bind [where R = "\<lambda>_. True"] post_messages_post)
       (auto dest: validate_batch_error split: sum.splits)
  have result: "case r of Inl e \<Rightarrow> error_bounded e | Inr outs \<Rightarrow> list_all2 (answers X Expo) jobs outs"
    using io_postD [OF post] s by (cases r) auto
  show ?thesis
  proof (cases "validate_batch X jobs")
    case (Inl e)
    then show ?thesis using s result by (auto simp: send_batch_def io_throw_def)
  next
    case v: (Inr u)
    then have size: "1 \<le> length jobs \<and> length jobs \<le> 100"
      and check: "expo_check_jobs X (pj_application_id (hd jobs)) jobs = Ok u"
      by (auto simp: validate_batch_def max_batch_messages_def Suc_le_eq split: if_splits)
    have jobs: "list_all (batchable X (pj_application_id (hd jobs))) jobs"
      using expo_check_jobs_ok [OF check] by (simp add: batchable_def [abs_def])
    have p: "post_messages X C cfg jobs w = (r, w')" using s v by (simp add: send_batch_def)
    show ?thesis
    proof (cases "collect_results build_message jobs")
      case (Inl e)
      then show ?thesis using p s result by (auto simp: post_messages_def io_throw_def)
    next
      case (Inr messages)
      have "traffic w w' = [expo_request cfg (xc_send_url cfg) (JArr messages)]"
        using post_messages_sent [OF Inr, of X C cfg w] p by (simp add: traffic_def)
      then show ?thesis using s result size jobs collect_results_ok [OF Inr] by auto
    qed
  qed
qed

text \<open>What a receipt table makes of one request.\<close>

definition receipt_outcome :: "expo_receipt btree \<Rightarrow> expo_receipt_request \<Rightarrow> push_outcome \<Rightarrow> bool" where
  "receipt_outcome receipts request out \<longleftrightarrow>
     po_job_id out = xr_job_id request \<and> po_target_fingerprint out = xr_target_fingerprint request
     \<and> (case map_of receipts (xr_ticket_id request) of
          None \<Rightarrow> out = receipt_pending request \<and> po_class out = TransientProviderFailure
        | Some receipt \<Rightarrow>
            if rc_status receipt = ''ok''
            then po_class out = Accepted \<and> po_provider_code out = Some (xr_ticket_id request)
            else po_class out = unwrap_or InvalidPayload
                (Option.bind (expo_error_code (rc_details receipt)) (map_of
                  [(''DeviceNotRegistered'', InvalidToken), (''MessageTooBig'', InvalidPayload),
                   (''MessageRateExceeded'', Throttled), (''MismatchSenderId'', PermanentProviderFailure),
                   (''InvalidCredentials'', PermanentProviderFailure)]))
              \<and> po_provider_code out
                  = or_else (expo_error_code (rc_details receipt)) (Some (xr_ticket_id request)))"

lemma expo_error_table:
  "expo_error_class code = unwrap_or InvalidPayload (Option.bind code (map_of
     [(''DeviceNotRegistered'', InvalidToken), (''MessageTooBig'', InvalidPayload),
      (''MessageRateExceeded'', Throttled), (''MismatchSenderId'', PermanentProviderFailure),
      (''InvalidCredentials'', PermanentProviderFailure)]))"
  by (cases code) (simp_all add: expo_error_class_def)

lemma receipt_outcomes:
  "list_all2 (receipt_outcome receipts) requests (map (\<lambda>request.
     case map_of receipts (xr_ticket_id request) of
       Some receipt \<Rightarrow> outcome_from_receipt request receipt | None \<Rightarrow> receipt_pending request) requests)"
  unfolding receipt_outcome_def expo_error_table [symmetric] list_all2_conv_all_nth
  by (auto simp: outcome_from_receipt_def expo_accepted_def outcome_for_expo_error_def
      receipt_pending_def split: option.splits)

lemma check_ticket_ids_error: "check_ticket_ids requests = Err e \<Longrightarrow> error_bounded e"
  by (induction requests) (auto simp: and_then_def dest: validate_ticket_id_error split: sum.splits)

lemma check_ticket_ids_ok:
  "check_ticket_ids requests = Ok u \<longleftrightarrow>
     list_all (\<lambda>r. validate_ticket_id (xr_ticket_id r) = Ok ()) requests"
  by (induction requests) (auto simp: and_then_eq_Ok)

lemma first_request_error_None: "first_request_error es = None \<longleftrightarrow> es \<in> {None, Some []}"
  by (auto simp: first_request_error_def Let_def split: option.splits list.splits)

lemma read_receipts_spec:
  "case ex_receipt_response C body of
     Some doc \<Rightarrow>
       if is_success st \<and> rr_errors doc \<in> {None, Some []}
       then \<exists>outs. read_receipts C requests st ra body = Ok outs
         \<and> list_all2 (receipt_outcome (unwrap_or [] (rr_data doc))) requests outs
       else \<exists>e. read_receipts C requests st ra body = Err e \<and> error_bounded e
   | None \<Rightarrow> \<exists>e. read_receipts C requests st ra body = Err e \<and> error_bounded e"
proof (cases "ex_receipt_response C body")
  case None
  then show ?thesis by (simp add: read_receipts_def classify_request_failure_bounded permanent_expo_def)
next
  case (Some doc)
  show ?thesis
  proof (cases "is_success st \<and> first_request_error (rr_errors doc) = None")
    case True
    with Some receipt_outcomes show ?thesis
      unfolding first_request_error_None [symmetric] by (simp add: read_receipts_def Let_def)
  next
    case False
    have "\<exists>e. read_receipts C requests st ra body = Err e \<and> error_bounded e"
      using False Some first_request_error_bounded [of "rr_errors doc"]
      by (cases "is_success st"; cases "first_request_error (rr_errors doc)")
        (simp_all add: read_receipts_def classify_request_failure_bounded)
    with Some False show ?thesis unfolding first_request_error_None [symmetric] by auto
  qed
qed

lemma request_answer:
  "send_request what code rq w =
     (case w_answers w (w_sent w @ [rq]) of
        Failed e \<Rightarrow> (Err (err_delivery TransientProviderFailure (what @ '': '' @ te_text e) None (Some code)),
          w\<lparr>w_sent := w_sent w @ [rq]\<rparr>)
      | Answered rs \<Rightarrow> (Ok rs, w\<lparr>w_sent := w_sent w @ [rq]\<rparr>))"
  by (auto simp: send_request_def io_bind_def io_step_def http_send_def Let_def io_throw_def
      io_return_def split: http_answer.splits)

text \<open>
  C37: A receipt lookup on every branch. Without 1 to 1000 well-formed ticket ids it fails and
  sends nothing; otherwise it sends one request for exactly these ids. It answers when Expo's
  answer is a success document without errors, and then every request, in order, with an outcome
  carrying its job id and fingerprint: \<open>accepted\<close> exactly when that document holds a receipt
  with status \<open>ok\<close> under the ticket, a transient failure when it holds none, and the class of
  the receipt's error code otherwise. Every other answer fails the lookup.
\<close>

theorem get_receipts_spec:
  "case get_receipts X C cfg requests w of (r, w') \<Rightarrow>
     if 1 \<le> length requests \<and> length requests \<le> 1000
       \<and> list_all (\<lambda>rq. validate_ticket_id (xr_ticket_id rq) = Ok ()) requests
     then traffic w w' = [expo_request cfg (xc_receipts_url cfg) (receipts_body requests)]
       \<and> (case w_answers w (w_sent w @ [expo_request cfg (xc_receipts_url cfg) (receipts_body requests)]) of
            Failed _ \<Rightarrow> \<exists>e. r = Err e \<and> error_bounded e \<and> error_class e = TransientProviderFailure
          | Answered rs \<Rightarrow>
              (case Option.bind (rs_text rs) (ex_receipt_response C) of
                 None \<Rightarrow> \<exists>e. r = Err e \<and> error_bounded e
               | Some doc \<Rightarrow>
                   if is_success (rs_status rs) \<and> rr_errors doc \<in> {None, Some []}
                   then \<exists>outs. r = Ok outs
                     \<and> list_all2 (receipt_outcome (unwrap_or [] (rr_data doc))) requests outs
                   else \<exists>e. r = Err e \<and> error_bounded e))
     else silent w w' \<and> (\<exists>e. r = Err e \<and> error_bounded e \<and> error_class e = InvalidPayload)"
proof (cases "1 \<le> length requests \<and> length requests \<le> 1000
    \<and> list_all (\<lambda>rq. validate_ticket_id (xr_ticket_id rq) = Ok ()) requests")
  case False
  have "\<exists>e. get_receipts X C cfg requests w = (Err e, w) \<and> error_bounded e \<and> error_class e = InvalidPayload"
  proof (cases "1 \<le> length requests \<and> length requests \<le> 1000")
    case size: True
    with False obtain e where "check_ticket_ids requests = Err e"
      using check_ticket_ids_ok [of requests] by (cases "check_ticket_ids requests") auto
    moreover have "error_class e = InvalidPayload" if "check_ticket_ids rs = Err e" for rs
      using that by (induction rs) (auto simp: and_then_def validate_ticket_id_def split: sum.splits if_splits)
    ultimately show ?thesis
      using size check_ticket_ids_error [of requests e]
      by (auto simp: get_receipts_def max_receipt_ids_def io_throw_def)
  qed (auto simp: get_receipts_def max_receipt_ids_def io_throw_def Suc_le_eq)
  with False show ?thesis by auto
next
  case True
  let ?rq = "expo_request cfg (xc_receipts_url cfg) (receipts_body requests)"
  let ?w = "w\<lparr>w_sent := w_sent w @ [?rq]\<rparr>"
  have size: "\<not> (requests = [] \<or> length requests > max_receipt_ids)"
    using True by (auto simp: max_receipt_ids_def)
  have ids: "check_ticket_ids requests = Ok ()" using True by (simp add: check_ticket_ids_ok)
  have sent: "traffic w (snd (get_receipts X C cfg requests w)) = [?rq]"
    unfolding get_receipts_def if_not_P [OF size] ids io_lift_simps traffic_def
    by (subst one_request) (intro quiet.frame_bind quiet_helpers quiet.frame_pure, simp)
  have result: "fst (get_receipts X C cfg requests w) =
      (case w_answers w (w_sent w @ [?rq]) of
         Failed e \<Rightarrow> Err (err_delivery TransientProviderFailure
           (''Expo receipt request failed'' @ '': '' @ te_text e) None (Some ''transport_error''))
       | Answered rs \<Rightarrow>
           and_then (ok_or (err_delivery TransientProviderFailure
               ''Expo receipt response could not be read'' (fst (response_retry_after X rs ?w))
               (Some ''response_read_error'')) (rs_text rs)) (\<lambda>body.
             read_receipts C requests (rs_status rs) (fst (response_retry_after X rs ?w)) body))"
    unfolding get_receipts_def if_not_P [OF size] ids io_lift_simps
    by (cases "w_answers w (w_sent w @ [?rq])")
       (simp_all add: io_bind_def request_answer io_step_def io_lift_def read_text_def and_then_def
         split: prod.splits sum.splits)
  show ?thesis
  proof (cases "w_answers w (w_sent w @ [?rq])")
    case (Failed e)
    with True sent result show ?thesis by (auto simp: split_beta)
  next
    case (Answered rs)
    show ?thesis
    proof (cases "rs_text rs")
      case None
      with True sent result Answered show ?thesis by (auto simp: split_beta)
    next
      case (Some body)
      let ?ra = "fst (response_retry_after X rs ?w)"
      have "fst (get_receipts X C cfg requests w) = read_receipts C requests (rs_status rs) ?ra body"
        using result Answered Some by simp
      with True sent Answered Some read_receipts_spec [where C = C and body = body and st = "rs_status rs"
          and requests = requests and ra = ?ra] show ?thesis
        by (cases "ex_receipt_response C body") (auto simp: split_beta)
    qed
  qed
qed

text \<open>
  Every ticket the adapter reports as accepted can be followed up: its receipt request is
  well formed and carries the job, its fingerprint and the ticket; a ticket that is not
  accepted cannot.
\<close>

theorem receipt_request_for_ticket:
  "case receipt_request_from_ticket X job (outcome_from_ticket X job ticket) of
     Inr rq \<Rightarrow> po_class (outcome_from_ticket X job ticket) = Accepted
       \<and> tk_status ticket = ''ok'' \<and> tk_id ticket = Some (xr_ticket_id rq)
       \<and> xr_job_id rq = pj_job_id job
       \<and> xr_target_fingerprint rq = fingerprint_target X (pj_target job)
   | Inl e \<Rightarrow> po_class (outcome_from_ticket X job ticket) \<noteq> Accepted"
  by (auto simp: receipt_request_from_ticket_def receipt_request_new_def outcome_from_ticket_def
      expo_accepted_def internal_outcome_def outcome_for_expo_error_def expo_error_class_def
      split: option.splits)

end
