(* ===== verification/Web_Push.thy ===== *)
theory Web_Push
  imports Adapter
begin

unbundle bit_operations_syntax

text \<open>
  The Web Push adapter (\<open>src/providers/web_push.rs\<close>): VAPID configuration, the host policy, the
  endpoint checks that keep deliveries away from internal addresses, encryption, delivery and
  classification. P-256, base64, ECE and JWT signing are the codec argument.
\<close>

section \<open>Configuration\<close>

record vapid_claims =
  vc_aud :: string
  vc_exp :: u64
  vc_sub :: string

record web_push_codec =
  wx_pkcs8_pem :: "string \<Rightarrow> string option"
  wx_sec1_pem :: "string \<Rightarrow> string option"
  wx_to_pkcs8_der :: "string \<Rightarrow> string option"
  wx_public_point :: "string \<Rightarrow> string"
  wx_b64_encode :: "string \<Rightarrow> string"
  wx_b64_decode :: "string \<Rightarrow> string option"
  wx_ece_encrypt :: "string \<Rightarrow> string \<Rightarrow> string \<Rightarrow> string option"
  wx_encode :: "vapid_claims \<Rightarrow> string \<Rightarrow> string option"

datatype web_push_config_error =
    WpMissingField string
  | WpInvalidSubject
  | WpInvalidPrivateKey
  | WpInvalidTtl
  | WpInvalidAllowedHost
  | WpHttpClient

datatype host_policy = Allowlist "string list" | AnyPublic

record web_push_config =
  wc_vapid_signing_key :: string
  wc_vapid_public_key :: string
  wc_vapid_subject :: string
  wc_default_ttl_seconds :: u32
  wc_host_policy :: host_policy
  wc_request_timeout :: duration

definition default_ttl_seconds :: u32 where "default_ttl_seconds = 43200"
definition web_push_max_ttl :: nat where "web_push_max_ttl = 28 * 24 * 60 * 60"
definition vapid_token_lifetime_seconds :: u64 where "vapid_token_lifetime_seconds = 12 * 60 * 60"
definition max_plaintext_payload_bytes :: nat where "max_plaintext_payload_bytes = 3072"

definition default_allowed_hosts :: "string list" where
  "default_allowed_hosts =
     [''fcm.googleapis.com'', ''push.services.mozilla.com'', ''notify.windows.com'', ''push.apple.com'']"

definition strict_default :: host_policy where
  "strict_default = Allowlist default_allowed_hosts"

definition trim_start_matches :: "char \<Rightarrow> string \<Rightarrow> string" where
  "trim_start_matches c s = dropWhile (\<lambda>d. d = c) s"

definition trim_end_matches :: "char \<Rightarrow> string \<Rightarrow> string" where
  "trim_end_matches c s = rev (dropWhile (\<lambda>d. d = c) (rev s))"

definition host_char :: "nat \<Rightarrow> bool" where
  "host_char c \<longleftrightarrow> is_ascii_alphanumeric c \<or> one_of ''-.'' c"

definition normalize_allowed_host :: "string \<Rightarrow> web_push_config_error + string" where
  "normalize_allowed_host s =
     (let host = to_ascii_lowercase (trim_start_matches (CHR ''.'') (trim s)) in
      if host = [] \<or> length host > 253 \<or> starts_with ''-'' host \<or> ends_with ''-'' host
         \<or> starts_with ''.'' host \<or> ends_with ''.'' host \<or> \<not> contains_str ''.'' host
         \<or> any_char (\<lambda>c. \<not> host_char c) host
      then Err WpInvalidAllowedHost else Ok host)"

fun fold_allowed_hosts :: "string list \<Rightarrow> string list \<Rightarrow> web_push_config_error + string list" where
  "fold_allowed_hosts seen [] = Ok seen"
| "fold_allowed_hosts seen (h # hs) =
     and_then (normalize_allowed_host h) (\<lambda>host.
       fold_allowed_hosts (if host \<in> set seen then seen else seen @ [host]) hs)"

definition allowlist :: "string list \<Rightarrow> web_push_config_error + host_policy" where
  "allowlist hosts =
     and_then (fold_allowed_hosts [] hosts) (\<lambda>normalized.
       if normalized = [] then Err WpInvalidAllowedHost else Ok (Allowlist normalized))"

definition parse_vapid_private_key ::
  "web_push_codec \<Rightarrow> string \<Rightarrow> web_push_config_error + (string \<times> string)" where
  "parse_vapid_private_key C pem =
     and_then (ok_or WpInvalidPrivateKey (or_else (wx_pkcs8_pem C pem) (wx_sec1_pem C pem))) (\<lambda>secret_key.
     and_then (ok_or WpInvalidPrivateKey (wx_to_pkcs8_der C secret_key)) (\<lambda>der.
       Ok (der, wx_b64_encode C (wx_public_point C secret_key))))"

definition web_push_required :: "string \<Rightarrow> string \<Rightarrow> web_push_config_error + string" where
  "web_push_required s field = (let v = trim s in if v = [] then Err (WpMissingField field) else Ok v)"

definition validate_vapid_subject :: "externals \<Rightarrow> string \<Rightarrow> web_push_config_error + unit" where
  "validate_vapid_subject X subject =
     (case x_parse_url X subject of
        None \<Rightarrow> Err WpInvalidSubject
      | Some u \<Rightarrow>
          let valid =
            (if url_scheme u = ''mailto'' then
               is_some_and (\<lambda>address. contains_str ''@'' address \<and> \<not> any_char is_whitespace address)
                 (strip_prefix ''mailto:'' subject)
             else if url_scheme u = ''https'' then
               url_host_str u \<noteq> None \<and> url_username u = [] \<and> url_password u = None
               \<and> url_fragment u = None
             else False)
          in if valid then Ok () else Err WpInvalidSubject)"

definition web_push_config_new ::
  "externals \<Rightarrow> web_push_codec \<Rightarrow> string \<Rightarrow> string \<Rightarrow> host_policy \<Rightarrow>
   web_push_config_error + web_push_config" where
  "web_push_config_new X C vapid_private_key_pem vapid_subject policy =
     and_then (web_push_required vapid_private_key_pem ''vapid_private_key_pem'') (\<lambda>pem.
     and_then (web_push_required vapid_subject ''vapid_subject'') (\<lambda>subject.
     and_then (validate_vapid_subject X subject) (\<lambda>_.
     and_then (parse_vapid_private_key C pem) (\<lambda>(signing_key, public_key).
       Ok \<lparr>wc_vapid_signing_key = signing_key, wc_vapid_public_key = public_key,
           wc_vapid_subject = subject, wc_default_ttl_seconds = default_ttl_seconds,
           wc_host_policy = policy, wc_request_timeout = from_secs 20\<rparr>))))"

definition with_default_ttl ::
  "web_push_config \<Rightarrow> u32 \<Rightarrow> web_push_config_error + web_push_config" where
  "with_default_ttl cfg ttl =
     (if unat ttl > web_push_max_ttl then Err WpInvalidTtl
      else Ok (cfg\<lparr>wc_default_ttl_seconds := ttl\<rparr>))"

definition web_push_with_request_timeout :: "duration \<Rightarrow> web_push_config \<Rightarrow> web_push_config" where
  "web_push_with_request_timeout timeout cfg = cfg\<lparr>wc_request_timeout := timeout\<rparr>"

definition policy_allowed_hosts :: "host_policy \<Rightarrow> string list option" where
  "policy_allowed_hosts policy = (case policy of Allowlist hosts \<Rightarrow> Some hosts | AnyPublic \<Rightarrow> None)"

section \<open>Endpoint policy\<close>

definition invalid_endpoint :: "string \<Rightarrow> provider_error" where
  "invalid_endpoint detail = err_delivery InvalidPayload detail None (Some ''invalid_endpoint'')"

definition blocked_endpoint :: "string \<Rightarrow> provider_error" where
  "blocked_endpoint detail =
     err_delivery InvalidPayload detail None (Some ''endpoint_policy_rejected'')"

fun ipv4_is_blocked :: "ipv4 \<Rightarrow> bool" where
  "ipv4_is_blocked (Ipv4 a b c d) =
     (let address = Ipv4 a b c d in
      ipv4_is_private address \<or> ipv4_is_loopback address \<or> ipv4_is_link_local address
      \<or> ipv4_is_unspecified address \<or> ipv4_is_broadcast address \<or> ipv4_is_documentation address
      \<or> ipv4_is_multicast address
      \<or> a = 0
      \<or> (a = 100 \<and> b AND 0xc0 = 64)
      \<or> (a = 192 \<and> b = 0 \<and> c = 0)
      \<or> (a = 198 \<and> (b = 18 \<or> b = 19))
      \<or> 240 \<le> a)"

definition ipv6_is_blocked :: "ipv6 \<Rightarrow> bool" where
  "ipv6_is_blocked segments \<longleftrightarrow>
     ipv6_is_loopback segments \<or> ipv6_is_unspecified segments \<or> ipv6_is_multicast segments
     \<or> segments ! 0 AND 0xfe00 = 0xfc00
     \<or> segments ! 0 AND 0xffc0 = 0xfe80
     \<or> segments ! 0 AND 0xffc0 = 0xfec0
     \<or> (segments ! 0 = 0x2001 \<and> segments ! 1 = 0x0db8)
     \<or> is_some_and ipv4_is_blocked (to_ipv4_mapped segments)"

fun ip_is_blocked :: "ip_addr \<Rightarrow> bool" where
  "ip_is_blocked (V4 address) = ipv4_is_blocked address"
| "ip_is_blocked (V6 address) = ipv6_is_blocked address"

definition host_matches_suffix :: "string \<Rightarrow> string \<Rightarrow> bool" where
  "host_matches_suffix host allowed \<longleftrightarrow>
     host = allowed \<or> is_some_and (ends_with ''.'') (strip_suffix allowed host)"

definition unbracket :: "string \<Rightarrow> string" where
  "unbracket host = trim_end_matches (CHR '']'') (trim_start_matches (CHR ''['') host)"

definition validate_endpoint ::
  "externals \<Rightarrow> string \<Rightarrow> host_policy \<Rightarrow> provider_error + url" where
  "validate_endpoint X endpoint policy =
     (case x_parse_url X endpoint of
        None \<Rightarrow> Err (invalid_endpoint ''Web Push endpoint is not a valid URL'')
      | Some u \<Rightarrow>
          if url_scheme u \<noteq> ''https'' \<or> url_host_str u = None
             \<or> is_some_and (\<lambda>port. port \<noteq> 443) (url_port u)
             \<or> url_username u \<noteq> [] \<or> url_password u \<noteq> None \<or> url_fragment u \<noteq> None
          then Err (invalid_endpoint
                 ''Web Push endpoint must use HTTPS port 443 without credentials or fragments'')
          else and_then (ok_or (invalid_endpoint ''Web Push endpoint is missing a host'') (url_host_str u))
            (\<lambda>raw_host.
              let host = to_ascii_lowercase (unbracket raw_host) in
              if host = ''localhost'' \<or> ends_with ''.localhost'' host
              then Err (blocked_endpoint ''Web Push endpoint host is local'')
              else if is_some_and ip_is_blocked (parse_ip_addr host)
              then Err (blocked_endpoint ''Web Push endpoint points at a non-public address'')
              else case policy of
                Allowlist allowed_hosts \<Rightarrow>
                  if \<not> list_ex (host_matches_suffix host) allowed_hosts
                  then Err (blocked_endpoint
                    ''Web Push endpoint host is not in the configured push-service allowlist'')
                  else Ok u
              | AnyPublic \<Rightarrow> Ok u))"

text \<open>\<open>url_port\<close> is \<open>None\<close> for the scheme's default, 443 for the only scheme that gets here.\<close>

definition lookup_name :: "url \<Rightarrow> string \<Rightarrow> string" where
  "lookup_name u host = host @ '':'' @ show_nat (unat (unwrap_or 443 (url_port u)))"

definition verify_public_dns :: "url \<Rightarrow> (provider_error, world, unit) io" where
  "verify_public_dns u =
     io_bind (io_lift (ok_or (invalid_endpoint ''Web Push endpoint is missing a host'')
         (url_host_str u))) (\<lambda>raw_host.
       let host = unbracket raw_host in
       if parse_ip_addr host \<noteq> None then io_return ()
       else io_bind (io_step (lookup_host (lookup_name u host))) (\<lambda>answer.
         case answer of
           None \<Rightarrow> io_throw (err_delivery TransientProviderFailure
               ''Web Push endpoint host could not be resolved'' None (Some ''dns_resolution_failed''))
         | Some addresses \<Rightarrow>
             if addresses = []
             then io_throw (err_delivery TransientProviderFailure
                    ''Web Push endpoint host returned no addresses'' None (Some ''dns_no_addresses''))
             else if list_ex ip_is_blocked addresses
             then io_throw (blocked_endpoint ''Web Push endpoint resolves to a non-public address'')
             else io_return ()))"

definition redact_web_push_endpoint :: "externals \<Rightarrow> string \<Rightarrow> string" where
  "redact_web_push_endpoint X endpoint =
     (let ellipsis = [CHR 0xE2, CHR 0x80, CHR 0xA6] in
      case x_parse_url X endpoint of
        None \<Rightarrow> ''web-push-subscription''
      | Some u \<Rightarrow>
          (case url_host_str u of
             None \<Rightarrow> ''web-push-subscription''
           | Some host \<Rightarrow>
               (case url_port u of
                  Some port \<Rightarrow> url_scheme u @ ''://'' @ host @ '':'' @ show_nat (unat port)
                    @ ''/'' @ ellipsis
                | None \<Rightarrow> url_scheme u @ ''://'' @ host @ ''/'' @ ellipsis)))"

section \<open>Delivery\<close>

definition build_payload :: "externals \<Rightarrow> push_job \<Rightarrow> provider_error + string" where
  "build_payload X job =
     (let n = pj_notification job;
          document = json_members
            [string_entry ''title'' (nt_title n),
             string_entry ''body'' (nt_body n),
             string_entry ''image_url'' (nt_image_url n),
             then_some (nt_data n \<noteq> []) (''data'', JObj (bt_collect (nt_data n)))]
      in and_then (ok_or (err_internal ''Web Push payload could not be serialized'')
             (x_json_to_vec X (JObj document))) (\<lambda>payload.
           if length payload > max_plaintext_payload_bytes
           then Err (invalid_payload (''Web Push plaintext payload exceeds ''
                  @ show_nat max_plaintext_payload_bytes @ '' bytes'') ''payload_too_large'')
           else Ok payload))"

definition decode_subscription_component ::
  "web_push_codec \<Rightarrow> string \<Rightarrow> string \<Rightarrow> provider_error + string" where
  "decode_subscription_component C s name =
     ok_or (invalid_payload (''Web Push '' @ name @ '' is not unpadded URL-safe base64'')
       ''invalid_subscription_key'') (wx_b64_decode C s)"

definition encrypt_subscription_payload ::
  "web_push_codec \<Rightarrow> string \<Rightarrow> string \<Rightarrow> string \<Rightarrow> provider_error + string" where
  "encrypt_subscription_payload C p256dh auth payload =
     and_then (decode_subscription_component C p256dh ''p256dh'') (\<lambda>p256dh.
     and_then (decode_subscription_component C auth ''auth'') (\<lambda>auth.
       if length p256dh \<noteq> 65 \<or> hd p256dh \<noteq> CHR 0x04
       then Err (invalid_payload ''Web Push p256dh must be an uncompressed P-256 public key''
              ''invalid_p256dh'')
       else if length auth \<noteq> 16
       then Err (invalid_payload ''Web Push auth secret must decode to 16 bytes''
              ''invalid_auth_secret'')
       else ok_or (invalid_payload ''Web Push subscription keys or payload could not be encrypted''
              ''encryption_failed'') (wx_ece_encrypt C p256dh auth payload)))"

definition vapid_authorization ::
  "web_push_codec \<Rightarrow> web_push_config \<Rightarrow> url \<Rightarrow> u64 \<Rightarrow> provider_error + string" where
  "vapid_authorization C cfg endpoint now =
     and_then (ok_or (err_not_configured ''VAPID ES256 token could not be created'')
         (wx_encode C \<lparr>vc_aud = url_origin endpoint,
            vc_exp = saturating_add_u64 now vapid_token_lifetime_seconds,
            vc_sub = wc_vapid_subject cfg\<rparr> (wc_vapid_signing_key cfg))) (\<lambda>token.
       Ok (''vapid t='' @ token @ '', k='' @ wc_vapid_public_key cfg))"

definition topic_for_collapse_key :: "externals \<Rightarrow> string \<Rightarrow> string" where
  "topic_for_collapse_key X collapse_key = x_hex X (take 16 (x_sha256 X collapse_key))"

definition web_push_checks :: "push_job \<Rightarrow> provider_error + unit" where
  "web_push_checks job =
     (if pj_provider job \<noteq> WebPush
         \<or> \<not> (case pj_target job of WebPushTarget _ _ _ \<Rightarrow> True | _ \<Rightarrow> False)
      then Err (invalid_payload ''Web Push job provider and target must both be web_push''
             ''provider_target_mismatch'')
      else if op_dry_run (pj_options job)
      then Err (invalid_payload ''Web Push does not provide a validate-only delivery mode''
             ''dry_run_unsupported'')
      else Ok ())"

definition classify_transport_error :: "transport_error \<Rightarrow> provider_error" where
  "classify_transport_error e =
     err_delivery TransientProviderFailure
       ''Web Push request failed before a provider response was received'' None
       (Some (if te_is_timeout e then ''transport_timeout''
              else if te_is_connect e then ''transport_connect''
              else ''transport_error''))"

definition web_push_status_class :: "nat \<Rightarrow> duration option \<Rightarrow> outcome_class" where
  "web_push_status_class status retry_after =
     (if status = 404 \<or> status = 410 then InvalidToken
      else if status = 413 \<or> status = 400 then InvalidPayload
      else if status = 429 then Throttled
      else if status = 401 \<or> status = 403 then PermanentProviderFailure
      else if rd_retryable (classify_http_status status retry_after) then TransientProviderFailure
      else PermanentProviderFailure)"

fun web_push_detail :: "outcome_class \<Rightarrow> string" where
  "web_push_detail InvalidToken = ''Web Push subscription is expired or unavailable''"
| "web_push_detail InvalidPayload = ''Web Push service rejected the request payload''"
| "web_push_detail Throttled = ''Web Push service throttled the request''"
| "web_push_detail TransientProviderFailure = ''Web Push service returned a retryable failure''"
| "web_push_detail _ = ''Web Push service permanently rejected the request''"

definition classify_response ::
  "externals \<Rightarrow> push_job \<Rightarrow> http_response \<Rightarrow> (provider_error, world, push_outcome) io" where
  "classify_response X job response =
     (if is_success (rs_status response) then io_return (outcome_accepted X job)
      else io_bind (io_step (response_retry_after X response)) (\<lambda>retry_after.
        let class = web_push_status_class (rs_status response) retry_after in
        io_return
          \<lparr>po_version = V1,
           po_job_id = pj_job_id job,
           po_provider = WebPush,
           po_target_fingerprint = fingerprint_target X (pj_target job),
           po_class = class,
           po_provider_code = Some (''http_'' @ show_nat (rs_status response)),
           po_retry_after_ms = map_option duration_to_millis retry_after,
           po_safe_detail = Some (web_push_detail class)\<rparr>))"

definition web_push_request ::
  "externals \<Rightarrow> web_push_config \<Rightarrow> push_job \<Rightarrow> url \<Rightarrow> string \<Rightarrow> string \<Rightarrow> http_request" where
  "web_push_request X cfg job endpoint authorization encrypted =
     \<lparr>rq_url = endpoint, rq_auth = NoAuth,
      rq_headers = flatten
        [Some (''Authorization'', authorization),
         Some (''Content-Encoding'', ''aes128gcm''),
         Some (''Content-Type'', ''application/octet-stream''),
         Some (''TTL'', show_nat (unat (unwrap_or (wc_default_ttl_seconds cfg)
           (op_ttl_seconds (pj_options job))))),
         Some (''Urgency'', case op_priority (pj_options job) of Normal \<Rightarrow> ''normal'' | High \<Rightarrow> ''high''),
         map_option (\<lambda>k. (''Topic'', topic_for_collapse_key X k)) (op_collapse_key (pj_options job))],
      rq_body = BytesBody encrypted\<rparr>"

definition post_encrypted ::
  "externals \<Rightarrow> web_push_codec \<Rightarrow> web_push_config \<Rightarrow> push_job \<Rightarrow> url \<Rightarrow> string \<Rightarrow> string \<Rightarrow>
   (provider_error, world, push_outcome) io" where
  "post_encrypted X C cfg job endpoint p256dh auth =
     io_bind (io_lift (build_payload X job)) (\<lambda>payload.
     io_bind (io_lift (encrypt_subscription_payload C p256dh auth payload)) (\<lambda>encrypted.
     io_bind unix_now (\<lambda>now.
     io_bind (io_lift (vapid_authorization C cfg endpoint now)) (\<lambda>authorization.
     io_bind (io_step (http_send (web_push_request X cfg job endpoint authorization encrypted))) (\<lambda>answer.
       case answer of
         Failed e \<Rightarrow> io_throw (classify_transport_error e)
       | Answered response \<Rightarrow> classify_response X job response)))))"

definition web_push_deliver ::
  "externals \<Rightarrow> web_push_codec \<Rightarrow> web_push_config \<Rightarrow> push_job \<Rightarrow>
   (provider_error, world, push_outcome) io" where
  "web_push_deliver X C cfg job =
     io_bind (io_lift (web_push_checks job)) (\<lambda>_.
       case pj_target job of
         WebPushTarget endpoint p256dh auth \<Rightarrow>
           io_bind (io_lift (validate_endpoint X endpoint (wc_host_policy cfg))) (\<lambda>u.
           io_bind (if wc_host_policy cfg = AnyPublic then verify_public_dns u else io_return ()) (\<lambda>_.
             post_encrypted X C cfg job u p256dh auth))
       | _ \<Rightarrow> io_throw (invalid_payload ''Web Push provider received a non-Web-Push target''
                ''provider_target_mismatch''))"

definition web_push_send_message ::
  "externals \<Rightarrow> web_push_codec \<Rightarrow> web_push_config \<Rightarrow> push_job \<Rightarrow>
   (provider_error, world, push_outcome) io" where
  "web_push_send_message X C cfg job =
     io_bind (io_lift (contract_check X job)) (\<lambda>_. web_push_deliver X C cfg job)"

definition web_push_provider ::
  "externals \<Rightarrow> web_push_codec \<Rightarrow> web_push_config \<Rightarrow> push_provider" where
  "web_push_provider X C cfg =
     \<lparr>pp_kind = WebPush, pp_readiness = readiness_ready, pp_send = web_push_send_message X C cfg\<rparr>"

section \<open>The adapter contract\<close>

lemma endpoint_errors [simp]:
  "error_bounded (invalid_endpoint d)" "error_bounded (blocked_endpoint d)"
  "error_bounded (classify_transport_error e)"
  "error_class (invalid_endpoint d) = InvalidPayload" "error_class (blocked_endpoint d) = InvalidPayload"
  by (simp_all add: invalid_endpoint_def blocked_endpoint_def classify_transport_error_def)

lemma validate_endpoint_error: "validate_endpoint X e p = Err err \<Longrightarrow> error_bounded err"
  by (auto simp: validate_endpoint_def Let_def and_then_def ok_or_def
      split: option.splits if_splits host_policy.splits)

lemma build_payload_error: "build_payload X job = Err err \<Longrightarrow> error_bounded err"
  by (auto simp: build_payload_def Let_def and_then_def ok_or_def split: option.splits if_splits)

lemma encrypt_error: "encrypt_subscription_payload C p a t = Err err \<Longrightarrow> error_bounded err"
  by (auto simp: encrypt_subscription_payload_def decode_subscription_component_def and_then_def
      ok_or_def split: option.splits if_splits sum.splits)

lemma vapid_error: "vapid_authorization C cfg u now = Err err \<Longrightarrow> error_bounded err"
  by (auto simp: vapid_authorization_def and_then_def ok_or_def split: option.splits)

lemma web_push_checks_error: "web_push_checks job = Err err \<Longrightarrow> error_bounded err"
  by (auto simp: web_push_checks_def split: if_splits)

lemmas web_push_errors = validate_endpoint_error build_payload_error encrypt_error vapid_error
  web_push_checks_error

lemma verify_post: "io_post error_bounded (\<lambda>_. True) (verify_public_dns u)"
  unfolding verify_public_dns_def Let_def
  by (intro io_post_bind [where R = "\<lambda>_. True"] lift_ok_or_post io_post_cases [THEN iffD2] conjI impI
      io_post_step) (auto split: option.splits)

lemma classify_response_post:
  assumes "pj_provider job = WebPush"
  shows "io_post error_bounded (answers X WebPush job) (classify_response X job rs)"
  unfolding classify_response_def
  by (intro io_post_cases [THEN iffD2] conjI impI io_post_bind [where R = bounded_wait] retry_after_post)
     (simp_all add: answers_def assms Let_def)

lemma post_encrypted_post:
  assumes "pj_provider job = WebPush"
  shows "io_post error_bounded (answers X WebPush job) (post_encrypted X C cfg job u p a)"
  unfolding post_encrypted_def
  by (intro io_post_bind [where R = "\<lambda>_. True"] unix_now_post io_post_step)
     (auto simp: classify_response_post assms dest: web_push_errors split: sum.splits http_answer.splits)

lemma web_push_deliver_post:
  assumes "push_job_ok X job"
  shows "io_post error_bounded (answers X WebPush job) (web_push_deliver X C cfg job)"
proof (cases "pj_target job")
  case (WebPushTarget e p a)
  then have provider: "pj_provider job = WebPush" using push_job_ok_provider [OF assms] by simp
  show ?thesis
    unfolding web_push_deliver_def WebPushTarget push_target.case
    by (intro io_post_bind [where R = "\<lambda>_. True"] post_encrypted_post provider)
       (auto simp: verify_post dest: web_push_errors split: sum.splits)
qed (use push_job_ok_provider [OF assms] in \<open>simp_all add: web_push_deliver_def web_push_checks_def\<close>)

lemma web_push_push_adapter: "push_adapter X (web_push_provider X C cfg)"
proof (rule push_adapterI [where deliver = "web_push_deliver X C cfg"])
  show "\<exists>detail code. web_push_deliver X C cfg job = io_throw (invalid_payload detail code)"
    if "target_provider (pj_target job) \<noteq> pp_kind (web_push_provider X C cfg)" for job
    using that by (cases "pj_target job") (auto simp: web_push_deliver_def web_push_checks_def web_push_provider_def)
qed (auto simp: web_push_provider_def web_push_send_message_def readiness_ready_def web_push_deliver_post)

interpretation web_push: push_adapter X "web_push_provider X C cfg" for X C cfg
  by (rule web_push_push_adapter)

text \<open>\<open>new\<close>: building the HTTP client may fail, as \<open>client\<close> says.\<close>

definition web_push_provider_new ::
  "externals \<Rightarrow> web_push_codec \<Rightarrow> bool \<Rightarrow> web_push_config \<Rightarrow> web_push_config_error + push_provider" where
  "web_push_provider_new X C client cfg =
     (if \<not> client then Err WpHttpClient else Ok (web_push_provider X C cfg))"

section \<open>Blocked address ranges\<close>

fun ipv4_value :: "ipv4 \<Rightarrow> nat" where
  "ipv4_value (Ipv4 a b c d) = ((unat a * 256 + unat b) * 256 + unat c) * 256 + unat d"

definition in_ipv4_range :: "ipv4 \<Rightarrow> ipv4 \<times> nat \<Rightarrow> bool" where
  "in_ipv4_range a r =
     (case r of (base, len) \<Rightarrow> ipv4_value a div 2 ^ (32 - len) = ipv4_value base div 2 ^ (32 - len))"

definition blocked_ipv4_ranges :: "(ipv4 \<times> nat) list" where
  "blocked_ipv4_ranges =
     [(Ipv4 0 0 0 0, 8), (Ipv4 10 0 0 0, 8), (Ipv4 100 64 0 0, 10), (Ipv4 127 0 0 0, 8),
      (Ipv4 169 254 0 0, 16), (Ipv4 172 16 0 0, 12), (Ipv4 192 0 0 0, 24), (Ipv4 192 0 2 0, 24),
      (Ipv4 192 168 0 0, 16), (Ipv4 198 18 0 0, 15), (Ipv4 198 51 100 0, 24),
      (Ipv4 203 0 113 0, 24), (Ipv4 224 0 0 0, 4), (Ipv4 240 0 0 0, 4)]"

lemma unat_u8_less: "unat (x :: u8) < 256"
  using unsigned_less [of x] by simp

lemma ipv4_value_div:
  fixes a b c d :: u8
  defines "v \<equiv> ipv4_value (Ipv4 a b c d)"
  shows "v div 256 = (unat a * 256 + unat b) * 256 + unat c" (is ?t1)
    and "v div 65536 = unat a * 256 + unat b" (is ?t2)
    and "v div 16777216 = unat a" (is ?t3)
    and "v div 4194304 = unat a * 4 + unat b div 64" "v div 1048576 = unat a * 16 + unat b div 16"
    and "v div 131072 = unat a * 128 + unat b div 2" "v div 268435456 = unat a div 16"
proof -
  have split: "v div (m * n) = v div m div n" for m n by (rule div_mult2_eq)
  have drop: "y < n \<Longrightarrow> (x * n + y) div n = x" for x y n :: nat by simp
  show 1: ?t1 unfolding v_def ipv4_value.simps by (rule drop [OF unat_u8_less])
  have "v div (256 * 256) = unat a * 256 + unat b" unfolding split 1 by (rule drop [OF unat_u8_less])
  then show 2: ?t2 by simp
  have "v div (65536 * 256) = unat a" unfolding split 2 by (rule drop [OF unat_u8_less])
  then show 3: ?t3 by simp
  have "v div (65536 * 64) = unat a * 4 + unat b div 64" unfolding split 2 by arith
  then show "v div 4194304 = unat a * 4 + unat b div 64" by simp
  have "v div (65536 * 16) = unat a * 16 + unat b div 16" unfolding split 2 by arith
  then show "v div 1048576 = unat a * 16 + unat b div 16" by simp
  have "v div (65536 * 2) = unat a * 128 + unat b div 2" unfolding split 2 by arith
  then show "v div 131072 = unat a * 128 + unat b div 2" by simp
  have "v div (16777216 * 16) = unat a div 16" unfolding split 3 ..
  then show "v div 268435456 = unat a div 16" by simp
qed

lemma cgnat_mask: "(b AND 0xc0 = (64 :: u8)) \<longleftrightarrow> unat b div 64 = 1"
proof -
  have "0xc0 = NOT (mask 6 :: u8)" by (simp add: mask_eq_exp_minus_1)
  then show ?thesis using prefix_test [of 6 "64 :: u8" b] by simp
qed

lemma div_eq_range: "0 < k \<Longrightarrow> n div k = q \<longleftrightarrow> q * k \<le> n \<and> n < Suc q * k" for n k q :: nat
  by (metis less_Suc_eq_le div_less_iff_less_mult less_eq_div_iff_mult_less_eq order_antisym_conv order_refl)

lemma quotient_tests:
  fixes n :: nat
  shows "n div 16 = 1 \<longleftrightarrow> 16 \<le> n \<and> n \<le> 31" "n div 2 = 9 \<longleftrightarrow> n = 18 \<or> n = 19"
    "n div 16 = 14 \<longleftrightarrow> 224 \<le> n \<and> n \<le> 239" "n < 256 \<Longrightarrow> n div 16 = 15 \<longleftrightarrow> 240 \<le> n"
  by (auto simp: div_eq_range)

lemma digits_test: "q < n \<Longrightarrow> a * n + q = k \<longleftrightarrow> a = k div n \<and> q = k mod n" for a n q k :: nat
  by auto

lemma ipv4_ranges:
  fixes a b c d :: u8
  shows "list_ex (in_ipv4_range (Ipv4 a b c d)) blocked_ipv4_ranges \<longleftrightarrow>
     unat a = 0 \<or> unat a = 10 \<or> unat a * 4 + unat b div 64 = 401 \<or> unat a = 127
     \<or> unat a * 256 + unat b = 43518 \<or> unat a * 16 + unat b div 16 = 2753
     \<or> (unat a * 256 + unat b) * 256 + unat c = 12582912
     \<or> (unat a * 256 + unat b) * 256 + unat c = 12582914
     \<or> unat a * 256 + unat b = 49320 \<or> unat a * 128 + unat b div 2 = 25353
     \<or> (unat a * 256 + unat b) * 256 + unat c = 12989284
     \<or> (unat a * 256 + unat b) * 256 + unat c = 13303921
     \<or> unat a div 16 = 14 \<or> unat a div 16 = 15"
  by (simp add: blocked_ipv4_ranges_def in_ipv4_range_def ipv4_value_div del: ipv4_value.simps)

lemma ipv4_blocked_iff: "ipv4_is_blocked a \<longleftrightarrow> list_ex (in_ipv4_range a) blocked_ipv4_ranges"
proof (cases a)
  case (Ipv4 a b c d)
  have q: "unat b div 64 < 4" "unat b div 16 < 16" "unat b div 2 < 128"
    using unat_u8_less [of b] by linarith+
  note less = unat_u8_less [of a] unat_u8_less [of b] unat_u8_less [of c]
  have "ipv4_is_blocked (Ipv4 a b c d) \<longleftrightarrow>
     unat a = 0 \<or> unat a = 10 \<or> (unat a = 100 \<and> unat b div 64 = 1) \<or> unat a = 127
     \<or> (unat a = 169 \<and> unat b = 254) \<or> (unat a = 172 \<and> unat b div 16 = 1)
     \<or> (unat a = 192 \<and> unat b = 0 \<and> unat c = 0) \<or> (unat a = 192 \<and> unat b = 0 \<and> unat c = 2)
     \<or> (unat a = 192 \<and> unat b = 168) \<or> (unat a = 198 \<and> unat b div 2 = 9)
     \<or> (unat a = 198 \<and> unat b = 51 \<and> unat c = 100) \<or> (unat a = 203 \<and> unat b = 0 \<and> unat c = 113)
     \<or> unat a div 16 = 14 \<or> unat a div 16 = 15"
    unfolding quotient_tests(1-3) quotient_tests(4) [OF less(1)]
      ipv4_is_blocked.simps Let_def cgnat_mask
    by (simp add: word_unat_eq_iff word_le_nat_alt) (rule iffI; elim disjE; simp)
  then show ?thesis
    unfolding Ipv4 ipv4_ranges digits_test [OF less(2)] digits_test [OF less(3)]
      digits_test [OF q(1)] digits_test [OF q(2)] digits_test [OF q(3)]
    by (simp add: conj_assoc)
qed

text \<open>An IPv6 address as a number, and membership in a prefix.\<close>

definition ipv6_value :: "ipv6 \<Rightarrow> nat" where
  "ipv6_value ss = foldl (\<lambda>v s. v * 65536 + unat s) 0 ss"

definition in_ipv6_range :: "ipv6 \<Rightarrow> ipv6 \<times> nat \<Rightarrow> bool" where
  "in_ipv6_range a r =
     (case r of (base, len) \<Rightarrow> ipv6_value a div 2 ^ (128 - len) = ipv6_value base div 2 ^ (128 - len))"

definition blocked_ipv6_ranges :: "(ipv6 \<times> nat) list" where
  "blocked_ipv6_ranges =
     [([0, 0, 0, 0, 0, 0, 0, 0], 128), ([0, 0, 0, 0, 0, 0, 0, 1], 128),
      ([0xff00, 0, 0, 0, 0, 0, 0, 0], 8), ([0xfc00, 0, 0, 0, 0, 0, 0, 0], 7),
      ([0xfe80, 0, 0, 0, 0, 0, 0, 0], 10), ([0xfec0, 0, 0, 0, 0, 0, 0, 0], 10),
      ([0x2001, 0x0db8, 0, 0, 0, 0, 0, 0], 32)]"

lemma unat_u16_less: "unat (x :: u16) < 65536"
  using unsigned_less [of x] by simp

lemma ipv6_value_snoc:
  "ipv6_value (ss @ [x]) div 65536 = ipv6_value ss"
  "ipv6_value (ss @ [x]) = k \<longleftrightarrow> ipv6_value ss = k div 65536 \<and> unat x = k mod 65536"
proof -
  have v: "ipv6_value (ss @ [x]) = ipv6_value ss * 65536 + unat x" by (simp add: ipv6_value_def)
  show "ipv6_value (ss @ [x]) div 65536 = ipv6_value ss"
    unfolding v using unat_u16_less [of x] by simp
  show "ipv6_value (ss @ [x]) = k \<longleftrightarrow> ipv6_value ss = k div 65536 \<and> unat x = k mod 65536"
    unfolding v by (rule digits_test) (rule unat_u16_less)
qed

lemma eight_segments: "[a, b, c, d, e, f, g, h] = ((((((([] @ [a]) @ [b]) @ [c]) @ [d]) @ [e]) @ [f]) @ [g]) @ [h]"
  by simp

lemma ipv6_value_div:
  fixes a b c d e f g h :: u16
  defines "v \<equiv> ipv6_value [a, b, c, d, e, f, g, h]"
  shows "v div 2 ^ 96 = unat a * 65536 + unat b" (is ?t1)
    and "k \<le> 16 \<Longrightarrow> v div 2 ^ (112 + k) = unat a div 2 ^ k"
proof -
  have power: "2 ^ 96 = (65536 * 65536 * 65536 * 65536 * 65536 * 65536 :: nat)" by simp
  have ab: "v div 2 ^ 96 = ipv6_value (([] @ [a]) @ [b])"
    unfolding power div_mult2_eq v_def eight_segments ipv6_value_snoc(1) ..
  then show ?t1 by (simp add: ipv6_value_def)
  have "v div 2 ^ 112 = v div 2 ^ 96 div 65536"
    unfolding div_mult2_eq [symmetric] by simp
  also have "\<dots> = unat a" unfolding ab ipv6_value_snoc(1) by (simp add: ipv6_value_def)
  finally have a: "v div 2 ^ 112 = unat a" .
  show "v div 2 ^ (112 + k) = unat a div 2 ^ k" if "k \<le> 16"
    unfolding power_add div_mult2_eq a ..
qed

lemma ipv6_masks:
  fixes x :: u16
  shows "x AND 0xfe00 = 0xfc00 \<longleftrightarrow> unat x div 2 ^ 9 = 126"
    "x AND 0xffc0 = 0xfe80 \<longleftrightarrow> unat x div 2 ^ 6 = 1018"
    "x AND 0xffc0 = 0xfec0 \<longleftrightarrow> unat x div 2 ^ 6 = 1019"
    "x AND 0xff00 = 0xff00 \<longleftrightarrow> unat x div 2 ^ 8 = 255"
proof -
  have m: "0xfe00 = NOT (mask 9 :: u16)" "0xffc0 = NOT (mask 6 :: u16)" "0xff00 = NOT (mask 8 :: u16)"
    by (simp_all add: mask_eq_exp_minus_1)
  show "x AND 0xfe00 = 0xfc00 \<longleftrightarrow> unat x div 2 ^ 9 = 126"
    using prefix_test [of 9 "0xfc00" x] by (simp add: m(1) [symmetric])
  show "x AND 0xffc0 = 0xfe80 \<longleftrightarrow> unat x div 2 ^ 6 = 1018"
    using prefix_test [of 6 "0xfe80" x] by (simp add: m(2) [symmetric])
  show "x AND 0xffc0 = 0xfec0 \<longleftrightarrow> unat x div 2 ^ 6 = 1019"
    using prefix_test [of 6 "0xfec0" x] by (simp add: m(2) [symmetric])
  show "x AND 0xff00 = 0xff00 \<longleftrightarrow> unat x div 2 ^ 8 = 255"
    using prefix_test [of 8 "0xff00" x] by (simp add: m(3) [symmetric])
qed

lemma ipv6_value_small:
  fixes a b c d e f g h :: u16
  assumes "k < 65536"
  shows "ipv6_value [a, b, c, d, e, f, g, h] = k \<longleftrightarrow> [a, b, c, d, e, f, g, h] = [0, 0, 0, 0, 0, 0, 0, of_nat k]"
proof -
  have "unat (of_nat k :: u16) = k" using assms by (simp add: unat_of_nat)
  then show ?thesis
    unfolding eight_segments ipv6_value_snoc(2) using assms
    by (simp add: ipv6_value_def word_unat_eq_iff)
qed

section \<open>Properties\<close>

text \<open>
  C14: The addresses the adapter refuses are exactly those of a fixed list of prefixes: for
  IPv4 the unspecified, private, shared (CGNAT), loopback, link-local, protocol, documentation,
  benchmarking, multicast and reserved ranges; for IPv6 the unspecified and loopback addresses,
  multicast, unique-local, link-local, site-local and documentation prefixes and the mapped
  form of every refused IPv4 address.
\<close>

theorem ip_is_blocked_ranges:
  "ip_is_blocked (V4 v4) = list_ex (in_ipv4_range v4) blocked_ipv4_ranges
   \<and> ip_is_blocked (V6 [a, b, c, d, e, f, g, h]) =
       (list_ex (in_ipv6_range [a, b, c, d, e, f, g, h]) blocked_ipv6_ranges
        \<or> is_some_and (\<lambda>m. list_ex (in_ipv4_range m) blocked_ipv4_ranges)
            (to_ipv4_mapped [a, b, c, d, e, f, g, h]))"
proof -
  let ?ss = "[a, b, c, d, e, f, g, h]"
  have len: "in_ipv6_range ?ss ([x, y, 0, 0, 0, 0, 0, 0], 16 - k) \<longleftrightarrow> unat a div 2 ^ k = unat x div 2 ^ k"
    if "k \<le> 16" for x y k
  proof -
    have "128 - (16 - k) = 112 + k" using that by simp
    then show ?thesis unfolding in_ipv6_range_def prod.case by (simp only: ipv6_value_div(2) that)
  qed
  have r8: "in_ipv6_range ?ss ([0xff00, 0, 0, 0, 0, 0, 0, 0], 8) \<longleftrightarrow> unat a div 2 ^ 8 = 255"
    using len [of 8 "0xff00" 0] by simp
  have r7: "in_ipv6_range ?ss ([0xfc00, 0, 0, 0, 0, 0, 0, 0], 7) \<longleftrightarrow> unat a div 2 ^ 9 = 126"
    using len [of 9 "0xfc00" 0] by simp
  have r10: "in_ipv6_range ?ss ([0xfe80, 0, 0, 0, 0, 0, 0, 0], 10) \<longleftrightarrow> unat a div 2 ^ 6 = 1018"
    "in_ipv6_range ?ss ([0xfec0, 0, 0, 0, 0, 0, 0, 0], 10) \<longleftrightarrow> unat a div 2 ^ 6 = 1019"
    using len [of 6 "0xfe80" 0] len [of 6 "0xfec0" 0] by simp_all
  have r32: "in_ipv6_range ?ss ([0x2001, 0x0db8, 0, 0, 0, 0, 0, 0], 32) \<longleftrightarrow> a = 0x2001 \<and> b = 0x0db8"
  proof -
    have len: "128 - 32 = (96 :: nat)" by simp
    show ?thesis
      unfolding in_ipv6_range_def prod.case len ipv6_value_div(1) digits_test [OF unat_u16_less]
      by (simp add: word_unat_eq_iff)
  qed
  have r128: "in_ipv6_range ?ss ([0, 0, 0, 0, 0, 0, 0, 0], 128) \<longleftrightarrow> ?ss = [0, 0, 0, 0, 0, 0, 0, 0]"
    "in_ipv6_range ?ss ([0, 0, 0, 0, 0, 0, 0, 1], 128) \<longleftrightarrow> ?ss = [0, 0, 0, 0, 0, 0, 0, 1]"
    using ipv6_value_small [of 0 a b c d e f g h] ipv6_value_small [of 1 a b c d e f g h]
    unfolding in_ipv6_range_def prod.case by (simp_all add: ipv6_value_def)
  have mapped: "is_some_and ipv4_is_blocked m
      = is_some_and (\<lambda>m. list_ex (in_ipv4_range m) blocked_ipv4_ranges) m" for m
    by (cases m) (simp_all add: ipv4_blocked_iff)
  have "ip_is_blocked (V6 ?ss) =
       (list_ex (in_ipv6_range ?ss) blocked_ipv6_ranges
        \<or> is_some_and (\<lambda>m. list_ex (in_ipv4_range m) blocked_ipv4_ranges) (to_ipv4_mapped ?ss))"
    unfolding ip_is_blocked.simps ipv6_is_blocked_def ipv6_is_loopback_def ipv6_is_unspecified_def
      ipv6_is_multicast_def nth_Cons_0 ipv6_masks blocked_ipv6_ranges_def
      list_ex_Nil_iff list_ex_Cons_iff
      r8 r7 r10 r32 r128 mapped
    by (simp only: nth_Cons_Suc nth_Cons_0 One_nat_def simp_thms) blast
  then show ?thesis using ipv4_blocked_iff by simp
qed

text \<open>What the adapter requires of the URL \<open>u\<close> that the endpoint text parses to.\<close>

definition public_host :: "host_policy \<Rightarrow> (string \<Rightarrow> ip_addr list option) \<Rightarrow> url \<Rightarrow> string \<Rightarrow> bool" where
  "public_host policy dns u raw_host \<longleftrightarrow>
     (let host = to_ascii_lowercase (unbracket raw_host) in
      host \<noteq> ''localhost'' \<and> \<not> ends_with ''.localhost'' host
      \<and> is_none_or (\<lambda>a. \<not> ip_is_blocked a) (parse_ip_addr host)
      \<and> (case policy of
           Allowlist hosts \<Rightarrow> list_ex (\<lambda>h. host = h \<or> ends_with (''.'' @ h) host) hosts
         | AnyPublic \<Rightarrow>
             parse_ip_addr (unbracket raw_host) \<noteq> None
             \<or> is_some_and (\<lambda>addrs. addrs \<noteq> [] \<and> list_all (\<lambda>a. \<not> ip_is_blocked a) addrs)
                 (dns (lookup_name u (unbracket raw_host)))))"

definition endpoint_allowed ::
  "externals \<Rightarrow> host_policy \<Rightarrow> (string \<Rightarrow> ip_addr list option) \<Rightarrow> string \<Rightarrow> url \<Rightarrow> bool" where
  "endpoint_allowed X policy dns endpoint u \<longleftrightarrow>
     x_parse_url X endpoint = Some u
     \<and> url_scheme u = ''https'' \<and> (url_port u = None \<or> url_port u = Some 443)
     \<and> url_username u = [] \<and> url_password u = None \<and> url_fragment u = None
     \<and> is_some_and (public_host policy dns u) (url_host_str u)"

lemma host_matches_suffix_iff: "host_matches_suffix host h \<longleftrightarrow> host = h \<or> ends_with (''.'' @ h) host"
proof -
  have e: "ends_with q t \<longleftrightarrow> (\<exists>r. t = r @ q)" for q t
    by (auto simp: ends_with_def starts_with_iff) (metis rev_append rev_rev_ident)+
  show ?thesis
  proof (cases "ends_with h host")
    case True
    then obtain r where "host = r @ h" by (auto simp: e)
    then show ?thesis by (auto simp: host_matches_suffix_def strip_suffix_def e)
  next
    case False
    then have "\<not> ends_with (''.'' @ h) host" by (auto simp: e)
    with False show ?thesis by (simp add: host_matches_suffix_def strip_suffix_def)
  qed
qed

lemma validate_endpoint_ok:
  assumes "validate_endpoint X e policy = Ok u"
  shows "x_parse_url X e = Some u \<and> url_scheme u = ''https'' \<and> (url_port u = None \<or> url_port u = Some 443)
     \<and> url_username u = [] \<and> url_password u = None \<and> url_fragment u = None
     \<and> (\<exists>raw. url_host_str u = Some raw \<and> (let host = to_ascii_lowercase (unbracket raw) in
          host \<noteq> ''localhost'' \<and> \<not> ends_with ''.localhost'' host
          \<and> is_none_or (\<lambda>a. \<not> ip_is_blocked a) (parse_ip_addr host)
          \<and> (case policy of
               Allowlist hosts \<Rightarrow> list_ex (\<lambda>h. host = h \<or> ends_with (''.'' @ h) host) hosts
             | AnyPublic \<Rightarrow> True)))"
  using assms
  by (auto simp: validate_endpoint_def Let_def and_then_eq_Ok is_some_and_def is_none_or_def
      host_matches_suffix_iff [abs_def] split: option.splits if_splits host_policy.splits)

lemma verify_public_dns_ok:
  assumes "verify_public_dns u w = (Ok x, w')" and "url_host_str u = Some raw"
  shows "parse_ip_addr (unbracket raw) \<noteq> None
     \<or> is_some_and (\<lambda>addrs. addrs \<noteq> [] \<and> list_all (\<lambda>a. \<not> ip_is_blocked a) addrs)
         (w_dns w (lookup_name u (unbracket raw)))"
  using assms
  by (auto simp: verify_public_dns_def Let_def io_bind_def io_step_def lookup_host_def io_throw_def
      io_return_def is_some_and_def list_ex_iff list_all_iff split: if_splits option.splits)

definition web_push_traffic_ok ::
  "externals \<Rightarrow> web_push_codec \<Rightarrow> web_push_config \<Rightarrow> push_job \<Rightarrow> (string \<Rightarrow> ip_addr list option) \<Rightarrow>
   http_request \<Rightarrow> bool" where
  "web_push_traffic_ok X C cfg job dns rq \<longleftrightarrow>
     (\<exists>e p a payload encrypted authorization.
        pj_target job = WebPushTarget e p a
        \<and> endpoint_allowed X (wc_host_policy cfg) dns e (rq_url rq)
        \<and> build_payload X job = Ok payload \<and> length payload \<le> 3072
        \<and> encrypt_subscription_payload C p a payload = Ok encrypted
        \<and> rq = web_push_request X cfg job (rq_url rq) authorization encrypted)"

lemma build_payload_bound: "build_payload X job = Ok t \<Longrightarrow> length t \<le> 3072"
  by (auto simp: build_payload_def Let_def and_then_eq_Ok max_plaintext_payload_bytes_def split: if_splits)

lemma post_encrypted_sends:
  assumes "\<And>payload encrypted authorization.
      build_payload X job = Ok payload \<Longrightarrow> encrypt_subscription_payload C p a payload = Ok encrypted \<Longrightarrow>
      P (web_push_request X cfg job u authorization encrypted)"
  shows "io_frame (sends P) (post_encrypted X C cfg job u p a)"
proof -
  have c: "io_frame (sends P) (classify_response X job rs)" for rs
    by (auto simp: classify_response_def Let_def intro!: io_frame_intros sent.frame_pure)
  show ?thesis
    unfolding post_encrypted_def
    by (intro sent.frame_lift_bind sent.frame_bind io_frame_intros sent.frame_step)
       (auto simp: assms c split: http_answer.splits)
qed

text \<open>
  C7: The Web Push adapter never contacts an internal address: every request goes to the HTTPS
  URL, port 443, without credentials or fragment, that the validated job's endpoint denotes,
  whose host is neither local nor a refused address, and is in the allowlist or, under the
  any-public policy, an address literal or a name whose DNS answer at that moment was not
  empty and held no refused address; its body is the ciphertext of a payload of at most 3072
  bytes.
\<close>

theorem web_push_no_internal_requests:
  "sends (\<lambda>rq. push_job_ok X job \<and> web_push_traffic_ok X C cfg job (w_dns w) rq) w
     (snd (pp_send (web_push_provider X C cfg) job w))"
proof (cases "push_job_ok X job")
  case ok: True
  let ?P = "\<lambda>rq. push_job_ok X job \<and> web_push_traffic_ok X C cfg job (w_dns w) rq"
  have deliver: "sends ?P w (snd (web_push_deliver X C cfg job w))"
  proof (cases "pj_target job")
    case t: (WebPushTarget e p a)
    show ?thesis
    proof (cases "validate_endpoint X e (wc_host_policy cfg)")
      case (Inl err)
      then show ?thesis
        by (cases "web_push_checks job")
           (simp_all add: web_push_deliver_def t io_throw_def sent.R_refl)
    next
      case u: (Inr u)
      let ?gate = "if wc_host_policy cfg = AnyPublic then verify_public_dns u else io_return ()"
      obtain g w1 where g: "?gate w = (g, w1)" by fastforce
      have "io_frame (sends ?P) ?gate"
        by (auto simp: verify_public_dns_def Let_def
            intro!: sent.frame_lift_bind io_frame_intros sent.frame_pure split: option.splits)
      then have quiet: "sends ?P w w1" using g by (rule io_frameD)
      have post: "sends ?P w1 (snd (post_encrypted X C cfg job u p a w1))" if "g = Ok ()"
      proof -
        have "endpoint_allowed X (wc_host_policy cfg) (w_dns w) e u"
          using validate_endpoint_ok [OF u] g that verify_public_dns_ok [of u w "()" w1]
          by (cases "wc_host_policy cfg")
             (auto simp: endpoint_allowed_def public_host_def Let_def)
        then have "?P (web_push_request X cfg job u authorization encrypted)"
          if "build_payload X job = Ok payload" "encrypt_subscription_payload C p a payload = Ok encrypted"
          for payload encrypted authorization
          using that ok t build_payload_bound [OF that(1)]
          by (auto simp: web_push_traffic_ok_def web_push_request_def)
        then have "io_frame (sends ?P) (post_encrypted X C cfg job u p a)"
          by (rule post_encrypted_sends)
        then show ?thesis by (simp add: io_frame_def)
      qed
      show ?thesis
      proof (cases g)
        case (Inl err)
        with quiet g show ?thesis
          by (cases "web_push_checks job")
             (simp_all add: web_push_deliver_def t u io_throw_def sent.R_refl io_bind_def)
      next
        case (Inr unit)
        then have "sends ?P w (snd (post_encrypted X C cfg job u p a w1))"
          using sent.R_trans [OF quiet post] by simp
        with Inr g show ?thesis
          by (cases "web_push_checks job")
             (simp_all add: web_push_deliver_def t u io_throw_def sent.R_refl io_bind_def)
      qed
    qed
  qed (simp_all add: web_push_deliver_def web_push_checks_def io_throw_def sent.R_refl)
  then show ?thesis
    by (simp add: web_push_provider_def web_push_send_message_def contract_check_bind ok)
qed (simp add: web_push_provider_def web_push_send_message_def contract_check_bind sent.R_refl)

definition allowed_host_ok :: "string \<Rightarrow> bool" where
  "allowed_host_ok h \<longleftrightarrow> h \<noteq> [] \<and> length h \<le> 253 \<and> contains_str ''.'' h
     \<and> \<not> starts_with ''.'' h \<and> \<not> ends_with ''.'' h \<and> \<not> starts_with ''-'' h \<and> \<not> ends_with ''-'' h
     \<and> all_chars host_char h \<and> list_all (\<lambda>c. \<not> is_ascii_uppercase (byte_val c)) h"

lemma lower_byte_not_upper: "\<not> is_ascii_uppercase (byte_val (lower_byte c))"
proof (cases "is_ascii_uppercase (byte_val c)")
  case True
  then have "byte_val (char_of (byte_val c + 32) :: char) = byte_val c + 32"
    by (intro of_char_of [THEN trans]) (auto simp: is_ascii_uppercase_def)
  with True show ?thesis by (simp add: lower_byte_def is_ascii_uppercase_def)
qed (simp add: lower_byte_def)

lemma normalize_allowed_host_ok: "normalize_allowed_host s = Ok h \<Longrightarrow> allowed_host_ok h"
  by (auto simp: normalize_allowed_host_def allowed_host_ok_def Let_def any_char_not_all not_less
      to_ascii_lowercase_def list_all_iff lower_byte_not_upper split: if_splits)

lemma fold_allowed_hosts_ok:
  "fold_allowed_hosts seen hosts = Ok hs \<Longrightarrow> distinct seen \<Longrightarrow> list_all allowed_host_ok seen \<Longrightarrow>
     distinct hs \<and> list_all allowed_host_ok hs"
proof (induction seen hosts rule: fold_allowed_hosts.induct)
  case (2 seen h hosts)
  then obtain host where host: "normalize_allowed_host h = Ok host"
    and rest: "fold_allowed_hosts (if host \<in> set seen then seen else seen @ [host]) hosts = Ok hs"
    by (auto simp: and_then_eq_Ok)
  show ?case
    using 2(1) [OF rest] 2(3,4) normalize_allowed_host_ok [OF host] by auto
qed simp

text \<open>
  A configured allowlist is never empty and holds each DNS suffix once, in lower case,
  with a dot inside and no leading or trailing dot or hyphen: it cannot allow a bare
  top-level name or everything.
\<close>

theorem allowlist_wf:
  "case allowlist hosts of
     Inl e \<Rightarrow> e = WpInvalidAllowedHost
   | Inr policy \<Rightarrow>
       (case policy of
          AnyPublic \<Rightarrow> False
        | Allowlist hs \<Rightarrow> hs \<noteq> [] \<and> distinct hs \<and> list_all allowed_host_ok hs)"
proof -
  have err: "e = WpInvalidAllowedHost" if "fold_allowed_hosts seen hosts = Err e" for seen e
    using that
    by (induction seen hosts rule: fold_allowed_hosts.induct)
       (auto simp: and_then_def normalize_allowed_host_def Let_def split: sum.splits if_splits)
  show ?thesis
    using err [of "[]"] fold_allowed_hosts_ok [of "[]" hosts]
    by (cases "fold_allowed_hosts [] hosts") (auto simp: allowlist_def)
qed

end
