(* ===== verification/Receipt.thy ===== *)
theory Receipt
  imports Provider
begin

text \<open>
  Terminal delivery receipts and their ledger (\<open>src/receipt.rs\<close>): the key that scopes a
  receipt, the taxonomy of terminal states and reasons, the constructor's checks, and the
  insert-once ledger. The locale \<open>insert_once\<close> states what the ledger promises to its users,
  durable or in memory; the in-memory ledger interprets it.
\<close>

section \<open>Keys\<close>

definition receipt_key_prefix :: string where "receipt_key_prefix = ''receipt:v1:''"

text \<open>\<open>u64::to_be_bytes\<close>\<close>

definition to_be_bytes :: "u64 \<Rightarrow> string" where
  "to_be_bytes n = map (\<lambda>i. char_of (unat n div 256 ^ (7 - i) mod 256)) [0..<8]"

lemma to_be_bytes_code [code]:
  "to_be_bytes n = (if unat n < 256 then replicate 7 (CHR 0x00) @ [char_of (unat n)]
     else map (\<lambda>d. char_of (unat n div d mod 256))
       [72057594037927936, 281474976710656, 1099511627776, 4294967296, 16777216, 65536, 256, 1])"
proof -
  have bytes: "to_be_bytes n = map (\<lambda>d. char_of (unat n div d mod 256))
       [72057594037927936, 281474976710656, 1099511627776, 4294967296, 16777216, 65536, 256, 1]"
    by (simp add: to_be_bytes_def upt_rec)
  show ?thesis
  proof (cases "unat n < 256")
    case True
    have zero: "char_of (0 :: nat) = CHR 0x00" by code_simp
    have seven: "replicate 7 c = [c, c, c, c, c, c, c]" for c :: char by (simp add: numeral_eq_Suc)
    show ?thesis unfolding bytes seven using True by (simp add: zero)
  qed (simp add: bytes)
qed

text \<open>One length-prefixed part; the hasher is the bytes absorbed so far.\<close>

definition hash_part :: "string \<Rightarrow> string \<Rightarrow> string" where
  "hash_part hasher s = (hasher @ to_be_bytes (saturate_u64 (length s))) @ s"

definition receipt_key_bytes :: "externals \<Rightarrow> push_job \<Rightarrow> string" where
  "receipt_key_bytes X job =
     foldl hash_part (''fanwaave-delivery-receipt-v1'' @ [CHR 0x00])
       [pj_tenant_id job, pj_application_id job, pj_idempotency_key job,
        provider_kind_as_str (pj_provider job), fingerprint_target X (pj_target job)]"

type_synonym receipt_key = string

definition receipt_key_for_job :: "externals \<Rightarrow> push_job \<Rightarrow> receipt_key" where
  "receipt_key_for_job X job = receipt_key_prefix @ x_hex X (x_sha256 X (receipt_key_bytes X job))"

section \<open>Terminal states\<close>

datatype terminal_state = Delivered | Expired | Rejected | Canceled | PermanentlyFailed

datatype receipt_reason =
    ProviderConfirmed
  | TimeToLiveElapsed
  | ConsentRevoked
  | OwnershipDenied
  | MissingCredentials
  | ReasonInvalidToken
  | ReasonInvalidPayload
  | PolicyDenied
  | CanceledByCaller
  | ProviderPermanentFailure
  | RetryBudgetExhausted
  | InternalPermanentFailure

fun valid_for :: "receipt_reason \<Rightarrow> terminal_state \<Rightarrow> bool" where
  "valid_for r Delivered \<longleftrightarrow> r \<in> set [ProviderConfirmed]"
| "valid_for r Expired \<longleftrightarrow> r \<in> set [TimeToLiveElapsed]"
| "valid_for r Rejected \<longleftrightarrow> r \<in> set [ConsentRevoked, OwnershipDenied, MissingCredentials,
     ReasonInvalidToken, ReasonInvalidPayload, PolicyDenied]"
| "valid_for r Canceled \<longleftrightarrow> r \<in> set [CanceledByCaller]"
| "valid_for r PermanentlyFailed \<longleftrightarrow> r \<in> set [ProviderPermanentFailure, RetryBudgetExhausted,
     InternalPermanentFailure]"

definition requires_provider_attempt :: "receipt_reason \<Rightarrow> bool" where
  "requires_provider_attempt r \<longleftrightarrow> r \<in> set [ProviderConfirmed, ReasonInvalidToken,
     ProviderPermanentFailure, RetryBudgetExhausted, InternalPermanentFailure]"

record delivery_receipt =
  dr_version :: contract_version
  dr_receipt_key :: receipt_key
  dr_job_id :: string
  dr_provider :: provider_kind
  dr_target_fingerprint :: target_fingerprint
  dr_state :: terminal_state
  dr_reason :: receipt_reason
  dr_attempts :: u16
  dr_provider_code :: "string option"

datatype receipt_error =
    InconsistentStateReason terminal_state receipt_reason
  | TooManyAttempts u16 u16
  | MissingProviderAttempt receipt_reason
  | UnexpectedProviderCode receipt_reason
  | InvalidProviderCode
  | ConflictingTerminalReceipt receipt_key

definition max_delivery_attempts :: u16 where "max_delivery_attempts = 64"
definition max_provider_code_bytes :: nat where "max_provider_code_bytes = 64"

definition provider_code_byte :: "char \<Rightarrow> bool" where
  "provider_code_byte c \<longleftrightarrow> is_ascii_alphanumeric (byte_val c) \<or> c \<in> set ''._:-''"

definition validate_provider_code :: "string \<Rightarrow> receipt_error + string" where
  "validate_provider_code s =
     (if s = [] \<or> length s > max_provider_code_bytes \<or> \<not> list_all provider_code_byte s
      then Err InvalidProviderCode else Ok s)"

definition code_allowed :: "receipt_reason \<Rightarrow> bool" where
  "code_allowed r \<longleftrightarrow> r \<in> set [ProviderConfirmed, ReasonInvalidToken, ProviderPermanentFailure,
     RetryBudgetExhausted]"

text \<open>\<open>provider_code.map(validate).transpose()?\<close>\<close>

definition transpose_code :: "string option \<Rightarrow> receipt_error + string option" where
  "transpose_code code =
     (case code of None \<Rightarrow> Ok None | Some s \<Rightarrow> and_then (validate_provider_code s) (\<lambda>v. Ok (Some v)))"

definition terminal_receipt ::
  "externals \<Rightarrow> push_job \<Rightarrow> terminal_state \<Rightarrow> receipt_reason \<Rightarrow> u16 \<Rightarrow> string option \<Rightarrow>
   receipt_error + delivery_receipt" where
  "terminal_receipt X job state reason attempts provider_code =
     (if \<not> valid_for reason state then Err (InconsistentStateReason state reason)
      else if attempts > max_delivery_attempts
      then Err (TooManyAttempts attempts max_delivery_attempts)
      else if requires_provider_attempt reason \<and> attempts = 0
      then Err (MissingProviderAttempt reason)
      else if provider_code \<noteq> None \<and> \<not> code_allowed reason
      then Err (UnexpectedProviderCode reason)
      else and_then (transpose_code provider_code) (\<lambda>code.
        Ok \<lparr>dr_version = pj_version job,
            dr_receipt_key = receipt_key_for_job X job,
            dr_job_id = pj_job_id job,
            dr_provider = pj_provider job,
            dr_target_fingerprint = fingerprint_target X (pj_target job),
            dr_state = state,
            dr_reason = reason,
            dr_attempts = attempts,
            dr_provider_code = code\<rparr>))"

section \<open>The ledger\<close>

datatype record_result = Recorded | AlreadyRecorded

type_synonym receipt_ledger = "(receipt_key \<times> delivery_receipt) list"

definition ledger_record ::
  "delivery_receipt \<Rightarrow> receipt_ledger \<Rightarrow> (receipt_error + record_result) \<times> receipt_ledger" where
  "ledger_record receipt ledger =
     (case map_of ledger (dr_receipt_key receipt) of
        None \<Rightarrow> (Ok Recorded, bt_insert (dr_receipt_key receipt) receipt ledger)
      | Some existing \<Rightarrow>
          if existing = receipt then (Ok AlreadyRecorded, ledger)
          else (Err (ConflictingTerminalReceipt (dr_receipt_key receipt)), ledger))"

definition ledger_get :: "receipt_ledger \<Rightarrow> receipt_key \<Rightarrow> delivery_receipt option" where
  "ledger_get ledger k = map_of ledger k"

definition ledger_len :: "receipt_ledger \<Rightarrow> nat" where "ledger_len ledger = length ledger"
definition ledger_is_empty :: "receipt_ledger \<Rightarrow> bool" where "ledger_is_empty ledger \<longleftrightarrow> ledger = []"

locale insert_once =
  fixes empty :: 'l and get :: "'l \<Rightarrow> 'k \<Rightarrow> 'v option" and put :: "'v \<Rightarrow> 'l \<Rightarrow> 'l"
    and key :: "'v \<Rightarrow> 'k"
  assumes get_empty: "get empty k = None"
    and get_put: "get (put v l) k = (if k = key v \<and> get l k = None then Some v else get l k)"
begin

lemma put_keeps: "get l k = Some v \<Longrightarrow> get (put v' l) k = Some v"
  by (simp add: get_put)

lemma get_history:
  "get (fold put vs l) k =
     (case get l k of Some v \<Rightarrow> Some v | None \<Rightarrow> map_of (map (\<lambda>v. (key v, v)) vs) k)"
  by (induction vs arbitrary: l) (auto simp: get_put split: option.splits)

lemma get_history_empty: "get (fold put vs empty) k = map_of (map (\<lambda>v. (key v, v)) vs) k"
  by (simp add: get_history get_empty)

lemma keys_exactly: "get (fold put vs empty) k \<noteq> None \<longleftrightarrow> k \<in> key ` set vs"
  by (simp add: get_history_empty map_of_eq_None_iff image_image)

end

definition ledger_put :: "delivery_receipt \<Rightarrow> receipt_ledger \<Rightarrow> receipt_ledger" where
  "ledger_put receipt ledger = snd (ledger_record receipt ledger)"

interpretation ledger: insert_once "[]" ledger_get ledger_put dr_receipt_key
  by unfold_locales
     (auto simp: ledger_get_def ledger_put_def ledger_record_def bt_get_insert split: option.splits)

lemma ledger_put_wf: "bt_wf l \<Longrightarrow> bt_wf (ledger_put r l)"
  by (auto simp: ledger_put_def ledger_record_def bt_wf_insert split: option.splits)

section \<open>Properties\<close>

lemma to_be_bytes_length [simp]: "length (to_be_bytes n) = 8"
  by (simp add: to_be_bytes_def)

lemma digits_determine:
  fixes m n :: nat
  assumes "\<And>i. i < k \<Longrightarrow> n div 256 ^ i mod 256 = m div 256 ^ i mod 256"
  shows "n mod 256 ^ k = m mod 256 ^ k"
  using assms
proof (induction k)
  case (Suc k)
  have "x mod 256 ^ Suc k = 256 ^ k * (x div 256 ^ k mod 256) + x mod 256 ^ k" for x :: nat
    unfolding power_Suc2 by (rule mod_mult2_eq)
  with Suc show ?case by simp
qed simp

lemma to_be_bytes_inj: "to_be_bytes m = to_be_bytes n \<Longrightarrow> m = n"
proof -
  assume eq: "to_be_bytes m = to_be_bytes n"
  have digit: "unat m div 256 ^ i mod 256 = unat n div 256 ^ i mod 256" if "i < 8" for i
  proof -
    have nth: "byte_val (to_be_bytes w ! (7 - i)) = unat w div 256 ^ i mod 256" for w
    proof -
      have "[0..<8] ! (7 - i) = 7 - i" using nth_upt [of 0 "7 - i" 8] by simp
      then have "to_be_bytes w ! (7 - i) = char_of (unat w div 256 ^ i mod 256)"
        using that unfolding to_be_bytes_def by (subst nth_map) simp_all
      then show ?thesis by simp
    qed
    show ?thesis using nth [of m] nth [of n] eq by simp
  qed
  have "unat m mod 256 ^ 8 = unat n mod 256 ^ 8" by (rule digits_determine) (rule digit)
  moreover have m: "unat w < 2 ^ 64" for w :: u64 using unsigned_less [of w] by simp
  ultimately show "m = n"
    using m [of m] m [of n] by (simp add: word_unat_eq_iff)
qed

lemma hash_part_inj:
  assumes "hash_part a s @ r = hash_part a t @ r'" and "length s < 2 ^ 64" and "length t < 2 ^ 64"
  shows "s = t \<and> r = r'"
proof -
  from assms(1) have "to_be_bytes (saturate_u64 (length s)) @ (s @ r)
      = to_be_bytes (saturate_u64 (length t)) @ (t @ r')"
    by (simp add: hash_part_def)
  then have "saturate_u64 (length s) = saturate_u64 (length t)" and rest: "s @ r = t @ r'"
    by (simp_all add: append_eq_append_conv to_be_bytes_inj)
  then have "unat (saturate_u64 (length s)) = unat (saturate_u64 (length t))" by simp
  then have "length s = length t"
    using assms(2,3) by (simp add: unat_saturate_u64 u64_max_def min_def split: if_splits)
  with rest show ?thesis by simp
qed

lemma hash_part_extend: "\<exists>r. \<forall>b. foldl hash_part b ss = b @ r"
proof (induction ss)
  case (Cons s ss)
  then obtain r where r: "foldl hash_part b ss = b @ r" for b by blast
  have "foldl hash_part b (s # ss) = b @ (to_be_bytes (saturate_u64 (length s)) @ s @ r)" for b
    unfolding foldl.simps r by (simp add: hash_part_def)
  then show ?case by blast
qed simp

lemma hash_parts_inj:
  "foldl hash_part a ss = foldl hash_part a ts \<Longrightarrow> length ss = length ts \<Longrightarrow>
     list_all (\<lambda>s. length s < 2 ^ 64) ss \<Longrightarrow> list_all (\<lambda>s. length s < 2 ^ 64) ts \<Longrightarrow> ss = ts"
proof (induction ss arbitrary: ts a)
  case (Cons s ss)
  then obtain t ts' where ts: "ts = t # ts'" by (cases ts) auto
  obtain r where r: "foldl hash_part (hash_part a s) ss = hash_part a s @ r"
    using hash_part_extend [of ss] by blast
  obtain r' where r': "foldl hash_part (hash_part a t) ts' = hash_part a t @ r'"
    using hash_part_extend [of ts'] by blast
  from Cons.prems ts r r' have "hash_part a s @ r = hash_part a t @ r'" by simp
  moreover have "length s < 2 ^ 64" "length t < 2 ^ 64" using Cons.prems(3,4) ts by simp_all
  ultimately have st: "s = t" using hash_part_inj by blast
  have "ss = ts'"
  proof (rule Cons.IH)
    show "foldl hash_part (hash_part a s) ss = foldl hash_part (hash_part a s) ts'"
      using Cons.prems(1) unfolding ts st foldl.simps .
  qed (use Cons.prems ts in simp_all)
  with st ts show ?case by simp
qed simp

text \<open>What a terminal receipt must look like.\<close>

definition receipt_consistent :: "terminal_state \<Rightarrow> receipt_reason \<Rightarrow> u16 \<Rightarrow> string option \<Rightarrow> bool" where
  "receipt_consistent state reason attempts code \<longleftrightarrow>
     valid_for reason state \<and> unat attempts \<le> 64
     \<and> \<not> (requires_provider_attempt reason \<and> attempts = 0)
     \<and> is_none_or (\<lambda>c. code_allowed reason \<and> 1 \<le> length c \<and> length c \<le> 64
          \<and> list_all provider_code_byte c) code"

text \<open>
  C23: A terminal receipt is built exactly when its reason belongs to its state, the attempts
  are at most 64 (and at least one where the reason needs a provider attempt) and a provider
  code is allowed and of the bounded alphabet; the receipt records these, the job's id and
  fingerprint and the key of its scope.
\<close>

theorem terminal_receipt_spec:
  "case terminal_receipt X job state reason attempts code of
     Inl e \<Rightarrow> \<not> receipt_consistent state reason attempts code
   | Inr r \<Rightarrow> receipt_consistent state reason attempts code
       \<and> dr_state r = state \<and> dr_reason r = reason \<and> dr_attempts r = attempts
       \<and> dr_provider_code r = code \<and> dr_job_id r = pj_job_id job
       \<and> dr_receipt_key r = receipt_key_for_job X job
       \<and> dr_target_fingerprint r = fingerprint_target X (pj_target job)"
proof -
  have "unat (64 :: u16) = 64" by simp
  then show ?thesis
    by (cases code)
       (auto simp: terminal_receipt_def receipt_consistent_def transpose_code_def validate_provider_code_def
         max_delivery_attempts_def max_provider_code_bytes_def word_less_nat_alt word_le_nat_alt not_less
         Suc_le_eq)
qed

text \<open>
  C22: Whatever is recorded, in whatever order, the ledger holds for each key the first
  receipt recorded under it: exact replays and conflicting evidence change nothing.
\<close>

theorem ledger_first_wins:
  "ledger_get (fold ledger_put receipts []) k = map_of (map (\<lambda>r. (dr_receipt_key r, r)) receipts) k"
  by (rule ledger.get_history_empty)

text \<open>
  Recording answers \<open>Recorded\<close> exactly for a new key, \<open>AlreadyRecorded\<close> exactly for an
  exact replay and a conflict otherwise; only the first changes the ledger, which keeps its
  keys ordered and unique.
\<close>

theorem ledger_record_spec:
  assumes "bt_wf l"
  shows "case ledger_record r l of (res, l') \<Rightarrow>
     bt_wf l'
     \<and> (res = Ok Recorded \<longleftrightarrow> ledger_get l (dr_receipt_key r) = None)
     \<and> (res = Ok AlreadyRecorded \<longleftrightarrow> ledger_get l (dr_receipt_key r) = Some r)
     \<and> (res = Ok Recorded \<or> l' = l)
     \<and> (res = Err (ConflictingTerminalReceipt (dr_receipt_key r)) \<longleftrightarrow>
          is_some_and (\<lambda>old. old \<noteq> r) (ledger_get l (dr_receipt_key r)))
     \<and> ledger_get l' k = (if k = dr_receipt_key r \<and> ledger_get l k = None then Some r else ledger_get l k)"
  using assms
  by (auto simp: ledger_record_def ledger_get_def bt_get_insert bt_wf_insert split: option.splits)

definition demo_receipt :: delivery_receipt where
  "demo_receipt = \<lparr>dr_version = V1, dr_receipt_key = ''receipt:v1:00'', dr_job_id = ''job-1'',
     dr_provider = Fcm, dr_target_fingerprint = ''fcm:0'', dr_state = Delivered,
     dr_reason = ProviderConfirmed, dr_attempts = 1, dr_provider_code = None\<rparr>"

theorem ledger_record_spec_witness:
  "fst (ledger_record demo_receipt []) = Ok Recorded
   \<and> ledger_get (snd (ledger_record demo_receipt [])) ''receipt:v1:00'' = Some demo_receipt"
  using ledger_record_spec [of "[]" demo_receipt "''receipt:v1:00''"]
  by (simp add: ledger_get_def demo_receipt_def split_beta)

text \<open>
  C39: The bytes hashed into a receipt key determine its scope: two valid jobs with the same
  bytes have the same tenant, application, idempotency key, provider and target fingerprint,
  whatever characters these contain.
\<close>

theorem receipt_key_injective:
  assumes "push_job_ok X job" and "push_job_ok X job'"
    and "receipt_key_bytes X job = receipt_key_bytes X job'"
  shows "pj_tenant_id job = pj_tenant_id job' \<and> pj_application_id job = pj_application_id job'
    \<and> pj_idempotency_key job = pj_idempotency_key job' \<and> pj_provider job = pj_provider job'
    \<and> fingerprint_target X (pj_target job) = fingerprint_target X (pj_target job')"
proof -
  have small: "list_all (\<lambda>s. length s < 2 ^ 64)
      [pj_tenant_id j, pj_application_id j, pj_idempotency_key j, provider_kind_as_str (pj_provider j),
       fingerprint_target X (pj_target j)]" if "push_job_ok X j" for j
  proof -
    have "length (fst (fingerprint_material t)) \<le> 8" for t by (cases t) simp_all
    then have "length (fingerprint_target X t) \<le> 8 + (1 + 24)" for t
      unfolding fingerprint_target_def fingerprint_hex_length_def Let_def length_append
      by (intro add_mono) simp_all
    then have "length (fingerprint_target X (pj_target j)) < 2 ^ 64"
      by (rule le_less_trans) simp
    moreover have "length (provider_kind_as_str (pj_provider j)) < 2 ^ 64"
      by (cases "pj_provider j") simp_all
    ultimately show ?thesis using that by (simp add: push_job_ok_def identifier_ok_def)
  qed
  have inj: "provider_kind_as_str p = provider_kind_as_str q \<Longrightarrow> p = q" for p q
    by (cases p; cases q) simp_all
  have "[pj_tenant_id job, pj_application_id job, pj_idempotency_key job,
      provider_kind_as_str (pj_provider job), fingerprint_target X (pj_target job)]
    = [pj_tenant_id job', pj_application_id job', pj_idempotency_key job',
      provider_kind_as_str (pj_provider job'), fingerprint_target X (pj_target job')]"
    using assms(3) small [OF assms(1)] small [OF assms(2)]
    unfolding receipt_key_bytes_def by (intro hash_parts_inj) simp_all
  then show ?thesis using inj by simp
qed

theorem receipt_key_injective_witness:
  "pj_idempotency_key (demo_push_job\<lparr>pj_trace := default_trace\<rparr>) = pj_idempotency_key demo_push_job"
proof -
  have "demo_push_job\<lparr>pj_trace := default_trace\<rparr> = demo_push_job" by (simp add: demo_push_job_def)
  then show ?thesis
    using receipt_key_injective [OF demo_push_job_ok demo_push_job_ok refl] by simp
qed

end
