(* ===== verification/Jetstream.thy ===== *)
theory Jetstream
  imports Http_Api Adapter Environment
begin

text \<open>
  What the push and the contact queue workers share: the configuration, envelopes and events,
  the broker as an oracle for publications and acknowledgements, and the message handler,
  which both modules spell out with their own types (\<open>handle_message\<close> in
  \<open>src/nats_ingestion.rs\<close> and \<open>src/contact_nats_ingestion.rs\<close>). The locale \<open>ingestion\<close> is the
  contract between the handler and the module's disposition functions.
\<close>

section \<open>Configuration\<close>

record nats_config =
  nc_url :: string
  nc_job_stream :: string
  nc_result_stream :: string
  nc_dead_stream :: string
  nc_job_subject :: string
  nc_result_subject :: string
  nc_dead_subject :: string
  nc_consumer :: string
  nc_ack_wait :: duration
  nc_nak_delay :: duration
  nc_max_deliver :: i64
  nc_max_payload_bytes :: nat
  nc_max_concurrency :: nat
  nc_envelope_secret :: "string option"

definition nats_authenticate :: "nats_config \<Rightarrow> string option \<Rightarrow> bool" where
  "nats_authenticate cfg supplied =
     (case nc_envelope_secret cfg of
        None \<Rightarrow> True
      | Some expected \<Rightarrow> unwrap_or False (map_option (\<lambda>v. constant_time_eq v expected) supplied))"

definition envelope_auth_required :: "nats_config \<Rightarrow> bool" where
  "envelope_auth_required cfg \<longleftrightarrow> nc_envelope_secret cfg \<noteq> None"

text \<open>An unauthenticated envelope passes exactly when no authentication is required.\<close>

lemma authenticate_required: "nats_authenticate cfg None \<longleftrightarrow> \<not> envelope_auth_required cfg"
  by (cases "nc_envelope_secret cfg") (simp_all add: nats_authenticate_def envelope_auth_required_def)

section \<open>Messages and events\<close>

record 'j envelope =
  en_schema :: string
  en_auth :: "string option"
  en_job :: 'j

record message =
  ms_payload :: string
  ms_delivered :: "i64 option" \<comment> \<open>\<open>info().ok()\<close> of the delivery counter\<close>

record 'o result_event =
  re_schema :: string
  re_outcome :: 'o
  re_trace :: trace_metadata
  re_delivery_attempt :: u64
  re_emitted_at_ms :: u64

record 'o dead_letter_event =
  dl_schema :: string
  dl_reason_code :: string
  dl_payload_sha256 :: string
  dl_payload_bytes :: nat
  dl_job_id :: "string option"
  dl_tenant_id :: "string option"
  dl_application_id :: "string option"
  dl_outcome :: "'o option"
  dl_delivery_attempt :: u64
  dl_max_deliver :: i64
  dl_emitted_at_ms :: u64

datatype 'o bus_event = ResultEvent "'o result_event" | DeadEvent "'o dead_letter_event"

datatype nats_disposition = DoAck | DoNak duration | DoDeadLetter

datatype ack_kind = AckAck | AckNak duration | AckProgress | AckTerm

datatype bus_error = PublishError string | AckError ack_kind

text \<open>
  Everything the handler did to the broker, with whether it succeeded. Which publications
  and acknowledgements succeed is an oracle on the position in this log, and so is how many
  heartbeats fall due while the provider works.
\<close>

datatype 'o bus_entry = Published string "'o bus_event" bool | Acked ack_kind bool

record ('w, 'o) broker =
  bk_world :: 'w
  bk_publish_ok :: "nat \<Rightarrow> bool"
  bk_ack_ok :: "nat \<Rightarrow> bool"
  bk_ticks :: nat
  bk_log :: "'o bus_entry list"

definition on_world :: "('w \<Rightarrow> 'a \<times> 'w) \<Rightarrow> ('w, 'o) broker \<Rightarrow> 'a \<times> ('w, 'o) broker" where
  "on_world f b = (case f (bk_world b) of (x, w) \<Rightarrow> (x, b\<lparr>bk_world := w\<rparr>))"

definition publish_json ::
  "string \<Rightarrow> 'o bus_event \<Rightarrow> (bus_error, ('w, 'o) broker, unit) io" where
  "publish_json subject event b =
     (let ok = bk_publish_ok b (length (bk_log b)) in
      (if ok then Ok () else Err (PublishError subject),
       b\<lparr>bk_log := bk_log b @ [Published subject event ok]\<rparr>))"

definition ack_with :: "ack_kind \<Rightarrow> (bus_error, ('w, 'o) broker, unit) io" where
  "ack_with kind b =
     (let ok = bk_ack_ok b (length (bk_log b)) in
      (if ok then Ok () else Err (AckError kind),
       b\<lparr>bk_log := bk_log b @ [Acked kind ok]\<rparr>))"

definition now_ms :: "world \<Rightarrow> u64 \<times> world" where
  "now_ms w = (case system_now w of (now, w') \<Rightarrow>
     (if now < 0 then 0 else saturate_u64 (nat now div 1000000), w'))"

section \<open>The handler\<close>

text \<open>What a module supplies: its schemas, decoding, job processing and dispositions.\<close>

record ('j, 'o, 'w) ingestion_ops =
  sv_envelope_schema :: string
  sv_result_schema :: string
  sv_dead_schema :: string
  sv_decode :: "string \<Rightarrow> 'j envelope option"
  sv_process :: "'j \<Rightarrow> 'w \<Rightarrow> 'o \<times> 'w"
  sv_now_ms :: "'w \<Rightarrow> u64 \<times> 'w"
  sv_ids :: "'j \<Rightarrow> string \<times> string \<times> string"
  sv_trace :: "'j \<Rightarrow> trace_metadata"
  sv_disposition :: "'o \<Rightarrow> u64 \<Rightarrow> i64 \<Rightarrow> duration \<Rightarrow> nats_disposition"
  sv_disposition_unpublished :: "'o \<Rightarrow> u64 \<Rightarrow> i64 \<Rightarrow> duration \<Rightarrow> nats_disposition"
  sv_digest :: "string \<Rightarrow> string"

definition delivery_attempt :: "message \<Rightarrow> u64" where
  "delivery_attempt m =
     unwrap_or 1 (Option.bind (ms_delivered m) (\<lambda>n. then_some (0 \<le> sint n) n))"

definition dead_letter_for_payload ::
  "('j, 'o, 'w) ingestion_ops \<Rightarrow> string \<Rightarrow> string \<Rightarrow> 'j option \<Rightarrow> 'o option \<Rightarrow> u64 \<Rightarrow> i64 \<Rightarrow>
   'w \<Rightarrow> 'o dead_letter_event \<times> 'w" where
  "dead_letter_for_payload S payload reason_code job outcome attempt max_deliver w =
     (case sv_now_ms S w of (now, w') \<Rightarrow>
        (\<lparr>dl_schema = sv_dead_schema S,
          dl_reason_code = reason_code,
          dl_payload_sha256 = sv_digest S payload,
          dl_payload_bytes = length payload,
          dl_job_id = map_option (\<lambda>j. fst (sv_ids S j)) job,
          dl_tenant_id = map_option (\<lambda>j. fst (snd (sv_ids S j))) job,
          dl_application_id = map_option (\<lambda>j. snd (snd (sv_ids S j))) job,
          dl_outcome = outcome,
          dl_delivery_attempt = attempt,
          dl_max_deliver = max_deliver,
          dl_emitted_at_ms = now\<rparr>, w'))"

text \<open>Publish a dead letter, then terminate the source message.\<close>

definition reject_message ::
  "('j, 'o, 'w) ingestion_ops \<Rightarrow> nats_config \<Rightarrow> message \<Rightarrow> string \<Rightarrow> 'j option \<Rightarrow> 'o option \<Rightarrow>
   (bus_error, ('w, 'o) broker, unit) io" where
  "reject_message S cfg m reason_code job outcome =
     io_bind (io_step (on_world (dead_letter_for_payload S (ms_payload m) reason_code job outcome
         (delivery_attempt m) (nc_max_deliver cfg)))) (\<lambda>event.
     io_bind (publish_json (nc_dead_subject cfg) (DeadEvent event)) (\<lambda>_.
       ack_with AckTerm))"

definition progress_interval :: "nats_config \<Rightarrow> duration" where
  "progress_interval cfg = max (nc_ack_wait cfg div 3) (from_secs 5)"

fun heartbeats :: "nat \<Rightarrow> ('w, 'o) broker \<Rightarrow> ('w, 'o) broker" where
  "heartbeats 0 b = b"
| "heartbeats (Suc n) b = heartbeats n (snd (ack_with AckProgress b))"

text \<open>The future's value; heartbeats that fail are only logged.\<close>

definition run_with_ack_progress ::
  "('w \<Rightarrow> 'a \<times> 'w) \<Rightarrow> ('w, 'o) broker \<Rightarrow> 'a \<times> ('w, 'o) broker" where
  "run_with_ack_progress future b = on_world future (heartbeats (bk_ticks b) b)"

definition settle_unpublished ::
  "('j, 'o, 'w) ingestion_ops \<Rightarrow> nats_config \<Rightarrow> message \<Rightarrow> 'j \<Rightarrow> 'o \<Rightarrow>
   (bus_error, ('w, 'o) broker, unit) io" where
  "settle_unpublished S cfg m job outcome =
     (case sv_disposition_unpublished S outcome (delivery_attempt m) (nc_max_deliver cfg)
          (nc_nak_delay cfg) of
        DoAck \<Rightarrow> ack_with AckAck
      | DoNak delay \<Rightarrow> ack_with (AckNak delay)
      | DoDeadLetter \<Rightarrow>
          io_bind (io_step (on_world (dead_letter_for_payload S (ms_payload m)
              ''result_publish_failed_after_terminal_outcome'' (Some job) (Some outcome)
              (delivery_attempt m) (nc_max_deliver cfg)))) (\<lambda>event.
          io_bind (io_step (publish_json (nc_dead_subject cfg) (DeadEvent event))) (\<lambda>ignored.
            ack_with AckTerm)))"

definition settle_published ::
  "('j, 'o, 'w) ingestion_ops \<Rightarrow> nats_config \<Rightarrow> message \<Rightarrow> 'j \<Rightarrow> 'o \<Rightarrow>
   (bus_error, ('w, 'o) broker, unit) io" where
  "settle_published S cfg m job outcome =
     (case sv_disposition S outcome (delivery_attempt m) (nc_max_deliver cfg) (nc_nak_delay cfg) of
        DoAck \<Rightarrow> ack_with AckAck
      | DoNak delay \<Rightarrow> ack_with (AckNak delay)
      | DoDeadLetter \<Rightarrow>
          reject_message S cfg m ''retry_budget_exhausted'' (Some job) (Some outcome))"

definition result_event_for ::
  "('j, 'o, 'w) ingestion_ops \<Rightarrow> message \<Rightarrow> 'j \<Rightarrow> 'o \<Rightarrow> u64 \<Rightarrow> 'o result_event" where
  "result_event_for S m job outcome now =
     \<lparr>re_schema = sv_result_schema S, re_outcome = outcome, re_trace = sv_trace S job,
      re_delivery_attempt = delivery_attempt m, re_emitted_at_ms = now\<rparr>"

definition process_and_settle ::
  "('j, 'o, 'w) ingestion_ops \<Rightarrow> nats_config \<Rightarrow> message \<Rightarrow> 'j \<Rightarrow>
   (bus_error, ('w, 'o) broker, unit) io" where
  "process_and_settle S cfg m job =
     io_bind (io_step (run_with_ack_progress (sv_process S job))) (\<lambda>outcome.
     io_bind (io_step (on_world (sv_now_ms S))) (\<lambda>now.
     io_bind (io_step (publish_json (nc_result_subject cfg)
         (ResultEvent (result_event_for S m job outcome now)))) (\<lambda>published.
       case published of
         Inr _ \<Rightarrow> settle_published S cfg m job outcome
       | Inl error \<Rightarrow>
           io_bind (settle_unpublished S cfg m job outcome) (\<lambda>_. io_throw error))))"

definition handle_message ::
  "('j, 'o, 'w) ingestion_ops \<Rightarrow> nats_config \<Rightarrow> message \<Rightarrow> (bus_error, ('w, 'o) broker, unit) io" where
  "handle_message S cfg m =
     (if length (ms_payload m) > nc_max_payload_bytes cfg
      then reject_message S cfg m ''payload_too_large'' None None
      else case sv_decode S (ms_payload m) of
        None \<Rightarrow> reject_message S cfg m ''invalid_envelope_json'' None None
      | Some envelope \<Rightarrow>
          if en_schema envelope \<noteq> sv_envelope_schema S
          then reject_message S cfg m ''unsupported_envelope_schema'' (Some (en_job envelope)) None
          else if \<not> nats_authenticate cfg (en_auth envelope)
          then reject_message S cfg m ''envelope_authentication_failed'' (Some (en_job envelope)) None
          else process_and_settle S cfg m (en_job envelope))"

text \<open>The job of a message whose envelope passes every check.\<close>

definition accepted_job :: "('j, 'o, 'w) ingestion_ops \<Rightarrow> nats_config \<Rightarrow> message \<Rightarrow> 'j option" where
  "accepted_job S cfg m =
     (if length (ms_payload m) > nc_max_payload_bytes cfg then None
      else case sv_decode S (ms_payload m) of
        None \<Rightarrow> None
      | Some envelope \<Rightarrow>
          then_some (en_schema envelope = sv_envelope_schema S
            \<and> nats_authenticate cfg (en_auth envelope)) (en_job envelope))"

section \<open>What the handler leaves in the broker's log\<close>

text \<open>A log entry without the contents of its event and without an acknowledgement's fate.\<close>

datatype entry_kind = KResult bool | KDead string bool | KAck ack_kind

fun kind_of :: "'o bus_entry \<Rightarrow> entry_kind" where
  "kind_of (Published _ (ResultEvent _) ok) = KResult ok"
| "kind_of (Published _ (DeadEvent e) ok) = KDead (dl_reason_code e) ok"
| "kind_of (Acked k _) = KAck k"

definition appended :: "('w, 'o) broker \<Rightarrow> ('w, 'o) broker \<Rightarrow> entry_kind list" where
  "appended b b' = map kind_of (drop (length (bk_log b)) (bk_log b'))"

definition dead_then_term :: "string \<Rightarrow> bool \<Rightarrow> entry_kind list" where
  "dead_then_term reason ok = KDead reason ok # (if ok then [KAck AckTerm] else [])"

lemma heartbeats_spec:
  "bk_world (heartbeats n b) = bk_world b \<and> bk_publish_ok (heartbeats n b) = bk_publish_ok b
   \<and> bk_ack_ok (heartbeats n b) = bk_ack_ok b
   \<and> (\<exists>acks. bk_log (heartbeats n b) = bk_log b @ acks \<and> map kind_of acks = replicate n (KAck AckProgress))"
proof (induction n arbitrary: b)
  case (Suc n)
  have "bk_log (snd (ack_with AckProgress b)) = bk_log b @ [Acked AckProgress (bk_ack_ok b (length (bk_log b)))]"
    by (simp add: ack_with_def Let_def)
  with Suc [of "snd (ack_with AckProgress b)"] show ?case
    by (auto simp: ack_with_def Let_def)
qed simp

lemma progress_result:
  assumes "run_with_ack_progress f b = (x, b')"
  obtains acks where "f (bk_world b) = (x, bk_world b')" "bk_log b' = bk_log b @ acks"
    "map kind_of acks = replicate (bk_ticks b) (KAck AckProgress)"
    "bk_ack_ok b' = bk_ack_ok b" "bk_publish_ok b' = bk_publish_ok b"
  using assms heartbeats_spec [of "bk_ticks b" b]
  by (auto simp: run_with_ack_progress_def on_world_def split: prod.splits)

lemma reject_message_result:
  assumes "reject_message S cfg m reason job out b = (r, b')"
  shows "\<exists>event ok ok'. dl_reason_code event = reason \<and> dl_outcome event = out
    \<and> dl_payload_sha256 event = sv_digest S (ms_payload m)
    \<and> bk_log b' = bk_log b @ Published (nc_dead_subject cfg) (DeadEvent event) ok
        # (if ok then [Acked AckTerm ok'] else [])
    \<and> bk_world b' = snd (sv_now_ms S (bk_world b))
    \<and> ok' = bk_ack_ok b (Suc (length (bk_log b))) \<and> bk_ack_ok b' = bk_ack_ok b"
proof -
  obtain event w where e: "dead_letter_for_payload S (ms_payload m) reason job out
      (delivery_attempt m) (nc_max_deliver cfg) (bk_world b) = (event, w)" by fastforce
  then have f: "dl_reason_code event = reason" "dl_outcome event = out"
    "dl_payload_sha256 event = sv_digest S (ms_payload m)" "w = snd (sv_now_ms S (bk_world b))"
    by (auto simp: dead_letter_for_payload_def split: prod.splits)
  let ?ok = "bk_publish_ok b (length (bk_log b))"
  let ?ok' = "bk_ack_ok b (Suc (length (bk_log b)))"
  have "snd (reject_message S cfg m reason job out b)
      = b\<lparr>bk_world := w, bk_log := bk_log b @ Published (nc_dead_subject cfg) (DeadEvent event) ?ok
          # (if ?ok then [Acked AckTerm ?ok'] else [])\<rparr>"
    by (simp add: reject_message_def io_bind_def io_step_def on_world_def e publish_json_def
        ack_with_def Let_def)
  then have b': "b' = b\<lparr>bk_world := w, bk_log := bk_log b @ Published (nc_dead_subject cfg) (DeadEvent event) ?ok
          # (if ?ok then [Acked AckTerm ?ok'] else [])\<rparr>"
    using assms by simp
  show ?thesis
    by (rule exI [of _ event], rule exI [of _ ?ok], rule exI [of _ ?ok']) (simp add: b' f)
qed

lemma ack_with_result:
  assumes "ack_with k b = (r, b')"
  shows "bk_log b' = bk_log b @ [Acked k (bk_ack_ok b (length (bk_log b)))] \<and> bk_world b' = bk_world b
    \<and> bk_ack_ok b' = bk_ack_ok b"
  using assms by (auto simp: ack_with_def Let_def)

lemma accepted_handled:
  "accepted_job S cfg m = Some job \<Longrightarrow> handle_message S cfg m = process_and_settle S cfg m job"
  by (auto simp: accepted_job_def handle_message_def split: if_splits option.splits)

lemma rejected_handled:
  "accepted_job S cfg m = None \<Longrightarrow>
     \<exists>reason job. handle_message S cfg m = reject_message S cfg m reason job None"
  unfolding accepted_job_def handle_message_def
  by (cases "length (ms_payload m) > nc_max_payload_bytes cfg"; cases "sv_decode S (ms_payload m)")
     (auto split: if_splits)

text \<open>
  The contract of the disposition functions: which outcomes are retryable and when the
  delivery budget is used up decide how a message is settled.
\<close>

locale ingestion =
  fixes S :: "('j, 'o, 'w) ingestion_ops" and retryable :: "'o \<Rightarrow> bool" and exhausted :: "u64 \<Rightarrow> i64 \<Rightarrow> bool"
  assumes disposition: "sv_disposition S out n limit d =
      (if \<not> retryable out then DoAck else if exhausted n limit then DoDeadLetter else DoNak d)"
    and disposition_unpublished: "sv_disposition_unpublished S out n limit d =
      (if \<not> retryable out \<or> exhausted n limit then DoDeadLetter else DoNak d)"
begin

definition settlement :: "nats_config \<Rightarrow> message \<Rightarrow> 'o \<Rightarrow> bool \<Rightarrow> bool \<Rightarrow> entry_kind list" where
  "settlement cfg m out published ok =
     (if retryable out \<and> \<not> exhausted (delivery_attempt m) (nc_max_deliver cfg)
      then [KAck (AckNak (nc_nak_delay cfg))]
      else if published \<and> \<not> retryable out then [KAck AckAck]
      else if published then dead_then_term ''retry_budget_exhausted'' ok
      else [KDead ''result_publish_failed_after_terminal_outcome'' ok, KAck AckTerm])"

lemma settle_published_log:
  assumes "settle_published S cfg m job out b = (r, b')"
  shows "\<exists>new ok. bk_log b' = bk_log b @ new \<and> map kind_of new = settlement cfg m out True ok"
proof (cases "retryable out \<and> exhausted (delivery_attempt m) (nc_max_deliver cfg)")
  case True
  then have "reject_message S cfg m ''retry_budget_exhausted'' (Some job) (Some out) b = (r, b')"
    using assms by (simp add: settle_published_def disposition)
  then obtain event ok ok' where e: "dl_reason_code event = ''retry_budget_exhausted''"
    "bk_log b' = bk_log b @ Published (nc_dead_subject cfg) (DeadEvent event) ok
       # (if ok then [Acked AckTerm ok'] else [])"
    using reject_message_result by blast
  with True show ?thesis
    by (intro exI [of _ "Published (nc_dead_subject cfg) (DeadEvent event) ok
       # (if ok then [Acked AckTerm ok'] else [])"] exI [of _ ok])
       (simp add: settlement_def dead_then_term_def)
next
  case False
  then show ?thesis
    using assms by (auto simp: settle_published_def disposition settlement_def dest: ack_with_result split: if_splits)
qed

lemma settle_unpublished_log:
  assumes "settle_unpublished S cfg m job out b = (r, b')"
  shows "\<exists>new ok. bk_log b' = bk_log b @ new \<and> map kind_of new = settlement cfg m out False ok"
proof (cases "\<not> retryable out \<or> exhausted (delivery_attempt m) (nc_max_deliver cfg)")
  case True
  obtain now w where now: "sv_now_ms S (bk_world b) = (now, w)" by fastforce
  from True assms show ?thesis
    by (auto simp: settle_unpublished_def disposition_unpublished settlement_def io_bind_def
        io_step_def on_world_def dead_letter_for_payload_def now publish_json_def ack_with_def Let_def)
next
  case False
  with assms show ?thesis
    by (auto simp: settle_unpublished_def disposition_unpublished settlement_def dest: ack_with_result)
qed

lemma process_and_settle_log:
  assumes "process_and_settle S cfg m job b = (r, b')"
  shows "\<exists>out w ok published. sv_process S job (bk_world b) = (out, w)
    \<and> appended b b' = replicate (bk_ticks b) (KAck AckProgress) @ KResult published
        # settlement cfg m out published ok
    \<and> (\<exists>new. bk_log b' = bk_log b @ new)"
proof -
  obtain out b1 where run: "run_with_ack_progress (sv_process S job) b = (out, b1)" by fastforce
  obtain acks where f: "sv_process S job (bk_world b) = (out, bk_world b1)"
    and l1: "bk_log b1 = bk_log b @ acks"
    and acks: "map kind_of acks = replicate (bk_ticks b) (KAck AckProgress)"
    by (rule progress_result [OF run])
  obtain now w where now: "sv_now_ms S (bk_world b1) = (now, w)" by fastforce
  define b2 where "b2 = b1\<lparr>bk_world := w\<rparr>"
  let ?event = "ResultEvent (result_event_for S m job out now)"
  obtain res b3 where p: "publish_json (nc_result_subject cfg) ?event b2 = (res, b3)" by fastforce
  then have l3: "bk_log b3 = bk_log b1 @ [Published (nc_result_subject cfg) ?event (res = Ok ())]"
    by (auto simp: publish_json_def Let_def b2_def split: if_splits)
  have "\<exists>new ok. bk_log b' = bk_log b3 @ new \<and> map kind_of new = settlement cfg m out (res = Ok ()) ok"
  proof (cases res)
    case (Inl e)
    then obtain r4 where "settle_unpublished S cfg m job out b3 = (r4, b')"
      using assms run now p
      by (auto simp: process_and_settle_def io_bind_def io_step_def on_world_def b2_def io_throw_def
          split: prod.splits sum.splits)
    with settle_unpublished_log Inl show ?thesis by simp
  next
    case (Inr u)
    then have "settle_published S cfg m job out b3 = (r, b')"
      using assms run now p
      by (auto simp: process_and_settle_def io_bind_def io_step_def on_world_def b2_def
          split: prod.splits sum.splits)
    with settle_published_log Inr show ?thesis by simp
  qed
  then obtain new ok where "bk_log b' = bk_log b3 @ new"
    "map kind_of new = settlement cfg m out (res = Ok ()) ok" by blast
  with f l1 acks l3 show ?thesis by (auto simp: appended_def)
qed

text \<open>The whole handler, as the entries it appends to the log.\<close>

lemma handle_message_log:
  "case handle_message S cfg m b of (r, b') \<Rightarrow>
     (\<exists>new. bk_log b' = bk_log b @ new)
     \<and> (case accepted_job S cfg m of
          None \<Rightarrow> bk_world b' = snd (sv_now_ms S (bk_world b))
            \<and> (\<exists>reason ok. appended b b' = dead_then_term reason ok)
        | Some job \<Rightarrow> \<exists>out w ok published. sv_process S job (bk_world b) = (out, w)
            \<and> appended b b' = replicate (bk_ticks b) (KAck AckProgress) @ KResult published
                # settlement cfg m out published ok)"
proof -
  obtain r b' where h: "handle_message S cfg m b = (r, b')" by fastforce
  show ?thesis
  proof (cases "accepted_job S cfg m")
    case None
    from rejected_handled [OF this] obtain reason job
      where "handle_message S cfg m = reject_message S cfg m reason job None" by blast
    with h have "reject_message S cfg m reason job None b = (r, b')" by simp
    from reject_message_result [OF this] obtain event ok ok' where e: "dl_reason_code event = reason"
      "bk_log b' = bk_log b @ Published (nc_dead_subject cfg) (DeadEvent event) ok
         # (if ok then [Acked AckTerm ok'] else [])"
      and w: "bk_world b' = snd (sv_now_ms S (bk_world b))"
      by blast
    have "appended b b' = dead_then_term reason ok"
      by (simp add: appended_def dead_then_term_def e)
    moreover have "\<exists>new. bk_log b' = bk_log b @ new" using e(2) by blast
    ultimately show ?thesis using None h w by auto
  next
    case (Some job)
    then show ?thesis
      using process_and_settle_log [of cfg m job b r b'] h accepted_handled [OF Some] by auto
  qed
qed

end

section \<open>Redelivery\<close>

text \<open>
  The life of one message: the stream delivers it again, with the next delivery count, until
  an acknowledgement or termination of it went out. The provider's outcomes are listed in
  order; everything but the acknowledgements may fail on the way.
\<close>

definition processed ::
  "('j, 'o, 'w) ingestion_ops \<Rightarrow> nats_config \<Rightarrow> message \<Rightarrow> ('w, 'o) broker \<Rightarrow> 'o list" where
  "processed S cfg m b =
     (case accepted_job S cfg m of None \<Rightarrow> [] | Some job \<Rightarrow> [fst (sv_process S job (bk_world b))])"

definition settled_by :: "entry_kind list \<Rightarrow> bool" where
  "settled_by ks \<longleftrightarrow> KAck AckAck \<in> set ks \<or> KAck AckTerm \<in> set ks"

text \<open>Settled, or left with a dead letter whose publication failed as the last entry.\<close>

definition settled_or_dead_letter_lost :: "entry_kind list \<Rightarrow> bool" where
  "settled_or_dead_letter_lost ks \<longleftrightarrow> settled_by ks \<or> (\<exists>reason. ks \<noteq> [] \<and> last ks = KDead reason False)"

inductive delivered ::
  "('j, 'o, 'w) ingestion_ops \<Rightarrow> nats_config \<Rightarrow> string \<Rightarrow> nat \<Rightarrow> 'o list \<Rightarrow> bool \<Rightarrow> bool"
  for S cfg payload where
  fresh: "delivered S cfg payload 0 [] False"
| again: "delivered S cfg payload n outs False \<Longrightarrow>
     m = \<lparr>ms_payload = payload, ms_delivered = Some (of_nat (Suc n))\<rparr> \<Longrightarrow>
     handle_message S cfg m b = (r, b') \<Longrightarrow>
     delivered S cfg payload (Suc n) (outs @ processed S cfg m b) (settled_by (appended b b'))"

inductive_cases delivered_SucE: "delivered S cfg payload (Suc n) outs settled"

context ingestion
begin

lemma terminal_settled:
  "\<not> retryable out \<Longrightarrow> settled_by (xs @ KResult published # settlement cfg m out published ok)"
  by (simp add: settled_by_def settlement_def)

lemma settlement_nak:
  "KAck (AckNak d) \<in> set (settlement cfg m out published ok) \<longleftrightarrow>
     retryable out \<and> \<not> exhausted (delivery_attempt m) (nc_max_deliver cfg) \<and> d = nc_nak_delay cfg"
  by (auto simp: settlement_def dead_then_term_def)

lemma delivered_outcomes:
  "delivered S cfg payload n outs settled \<Longrightarrow>
     list_all retryable (butlast outs) \<and> (settled \<or> list_all retryable outs)"
proof (induction rule: delivered.induct)
  case (again n outs m b r b')
  show ?case
  proof (cases "accepted_job S cfg m")
    case None
    then show ?thesis using again(4) by (auto simp: processed_def list_all_iff dest: in_set_butlastD)
  next
    case (Some job)
    obtain out w where p: "sv_process S job (bk_world b) = (out, w)" by fastforce
    from handle_message_log [where cfg = cfg and m = m and b = b] again(3) Some p
    obtain ok published where a: "appended b b' = replicate (bk_ticks b) (KAck AckProgress)
        @ KResult published # settlement cfg m out published ok" by auto
    have "settled_by (appended b b')" if "\<not> retryable out" unfolding a by (rule terminal_settled) fact
    then show ?thesis using again(4) Some p by (auto simp: processed_def)
  qed
qed simp

end

section \<open>A broker that takes every publication\<close>

definition publishing :: "('w, 'o) broker \<Rightarrow> bool" where
  "publishing b \<longleftrightarrow> bk_publish_ok b = (\<lambda>n. True)"

text \<open>Between two states of such a broker no publication failed.\<close>

definition no_lost_publication :: "('w, 'o) broker \<Rightarrow> ('w, 'o) broker \<Rightarrow> bool" where
  "no_lost_publication b b' \<longleftrightarrow> bk_publish_ok b' = bk_publish_ok b
     \<and> (\<exists>new. bk_log b' = bk_log b @ new
          \<and> (publishing b \<longrightarrow> list_all (\<lambda>e. \<forall>s ev. e \<noteq> Published s ev False) new))"

interpretation bus: step_frame no_lost_publication
proof
  fix b b' b'' :: "('w, 'o) broker"
  show "no_lost_publication b b" by (simp add: no_lost_publication_def)
  assume "no_lost_publication b b'" "no_lost_publication b' b''"
  then show "no_lost_publication b b''"
    by (auto simp: no_lost_publication_def publishing_def)
qed

lemma bus_steps [io_frame_intros]:
  "io_frame no_lost_publication (publish_json subject event)"
  "io_frame no_lost_publication (ack_with kind)"
  "io_frame no_lost_publication (io_step (on_world f))"
  "io_frame no_lost_publication (io_step (publish_json subject event))"
  by (auto simp: io_frame_def io_step_def publish_json_def ack_with_def on_world_def
      no_lost_publication_def publishing_def Let_def split: prod.splits)

lemma heartbeats_bus: "no_lost_publication b (heartbeats n b)"
proof (induction n arbitrary: b)
  case (Suc n)
  have "no_lost_publication b (snd (ack_with AckProgress b))"
    by (rule bus_steps(2) [unfolded io_frame_def, rule_format])
  with Suc [of "snd (ack_with AckProgress b)"] show ?case using bus.R_trans by simp
qed (simp add: bus.R_refl)

lemma set_world_bus: "no_lost_publication b (b\<lparr>bk_world := w\<rparr>)"
  by (simp add: no_lost_publication_def)

lemma progress_bus [io_frame_intros]: "io_frame no_lost_publication (io_step (run_with_ack_progress f))"
  by (simp add: io_frame_def io_step_def run_with_ack_progress_def on_world_def split_beta
      bus.R_trans [OF heartbeats_bus set_world_bus])

lemmas [io_frame_intros] = bus.frame_bind

lemma reject_bus [io_frame_intros]: "io_frame no_lost_publication (reject_message S cfg m reason job out)"
  unfolding reject_message_def by (intro io_frame_intros)

lemma handle_message_bus: "io_frame no_lost_publication (handle_message S cfg m)"
proof -
  have "io_frame no_lost_publication (settle_published S cfg m job out)"
    "io_frame no_lost_publication (settle_unpublished S cfg m job out)" for job out
    unfolding settle_published_def settle_unpublished_def
    by (cases "sv_disposition S out (delivery_attempt m) (nc_max_deliver cfg) (nc_nak_delay cfg)";
        cases "sv_disposition_unpublished S out (delivery_attempt m) (nc_max_deliver cfg) (nc_nak_delay cfg)";
        auto intro!: io_frame_intros)+
  then have "io_frame no_lost_publication (process_and_settle S cfg m job)" for job
    unfolding process_and_settle_def
    by (intro io_frame_intros) (auto split: sum.splits intro!: io_frame_intros)
  then show ?thesis
    by (auto simp: handle_message_def split: option.splits intro: io_frame_intros)
qed

lemma publishing_no_failed_dead:
  assumes "handle_message S cfg m b = (r, b')" and "publishing b"
  shows "KDead reason False \<notin> set (appended b b')"
proof -
  from io_frameD [OF handle_message_bus assms(1)] assms(2) obtain new where
    new: "bk_log b' = bk_log b @ new" "list_all (\<lambda>e. \<forall>s ev. e \<noteq> Published s ev False) new"
    by (auto simp: no_lost_publication_def)
  have "\<exists>s ev. e = Published s ev False" if "kind_of e = KDead reason False" for e
    using that by (cases e rule: kind_of.cases) auto
  with new show ?thesis by (fastforce simp: appended_def list_all_iff)
qed

context ingestion
begin

text \<open>
  At the last attempt a message is acknowledged or terminated and never handed back, unless
  its dead letter could not be published, which is then the last thing the handler did.
\<close>

lemma exhausted_ends:
  assumes "exhausted (delivery_attempt m) (nc_max_deliver cfg)"
    and h: "handle_message S cfg m b = (r, b')"
  shows "settled_or_dead_letter_lost (appended b b')"
    and "KAck (AckNak d) \<notin> set (appended b b')"
proof -
  have "settled_or_dead_letter_lost (appended b b')
      \<and> KAck (AckNak d) \<notin> set (appended b b')"
  proof (cases "accepted_job S cfg m")
    case None
    with handle_message_log [where cfg = cfg and m = m and b = b] h obtain reason ok where
      "appended b b' = dead_then_term reason ok" by auto
    then show ?thesis by (cases ok) (simp_all add: settled_or_dead_letter_lost_def settled_by_def dead_then_term_def)
  next
    case (Some job)
    with handle_message_log [where cfg = cfg and m = m and b = b] h obtain out ok published where
      a: "appended b b' = replicate (bk_ticks b) (KAck AckProgress) @ KResult published
          # settlement cfg m out published ok" by auto
    show ?thesis
      unfolding a using assms(1) by (cases ok) (auto simp: settled_or_dead_letter_lost_def settled_by_def settlement_def dead_then_term_def)
  qed
  then show "settled_or_dead_letter_lost (appended b b')"
    and "KAck (AckNak d) \<notin> set (appended b b')" by simp_all
qed

lemma exhausted_settles:
  assumes "exhausted (delivery_attempt m) (nc_max_deliver cfg)" and "publishing b"
    and h: "handle_message S cfg m b = (r, b')"
  shows "settled_by (appended b b')"
  using exhausted_ends(1) [OF assms(1) h] publishing_no_failed_dead [OF h assms(2)] last_in_set
  unfolding settled_or_dead_letter_lost_def by metis

end

end
