(* ===== verification/Nats_Ingestion.thy ===== *)
theory Nats_Ingestion
  imports Jetstream
begin

text \<open>
  The push queue worker (\<open>src/nats_ingestion.rs\<close>): configuration from the environment, the
  streams and the consumer it asks JetStream for, job processing, the dispositions, and the
  instance of the handler for push jobs.
\<close>

section \<open>Configuration\<close>

datatype nats_config_error =
    MissingEnvelopeSecret
  | InvalidEnvelopeSecret
  | NatsEnvError env_error

definition nats_validate_secret :: "string \<Rightarrow> nats_config_error + unit" where
  "nats_validate_secret s =
     (if length s < 32 \<or> length s > 4096 \<or> any_char is_control s
      then Err InvalidEnvelopeSecret else Ok ())"

definition nats_envelope_secret :: "environment \<Rightarrow> nats_config_error + string option" where
  "nats_envelope_secret env =
     (if environment_flag env ''ENABLE_NATS_ENVELOPE_AUTH''
      then and_then (ok_or MissingEnvelopeSecret (non_empty_env env ''NATS_SHARED_SECRET'')) (\<lambda>v.
             and_then (nats_validate_secret v) (\<lambda>_. Ok (Some v)))
      else Ok None)"

definition nats_config_from_env :: "environment \<Rightarrow> nats_config_error + nats_config option" where
  "nats_config_from_env env =
     (case non_empty_env env ''NATS_URL'' of
        None \<Rightarrow> Ok None
      | Some server \<Rightarrow>
          and_then (nats_envelope_secret env) (\<lambda>secret.
          and_then (map_err NatsEnvError (positive_u64 env ''NATS_PUSH_ACK_WAIT_SECONDS'' 120)) (\<lambda>ack_wait.
          and_then (map_err NatsEnvError (positive_u64 env ''NATS_PUSH_NAK_DELAY_SECONDS'' 15)) (\<lambda>nak_delay.
          and_then (map_err NatsEnvError (positive_i64 env ''NATS_PUSH_MAX_DELIVER'' 5)) (\<lambda>max_deliver.
          and_then (map_err NatsEnvError (positive_usize env ''NATS_PUSH_MAX_PAYLOAD_BYTES'' (512 * 1024)))
            (\<lambda>max_payload_bytes.
          and_then (map_err NatsEnvError (positive_usize env ''NATS_PUSH_MAX_CONCURRENCY'' 32))
            (\<lambda>max_concurrency.
          Ok (Some \<lparr>
            nc_url = server,
            nc_job_stream = env_value env ''NATS_PUSH_JOB_STREAM'' ''PUSH_JOBS_V1'',
            nc_result_stream = env_value env ''NATS_PUSH_RESULT_STREAM'' ''PUSH_RESULTS_V1'',
            nc_dead_stream = env_value env ''NATS_PUSH_DEAD_STREAM'' ''PUSH_DEAD_V1'',
            nc_job_subject = env_value env ''NATS_PUSH_JOB_SUBJECT'' ''push.jobs.v1'',
            nc_result_subject = env_value env ''NATS_PUSH_RESULT_SUBJECT'' ''push.results.v1'',
            nc_dead_subject = env_value env ''NATS_PUSH_DEAD_SUBJECT'' ''push.dead.v1'',
            nc_consumer = env_value env ''NATS_PUSH_CONSUMER'' ''push-notification-server-v1'',
            nc_ack_wait = from_secs ack_wait,
            nc_nak_delay = from_secs nak_delay,
            nc_max_deliver = max_deliver,
            nc_max_payload_bytes = max_payload_bytes,
            nc_max_concurrency = max_concurrency,
            nc_envelope_secret = secret\<rparr>))))))))"

section \<open>Streams\<close>

datatype retention = WorkQueue | Limits

record stream_config =
  st_name :: string
  st_subjects :: "string list"
  st_retention :: retention
  st_max_age :: duration
  st_max_message_size :: "nat option" \<comment> \<open>\<open>None\<close> is the library's default\<close>

definition days :: "nat \<Rightarrow> duration" where "days n = from_secs (n * 24 * 60 * 60)"

text \<open>The streams \<open>ensure_streams\<close> gets or creates, in this order.\<close>

definition push_streams :: "nats_config \<Rightarrow> stream_config list" where
  "push_streams cfg =
     [\<lparr>st_name = nc_job_stream cfg, st_subjects = [nc_job_subject cfg], st_retention = WorkQueue,
       st_max_age = days 7,
       st_max_message_size = Some (min (nc_max_payload_bytes cfg) (2 ^ 31 - 1))\<rparr>,
      \<lparr>st_name = nc_result_stream cfg, st_subjects = [nc_result_subject cfg], st_retention = Limits,
       st_max_age = days 7, st_max_message_size = None\<rparr>,
      \<lparr>st_name = nc_dead_stream cfg, st_subjects = [nc_dead_subject cfg], st_retention = Limits,
       st_max_age = days 30, st_max_message_size = None\<rparr>]"

record consumer_config =
  cs_durable_name :: "string option"
  cs_filter_subject :: string
  cs_ack_wait :: duration
  cs_max_deliver :: i64

definition push_consumer :: "nats_config \<Rightarrow> consumer_config" where
  "push_consumer cfg = \<lparr>cs_durable_name = Some (nc_consumer cfg),
     cs_filter_subject = nc_job_subject cfg, cs_ack_wait = nc_ack_wait cfg,
     cs_max_deliver = nc_max_deliver cfg\<rparr>"

section \<open>Dispositions\<close>

text \<open>\<open>u64::try_from(max_deliver).unwrap_or(u64::MAX)\<close>\<close>

definition budget_u64 :: "i64 \<Rightarrow> u64" where
  "budget_u64 n = (if 0 \<le> sint n then n else - 1)"

definition disposition_for_outcome ::
  "outcome_class \<Rightarrow> u64 \<Rightarrow> i64 \<Rightarrow> duration \<Rightarrow> nats_disposition" where
  "disposition_for_outcome class attempt max_deliver nak_delay =
     (if \<not> is_retryable class then DoAck
      else if 0 < sint max_deliver \<and> budget_u64 max_deliver \<le> attempt then DoDeadLetter
      else DoNak nak_delay)"

definition disposition_for_result_publish_failure ::
  "outcome_class \<Rightarrow> u64 \<Rightarrow> i64 \<Rightarrow> duration \<Rightarrow> nats_disposition" where
  "disposition_for_result_publish_failure class attempt max_deliver nak_delay =
     (if is_retryable class
      then disposition_for_outcome class attempt max_deliver nak_delay
      else DoDeadLetter)"

section \<open>The push instance\<close>

definition envelope_schema :: string where "envelope_schema = ''push.job.envelope.v1''"
definition result_schema :: string where "result_schema = ''push.result.v1''"
definition dead_schema :: string where "dead_schema = ''push.dead.v1''"

definition envelope_new :: "push_job \<Rightarrow> push_job envelope" where
  "envelope_new job = \<lparr>en_schema = envelope_schema, en_auth = None, en_job = job\<rparr>"

definition process_job ::
  "externals \<Rightarrow> provider_registry \<Rightarrow> push_job \<Rightarrow> world \<Rightarrow> push_outcome \<times> world" where
  "process_job X reg job w =
     (case validate_push_job X job of
        Inl errors \<Rightarrow> (validation_outcome X job errors, w)
      | Inr _ \<Rightarrow>
          (case dispatch reg job w of
             (Inr outcome, w') \<Rightarrow> (outcome, w')
           | (Inl e, w') \<Rightarrow> (outcome_from_provider_error X job e, w')))"

definition push_ingestion ::
  "externals \<Rightarrow> (string \<Rightarrow> push_job envelope option) \<Rightarrow> provider_registry \<Rightarrow>
   (push_job, push_outcome, world) ingestion_ops" where
  "push_ingestion X decode reg = \<lparr>
     sv_envelope_schema = envelope_schema,
     sv_result_schema = result_schema,
     sv_dead_schema = dead_schema,
     sv_decode = decode,
     sv_process = process_job X reg,
     sv_now_ms = now_ms,
     sv_ids = (\<lambda>job. (pj_job_id job, pj_tenant_id job, pj_application_id job)),
     sv_trace = pj_trace,
     sv_disposition = (\<lambda>out. disposition_for_outcome (po_class out)),
     sv_disposition_unpublished = (\<lambda>out. disposition_for_result_publish_failure (po_class out)),
     sv_digest = (\<lambda>payload. x_hex X (x_sha256 X payload))\<rparr>"

definition push_handle_message ::
  "externals \<Rightarrow> (string \<Rightarrow> push_job envelope option) \<Rightarrow> provider_registry \<Rightarrow> nats_config \<Rightarrow> message \<Rightarrow>
   (bus_error, (world, push_outcome) broker, unit) io" where
  "push_handle_message X decode reg = handle_message (push_ingestion X decode reg)"

definition push_exhausted :: "u64 \<Rightarrow> i64 \<Rightarrow> bool" where
  "push_exhausted attempt max_deliver \<longleftrightarrow> 0 < sint max_deliver \<and> max_deliver \<le> attempt"

lemma push_ingestion_locale:
  "ingestion (push_ingestion X decode reg) (\<lambda>out. is_retryable (po_class out)) push_exhausted"
  by unfold_locales
     (auto simp: push_ingestion_def disposition_for_outcome_def budget_u64_def
       disposition_for_result_publish_failure_def push_exhausted_def)

interpretation push_queue: ingestion "push_ingestion X decode reg"
  "\<lambda>out. is_retryable (po_class out)" push_exhausted for X decode reg
  by (rule push_ingestion_locale)

section \<open>Properties\<close>

text \<open>The job of an envelope this configuration lets through.\<close>

definition admitted_job ::
  "(string \<Rightarrow> push_job envelope option) \<Rightarrow> nats_config \<Rightarrow> message \<Rightarrow> push_job option" where
  "admitted_job decode cfg m =
     (case decode (ms_payload m) of
        None \<Rightarrow> None
      | Some e \<Rightarrow> then_some (length (ms_payload m) \<le> nc_max_payload_bytes cfg
          \<and> en_schema e = envelope_schema
          \<and> (nc_envelope_secret cfg = None \<or> en_auth e = nc_envelope_secret cfg)) (en_job e))"

lemma constant_time_eq_iff: "constant_time_eq a b \<longleftrightarrow> a = b"
  by (cases "length a = length b") (auto simp: constant_time_eq_def difference_fold list_eq_iff_zip_eq)

lemma nats_authenticate_iff:
  "nats_authenticate cfg supplied \<longleftrightarrow> nc_envelope_secret cfg = None \<or> supplied = nc_envelope_secret cfg"
  by (cases supplied) (auto simp: nats_authenticate_def constant_time_eq_iff split: option.splits)

lemma accepted_job_admitted:
  "accepted_job (push_ingestion X decode reg) cfg m = admitted_job decode cfg m"
  by (auto simp: accepted_job_def admitted_job_def push_ingestion_def nats_authenticate_iff then_some_def
      split: option.splits)

definition push_settlement :: "nats_config \<Rightarrow> message \<Rightarrow> push_outcome \<Rightarrow> bool \<Rightarrow> bool \<Rightarrow> entry_kind list" where
  "push_settlement cfg m out published ok =
     (if is_retryable (po_class out) \<and> \<not> push_exhausted (delivery_attempt m) (nc_max_deliver cfg)
      then [KAck (AckNak (nc_nak_delay cfg))]
      else if published \<and> \<not> is_retryable (po_class out) then [KAck AckAck]
      else if published then dead_then_term ''retry_budget_exhausted'' ok
      else [KDead ''result_publish_failed_after_terminal_outcome'' ok, KAck AckTerm])"

text \<open>
  C4: A push message is settled in exactly one of these ways. If its payload is too large,
  not an envelope, of another schema or not authenticated, no provider is contacted: a dead
  letter is published and, if that worked, the message is terminated. Otherwise the job is
  processed exactly once and the result published; then a retryable outcome with attempts
  left is NAKed, any other outcome is acknowledged, dead-lettered and terminated, or (when
  the result could not be published) dead-lettered and terminated even if that fails too.
\<close>

theorem push_message_settled:
  "case push_handle_message X decode reg cfg m b of (r, b') \<Rightarrow>
     (case admitted_job decode cfg m of
        None \<Rightarrow> silent (bk_world b) (bk_world b') \<and> same_caches (bk_world b) (bk_world b')
          \<and> (\<exists>reason ok. appended b b' = dead_then_term reason ok)
      | Some job \<Rightarrow> \<exists>out w ok published. process_job X reg job (bk_world b) = (out, w)
          \<and> appended b b' = replicate (bk_ticks b) (KAck AckProgress) @ [KResult published]
             @ push_settlement cfg m out published ok)"
proof -
  let ?S = "push_ingestion X decode reg"
  obtain r b' where h: "push_handle_message X decode reg cfg m b = (r, b')" by fastforce
  have settle: "push_queue.settlement = push_settlement"
    by (intro ext) (simp add: push_queue.settlement_def push_settlement_def)
  have log: "case admitted_job decode cfg m of
      None \<Rightarrow> bk_world b' = snd (now_ms (bk_world b)) \<and> (\<exists>reason ok. appended b b' = dead_then_term reason ok)
    | Some job \<Rightarrow> \<exists>out w ok published. process_job X reg job (bk_world b) = (out, w)
        \<and> appended b b' = replicate (bk_ticks b) (KAck AckProgress) @ KResult published
            # push_settlement cfg m out published ok"
    using push_queue.handle_message_log [where X = X and decode = decode and reg = reg and cfg = cfg
        and m = m and b = b] h
    unfolding accepted_job_admitted settle
    by (simp add: push_handle_message_def push_ingestion_def split: option.splits)
  have "silent w (snd (now_ms w))" "same_caches w (snd (now_ms w))" for w
    by (simp_all add: now_ms_def split_beta)
  then show ?thesis using log h by (simp split: option.splits)
qed

text \<open>
  However often a message is delivered, one delivery after the other until a handler settles it,
  and whichever publications fail, an outcome that is not retryable (in particular an acceptance
  by the provider) is the last one: the handler that got it settles the message.
\<close>

theorem terminal_outcome_is_last:
  assumes "delivered (push_ingestion X decode reg) cfg payload n outs settled"
  shows "list_all (\<lambda>out. is_retryable (po_class out)) (butlast outs)
    \<and> (settled \<or> list_all (\<lambda>out. is_retryable (po_class out)) outs) \<and> length outs \<le> n"
proof -
  have "length outs \<le> n"
    using assms by (induction rule: delivered.induct) (auto simp: processed_def split: option.splits)
  then show ?thesis using push_queue.delivered_outcomes [OF assms] by simp
qed

definition demo_nats_config :: nats_config where
  "demo_nats_config = \<lparr>nc_url = ''nats://n'', nc_job_stream = ''j'', nc_result_stream = ''r'',
     nc_dead_stream = ''d'', nc_job_subject = ''j'', nc_result_subject = ''r'', nc_dead_subject = ''d'',
     nc_consumer = ''c'', nc_ack_wait = from_secs 120, nc_nak_delay = from_secs 15, nc_max_deliver = 5,
     nc_max_payload_bytes = 1000, nc_max_concurrency = 1, nc_envelope_secret = None\<rparr>"

definition demo_decode :: "string \<Rightarrow> push_job envelope option" where
  "demo_decode s = (if s = ''job'' then Some (envelope_new demo_push_job) else None)"

definition demo_broker :: "(world, push_outcome) broker" where
  "demo_broker = \<lparr>bk_world = demo_world, bk_publish_ok = (\<lambda>n. False), bk_ack_ok = (\<lambda>n. True),
     bk_ticks = 1, bk_log = []\<rparr>"

definition demo_delivery :: message where
  "demo_delivery = \<lparr>ms_payload = ''job'', ms_delivered = Some 1\<rparr>"

theorem terminal_outcome_is_last_witness:
  "map po_class (processed (push_ingestion demo_externals demo_decode registry_new)
      demo_nats_config demo_delivery demo_broker) = [PermanentProviderFailure]
   \<and> settled_by (appended demo_broker (snd (push_handle_message demo_externals demo_decode
      registry_new demo_nats_config demo_delivery demo_broker)))"
proof -
  let ?S = "push_ingestion demo_externals demo_decode registry_new"
  have p: "map po_class (processed ?S demo_nats_config demo_delivery demo_broker) = [PermanentProviderFailure]"
    by code_simp
  then obtain out where out: "processed ?S demo_nats_config demo_delivery demo_broker = [out]"
    "po_class out = PermanentProviderFailure" by (auto simp: map_eq_Cons_conv)
  have "delivered ?S demo_nats_config ''job'' (Suc 0)
      ([] @ processed ?S demo_nats_config demo_delivery demo_broker)
      (settled_by (appended demo_broker (snd (handle_message ?S demo_nats_config demo_delivery demo_broker))))"
    by (rule delivered.again [OF delivered.fresh _ prod.collapse [symmetric]]) (simp add: demo_delivery_def)
  from terminal_outcome_is_last [OF this] p out show ?thesis
    by (simp add: push_handle_message_def)
qed

text \<open>
  A queue configuration read from the environment exists exactly when \<open>NATS_URL\<close> is set,
  has positive limits and non-empty names, and holds an envelope secret exactly when envelope
  authentication is enabled, one of 32 to 4096 bytes.
\<close>

theorem nats_config_wf:
  "case nats_config_from_env env of
     Inl e \<Rightarrow> non_empty_env env ''NATS_URL'' \<noteq> None
   | Inr None \<Rightarrow> non_empty_env env ''NATS_URL'' = None
   | Inr (Some cfg) \<Rightarrow> non_empty_env env ''NATS_URL'' = Some (nc_url cfg)
       \<and> 0 < nc_ack_wait cfg \<and> 0 < nc_nak_delay cfg \<and> 0 < sint (nc_max_deliver cfg)
       \<and> 0 < nc_max_payload_bytes cfg \<and> 0 < nc_max_concurrency cfg
       \<and> nc_job_subject cfg \<noteq> [] \<and> nc_result_subject cfg \<noteq> [] \<and> nc_dead_subject cfg \<noteq> []
       \<and> (nc_envelope_secret cfg = None \<longleftrightarrow> \<not> environment_flag env ''ENABLE_NATS_ENVELOPE_AUTH'')
       \<and> is_none_or (\<lambda>s. 32 \<le> length s \<and> length s \<le> 4096) (nc_envelope_secret cfg)"
proof (cases "non_empty_env env ''NATS_URL''")
  case (Some server)
  have secret: "(s = None \<longleftrightarrow> \<not> environment_flag env ''ENABLE_NATS_ENVELOPE_AUTH'')
      \<and> is_none_or (\<lambda>s. 32 \<le> length s \<and> length s \<le> 4096) s" if "nats_envelope_secret env = Ok s" for s
    using that by (auto simp: nats_envelope_secret_def nats_validate_secret_def and_then_eq_Ok not_less
        split: if_splits)
  show ?thesis
  proof (cases "nats_config_from_env env")
    case (Inr c)
    with Some obtain secret ack nak deliver payload conc where
      ok: "nats_envelope_secret env = Ok secret"
      "positive_u64 env ''NATS_PUSH_ACK_WAIT_SECONDS'' 120 = Ok ack"
      "positive_u64 env ''NATS_PUSH_NAK_DELAY_SECONDS'' 15 = Ok nak"
      "positive_i64 env ''NATS_PUSH_MAX_DELIVER'' 5 = Ok deliver"
      "positive_usize env ''NATS_PUSH_MAX_PAYLOAD_BYTES'' (512 * 1024) = Ok payload"
      "positive_usize env ''NATS_PUSH_MAX_CONCURRENCY'' 32 = Ok conc"
      and c: "c = Some \<lparr>
            nc_url = server,
            nc_job_stream = env_value env ''NATS_PUSH_JOB_STREAM'' ''PUSH_JOBS_V1'',
            nc_result_stream = env_value env ''NATS_PUSH_RESULT_STREAM'' ''PUSH_RESULTS_V1'',
            nc_dead_stream = env_value env ''NATS_PUSH_DEAD_STREAM'' ''PUSH_DEAD_V1'',
            nc_job_subject = env_value env ''NATS_PUSH_JOB_SUBJECT'' ''push.jobs.v1'',
            nc_result_subject = env_value env ''NATS_PUSH_RESULT_SUBJECT'' ''push.results.v1'',
            nc_dead_subject = env_value env ''NATS_PUSH_DEAD_SUBJECT'' ''push.dead.v1'',
            nc_consumer = env_value env ''NATS_PUSH_CONSUMER'' ''push-notification-server-v1'',
            nc_ack_wait = from_secs ack,
            nc_nak_delay = from_secs nak,
            nc_max_deliver = deliver,
            nc_max_payload_bytes = payload,
            nc_max_concurrency = conc,
            nc_envelope_secret = secret\<rparr>"
      by (auto simp: nats_config_from_env_def and_then_eq_Ok)
    have "0 < ack" "0 < nak" "0 < sint deliver" "0 < payload" "0 < conc"
      using ok(2-6) positive_u64_pos positive_i64_pos positive_usize_pos by force+
    then show ?thesis
      using secret [OF ok(1)] by (simp add: Inr c Some from_secs_def env_value_non_empty)
  qed (simp add: Some)
qed (simp add: nats_config_from_env_def)

end
