(* ===== verification/Rate_Limit.thy ===== *)
theory Rate_Limit
  imports Complex_Main Rust_Std "HOL-Library.Log_Nat"
begin

text \<open>
  The token bucket that caps contact deliveries (\<open>src/contact/rate_limit.rs\<close>). Its \<open>f64\<close>
  arithmetic is kept: an \<open>f64\<close> is a rational, and every operation rounds its exact result to
  53 significant bits, ties to even. (The magnitudes here stay far from the exponent limits,
  so infinities, NaN and subnormal numbers do not arise.) The lemmas show that rounding is
  exact on the integers a bucket starts with and bound its relative error; the properties
  bound how many deliveries a limiter lets through.
\<close>

section \<open>Binary floating point\<close>

text \<open>The integer nearest to \<open>x\<close>, ties to even.\<close>

definition round_even :: "rat \<Rightarrow> int" where
  "round_even x =
     (let f = \<lfloor>x\<rfloor>; r = x - of_int f in
      if r < 1/2 then f else if 1/2 < r then f + 1 else if even f then f else f + 1)"

text \<open>The exponent of a positive number: \<open>2 ^ k \<le> x < 2 ^ (k + 1)\<close>.\<close>

definition exponent2 :: "rat \<Rightarrow> int" where
  "exponent2 x =
     (if 1 \<le> x then int (floorlog 2 (nat \<lfloor>x\<rfloor>)) - 1
      else - int (floorlog 2 (nat (\<lceil>1 / x\<rceil> - 1))))"

definition pow2 :: "int \<Rightarrow> rat" where
  "pow2 k = (if 0 \<le> k then 2 ^ nat k else 1 / 2 ^ nat (- k))"

text \<open>Rounding to 53 significant bits.\<close>

definition f64 :: "rat \<Rightarrow> rat" where
  "f64 x =
     (if x = 0 then 0
      else let ulp = pow2 (exponent2 \<bar>x\<bar> - 52) in of_int (round_even (x / ulp)) * ulp)"

text \<open>\<open>Duration::as_secs_f64\<close> and \<open>Duration::from_secs_f64\<close>, on durations in nanoseconds.\<close>

definition as_secs_f64 :: "duration \<Rightarrow> rat" where
  "as_secs_f64 d =
     f64 (f64 (of_nat (d div 1000000000)) + f64 (of_nat (d mod 1000000000) / 1000000000))"

definition from_secs_f64 :: "rat \<Rightarrow> duration" where
  "from_secs_f64 s = nat (round_even (s * 1000000000))"

section \<open>The bucket\<close>

record token_bucket =
  tb_capacity :: rat
  tb_tokens :: rat
  tb_per_second :: rat
  tb_last :: duration

definition bucket_new :: "rat \<Rightarrow> duration \<Rightarrow> token_bucket" where
  "bucket_new per_minute now =
     (let capacity = max per_minute 1 in
      \<lparr>tb_capacity = capacity, tb_tokens = capacity, tb_per_second = f64 (per_minute / 60),
       tb_last = now\<rparr>)"

text \<open>\<open>limit.max(1)\<close>, a \<open>u32\<close> and so exact as an \<open>f64\<close>.\<close>

definition limit_of :: "u32 \<Rightarrow> nat" where
  "limit_of limit = unat (max limit 1)"

definition limiter_per_minute :: "u32 \<Rightarrow> duration \<Rightarrow> token_bucket" where
  "limiter_per_minute limit now = bucket_new (of_nat (limit_of limit)) now"

text \<open>\<open>duration_since\<close> saturates at zero, as subtraction on \<open>nat\<close> does.\<close>

definition refilled :: "token_bucket \<Rightarrow> duration \<Rightarrow> rat" where
  "refilled b now =
     min (f64 (tb_tokens b + f64 (as_secs_f64 (now - tb_last b) * tb_per_second b)))
       (tb_capacity b)"

definition retry_hint :: "token_bucket \<Rightarrow> rat \<Rightarrow> duration" where
  "retry_hint b tokens =
     (let missing = max (f64 (1 - tokens)) 0;
          seconds = (if 0 < tb_per_second b then f64 (missing / tb_per_second b) else 60)
      in from_secs_f64 (min (max seconds (f64 (1/20))) 60))"

definition try_take :: "token_bucket \<Rightarrow> duration \<Rightarrow> (duration + unit) \<times> token_bucket" where
  "try_take b now =
     (let tokens = refilled b now in
      if 1 \<le> tokens
      then (Ok (), b\<lparr>tb_tokens := f64 (tokens - 1), tb_last := now\<rparr>)
      else (Err (retry_hint b tokens), b\<lparr>tb_tokens := tokens, tb_last := now\<rparr>))"

section \<open>Rounding\<close>

lemma round_even_of_int [simp]: "round_even (of_int n) = n"
  by (simp add: round_even_def)

lemma round_even_error: "\<bar>of_int (round_even x) - x\<bar> \<le> 1/2"
proof -
  have "of_int \<lfloor>x\<rfloor> \<le> x" "x < of_int \<lfloor>x\<rfloor> + 1" by linarith+
  then show ?thesis by (auto simp: round_even_def Let_def abs_le_iff)
qed

lemma round_even_mono_bounds: "of_int a \<le> x \<Longrightarrow> a \<le> round_even x" "x \<le> of_int b \<Longrightarrow> round_even x \<le> b"
proof -
  show "of_int a \<le> x \<Longrightarrow> a \<le> round_even x"
    by (auto simp: round_even_def Let_def le_floor_iff) linarith+
  assume "x \<le> of_int b"
  show "round_even x \<le> b"
  proof (cases "x = of_int b")
    case False
    with \<open>x \<le> of_int b\<close> have "\<lfloor>x\<rfloor> < b" by (simp add: floor_less_iff)
    then show ?thesis by (auto simp: round_even_def Let_def)
  qed simp
qed

lemma pow2_pos [simp]: "0 < pow2 k" "pow2 k \<noteq> 0"
  by (simp_all add: pow2_def)

lemma pow2_add: "pow2 (a + b) = pow2 a * pow2 b"
proof -
  have eq: "pow2 k = 2 powi k" for k
    by (simp add: pow2_def power_int_def inverse_eq_divide power_divide)
  show ?thesis unfolding eq by (simp add: power_int_add)
qed

lemma exponent2_le: "0 < x \<Longrightarrow> pow2 (exponent2 x) \<le> x"
proof -
  assume x: "0 < x"
  show ?thesis
  proof (cases "1 \<le> x")
    case True
    define n where "n = nat \<lfloor>x\<rfloor>"
    have n: "0 < n" "of_nat n \<le> x" using True by (simp_all add: n_def of_nat_nat le_floor_iff zero_less_nat_eq)
    have "0 < floorlog 2 n" using n(1) by (simp add: floorlog_def)
    then have e: "nat (int (floorlog 2 n) - 1) = floorlog 2 n - 1" "0 \<le> int (floorlog 2 n) - 1"
      by linarith+
    have "2 ^ (floorlog 2 n - 1) \<le> n" using n(1) floorlog_bounds [of n 2] by simp
    then have "(of_nat (2 ^ (floorlog 2 n - 1)) :: rat) \<le> of_nat n" by (simp only: of_nat_le_iff)
    with n(2) have "(2 :: rat) ^ (floorlog 2 n - 1) \<le> x" unfolding of_nat_power of_nat_numeral by linarith
    with True e show ?thesis by (simp add: exponent2_def pow2_def n_def [symmetric])
  next
    case False
    define c where "c = \<lceil>1 / x\<rceil>"
    define m where "m = nat (c - 1)"
    have "1 < 1 / x" using False x by (simp add: field_simps)
    then have "1 < c" unfolding c_def by linarith
    then have m: "0 < m" "of_nat m = of_int c - (1 :: rat)"
      using of_nat_nat [of "c - 1", where 'a = rat] by (simp_all add: m_def)
    have "m < 2 ^ floorlog 2 m" using m(1) floorlog_bounds [of m 2] by simp
    then have "m + 1 \<le> 2 ^ floorlog 2 m" by simp
    then have "(of_nat (m + 1) :: rat) \<le> of_nat (2 ^ floorlog 2 m)" by (simp only: of_nat_le_iff)
    moreover have "1 / x \<le> of_nat (m + 1)" using m(2) le_of_int_ceiling [of "1 / x"] by (simp add: c_def)
    ultimately have "1 / x \<le> 2 ^ floorlog 2 m" by simp
    then have "1 / 2 ^ floorlog 2 m \<le> x" using x by (simp add: field_simps)
    moreover have "pow2 (- int k) = 1 / 2 ^ k" for k by (cases "k = 0") (simp_all add: pow2_def)
    ultimately show ?thesis
      using False by (simp add: exponent2_def m_def [symmetric] c_def [symmetric])
  qed
qed

lemma f64_zero [simp]: "f64 0 = 0" by (simp add: f64_def)

text \<open>The relative error of rounding is at most \<open>2 ^ -53\<close>.\<close>

definition eps :: rat where "eps = 1 / 9007199254740992"

lemma eps_bounds [simp]: "0 < eps" "0 \<le> eps" "eps < 1" "eps \<le> 1"
  by (simp_all add: eps_def)

lemma f64_error: "\<bar>f64 x - x\<bar> \<le> \<bar>x\<bar> * eps"
proof (cases "x = 0")
  case False
  define ulp where "ulp = pow2 (exponent2 \<bar>x\<bar> - 52)"
  have ulp: "0 < ulp" by (simp add: ulp_def)
  have p52: "pow2 52 = 4503599627370496" by (simp add: pow2_def)
  have "pow2 (exponent2 \<bar>x\<bar>) = ulp * 4503599627370496"
    using pow2_add [of "exponent2 \<bar>x\<bar> - 52" 52] by (simp add: ulp_def p52)
  then have big: "ulp * 4503599627370496 \<le> \<bar>x\<bar>"
    using exponent2_le [of "\<bar>x\<bar>"] False by simp
  have "f64 x - x = (of_int (round_even (x / ulp)) - x / ulp) * ulp"
    using False ulp by (simp add: f64_def ulp_def Let_def left_diff_distrib)
  then have "\<bar>f64 x - x\<bar> = \<bar>of_int (round_even (x / ulp)) - x / ulp\<bar> * ulp"
    using ulp by (simp add: abs_mult)
  also have "\<dots> \<le> 1/2 * ulp" using ulp by (intro mult_right_mono round_even_error) simp
  also have "\<dots> \<le> \<bar>x\<bar> * eps" using big by (simp add: eps_def)
  finally show ?thesis .
qed simp

lemma f64_le: "0 \<le> x \<Longrightarrow> f64 x \<le> x + x * eps"
  and f64_ge: "0 \<le> x \<Longrightarrow> x - x * eps \<le> f64 x"
  using f64_error [of x] by (simp_all add: abs_le_iff)

lemma f64_nonneg: "0 \<le> x \<Longrightarrow> 0 \<le> f64 x"
  using f64_ge [of x] mult_left_le [of eps x] by simp

lemma f64_pos: "0 < x \<Longrightarrow> 0 < f64 x"
proof -
  assume x: "0 < x"
  then have "x * eps < x * 1" by (intro mult_strict_left_mono) simp_all
  with f64_ge [of x] x show ?thesis by linarith
qed

text \<open>Integers below \<open>2 ^ 53\<close> are exact.\<close>

lemma f64_nat: "n < 2 ^ 53 \<Longrightarrow> f64 (of_nat n) = of_nat n"
proof (cases "n = 0")
  case False
  assume n: "n < 2 ^ 53"
  define e where "e = exponent2 (of_nat n)"
  have e: "e = int (floorlog 2 n) - 1" using False by (simp add: e_def exponent2_def)
  have "floorlog 2 n \<le> 53" using n floorlog_leI [of n 2 53] by simp
  then have le: "e - 52 \<le> 0" by (simp add: e)
  define k where "k = nat (52 - e)"
  have ulp: "pow2 (e - 52) = 1 / 2 ^ k"
    using le by (cases "e = 52") (simp_all add: pow2_def k_def)
  have q: "of_nat n / pow2 (e - 52) = (of_int (int n * 2 ^ k) :: rat)" by (simp add: ulp)
  have "f64 (of_nat n) = of_int (round_even (of_nat n / pow2 (e - 52))) * pow2 (e - 52)"
    using False by (simp add: f64_def Let_def e_def)
  also have "\<dots> = of_nat n" unfolding q round_even_of_int by (simp add: ulp)
  finally show ?thesis .
qed simp

section \<open>What a bucket holds\<close>

text \<open>A bucket of \<open>n\<close> tokens per minute, as construction and use leave it.\<close>

definition bucket_wf :: "nat \<Rightarrow> token_bucket \<Rightarrow> bool" where
  "bucket_wf n b \<longleftrightarrow> 1 \<le> n \<and> n < 2 ^ 32 \<and> tb_capacity b = of_nat n
     \<and> tb_per_second b = f64 (of_nat n / 60) \<and> 0 \<le> tb_tokens b \<and> tb_tokens b \<le> of_nat n"

lemma limit_of_bounds: "1 \<le> limit_of limit" "limit_of limit < 2 ^ 32"
proof -
  have "(1 :: u32) \<le> max limit 1" by simp
  then have "unat (1 :: u32) \<le> limit_of limit" unfolding limit_of_def word_le_nat_alt .
  then show "1 \<le> limit_of limit" by simp
  show "limit_of limit < 2 ^ 32" using unsigned_less [of "max limit 1", where ?'a = nat] by (simp add: limit_of_def)
qed

lemma limiter_wf: "bucket_wf (limit_of limit) (limiter_per_minute limit now)"
proof -
  have "max (of_nat (limit_of limit) :: rat) 1 = of_nat (limit_of limit)"
    using limit_of_bounds(1) [of limit] by (simp add: max_def)
  then show ?thesis
    using limit_of_bounds [of limit]
    by (simp add: bucket_wf_def limiter_per_minute_def bucket_new_def Let_def)
qed

lemma as_secs_nonneg [simp]: "0 \<le> as_secs_f64 d"
  by (simp add: as_secs_f64_def f64_nonneg)

text \<open>An upper bound of a rounded sum or product of upper bounds.\<close>

lemma f64_le_trans: "0 \<le> x \<Longrightarrow> x \<le> y \<Longrightarrow> f64 x \<le> y * (1 + eps)"
proof -
  assume "0 \<le> x" "x \<le> y"
  then have "x * (1 + eps) \<le> y * (1 + eps)" by (intro mult_right_mono) simp_all
  with f64_le [OF \<open>0 \<le> x\<close>] show ?thesis by (simp add: distrib_left)
qed

definition seconds :: "duration \<Rightarrow> rat" where
  "seconds d = of_nat d / 1000000000"

lemma as_secs_f64_le: "as_secs_f64 d \<le> seconds d * (1 + eps) * (1 + eps)"
proof -
  have "f64 (of_nat (d div 1000000000)) + f64 (of_nat (d mod 1000000000) / 1000000000)
      \<le> of_nat (d div 1000000000) * (1 + eps) + of_nat (d mod 1000000000) / 1000000000 * (1 + eps)"
    by (intro add_mono f64_le_trans) simp_all
  also have "\<dots> = (of_nat (d div 1000000000) + of_nat (d mod 1000000000) / 1000000000) * (1 + eps)"
    by (simp add: distrib_right)
  also have "of_nat (d div 1000000000) + of_nat (d mod 1000000000) / 1000000000 = seconds d"
  proof -
    have "(of_nat d :: rat) = of_nat (d div 1000000000 * 1000000000 + d mod 1000000000)" by simp
    then show ?thesis unfolding of_nat_add of_nat_mult by (simp add: seconds_def add_divide_distrib)
  qed
  finally show ?thesis
    unfolding as_secs_f64_def by (intro f64_le_trans) (simp_all add: f64_nonneg)
qed

lemma refilled_nonneg: "bucket_wf n b \<Longrightarrow> 0 \<le> refilled b now"
  by (simp add: bucket_wf_def refilled_def f64_nonneg)

lemma refilled_le_capacity: "bucket_wf n b \<Longrightarrow> refilled b now \<le> of_nat n"
  by (simp add: bucket_wf_def refilled_def)

definition growth :: rat where "growth = (1 + eps) ^ 5"

lemma refilled_le:
  assumes wf: "bucket_wf n b"
  shows "refilled b now \<le> tb_tokens b + of_nat n * eps
    + seconds (now - tb_last b) * (of_nat n / 60) * growth"
proof -
  define t where "t = seconds (now - tb_last b)"
  define e where "e = 1 + eps"
  have e0: "0 \<le> e" by (simp add: e_def)
  have t0: "0 \<le> t" by (simp add: t_def seconds_def)
  have ps: "0 \<le> tb_per_second b" "tb_per_second b \<le> of_nat n / 60 * e"
    using wf f64_nonneg [of "of_nat n / 60"] f64_le_trans [of "of_nat n / 60" "of_nat n / 60"]
    unfolding bucket_wf_def e_def by simp_all
  have "as_secs_f64 (now - tb_last b) * tb_per_second b \<le> (t * e * e) * (of_nat n / 60 * e)"
    using as_secs_f64_le [of "now - tb_last b"] ps e0 t0
    by (intro mult_mono) (simp_all add: t_def e_def)
  then have f: "f64 (as_secs_f64 (now - tb_last b) * tb_per_second b)
      \<le> (t * e * e) * (of_nat n / 60 * e) * e"
    using ps(1) f64_le_trans unfolding e_def by (meson as_secs_nonneg mult_nonneg_nonneg)
  define p where "p = f64 (as_secs_f64 (now - tb_last b) * tb_per_second b)"
  have p: "0 \<le> p" "p \<le> (t * e * e) * (of_nat n / 60 * e) * e"
    using f ps(1) f64_nonneg [OF mult_nonneg_nonneg [OF as_secs_nonneg ps(1)]] by (simp_all only: p_def)
  have tok: "0 \<le> tb_tokens b" "tb_tokens b \<le> of_nat n" using wf by (simp_all add: bucket_wf_def)
  have sum: "f64 (tb_tokens b + p) \<le> (tb_tokens b + (t * e * e) * (of_nat n / 60 * e) * e) * e"
    unfolding e_def [symmetric]
    using f64_le_trans [of "tb_tokens b + p" "tb_tokens b + (t * e * e) * (of_nat n / 60 * e) * e"]
      p tok unfolding e_def [symmetric] by linarith
  have "tb_tokens b * eps \<le> of_nat n * eps"
    using tok(2) by (intro mult_right_mono) simp_all
  then have "tb_tokens b * e \<le> tb_tokens b + of_nat n * eps" by (simp add: e_def distrib_left)
  moreover have "(t * e * e) * (of_nat n / 60 * e) * e * e = t * (of_nat n / 60) * growth"
    by (simp add: growth_def e_def [symmetric] power_def numeral_eq_Suc ac_simps)
  ultimately have "f64 (tb_tokens b + p) \<le> tb_tokens b + of_nat n * eps + t * (of_nat n / 60) * growth"
    using sum unfolding distrib_right by linarith
  then show ?thesis unfolding refilled_def p_def t_def by (rule min.coboundedI1)
qed

lemma bucket_wf_update:
  "bucket_wf n b \<Longrightarrow> 0 \<le> t \<Longrightarrow> t \<le> of_nat n \<Longrightarrow> bucket_wf n (b\<lparr>tb_tokens := t, tb_last := now\<rparr>)"
  by (simp add: bucket_wf_def)

lemma try_take_wf: "bucket_wf n b \<Longrightarrow> bucket_wf n (snd (try_take b now))"
proof -
  assume wf: "bucket_wf n b"
  define r where "r = refilled b now"
  have r: "0 \<le> r" "r \<le> of_nat n"
    unfolding r_def using wf refilled_nonneg refilled_le_capacity by blast+
  have "(of_nat n :: rat) \<le> of_nat 4294967296"
    unfolding of_nat_le_iff using wf by (simp add: bucket_wf_def)
  then have n: "(of_nat n :: rat) \<le> 4294967296" by simp
  have "0 \<le> f64 (r - 1) \<and> f64 (r - 1) \<le> of_nat n" if "1 \<le> r"
  proof -
    have "(r - 1) * eps \<le> 4294967296 * eps" using r n that by (intro mult_right_mono) simp_all
    also have "\<dots> \<le> 1" by (simp add: eps_def)
    finally show ?thesis using f64_le [of "r - 1"] f64_nonneg [of "r - 1"] that r by simp
  qed
  then show ?thesis
    using bucket_wf_update [OF wf] r by (simp add: try_take_def Let_def r_def [symmetric])
qed

section \<open>How much a limiter lets through\<close>

text \<open>
  A limiter is called at a sequence of instants: the bucket it is left with, how many calls
  it granted, and the time that went by (differences saturate, as in the code).
\<close>

fun bucket_after :: "token_bucket \<Rightarrow> duration list \<Rightarrow> token_bucket" where
  "bucket_after b [] = b"
| "bucket_after b (t # ts) = bucket_after (snd (try_take b t)) ts"

fun grants :: "token_bucket \<Rightarrow> duration list \<Rightarrow> nat" where
  "grants b [] = 0"
| "grants b (t # ts) =
     (case fst (try_take b t) of Inr _ \<Rightarrow> 1 | Inl _ \<Rightarrow> 0) + grants (snd (try_take b t)) ts"

fun elapsed :: "duration \<Rightarrow> duration list \<Rightarrow> duration" where
  "elapsed start [] = 0"
| "elapsed start (t # ts) = (t - start) + elapsed t ts"

lemma elapsed_sorted: "sorted (start # ts) \<Longrightarrow> elapsed start ts = last (start # ts) - start"
proof (induction ts arbitrary: start)
  case (Cons t ts)
  then have "t \<le> last (t # ts)" by (auto simp: last_conv_nth sorted_iff_nth_mono)
  with Cons show ?case by (auto simp del: last.simps simp: last_ConsR)
qed simp

lemma bucket_after_wf: "bucket_wf n b \<Longrightarrow> bucket_wf n (bucket_after b ts)"
  by (induction ts arbitrary: b) (simp_all add: try_take_wf)

lemma try_take_last [simp]: "tb_last (snd (try_take b now)) = now"
  by (simp add: try_take_def Let_def)

text \<open>What one call grants and leaves comes from what was there and what was refilled.\<close>

lemma try_take_budget:
  assumes wf: "bucket_wf n b"
  shows "(case fst (try_take b now) of Inr _ \<Rightarrow> 1 | Inl _ \<Rightarrow> 0) + tb_tokens (snd (try_take b now))
    \<le> tb_tokens b + 2 * of_nat n * eps + seconds (now - tb_last b) * (of_nat n / 60) * growth"
proof -
  define r where "r = refilled b now"
  have r: "0 \<le> r" "r \<le> of_nat n"
    unfolding r_def using wf refilled_nonneg refilled_le_capacity by blast+
  have n0: "0 \<le> of_nat n * eps" by simp
  have "(case fst (try_take b now) of Inr _ \<Rightarrow> 1 | Inl _ \<Rightarrow> 0) + tb_tokens (snd (try_take b now))
      \<le> r + of_nat n * eps"
  proof (cases "1 \<le> r")
    case True
    have "(r - 1) * eps \<le> of_nat n * eps" using r by (intro mult_right_mono) simp_all
    then have "1 + f64 (r - 1) \<le> r + of_nat n * eps" using True f64_le [of "r - 1"] by linarith
    with True show ?thesis by (simp add: try_take_def Let_def r_def [symmetric])
  next
    case False
    with n0 show ?thesis by (simp add: try_take_def Let_def r_def [symmetric])
  qed
  with refilled_le [OF wf, of now] show ?thesis by (simp add: r_def)
qed

lemma grants_budget:
  "bucket_wf n b \<Longrightarrow>
     of_nat (grants b ts) \<le> tb_tokens b + of_nat (length ts) * (2 * of_nat n * eps)
       + seconds (elapsed (tb_last b) ts) * (of_nat n / 60) * growth"
proof (induction ts arbitrary: b)
  case Nil
  then show ?case by (simp add: bucket_wf_def seconds_def)
next
  case (Cons t ts)
  define b' where "b' = snd (try_take b t)"
  define g where "g = (case fst (try_take b t) of Inr _ \<Rightarrow> 1 | Inl _ \<Rightarrow> (0 :: nat))"
  have "of_nat (grants b' ts) \<le> tb_tokens b' + of_nat (length ts) * (2 * of_nat n * eps)
      + seconds (elapsed t ts) * (of_nat n / 60) * growth"
    using Cons.IH [OF try_take_wf [OF Cons.prems, of t]] by (simp add: b'_def)
  moreover have "of_nat g + tb_tokens b' \<le> tb_tokens b + 2 * of_nat n * eps
      + seconds (t - tb_last b) * (of_nat n / 60) * growth"
    using try_take_budget [OF Cons.prems, of t] by (simp add: b'_def g_def split: sum.splits)
  moreover have "seconds (t - tb_last b + elapsed t ts) * (of_nat n / 60) * growth
      = seconds (t - tb_last b) * (of_nat n / 60) * growth
        + seconds (elapsed t ts) * (of_nat n / 60) * growth"
    by (simp add: seconds_def add_divide_distrib distrib_right)
  ultimately have "of_nat (g + grants b' ts) \<le> tb_tokens b
      + (2 * of_nat n * eps + of_nat (length ts) * (2 * of_nat n * eps))
      + seconds (t - tb_last b + elapsed t ts) * (of_nat n / 60) * growth"
    unfolding of_nat_add by linarith
  moreover have "of_nat (length (t # ts)) * (2 * of_nat n * eps)
      = 2 * of_nat n * eps + of_nat (length ts) * (2 * of_nat n * eps)"
    by (simp add: distrib_right)
  ultimately show ?case unfolding grants.simps elapsed.simps g_def b'_def by linarith
qed

lemma growth_le: "growth \<le> 1 + 1 / 2 ^ 50"
proof -
  define e where "e = 1 + eps"
  have "growth = e * e * e * e * e"
    by (simp add: growth_def e_def [symmetric] power_def numeral_eq_Suc ac_simps)
  then show ?thesis by (simp add: e_def eps_def)
qed

lemma grants_limited:
  "of_nat (grants (limiter_per_minute limit start) calls)
     \<le> of_nat (limit_of limit)
        + seconds (elapsed start calls) * (of_nat (limit_of limit) / 60) * (1 + 1 / 2 ^ 50)
        + of_nat (length calls) / 2 ^ 20"
proof -
  define b where "b = limiter_per_minute limit start"
  define n where "n = limit_of limit"
  have wf: "bucket_wf n b" by (simp add: b_def n_def limiter_wf)
  have last: "tb_last b = start" by (simp add: b_def limiter_per_minute_def bucket_new_def Let_def)
  have "(of_nat n :: rat) \<le> of_nat 4294967296"
    unfolding of_nat_le_iff using wf by (simp add: bucket_wf_def)
  then have "2 * of_nat n * eps \<le> 1 / 2 ^ 20" by (simp add: eps_def)
  then have "of_nat (length calls) * (2 * of_nat n * eps) \<le> of_nat (length calls) * (1 / 2 ^ 20)"
    by (rule mult_left_mono) simp
  then have "of_nat (length calls) * (2 * of_nat n * eps) \<le> of_nat (length calls) / 2 ^ 20"
    unfolding times_divide_eq_right mult_1_right .
  moreover have "seconds (elapsed start calls) * (of_nat n / 60) * growth
      \<le> seconds (elapsed start calls) * (of_nat n / 60) * (1 + 1 / 2 ^ 50)"
    by (intro mult_left_mono growth_le) (simp add: seconds_def)
  moreover have "tb_tokens b \<le> of_nat n" using wf by (simp add: bucket_wf_def)
  ultimately show ?thesis
    using grants_budget [OF wf, of calls] unfolding last b_def [symmetric] n_def [symmetric] by linarith
qed

text \<open>
  A limiter of \<open>n\<close> deliveries per minute (at least 1) lets through at most \<open>n\<close> at once plus
  \<open>n\<close> for each minute that passes, whatever the calls and the clock: the rounding of its
  floating-point arithmetic adds at most one part in \<open>2 ^ 50\<close> to the rate and \<open>2 ^ -20\<close> of a
  delivery per call.
\<close>

theorem limiter_rate_bound:
  "of_nat (grants (limiter_per_minute limit start) calls)
     \<le> of_nat (limit_of limit)
        + seconds (elapsed start calls) * (of_nat (limit_of limit) / 60) * (1 + 1 / 2 ^ 50)
        + of_nat (length calls) / 2 ^ 20"
  by (rule grants_limited)

text \<open>A refusal's hint is clamped to 50 ms to 60 s; with the rounding of \<open>0.05\<close> still 50 ms.\<close>

lemma retry_hint_bounds: "from_millis 50 \<le> retry_hint b r" "retry_hint b r \<le> from_secs 60"
proof -
  define v where "v = min (max (if 0 < tb_per_second b then f64 (max (f64 (1 - r)) 0 / tb_per_second b)
    else 60) (f64 (1/20))) 60"
  have h: "retry_hint b r = nat (round_even (v * 1000000000))"
    by (simp add: retry_hint_def from_secs_f64_def v_def Let_def)
  have c: "1/20 - 1/20 * eps \<le> f64 (1/20)" by (rule f64_ge) simp
  have "1/20 - 1/20 * eps \<le> (60 :: rat)" by (simp add: eps_def)
  with c have "1/20 - 1/20 * eps \<le> v" unfolding v_def by (simp add: le_max_iff_disj)
  then have "50000000 - 50000000 * eps \<le> v * 1000000000" by linarith
  moreover have "50000000 * eps \<le> 1/4" by (simp add: eps_def)
  ultimately have "of_int 49999999 + 1/2 < v * 1000000000" by linarith
  then have "of_int 49999999 < (of_int (round_even (v * 1000000000)) :: rat)"
    using round_even_error [of "v * 1000000000"] unfolding abs_le_iff by linarith
  then have "50000000 \<le> round_even (v * 1000000000)" by linarith
  then show "from_millis 50 \<le> retry_hint b r" by (simp add: h from_millis_def le_nat_iff)
  have "v * 1000000000 \<le> of_int 60000000000" by (simp add: v_def)
  then have "round_even (v * 1000000000) \<le> 60000000000" by (rule round_even_mono_bounds(2))
  then show "retry_hint b r \<le> from_secs 60" by (simp add: h from_secs_def)
qed

lemma refilled_same_instant:
  assumes "bucket_wf n b" "tb_last b = t" "tb_tokens b = of_nat m"
  shows "refilled b t = of_nat m"
proof -
  have "m \<le> n" using assms by (simp add: bucket_wf_def)
  with assms show ?thesis by (simp add: refilled_def as_secs_f64_def f64_nat bucket_wf_def)
qed

lemma burst:
  "bucket_wf n b \<Longrightarrow> tb_last b = t \<Longrightarrow> tb_tokens b = of_nat m \<Longrightarrow>
     grants b (replicate k t) = min k m"
proof (induction k arbitrary: b m)
  case (Suc k)
  note r = refilled_same_instant [OF Suc.prems]
  show ?case
  proof (cases m)
    case 0
    with r Suc.prems have "try_take b t = (Err (retry_hint b 0), b)"
      by (simp add: try_take_def)
    with 0 Suc.IH [OF Suc.prems] show ?thesis by simp
  next
    case (Suc m')
    have "m' < 2 ^ 53" using Suc.prems Suc by (simp add: bucket_wf_def)
    then have "f64 (of_nat m - 1) = of_nat m'" using f64_nat [of m'] by (simp add: Suc)
    with r Suc have take: "fst (try_take b t) = Ok ()" "tb_tokens (snd (try_take b t)) = of_nat m'"
      by (simp_all add: try_take_def)
    have "grants (snd (try_take b t)) (replicate k t) = min k m'"
      using Suc.IH [OF try_take_wf [OF Suc.prems(1)] _ take(2)] by simp
    with take Suc show ?thesis by simp
  qed
qed simp

text \<open>
  C34: However a limiter was called before, a call is granted exactly when at least one token is
  there after the refill, and a refusal names a wait of at least 50 milliseconds and at most a
  minute; the bucket stays between zero and its capacity. While no time passes a new limiter
  grants exactly its limit.
\<close>

theorem limiter_call_spec:
  "(let b = bucket_after (limiter_per_minute limit start) calls in
      case try_take b now of
        (Inr _, b') \<Rightarrow> 1 \<le> refilled b now \<and> bucket_wf (limit_of limit) b'
      | (Inl hint, b') \<Rightarrow> refilled b now < 1 \<and> from_millis 50 \<le> hint \<and> hint \<le> from_secs 60
          \<and> bucket_wf (limit_of limit) b')
   \<and> grants (limiter_per_minute limit start) (replicate k start) = min k (limit_of limit)"
proof
  define b where "b = bucket_after (limiter_per_minute limit start) calls"
  have wf: "bucket_wf (limit_of limit) (snd (try_take b now))"
    by (simp add: b_def try_take_wf bucket_after_wf limiter_wf)
  show "let b = bucket_after (limiter_per_minute limit start) calls in
      case try_take b now of
        (Inr _, b') \<Rightarrow> 1 \<le> refilled b now \<and> bucket_wf (limit_of limit) b'
      | (Inl hint, b') \<Rightarrow> refilled b now < 1 \<and> from_millis 50 \<le> hint \<and> hint \<le> from_secs 60
          \<and> bucket_wf (limit_of limit) b'"
    using wf unfolding b_def [symmetric] Let_def
    by (cases "1 \<le> refilled b now") (simp_all add: try_take_def Let_def retry_hint_bounds not_le)
  have "tb_tokens (limiter_per_minute limit start) = of_nat (limit_of limit)"
    "tb_last (limiter_per_minute limit start) = start"
    using limit_of_bounds(1) [of limit]
    by (simp_all add: limiter_per_minute_def bucket_new_def Let_def max_def)
  then show "grants (limiter_per_minute limit start) (replicate k start) = min k (limit_of limit)"
    by (intro burst [OF limiter_wf])
qed

end
