(* ===== verification/Contact_Contracts.thy ===== *)
theory Contact_Contracts
  imports Validation
begin

text \<open>
  The email and SMS contract (\<open>src/contact/contracts.rs\<close>), kept apart from the push contract:
  jobs, content, targets and their fingerprints, outcomes. The lemmas show that a fingerprint
  hashes the channel and the address and nothing else of a target.
\<close>

section \<open>Contract types\<close>

datatype contact_provider_kind = Sendgrid | Twilio

fun contact_provider_as_str :: "contact_provider_kind \<Rightarrow> string" where
  "contact_provider_as_str Sendgrid = ''sendgrid''"
| "contact_provider_as_str Twilio = ''twilio''"

datatype contact_target =
    EmailTarget string "string option" \<comment> \<open>address, display name\<close>
  | SmsTarget string

fun contact_target_provider :: "contact_target \<Rightarrow> contact_provider_kind" where
  "contact_target_provider (EmailTarget _ _) = Sendgrid"
| "contact_target_provider (SmsTarget _) = Twilio"

record email_content =
  ec_subject :: "string option"
  ec_text :: "string option"
  ec_html :: "string option"
  ec_template_id :: "string option"
  ec_dynamic_template_data :: "json btree"
  ec_reply_to :: "string option"

datatype contact_content = EmailContent email_content | SmsContent string

fun content_provider :: "contact_content \<Rightarrow> contact_provider_kind" where
  "content_provider (EmailContent _) = Sendgrid"
| "content_provider (SmsContent _) = Twilio"

record contact_job =
  cj_version :: contract_version
  cj_job_id :: string
  cj_tenant_id :: string
  cj_application_id :: string
  cj_idempotency_key :: string
  cj_provider :: contact_provider_kind
  cj_target :: contact_target
  cj_content :: contact_content
  cj_trace :: trace_metadata

datatype contact_outcome_class =
    ContactAccepted
  | ContactInvalidTarget
  | ContactInvalidPayload
  | ContactThrottled
  | ContactTransientFailure
  | ContactPermanentFailure
  | ContactInternalFailure

fun contact_is_retryable :: "contact_outcome_class \<Rightarrow> bool" where
  "contact_is_retryable ContactThrottled = True"
| "contact_is_retryable ContactTransientFailure = True"
| "contact_is_retryable ContactInternalFailure = True"
| "contact_is_retryable _ = False"

record contact_outcome =
  co_version :: contract_version
  co_job_id :: string
  co_provider :: contact_provider_kind
  co_target_fingerprint :: target_fingerprint
  co_class :: contact_outcome_class
  co_provider_code :: "string option"
  co_retry_after_ms :: "u64 option"
  co_safe_detail :: "string option"

section \<open>Fingerprints\<close>

fun contact_fingerprint_material :: "contact_target \<Rightarrow> string \<times> string list" where
  "contact_fingerprint_material (EmailTarget address _) = (''email'', [address])"
| "contact_fingerprint_material (SmsTarget e164) = (''sms'', [e164])"

definition contact_fingerprint_bytes :: "contact_target \<Rightarrow> string" where
  "contact_fingerprint_bytes target =
     (case contact_fingerprint_material target of
        (provider, parts) \<Rightarrow>
          foldl (\<lambda>hasher part. hasher @ [CHR 0x00] @ part)
            (''contact-target-v1'' @ [CHR 0x00] @ provider) parts)"

definition contact_fingerprint :: "externals \<Rightarrow> contact_target \<Rightarrow> target_fingerprint" where
  "contact_fingerprint X target =
     (let digest = x_hex X (x_sha256 X (contact_fingerprint_bytes target))
      in fst (contact_fingerprint_material target) @ '':'' @ take fingerprint_hex_length digest)"

definition contact_accepted :: "externals \<Rightarrow> contact_job \<Rightarrow> string option \<Rightarrow> contact_outcome" where
  "contact_accepted X job provider_code = \<lparr>
     co_version = cj_version job,
     co_job_id = cj_job_id job,
     co_provider = cj_provider job,
     co_target_fingerprint = contact_fingerprint X (cj_target job),
     co_class = ContactAccepted,
     co_provider_code = provider_code,
     co_retry_after_ms = None,
     co_safe_detail = None\<rparr>"

lemma contact_accepted_sel [simp, outcome_simps]:
  "co_job_id (contact_accepted X job c) = cj_job_id job"
  "co_provider (contact_accepted X job c) = cj_provider job"
  "co_target_fingerprint (contact_accepted X job c) = contact_fingerprint X (cj_target job)"
  "co_class (contact_accepted X job c) = ContactAccepted"
  "co_provider_code (contact_accepted X job c) = c"
  by (simp_all add: contact_accepted_def)

text \<open>The address of a target: all that its fingerprint depends on.\<close>

fun contact_address :: "contact_target \<Rightarrow> string" where
  "contact_address (EmailTarget address _) = address"
| "contact_address (SmsTarget e164) = e164"

lemma contact_fingerprint_bytes_eq:
  "contact_fingerprint_bytes t = ''contact-target-v1'' @ [CHR 0x00]
     @ (case contact_target_provider t of Sendgrid \<Rightarrow> ''email'' | Twilio \<Rightarrow> ''sms'')
     @ [CHR 0x00] @ contact_address t"
  by (cases t) (simp_all add: contact_fingerprint_bytes_def)

text \<open>
  The bytes hashed into a contact fingerprint determine the channel and the address, and
  nothing else of the target enters them: two recipients have the same hashed bytes exactly
  when they are the same address of the same channel, whatever display names they carry and
  whatever bytes the addresses hold. They never coincide with those of a push target.
\<close>

theorem contact_fingerprint_material_exact:
  "(contact_fingerprint_bytes s = contact_fingerprint_bytes t
      \<longleftrightarrow> contact_target_provider s = contact_target_provider t \<and> contact_address s = contact_address t)
   \<and> contact_fingerprint_bytes s \<noteq> fingerprint_bytes p"
  by (cases "contact_target_provider s"; cases "contact_target_provider t")
     (simp_all add: contact_fingerprint_bytes_eq fingerprint_bytes_eq)

end
