(* ===== verification/Contact_Validation.thy ===== *)
theory Contact_Validation
  imports Contact_Contracts
begin

text \<open>
  Validation of email and SMS jobs (\<open>src/contact/validation.rs\<close>): every rule in report order.
  The lemmas characterise the accepted jobs, and the accepted addresses by a grammar: a
  dotted local part and dotted labels, and E.164 numbers.
\<close>

section \<open>Errors and limits\<close>

datatype contact_validation_error =
    ContactRequired string
  | ContactTooLong string nat
  | ContactInvalidCharacters string
  | ProviderChannelMismatch
  | InvalidEmailAddress
  | InvalidEmailContentMode
  | InvalidTemplateId
  | TemplateDataWithoutTemplate
  | TemplateDataTooLarge nat
  | InvalidE164
  | SmsTooLong nat

fun contact_error_text :: "contact_validation_error \<Rightarrow> string" where
  "contact_error_text (ContactRequired field) = field @ '' is required''"
| "contact_error_text (ContactTooLong field n) = field @ '' exceeds '' @ show_nat n @ '' bytes''"
| "contact_error_text (ContactInvalidCharacters field) = field @ '' contains invalid characters''"
| "contact_error_text ProviderChannelMismatch =
     ''provider, target, and content channels must match''"
| "contact_error_text InvalidEmailAddress = ''email address has an invalid shape''"
| "contact_error_text InvalidEmailContentMode =
     ''email content must use either a dynamic template or explicit subject/body content''"
| "contact_error_text InvalidTemplateId =
     ''dynamic template IDs must start with '' @ [CHR 0x27] @ ''d-'' @ [CHR 0x27]
       @ '' and contain only ASCII letters, digits, or '' @ [CHR 0x27] @ ''-'' @ [CHR 0x27]"
| "contact_error_text TemplateDataWithoutTemplate = ''dynamic template data requires template_id''"
| "contact_error_text (TemplateDataTooLarge n) =
     ''dynamic template data exceeds '' @ show_nat n @ '' bytes''"
| "contact_error_text InvalidE164 = ''SMS target must be an E.164 number''"
| "contact_error_text (SmsTooLong n) = ''SMS body exceeds '' @ show_nat n @ '' characters''"

definition max_email_address_bytes :: nat where "max_email_address_bytes = 254"
definition max_email_name_bytes :: nat where "max_email_name_bytes = 256"
definition max_email_subject_bytes :: nat where "max_email_subject_bytes = 998"
definition max_email_body_bytes :: nat where "max_email_body_bytes = 512 * 1024"
definition max_template_id_bytes :: nat where "max_template_id_bytes = 128"
definition max_template_data_bytes :: nat where "max_template_data_bytes = 64 * 1024"
definition max_sms_characters :: nat where "max_sms_characters = 1600"

lemmas contact_limits = max_email_address_bytes_def max_email_name_bytes_def
  max_email_subject_bytes_def max_email_body_bytes_def max_template_id_bytes_def
  max_template_data_bytes_def max_sms_characters_def

section \<open>Addresses\<close>

text \<open>The characters of a local part: letters, digits, the dot, \<open>!#$%&*+-/=?^_`{|}~\<close> and
  the apostrophe (39).\<close>

definition local_char :: "nat \<Rightarrow> bool" where
  "local_char c \<longleftrightarrow> is_ascii_alphanumeric c \<or> one_of ''!#$%&*+-/=?^_`{|}~.'' c \<or> c = 39"

definition label_char :: "nat \<Rightarrow> bool" where
  "label_char c \<longleftrightarrow> is_ascii_alphanumeric c \<or> one_of ''-'' c"

definition domain_label :: "string \<Rightarrow> bool" where
  "domain_label label \<longleftrightarrow> label \<noteq> [] \<and> \<not> starts_with ''-'' label \<and> \<not> ends_with ''-'' label
     \<and> all_chars label_char label"

definition dotted_badly :: "string \<Rightarrow> bool" where
  "dotted_badly s \<longleftrightarrow> starts_with ''.'' s \<or> ends_with ''.'' s \<or> contains_str ''..'' s"

definition valid_email_address :: "string \<Rightarrow> bool" where
  "valid_email_address s =
     (if length s < 3 \<or> length s > max_email_address_bytes \<or> \<not> is_ascii s then False
      else if any_char control_or_space s then False
      else case split_once CHR ''@'' s of
        None \<Rightarrow> False
      | Some (local, domain) \<Rightarrow>
          if CHR ''@'' \<in> set domain \<or> local = [] \<or> length local > 64 \<or> dotted_badly local
             \<or> domain = [] \<or> dotted_badly domain
          then False
          else if any_char (\<lambda>c. \<not> local_char c) local then False
          else list_all domain_label (split_on CHR ''.'' domain))"

definition valid_e164 :: "string \<Rightarrow> bool" where
  "valid_e164 s =
     (case strip_prefix ''+'' s of
        None \<Rightarrow> False
      | Some digits \<Rightarrow> 8 \<le> length digits \<and> length digits \<le> 15 \<and> \<not> starts_with ''0'' digits
          \<and> all_chars is_ascii_digit digits)"

section \<open>The rules\<close>

definition identifier_char :: "nat \<Rightarrow> bool" where
  "identifier_char c \<longleftrightarrow> is_ascii_alphanumeric c \<or> one_of ''-_.:'' c"

definition contact_identifier_errors ::
  "string \<Rightarrow> string \<Rightarrow> nat \<Rightarrow> contact_validation_error list" where
  "contact_identifier_errors field s max_bytes =
     (if s = [] then [ContactRequired field]
      else flatten
        [then_some (length s > max_bytes) (ContactTooLong field max_bytes),
         then_some (any_char (\<lambda>c. \<not> identifier_char c) s) (ContactInvalidCharacters field)])"

definition contains_control_characters :: "string \<Rightarrow> bool" where
  "contains_control_characters s = any_char is_control s"

definition contact_length_error ::
  "string \<Rightarrow> string option \<Rightarrow> nat \<Rightarrow> contact_validation_error option" where
  "contact_length_error field s max_bytes =
     then_some (is_some_and (\<lambda>v. length v > max_bytes) s) (ContactTooLong field max_bytes)"

definition valid_template_id :: "string \<Rightarrow> bool" where
  "valid_template_id s \<longleftrightarrow> length s \<le> max_template_id_bytes \<and> starts_with ''d-'' s
     \<and> all_chars label_char s"

definition content_mode_errors :: "email_content \<Rightarrow> contact_validation_error option list" where
  "content_mode_errors c =
     (let has_subject = not_blank (ec_subject c);
          has_text = not_blank (ec_text c);
          has_html = not_blank (ec_html c)
      in case opt_filter (\<lambda>v. trim v \<noteq> []) (ec_template_id c) of
           Some template_id \<Rightarrow>
             [then_some (has_subject \<or> has_text \<or> has_html) InvalidEmailContentMode,
              then_some (\<not> valid_template_id template_id) InvalidTemplateId]
         | None \<Rightarrow>
             [then_some (\<not> has_subject \<or> (\<not> has_text \<and> \<not> has_html)) InvalidEmailContentMode,
              then_some (ec_dynamic_template_data c \<noteq> []) TemplateDataWithoutTemplate])"

definition email_content_errors :: "externals \<Rightarrow> email_content \<Rightarrow> contact_validation_error list" where
  "email_content_errors X c =
     flatten (content_mode_errors c @
       [contact_length_error ''content.subject'' (ec_subject c) max_email_subject_bytes,
        then_some (is_some_and contains_control_characters (ec_subject c))
          (ContactInvalidCharacters ''content.subject''),
        contact_length_error ''content.text'' (ec_text c) max_email_body_bytes,
        contact_length_error ''content.html'' (ec_html c) max_email_body_bytes,
        then_some
          (unwrap_or True (map_option (\<lambda>encoded. length encoded > max_template_data_bytes)
             (x_json_to_vec X (JObj (ec_dynamic_template_data c)))))
          (TemplateDataTooLarge max_template_data_bytes)])"

fun channel_errors ::
  "externals \<Rightarrow> contact_target \<Rightarrow> contact_content \<Rightarrow> contact_validation_error list" where
  "channel_errors X (EmailTarget address name) (EmailContent c) =
     flatten
       [then_some (\<not> valid_email_address address) InvalidEmailAddress,
        contact_length_error ''target.email.name'' name max_email_name_bytes,
        then_some (is_some_and contains_control_characters name)
          (ContactInvalidCharacters ''target.email.name''),
        then_some (is_some_and (\<lambda>r. \<not> valid_email_address r) (ec_reply_to c)) InvalidEmailAddress]
     @ email_content_errors X c"
| "channel_errors X (SmsTarget e164) (SmsContent body) =
     flatten
       [then_some (\<not> valid_e164 e164) InvalidE164,
        then_some (trim body = []) (ContactRequired ''content.body''),
        then_some (length (chars body) > max_sms_characters) (SmsTooLong max_sms_characters),
        then_some (any_char (\<lambda>c. c = 0) body) (ContactInvalidCharacters ''content.body'')]"
| "channel_errors X _ _ = [ProviderChannelMismatch]"

definition contact_job_errors :: "externals \<Rightarrow> contact_job \<Rightarrow> contact_validation_error list" where
  "contact_job_errors X job =
     contact_identifier_errors ''job_id'' (cj_job_id job) max_id_bytes
     @ contact_identifier_errors ''tenant_id'' (cj_tenant_id job) max_id_bytes
     @ contact_identifier_errors ''application_id'' (cj_application_id job) max_id_bytes
     @ contact_identifier_errors ''idempotency_key'' (cj_idempotency_key job) max_idempotency_key_bytes
     @ flatten [then_some (cj_provider job \<noteq> contact_target_provider (cj_target job)
           \<or> cj_provider job \<noteq> content_provider (cj_content job)) ProviderChannelMismatch]
     @ channel_errors X (cj_target job) (cj_content job)"

definition validate_contact_job ::
  "externals \<Rightarrow> contact_job \<Rightarrow> contact_validation_error list + unit" where
  "validate_contact_job X job =
     (let errors = contact_job_errors X job in if errors = [] then Ok () else Err errors)"

definition contact_report :: "contact_validation_error list \<Rightarrow> string" where
  "contact_report errors = join_with ''; '' (map contact_error_text errors)"

section \<open>Dotted text\<close>

lemma join_split: "join_with [d] (split_on d s) = s"
proof (induction s)
  case (Cons c s)
  obtain w ws where ws: "split_on d s = w # ws"
    using split_on_nonempty [of d s] by (cases "split_on d s") blast+
  with Cons show ?case by (cases ws) auto
qed simp

lemma split_on_append: "d \<notin> set a \<Longrightarrow> split_on d (a @ d # s) = a # split_on d s"
  by (induction a) auto

lemma split_on_single: "d \<notin> set a \<Longrightarrow> split_on d a = [a]"
  by (induction a) auto

lemma split_join: "ws \<noteq> [] \<Longrightarrow> list_all (\<lambda>w. d \<notin> set w) ws \<Longrightarrow> split_on d (join_with [d] ws) = ws"
  by (induction "[d]" ws rule: join_with.induct) (auto simp: split_on_append split_on_single)

lemma contains_double:
  "contains_str [d, d] (c # s) \<longleftrightarrow> (c = d \<and> starts_with [d] s) \<or> contains_str [d, d] s"
  "\<not> contains_str [d, d] []"
  by (auto simp: starts_with_def)

lemma starts_with_char: "starts_with [d] s \<longleftrightarrow> s \<noteq> [] \<and> hd s = d"
  by (cases s) (auto simp: starts_with_def)

lemma ends_with_char: "ends_with [d] s \<longleftrightarrow> s \<noteq> [] \<and> last s = d"
  by (cases s rule: rev_cases) (auto simp: ends_with_def starts_with_def)

text \<open>The pieces are non-empty exactly when no dot leads, ends or follows another.\<close>

lemma split_on_no_empty:
  "([] \<notin> set (split_on d s) \<longleftrightarrow>
      s \<noteq> [] \<and> \<not> starts_with [d] s \<and> \<not> ends_with [d] s \<and> \<not> contains_str [d, d] s)
   \<and> ([] \<notin> set (tl (split_on d s)) \<longleftrightarrow>
      s = [] \<or> (\<not> ends_with [d] s \<and> \<not> contains_str [d, d] s))"
proof (induction s)
  case (Cons c s)
  show ?case
  proof (cases "c = d")
    case True
    with Cons show ?thesis
      by (auto simp: contains_double starts_with_char ends_with_char simp del: contains_str.simps)
  next
    case False
    obtain w ws where ws: "split_on d s = w # ws"
      using split_on_nonempty [of d s] by (cases "split_on d s") blast+
    with Cons False show ?thesis
      by (auto simp: contains_double starts_with_char ends_with_char simp del: contains_str.simps)
  qed
qed simp

lemma dotted_pieces:
  "list_all (\<lambda>w. w \<noteq> []) (split_on CHR ''.'' s) \<longleftrightarrow> s \<noteq> [] \<and> \<not> dotted_badly s"
  using split_on_no_empty [of "CHR ''.''" s] by (auto simp: dotted_badly_def list_all_iff)

section \<open>The grammar of addresses\<close>

definition local_atom :: "string \<Rightarrow> bool" where
  "local_atom a \<longleftrightarrow> a \<noteq> [] \<and> list_all (\<lambda>c. local_char (byte_val c) \<and> c \<noteq> CHR ''.'') a"

definition host_label :: "string \<Rightarrow> bool" where
  "host_label l \<longleftrightarrow> l \<noteq> [] \<and> hd l \<noteq> CHR ''-'' \<and> last l \<noteq> CHR ''-''
     \<and> list_all (\<lambda>c. label_char (byte_val c)) l"

definition local_part :: "string \<Rightarrow> bool" where
  "local_part s \<longleftrightarrow> length s \<le> 64
     \<and> (\<exists>atoms. atoms \<noteq> [] \<and> list_all local_atom atoms \<and> s = join_with ''.'' atoms)"

definition host_name :: "string \<Rightarrow> bool" where
  "host_name s \<longleftrightarrow> (\<exists>labels. labels \<noteq> [] \<and> list_all host_label labels \<and> s = join_with ''.'' labels)"

lemma local_char_ascii: "local_char c \<Longrightarrow> c < 128 \<and> \<not> control_or_space c \<and> c \<noteq> 64"
  by (auto simp: local_char_def char_class_defs control_or_space_def)

lemma label_char_ascii: "label_char c \<Longrightarrow> c < 128 \<and> \<not> control_or_space c \<and> c \<noteq> 64 \<and> c \<noteq> 46"
  by (auto simp: label_char_def char_class_defs control_or_space_def)

lemma local_part_code:
  assumes "is_ascii s"
  shows "local_part s \<longleftrightarrow> s \<noteq> [] \<and> length s \<le> 64 \<and> \<not> dotted_badly s \<and> \<not> any_char (\<lambda>c. \<not> local_char c) s"
proof -
  have chars: "any_char (\<lambda>c. \<not> local_char c) s \<longleftrightarrow> \<not> list_all (\<lambda>c. local_char (byte_val c)) s"
    using assms by (simp add: any_char_def chars_ascii list_ex_iff list_all_iff)
  have "(\<exists>atoms. atoms \<noteq> [] \<and> list_all local_atom atoms \<and> s = join_with ''.'' atoms)
      \<longleftrightarrow> list_all local_atom (split_on CHR ''.'' s)" (is "?E \<longleftrightarrow> _")
  proof
    assume ?E
    then obtain atoms where a: "atoms \<noteq> []" "list_all local_atom atoms" "s = join_with ''.'' atoms"
      by blast
    from a(2) have "list_all (\<lambda>w. CHR ''.'' \<notin> set w) atoms"
      by (auto simp: list_all_iff local_atom_def)
    with a show "list_all local_atom (split_on CHR ''.'' s)" by (simp add: split_join)
  next
    assume "list_all local_atom (split_on CHR ''.'' s)"
    then show ?E using join_split [of "CHR ''.''" s] split_on_nonempty by metis
  qed
  also have "\<dots> \<longleftrightarrow> list_all (\<lambda>w. w \<noteq> []) (split_on CHR ''.'' s)
      \<and> list_all (\<lambda>c. local_char (byte_val c)) s" (is "?L \<longleftrightarrow> ?R")
  proof
    assume l: ?L
    have dot: "local_char (byte_val CHR ''.'')" by (simp add: local_char_def char_class_defs)
    have "set s \<subseteq> insert CHR ''.'' (\<Union> (set ` set (split_on CHR ''.'' s)))"
      using set_join_with [of "''.''" "split_on CHR ''.'' s"] by (simp add: join_split)
    with l dot show ?R by (fastforce simp: list_all_iff local_atom_def)
  next
    assume ?R
    then show ?L using split_on_pieces [of _ "CHR ''.''" s]
      by (fastforce simp: list_all_iff local_atom_def)
  qed
  finally show ?thesis by (auto simp: local_part_def chars dotted_pieces)
qed

lemma domain_label_code: "is_ascii w \<Longrightarrow> domain_label w \<longleftrightarrow> host_label w"
  by (auto simp: domain_label_def host_label_def starts_with_char ends_with_char all_chars_def
      chars_ascii list_all_iff)

lemma host_name_code:
  assumes "is_ascii s"
  shows "host_name s \<longleftrightarrow> list_all domain_label (split_on CHR ''.'' s)"
proof -
  have "is_ascii w" if "w \<in> set (split_on CHR ''.'' s)" for w
    using that assms split_on_pieces [of w "CHR ''.''" s] by (auto simp: is_ascii_def list_all_iff)
  then have code: "list_all domain_label (split_on CHR ''.'' s) = list_all host_label (split_on CHR ''.'' s)"
    by (auto simp: list_all_iff domain_label_code)
  show ?thesis unfolding code
  proof
    assume "host_name s"
    then obtain labels where l: "labels \<noteq> []" "list_all host_label labels" "s = join_with ''.'' labels"
      unfolding host_name_def by blast
    from l(2) have "list_all (\<lambda>w. CHR ''.'' \<notin> set w) labels"
      by (fastforce simp: list_all_iff host_label_def dest: label_char_ascii)
    with l show "list_all host_label (split_on CHR ''.'' s)" by (simp add: split_join)
  next
    assume "list_all host_label (split_on CHR ''.'' s)"
    then show "host_name s"
      unfolding host_name_def using join_split [of "CHR ''.''" s] split_on_nonempty by metis
  qed
qed

lemma local_part_chars: "local_part s \<Longrightarrow> list_all (\<lambda>c. local_char (byte_val c)) s"
proof -
  assume "local_part s"
  then obtain atoms where a: "list_all local_atom atoms" "s = join_with ''.'' atoms"
    unfolding local_part_def by blast
  have dot: "local_char (byte_val CHR ''.'')" by (simp add: local_char_def char_class_defs)
  have "set s \<subseteq> insert CHR ''.'' (\<Union> (set ` set atoms))"
    using set_join_with [of "''.''" atoms] a(2) by simp
  with a(1) dot show ?thesis by (fastforce simp: list_all_iff local_atom_def)
qed

lemma host_name_chars: "host_name s \<Longrightarrow> list_all (\<lambda>c. label_char (byte_val c) \<or> c = CHR ''.'') s"
proof -
  assume "host_name s"
  then obtain labels where l: "list_all host_label labels" "s = join_with ''.'' labels"
    unfolding host_name_def by blast
  have "set s \<subseteq> insert CHR ''.'' (\<Union> (set ` set labels))"
    using set_join_with [of "''.''" labels] l(2) by simp
  with l(1) show ?thesis by (fastforce simp: list_all_iff host_label_def)
qed

lemma address_parts_ascii:
  assumes "local_part a" and "host_name b"
  shows "is_ascii a" "is_ascii b" "CHR ''@'' \<notin> set a" "CHR ''@'' \<notin> set b"
    "\<not> any_char control_or_space (a @ ''@'' @ b)" "a \<noteq> []" "b \<noteq> []"
proof -
  note a = local_part_chars [OF assms(1)] and b = host_name_chars [OF assms(2)]
  show as: "is_ascii a" using a by (auto simp: is_ascii_def list_all_iff dest: local_char_ascii)
  show bs: "is_ascii b" using b by (auto simp: is_ascii_def list_all_iff dest: label_char_ascii)
  show "CHR ''@'' \<notin> set a" using a local_char_ascii [of 64] by (force simp: list_all_iff)
  show "CHR ''@'' \<notin> set b" using b label_char_ascii [of 64] by (force simp: list_all_iff)
  have signs: "\<not> control_or_space 46" "\<not> control_or_space 64"
    by (simp_all add: control_or_space_def char_class_defs)
  have "list_all (\<lambda>c. \<not> control_or_space (byte_val c)) (a @ ''@'' @ b)"
    using a b signs by (auto simp: list_all_iff dest: local_char_ascii label_char_ascii)
  moreover have "is_ascii (a @ ''@'' @ b)" using as bs by simp
  ultimately show "\<not> any_char control_or_space (a @ ''@'' @ b)"
    unfolding any_char_def by (subst chars_ascii) (auto simp: list_ex_iff list_all_iff)
  show "a \<noteq> []" using assms(1) local_part_code [OF as] by blast
  show "b \<noteq> []" using assms(2) host_name_code [OF bs] by (auto simp: domain_label_def)
qed

text \<open>
  C33: The email addresses accepted are exactly those of a grammar: at most 254 bytes, a local
  part of at most 64 bytes made of non-empty dot-separated atoms, one at sign, and a host name
  of non-empty dot-separated labels of letters, digits and inner hyphens. No control character,
  white space, quote or second at sign can be in one.
\<close>

theorem valid_email_address_grammar:
  "valid_email_address s \<longleftrightarrow> length s \<le> 254
     \<and> (\<exists>local domain. s = local @ ''@'' @ domain \<and> local_part local \<and> host_name domain)"
proof
  assume v: "valid_email_address s"
  then have ascii: "is_ascii s" by (auto simp: valid_email_address_def split: if_splits)
  from v obtain a b where ab: "split_once CHR ''@'' s = Some (a, b)"
    by (auto simp: valid_email_address_def split: if_splits option.splits)
  then have s: "s = a @ ''@'' @ b" using split_once_Some by fastforce
  with ascii have "is_ascii a" "is_ascii b" by simp_all
  with v ab have "local_part a" "host_name b"
    by (simp_all add: valid_email_address_def local_part_code host_name_code split: if_splits)
  moreover have "length s \<le> 254"
    using v by (simp add: valid_email_address_def max_email_address_bytes_def split: if_splits)
  ultimately show "length s \<le> 254
     \<and> (\<exists>local domain. s = local @ ''@'' @ domain \<and> local_part local \<and> host_name domain)"
    using s by blast
next
  assume "length s \<le> 254
     \<and> (\<exists>local domain. s = local @ ''@'' @ domain \<and> local_part local \<and> host_name domain)"
  then obtain a b where len: "length s \<le> 254" and s: "s = a @ ''@'' @ b"
    and a: "local_part a" and b: "host_name b" by blast
  note p = address_parts_ascii [OF a b]
  have "split_once CHR ''@'' s = Some (a, b)" using p(3) by (simp add: s split_once_append)
  moreover have "3 \<le> length s" using p(6,7) by (cases a; cases b) (simp_all add: s)
  moreover have "list_all (\<lambda>w. w \<noteq> []) (split_on CHR ''.'' b)"
    using b host_name_code [OF p(2)] by (auto simp: list_all_iff domain_label_def)
  ultimately show "valid_email_address s"
    using len p a b local_part_code [OF p(1)] host_name_code [OF p(2)]
    by (simp add: valid_email_address_def max_email_address_bytes_def s [symmetric] dotted_pieces)
       (simp add: s)
qed

section \<open>E.164 numbers\<close>

text \<open>Decoded code points below 128 come from bytes below 128: no overlong form is well-formed.\<close>

lemma cont_byte_mod: "is_cont_byte c \<Longrightarrow> byte_val c mod 64 = byte_val c - 128"
proof -
  assume "is_cont_byte c"
  then obtain j where j: "byte_val c = j + 2 * 64" "j < 64"
    by (auto simp: is_cont_byte_def dest!: le_Suc_ex intro: that)
  then have "byte_val c mod 64 = j" unfolding j(1) mod_mult_self1 by simp
  then show ?thesis using j by simp
qed

lemma ascii_chars_ascii: "valid_utf8 s \<Longrightarrow> all_chars (\<lambda>c. c < 128) s \<Longrightarrow> is_ascii s"
proof (induction s rule: length_induct)
  case (1 s)
  show ?case
  proof (cases s)
    case Nil then show ?thesis by simp
  next
    case (Cons b bs)
    define x where "x = byte_val b"
    from "1.prems"(1) Cons obtain n where n: "utf8_tail x = Some n" and len: "n \<le> length bs"
      and second: "utf8_second_ok x bs" and rest: "valid_utf8 (drop n bs)"
      by (auto simp: x_def split: option.splits)
    have small: "c < 128" if "c \<in> set (chars s)" for c
      using "1.prems"(2) that by (auto simp: all_chars_def list_all_iff)
    have lead: "hd (chars s) < 128" using small [of "hd (chars s)"] Cons by (simp add: Let_def)
    have "x < 128"
    proof (rule ccontr)
      assume "\<not> x < 128"
      with n have n0: "1 \<le> n" and x: "194 \<le> x" "x < 245" by (auto simp: utf8_tail_def split: if_splits)
      from n0 len obtain c cs where bs: "bs = c # cs" by (cases bs) auto
      have cont: "is_cont_byte c"
        using "1.prems"(1) Cons bs n n0 by (cases n) (auto simp: x_def split: option.splits)
      have top: "cont_val bs 0 = byte_val c mod 64" by (simp add: bs cont_val_def)
      have "128 \<le> hd (chars s)"
      proof (cases "x < 224")
        case True
        with x(1) have "2 \<le> x mod 32" by (simp add: le_mod_geq)
        then show ?thesis using True x Cons by (simp add: Let_def x_def [symmetric])
      next
        case False
        show ?thesis
        proof (cases "x < 240")
          case True
          have "1 \<le> x mod 16 \<or> 32 \<le> cont_val bs 0"
          proof (cases "x = 224")
            case True
            with second bs have "160 \<le> byte_val c" by simp
            with cont_byte_mod [OF cont] top show ?thesis by arith
          next
            case no: False
            with False True have "x mod 16 = x - 224" "224 < x" by (simp_all add: le_mod_geq)
            then have "1 \<le> x mod 16" by simp
            then show ?thesis ..
          qed
          then show ?thesis using True False x Cons by (auto simp add: Let_def x_def [symmetric])
        next
          case big: False
          have "1 \<le> x mod 8 \<or> 16 \<le> cont_val bs 0"
          proof (cases "x = 240")
            case True
            with second bs have "144 \<le> byte_val c" by simp
            with cont_byte_mod [OF cont] top show ?thesis by arith
          next
            case no: False
            with big x(2) have "x mod 8 = x - 240" "240 < x" by (simp_all add: le_mod_geq)
            then have "1 \<le> x mod 8" by simp
            then show ?thesis ..
          qed
          then show ?thesis using big False x Cons by (auto simp add: Let_def x_def [symmetric])
        qed
      qed
      with lead show False by simp
    qed
    moreover have "is_ascii bs"
    proof -
      from \<open>x < 128\<close> n have "n = 0" by (simp add: utf8_tail_def)
      with rest have "valid_utf8 bs" by simp
      moreover have "all_chars (\<lambda>c. c < 128) bs"
        using "1.prems"(2) Cons \<open>x < 128\<close> by (simp add: all_chars_def Let_def x_def)
      ultimately show ?thesis using "1.IH" Cons by simp
    qed
    ultimately show ?thesis using Cons by (simp add: x_def)
  qed
qed

text \<open>
  The telephone numbers accepted are exactly the E.164 numbers: a plus sign, a first digit
  from 1 to 9 and 7 to 14 further digits, all of them ASCII.
\<close>

theorem valid_e164_shape:
  assumes "valid_utf8 s"
  shows "valid_e164 s \<longleftrightarrow>
    (\<exists>d ds. s = CHR ''+'' # d # ds \<and> d \<noteq> CHR ''0'' \<and> 7 \<le> length ds \<and> length ds \<le> 14
       \<and> list_all (\<lambda>c. is_ascii_digit (byte_val c)) (d # ds))"
proof
  assume v: "valid_e164 s"
  then obtain t where s: "s = CHR ''+'' # t" and len: "8 \<le> length t" "length t \<le> 15"
    and zero: "\<not> starts_with ''0'' t" and digits: "all_chars is_ascii_digit t"
    by (auto simp: valid_e164_def strip_prefix_eq_Some split: option.splits)
  from len obtain d ds where t: "t = d # ds" by (cases t) auto
  have "valid_utf8 t" using assms s by (simp add: utf8_tail_def)
  moreover have "all_chars (\<lambda>c. c < 128) t"
    using digits by (auto simp: all_chars_def list_all_iff is_ascii_digit_def)
  ultimately have "is_ascii t" by (rule ascii_chars_ascii)
  with digits have "list_all (\<lambda>c. is_ascii_digit (byte_val c)) t"
    by (simp add: all_chars_def chars_ascii list_all_iff)
  with s t zero len show "\<exists>d ds. s = CHR ''+'' # d # ds \<and> d \<noteq> CHR ''0'' \<and> 7 \<le> length ds
      \<and> length ds \<le> 14 \<and> list_all (\<lambda>c. is_ascii_digit (byte_val c)) (d # ds)"
    by (auto simp: starts_with_char)
next
  assume "\<exists>d ds. s = CHR ''+'' # d # ds \<and> d \<noteq> CHR ''0'' \<and> 7 \<le> length ds \<and> length ds \<le> 14
       \<and> list_all (\<lambda>c. is_ascii_digit (byte_val c)) (d # ds)"
  then obtain d ds where s: "s = CHR ''+'' # d # ds" and d: "d \<noteq> CHR ''0''"
    and len: "7 \<le> length ds" "length ds \<le> 14"
    and digits: "list_all (\<lambda>c. is_ascii_digit (byte_val c)) (d # ds)" by blast
  have "is_ascii (d # ds)" using digits by (auto simp: is_ascii_def list_all_iff is_ascii_digit_def)
  then have "all_chars is_ascii_digit (d # ds)"
    using digits unfolding all_chars_def by (subst chars_ascii) (auto simp: list_all_iff)
  moreover have "strip_prefix ''+'' s = Some (d # ds)" by (simp add: s strip_prefix_eq_Some)
  ultimately show "valid_e164 s" using d len by (simp add: valid_e164_def starts_with_char)
qed

theorem valid_e164_shape_witness:
  "\<exists>d ds. ''+15550001111'' = CHR ''+'' # d # ds \<and> d \<noteq> CHR ''0'' \<and> 7 \<le> length ds \<and> length ds \<le> 14
     \<and> list_all (\<lambda>c. is_ascii_digit (byte_val c)) (d # ds)"
proof -
  have "valid_utf8 ''+15550001111''" "valid_e164 ''+15550001111''" by code_simp+
  with valid_e164_shape show ?thesis by blast
qed

section \<open>What validation accepts\<close>

definition contact_identifier_ok :: "string \<Rightarrow> nat \<Rightarrow> bool" where
  "contact_identifier_ok s n \<longleftrightarrow> s \<noteq> [] \<and> length s \<le> n \<and> all_chars identifier_char s"

definition template_mode :: "email_content \<Rightarrow> bool" where
  "template_mode c \<longleftrightarrow> is_some_and (\<lambda>t. trim t \<noteq> [] \<and> valid_template_id t) (ec_template_id c)
     \<and> \<not> not_blank (ec_subject c) \<and> \<not> not_blank (ec_text c) \<and> \<not> not_blank (ec_html c)"

definition explicit_mode :: "email_content \<Rightarrow> bool" where
  "explicit_mode c \<longleftrightarrow> \<not> not_blank (ec_template_id c) \<and> not_blank (ec_subject c)
     \<and> (not_blank (ec_text c) \<or> not_blank (ec_html c)) \<and> ec_dynamic_template_data c = []"

definition no_control :: "string option \<Rightarrow> bool" where
  "no_control s \<longleftrightarrow> is_none_or (\<lambda>v. all_chars (\<lambda>c. \<not> is_control c) v) s"

definition email_content_ok :: "externals \<Rightarrow> email_content \<Rightarrow> bool" where
  "email_content_ok X c \<longleftrightarrow> (template_mode c \<or> explicit_mode c)
     \<and> short (ec_subject c) 998 \<and> no_control (ec_subject c)
     \<and> short (ec_text c) 524288 \<and> short (ec_html c) 524288
     \<and> is_some_and (\<lambda>bytes. length bytes \<le> 65536) (x_json_to_vec X (JObj (ec_dynamic_template_data c)))"

fun channel_ok :: "externals \<Rightarrow> contact_target \<Rightarrow> contact_content \<Rightarrow> bool" where
  "channel_ok X (EmailTarget address name) (EmailContent c) \<longleftrightarrow>
     valid_email_address address \<and> short name 256 \<and> no_control name
     \<and> is_none_or valid_email_address (ec_reply_to c) \<and> email_content_ok X c"
| "channel_ok X (SmsTarget e164) (SmsContent body) \<longleftrightarrow>
     valid_e164 e164 \<and> trim body \<noteq> [] \<and> length (chars body) \<le> 1600
     \<and> all_chars (\<lambda>c. c \<noteq> 0) body"
| "channel_ok X _ _ \<longleftrightarrow> False"

definition contact_job_ok :: "externals \<Rightarrow> contact_job \<Rightarrow> bool" where
  "contact_job_ok X job \<longleftrightarrow>
     contact_identifier_ok (cj_job_id job) 128 \<and> contact_identifier_ok (cj_tenant_id job) 128
     \<and> contact_identifier_ok (cj_application_id job) 128
     \<and> contact_identifier_ok (cj_idempotency_key job) 256
     \<and> cj_provider job = contact_target_provider (cj_target job)
     \<and> cj_provider job = content_provider (cj_content job)
     \<and> channel_ok X (cj_target job) (cj_content job)"

lemma contact_identifier_errors_Nil:
  "contact_identifier_errors f s n = [] \<longleftrightarrow> contact_identifier_ok s n"
  by (auto simp: contact_identifier_errors_def contact_identifier_ok_def flatten_two_Nil
      any_char_not_all not_less)

lemma contact_length_error_None: "contact_length_error f s n = None \<longleftrightarrow> short s n"
  by (cases s) (auto simp: contact_length_error_def short_def)

lemma control_free: "is_some_and contains_control_characters s \<longleftrightarrow> \<not> no_control s"
  by (cases s) (auto simp: contains_control_characters_def no_control_def any_char_not_all)

lemma reply_to_ok: "is_some_and (\<lambda>r. \<not> P r) s \<longleftrightarrow> \<not> is_none_or P s"
  by (cases s) simp_all

lemma content_mode_errors_None:
  "(\<forall>e \<in> set (content_mode_errors c). e = None) \<longleftrightarrow> template_mode c \<or> explicit_mode c"
proof (cases "ec_template_id c")
  case None
  then show ?thesis
    by (auto simp: content_mode_errors_def Let_def template_mode_def explicit_mode_def not_blank_def)
next
  case (Some t)
  then show ?thesis
    by (auto simp: content_mode_errors_def Let_def template_mode_def explicit_mode_def not_blank_def
        split: if_splits)
qed

lemma email_content_errors_Nil: "email_content_errors X c = [] \<longleftrightarrow> email_content_ok X c"
proof -
  have "email_content_errors X c = [] \<longleftrightarrow>
      (\<forall>e \<in> set (content_mode_errors c). e = None)
      \<and> short (ec_subject c) 998 \<and> no_control (ec_subject c)
      \<and> short (ec_text c) 524288 \<and> short (ec_html c) 524288
      \<and> is_some_and (\<lambda>bytes. length bytes \<le> 65536) (x_json_to_vec X (JObj (ec_dynamic_template_data c)))"
    by (cases "x_json_to_vec X (JObj (ec_dynamic_template_data c))")
       (auto simp: email_content_errors_def flatten_eq_Nil contact_length_error_None control_free
         contact_limits not_less)
  then show ?thesis by (simp only: content_mode_errors_None email_content_ok_def)
qed

lemma channel_errors_Nil: "channel_errors X t c = [] \<longleftrightarrow> channel_ok X t c"
  by (cases "(X, t, c)" rule: channel_ok.cases)
     (auto simp: flatten_eq_Nil contact_length_error_None control_free email_content_errors_Nil
       contact_limits not_less any_char_not_all reply_to_ok)

lemma contact_job_errors_Nil: "contact_job_errors X job = [] \<longleftrightarrow> contact_job_ok X job"
  by (auto simp: contact_job_errors_def contact_job_ok_def contact_identifier_errors_Nil
      channel_errors_Nil push_limits flatten_eq_Nil)

lemma validate_contact_job_eq:
  "validate_contact_job X job = (if contact_job_ok X job then Ok () else Err (contact_job_errors X job))"
  by (simp add: validate_contact_job_def Let_def contact_job_errors_Nil)

text \<open>Every error is one of a fixed list, and so repeats nothing of the job.\<close>

definition contact_static_errors :: "contact_validation_error list" where
  "contact_static_errors =
     [ContactRequired ''job_id'', ContactTooLong ''job_id'' 128, ContactInvalidCharacters ''job_id'',
      ContactRequired ''tenant_id'', ContactTooLong ''tenant_id'' 128,
      ContactInvalidCharacters ''tenant_id'',
      ContactRequired ''application_id'', ContactTooLong ''application_id'' 128,
      ContactInvalidCharacters ''application_id'',
      ContactRequired ''idempotency_key'', ContactTooLong ''idempotency_key'' 256,
      ContactInvalidCharacters ''idempotency_key'',
      ProviderChannelMismatch, InvalidEmailAddress, ContactTooLong ''target.email.name'' 256,
      ContactInvalidCharacters ''target.email.name'', InvalidEmailContentMode, InvalidTemplateId,
      TemplateDataWithoutTemplate, ContactTooLong ''content.subject'' 998,
      ContactInvalidCharacters ''content.subject'', ContactTooLong ''content.text'' 524288,
      ContactTooLong ''content.html'' 524288, TemplateDataTooLarge 65536,
      InvalidE164, ContactRequired ''content.body'', SmsTooLong 1600,
      ContactInvalidCharacters ''content.body'']"

lemma contact_length_error_Some: "contact_length_error f s n = Some e \<Longrightarrow> e = ContactTooLong f n"
  by (simp add: contact_length_error_def)

lemma contact_identifier_errors_set:
  "set (contact_identifier_errors f s n) \<subseteq> {ContactRequired f, ContactTooLong f n, ContactInvalidCharacters f}"
  by (auto simp: contact_identifier_errors_def set_flatten split: if_splits)

lemma email_content_errors_static: "set (email_content_errors X c) \<subseteq> set contact_static_errors"
proof -
  have mode: "Some e \<in> set (content_mode_errors c) \<Longrightarrow> e \<in> set contact_static_errors" for e
    by (auto simp: content_mode_errors_def contact_static_errors_def Let_def
        split: option.splits dest!: sym [of "Some _"])
  show ?thesis
    by (auto simp: email_content_errors_def set_flatten contact_limits dest: mode
        dest!: contact_length_error_Some sym [of "Some _"])
       (simp_all add: contact_static_errors_def)
qed

lemma channel_errors_static: "set (channel_errors X t c) \<subseteq> set contact_static_errors"
proof (cases "(X, t, c)" rule: channel_ok.cases)
  case (1 X' address name ec)
  have "set (flatten
       [then_some (\<not> valid_email_address address) InvalidEmailAddress,
        contact_length_error ''target.email.name'' name max_email_name_bytes,
        then_some (is_some_and contains_control_characters name)
          (ContactInvalidCharacters ''target.email.name''),
        then_some (is_some_and (\<lambda>r. \<not> valid_email_address r) (ec_reply_to ec)) InvalidEmailAddress])
      \<subseteq> set contact_static_errors"
    by (auto simp: set_flatten contact_limits contact_static_errors_def
        dest!: contact_length_error_Some sym [of "Some _"])
  with 1 email_content_errors_static show ?thesis by simp
next
  case 2
  then show ?thesis
    by (auto simp: set_flatten contact_limits contact_static_errors_def dest!: sym [of "Some _"])
qed (simp_all add: contact_static_errors_def)

lemma contact_job_errors_static: "set (contact_job_errors X job) \<subseteq> set contact_static_errors"
proof -
  have i: "set (contact_identifier_errors f s n) \<subseteq> set contact_static_errors"
    if "{ContactRequired f, ContactTooLong f n, ContactInvalidCharacters f} \<subseteq> set contact_static_errors"
    for f s n
    using contact_identifier_errors_set that by (rule order_trans)
  have p: "set (flatten [then_some b ProviderChannelMismatch]) \<subseteq> set contact_static_errors" for b
    by (cases b) (simp_all add: contact_static_errors_def)
  show ?thesis
    unfolding contact_job_errors_def set_append push_limits
    by (intro Un_least p channel_errors_static i) (simp_all add: contact_static_errors_def)
qed

text \<open>
  C16: Validation accepts exactly the email and SMS jobs described by \<open>contact_job_ok\<close>: bounded
  identifiers of a fixed alphabet; provider, target and content of one channel; a valid
  address; an email that is either a template (and then has no subject or body) or has a
  subject and a body (and then no template data), never both; every ceiling. A rejection
  reports at least one error, each from a fixed list that repeats nothing of the job.
\<close>

theorem validate_contact_job_spec:
  "case validate_contact_job X job of
     Inr _ \<Rightarrow> contact_job_ok X job
   | Inl es \<Rightarrow> \<not> contact_job_ok X job \<and> es \<noteq> [] \<and> set es \<subseteq> set contact_static_errors"
proof (cases "contact_job_ok X job")
  case True
  then show ?thesis by (simp add: validate_contact_job_eq)
next
  case False
  then show ?thesis
    using contact_job_errors_static [of X job] contact_job_errors_Nil [of X job]
    by (simp add: validate_contact_job_eq)
qed

definition demo_email_job :: contact_job where
  "demo_email_job = \<lparr>cj_version = V1, cj_job_id = ''job-1'', cj_tenant_id = ''tenant-1'',
     cj_application_id = ''app-1'', cj_idempotency_key = ''event-1'', cj_provider = Sendgrid,
     cj_target = EmailTarget ''person@example.com'' None,
     cj_content = EmailContent \<lparr>ec_subject = Some ''Hello'', ec_text = Some ''World'', ec_html = None,
       ec_template_id = None, ec_dynamic_template_data = [], ec_reply_to = None\<rparr>,
     cj_trace = default_trace\<rparr>"

lemma demo_email_job_ok: "contact_job_ok demo_externals demo_email_job"
  by code_simp

end
