(* ===== verification/Contact_Dispatch.thy ===== *)
theory Contact_Dispatch
  imports Contact_Validation Rate_Limit Adapter
begin

text \<open>
  The contact adapter interface (\<open>src/contact/provider.rs\<close>) and the contact registry
  (\<open>src/contact/dispatch.rs\<close>). A rate limiter is shared state behind an \<open>Arc\<close>: the registry
  holds the address of its bucket, and the world holds the buckets, so that clones of a
  registry share them. The locales \<open>contact_adapter\<close> and \<open>contact_dispatcher\<close> are the
  contracts of an adapter and of a registry.
\<close>

section \<open>Errors\<close>

datatype contact_provider_error =
    ContactNotConfigured string
  | ContactDelivery contact_outcome_class string "duration option" "string option"
  | ContactInternal string

definition contact_not_configured :: "string \<Rightarrow> contact_provider_error" where
  "contact_not_configured reason = ContactNotConfigured (truncate_utf8 reason max_safe_error_bytes)"

definition contact_delivery ::
  "contact_outcome_class \<Rightarrow> string \<Rightarrow> duration option \<Rightarrow> string option \<Rightarrow> contact_provider_error" where
  "contact_delivery class detail retry_after code =
     ContactDelivery class (truncate_utf8 detail max_safe_error_bytes) retry_after code"

definition contact_internal :: "string \<Rightarrow> contact_provider_error" where
  "contact_internal detail = ContactInternal (truncate_utf8 detail max_safe_error_bytes)"

fun contact_error_class :: "contact_provider_error \<Rightarrow> contact_outcome_class" where
  "contact_error_class (ContactNotConfigured _) = ContactPermanentFailure"
| "contact_error_class (ContactDelivery c _ _ _) = c"
| "contact_error_class (ContactInternal _) = ContactInternalFailure"

fun contact_error_detail :: "contact_provider_error \<Rightarrow> string" where
  "contact_error_detail (ContactNotConfigured s) = s"
| "contact_error_detail (ContactDelivery _ s _ _) = s"
| "contact_error_detail (ContactInternal s) = s"

fun contact_error_wait :: "contact_provider_error \<Rightarrow> duration option" where
  "contact_error_wait (ContactDelivery _ _ r _) = r"
| "contact_error_wait _ = None"

definition contact_bounded :: "contact_provider_error \<Rightarrow> bool" where
  "contact_bounded e \<longleftrightarrow> length (contact_error_detail e) \<le> max_safe_error_bytes
     \<and> bounded_wait (contact_error_wait e)"

lemma contact_err_sel [simp, outcome_simps]:
  "contact_error_class (contact_delivery c s r k) = c"
  "contact_error_class (contact_not_configured s) = ContactPermanentFailure"
  "contact_error_class (contact_internal s) = ContactInternalFailure"
  by (simp_all add: contact_delivery_def contact_not_configured_def contact_internal_def)

lemma contact_bounded_intros [simp, intro]:
  "bounded_wait r \<Longrightarrow> contact_bounded (contact_delivery c s r k)"
  "contact_bounded (contact_not_configured s)"
  "contact_bounded (contact_internal s)"
  by (simp_all add: contact_bounded_def contact_delivery_def contact_not_configured_def
      contact_internal_def truncate_length)

section \<open>The adapter interface\<close>

record contact_provider =
  cp_kind :: contact_provider_kind
  cp_readiness :: provider_readiness
  cp_send :: "contact_job \<Rightarrow> world \<Rightarrow> (contact_provider_error + contact_outcome) \<times> world"

text \<open>The outcome belongs to the job: same id, provider and target fingerprint.\<close>

definition contact_outcome_of :: "externals \<Rightarrow> contact_job \<Rightarrow> contact_outcome \<Rightarrow> bool" where
  "contact_outcome_of X job out \<longleftrightarrow> co_job_id out = cj_job_id job \<and> co_provider out = cj_provider job
     \<and> co_target_fingerprint out = contact_fingerprint X (cj_target job)"

locale contact_adapter =
  fixes X :: externals and p :: contact_provider
  assumes outcome_identity: "cp_send p job w = (Inr out, w') \<Longrightarrow> contact_outcome_of X job out"
    and error_is_bounded: "cp_send p job w = (Inl e, w') \<Longrightarrow> contact_bounded e"
    and invalid_refused: "\<not> contact_job_ok X job \<Longrightarrow>
        \<exists>e w'. cp_send p job w = (Inl e, w') \<and> contact_error_class e = ContactInvalidPayload \<and> silent w w'"
    and foreign_refused: "cj_provider job \<noteq> cp_kind p \<Longrightarrow>
        \<exists>e w'. cp_send p job w = (Inl e, w') \<and> contact_error_class e = ContactInvalidPayload \<and> silent w w'"
    and is_ready: "pr_configured (cp_readiness p)"
begin

lemma sent_job_valid:
  assumes "cp_send p job w = (r, w')" and "\<not> silent w w'"
  shows "contact_job_ok X job \<and> cj_provider job = cp_kind p"
  using assms invalid_refused [of job w] foreign_refused [of job w] by auto

end

text \<open>The validation step every contact adapter starts with.\<close>

definition contact_job_check :: "externals \<Rightarrow> contact_job \<Rightarrow> contact_provider_error + unit" where
  "contact_job_check X job =
     map_err (\<lambda>errors. contact_delivery ContactInvalidPayload (contact_report errors) None
         (Some ''contract_validation_failed''))
       (validate_contact_job X job)"

lemma contact_job_check_eq:
  "contact_job_check X job =
     (if contact_job_ok X job then Ok ()
      else Err (contact_delivery ContactInvalidPayload (contact_report (contact_job_errors X job)) None
             (Some ''contract_validation_failed'')))"
  by (simp add: contact_job_check_def validate_contact_job_eq)

definition contact_send_request ::
  "string \<Rightarrow> http_request \<Rightarrow> (contact_provider_error, world, http_response) io" where
  "contact_send_request what rq =
     io_bind (io_step (http_send rq)) (\<lambda>answer.
       case answer of
         Failed e \<Rightarrow> io_throw (contact_delivery ContactTransientFailure (what @ '': '' @ te_text e)
           None (Some ''transport_error''))
       | Answered rs \<Rightarrow> io_return rs)"

lemma contact_send_request_post [io_post_intros]:
  "(\<And>rs. Q rs) \<Longrightarrow> io_post contact_bounded Q (contact_send_request what rq)"
  unfolding contact_send_request_def
  by (rule io_post_bind [where R = "\<lambda>_. True"]) (auto intro: io_post_step split: http_answer.splits)

lemma contact_send_request_frame [io_frame_intros]:
  "P rq \<Longrightarrow> io_frame (sends P) (contact_send_request what rq)"
  by (auto simp: contact_send_request_def intro!: sent.frame_bind sent.frame_step split: http_answer.splits)

definition contact_request_timeout :: duration where "contact_request_timeout = from_secs 20"

definition https_base_url :: "url \<Rightarrow> bool" where
  "https_base_url u \<longleftrightarrow> url_scheme u = ''https'' \<and> url_host_str u \<noteq> None
     \<and> url_username u = [] \<and> url_password u = None"

definition contact_mismatch :: "string \<Rightarrow> string \<Rightarrow> contact_provider_error" where
  "contact_mismatch detail code = contact_delivery ContactInvalidPayload detail None (Some code)"

lemma contact_job_ok_channel:
  "contact_job_ok X job \<Longrightarrow> cj_provider job = contact_target_provider (cj_target job)
     \<and> content_provider (cj_content job) = contact_target_provider (cj_target job)"
  unfolding contact_job_ok_def by metis

lemma contact_request_answer:
  "contact_send_request what rq w =
     (case w_answers w (w_sent w @ [rq]) of
        Failed e \<Rightarrow> (Err (contact_delivery ContactTransientFailure (what @ '': '' @ te_text e)
          None (Some ''transport_error'')), w\<lparr>w_sent := w_sent w @ [rq]\<rparr>)
      | Answered rs \<Rightarrow> (Ok rs, w\<lparr>w_sent := w_sent w @ [rq]\<rparr>))"
  by (auto simp: contact_send_request_def io_bind_def io_step_def http_send_def Let_def io_throw_def
      io_return_def split: http_answer.splits)

text \<open>The request, the clock reading for \<open>Retry-After\<close>, and the outcome both adapters end with.\<close>

definition post_and_classify ::
  "externals \<Rightarrow> string \<Rightarrow> http_request \<Rightarrow> (http_response \<Rightarrow> duration option \<Rightarrow> contact_outcome) \<Rightarrow>
   (contact_provider_error, world, contact_outcome) io" where
  "post_and_classify X what rq outcome =
     io_bind (contact_send_request what rq) (\<lambda>rs.
     io_bind (io_step (response_retry_after X rs)) (\<lambda>retry_after.
       io_return (outcome rs retry_after)))"

lemma posted_once:
  "case post_and_classify X what rq outcome w of (r, w') \<Rightarrow>
     w_sent w' = w_sent w @ [rq] \<and>
     (case w_answers w (w_sent w @ [rq]) of
        Failed e \<Rightarrow> r = Err (contact_delivery ContactTransientFailure (what @ '': '' @ te_text e) None
          (Some ''transport_error''))
      | Answered rs \<Rightarrow>
          r = Ok (outcome rs (fst (response_retry_after X rs (w\<lparr>w_sent := w_sent w @ [rq]\<rparr>)))))"
proof (cases "w_answers w (w_sent w @ [rq])")
  case (Failed e)
  then show ?thesis by (simp add: post_and_classify_def io_bind_def contact_request_answer)
next
  case (Answered rs)
  obtain ra w2 where ra: "response_retry_after X rs (w\<lparr>w_sent := w_sent w @ [rq]\<rparr>) = (ra, w2)" by fastforce
  then have "w_sent w2 = w_sent w @ [rq]"
    using retry_after_steps(1) [of "w\<lparr>w_sent := w_sent w @ [rq]\<rparr>" X rs] by (simp add: silent_def)
  with Answered ra show ?thesis
    by (simp add: post_and_classify_def io_bind_def contact_request_answer io_step_def io_return_def)
qed

text \<open>What holds of every classified answer holds of what the step returns for the answer it got.\<close>

lemma posted_answer:
  assumes "\<And>rs. P rs (outcome rs (fst (response_retry_after X rs (w\<lparr>w_sent := w_sent w @ [rq]\<rparr>))))"
  shows "case post_and_classify X what rq outcome w of (r, w') \<Rightarrow>
     w_sent w' = w_sent w @ [rq] \<and>
     (case w_answers w (w_sent w @ [rq]) of
        Failed e \<Rightarrow> r = Err (contact_delivery ContactTransientFailure (what @ '': '' @ te_text e) None
          (Some ''transport_error''))
      | Answered rs \<Rightarrow> \<exists>out. r = Ok out \<and> P rs out)"
  using posted_once [where X = X and what = what and rq = rq and outcome = outcome and w = w] assms
  by (cases "w_answers w (w_sent w @ [rq])") (simp_all split: prod.splits)

lemma post_and_classify_post:
  "(\<And>rs ra. Q (outcome rs ra)) \<Longrightarrow> io_post contact_bounded Q (post_and_classify X what rq outcome)"
  unfolding post_and_classify_def
  by (intro io_post_bind [where R = "\<lambda>_. True"] contact_send_request_post
      io_post_bind [where R = bounded_wait] retry_after_post) auto

text \<open>How an adapter is shown to meet the contract.\<close>

lemma contact_adapterI:
  assumes send: "\<And>job. cp_send p job = io_bind (io_lift (contact_job_check X job)) (\<lambda>_. deliver job)"
    and foreign: "\<And>job w. contact_job_ok X job \<Longrightarrow> cj_provider job \<noteq> cp_kind p \<Longrightarrow>
        \<exists>e. deliver job w = (Err e, w) \<and> contact_error_class e = ContactInvalidPayload"
    and post: "\<And>job. contact_job_ok X job \<Longrightarrow>
        io_post contact_bounded (contact_outcome_of X job) (deliver job)"
    and ready: "pr_configured (cp_readiness p)"
  shows "contact_adapter X p"
proof
  have refuse: "\<exists>e. cp_send p job w = (Err e, w) \<and> contact_error_class e = ContactInvalidPayload"
    if "\<not> contact_job_ok X job \<or> cj_provider job \<noteq> cp_kind p" for job w
  proof (cases "contact_job_ok X job")
    case True
    with that foreign [of job w] show ?thesis
      by (auto simp: send io_bind_def io_lift_def contact_job_check_eq)
  next
    case False
    then show ?thesis by (simp add: send io_throw_def contact_job_check_eq)
  qed
  fix job w
  show "\<not> contact_job_ok X job \<Longrightarrow> \<exists>e w'. cp_send p job w = (Err e, w')
      \<and> contact_error_class e = ContactInvalidPayload \<and> silent w w'"
    using refuse [of job w] by (auto intro: exI [of _ w])
  show "cj_provider job \<noteq> cp_kind p \<Longrightarrow> \<exists>e w'. cp_send p job w = (Err e, w')
      \<and> contact_error_class e = ContactInvalidPayload \<and> silent w w'"
    using refuse [of job w] by (auto intro: exI [of _ w])
  have io: "io_post contact_bounded (contact_outcome_of X job) (cp_send p job)"
    unfolding send
  proof (rule io_post_bind [where R = "\<lambda>_. contact_job_ok X job"])
    show "io_post contact_bounded (\<lambda>_. contact_job_ok X job) (io_lift (contact_job_check X job))"
      by (simp add: contact_job_check_eq)
  qed (rule post)
  fix w'
  show "cp_send p job w = (Err e, w') \<Longrightarrow> contact_bounded e" for e
    using io by (rule io_postD)
  show "cp_send p job w = (Ok out, w') \<Longrightarrow> contact_outcome_of X job out" for out
    using io by (rule io_postD)
qed (rule ready)

section \<open>Shared limiters\<close>

record contact_world =
  cw_world :: world
  cw_buckets :: "token_bucket list"

definition try_acquire :: "nat \<Rightarrow> contact_world \<Rightarrow> (duration + unit) \<times> contact_world" where
  "try_acquire i w =
     (case instant_now (cw_world w) of (now, w') \<Rightarrow>
        case try_take (cw_buckets w ! i) now of (r, b) \<Rightarrow>
          (r, w\<lparr>cw_world := w', cw_buckets := (cw_buckets w)[i := b]\<rparr>))"

text \<open>\<open>Arc::new(ContactRateLimiter::per_minute(..))\<close>: a fresh bucket and its address.\<close>

definition new_limiter :: "u32 \<Rightarrow> contact_world \<Rightarrow> nat \<times> contact_world" where
  "new_limiter per_minute w =
     (case instant_now (cw_world w) of (now, w') \<Rightarrow>
        (length (cw_buckets w),
         w\<lparr>cw_world := w', cw_buckets := cw_buckets w @ [limiter_per_minute per_minute now]\<rparr>))"

section \<open>The registry\<close>

record contact_registry =
  cr_sendgrid :: "contact_provider option"
  cr_twilio :: "contact_provider option"
  cr_sendgrid_limiter :: "nat option"
  cr_twilio_limiter :: "nat option"

definition contact_registry_new :: contact_registry where
  "contact_registry_new = \<lparr>cr_sendgrid = None, cr_twilio = None, cr_sendgrid_limiter = None,
     cr_twilio_limiter = None\<rparr>"

definition contact_with_provider :: "contact_registry \<Rightarrow> contact_provider \<Rightarrow> contact_registry" where
  "contact_with_provider reg p =
     (case cp_kind p of
        Sendgrid \<Rightarrow> reg\<lparr>cr_sendgrid := Some p\<rparr>
      | Twilio \<Rightarrow> reg\<lparr>cr_twilio := Some p\<rparr>)"

definition contact_with_rate_limit ::
  "contact_registry \<Rightarrow> contact_provider_kind \<Rightarrow> u32 \<Rightarrow> contact_world \<Rightarrow> contact_registry \<times> contact_world" where
  "contact_with_rate_limit reg kind per_minute w =
     (case new_limiter per_minute w of (i, w') \<Rightarrow>
        (case kind of
           Sendgrid \<Rightarrow> reg\<lparr>cr_sendgrid_limiter := Some i\<rparr>
         | Twilio \<Rightarrow> reg\<lparr>cr_twilio_limiter := Some i\<rparr>, w'))"

fun contact_slot :: "contact_registry \<Rightarrow> contact_provider_kind \<Rightarrow> contact_provider option" where
  "contact_slot reg Sendgrid = cr_sendgrid reg"
| "contact_slot reg Twilio = cr_twilio reg"

fun limiter_slot :: "contact_registry \<Rightarrow> contact_provider_kind \<Rightarrow> nat option" where
  "limiter_slot reg Sendgrid = cr_sendgrid_limiter reg"
| "limiter_slot reg Twilio = cr_twilio_limiter reg"

text \<open>\<open>provider.send(job).await\<close>, which touches no limiter.\<close>

definition on_contact_world :: "(world \<Rightarrow> 'a \<times> world) \<Rightarrow> contact_world \<Rightarrow> 'a \<times> contact_world" where
  "on_contact_world f w = (case f (cw_world w) of (x, w') \<Rightarrow> (x, w\<lparr>cw_world := w'\<rparr>))"

definition contact_throttled :: "duration \<Rightarrow> contact_provider_error" where
  "contact_throttled retry_after =
     contact_delivery ContactThrottled ''contact delivery rate limit reached'' (Some retry_after)
       (Some ''local_rate_limit'')"

definition contact_dispatch ::
  "contact_registry \<Rightarrow> contact_job \<Rightarrow> contact_world \<Rightarrow>
   (contact_provider_error + contact_outcome) \<times> contact_world" where
  "contact_dispatch reg job w =
     (case contact_slot reg (cj_provider job) of
        None \<Rightarrow> (Err (contact_not_configured
            (contact_provider_as_str (cj_provider job) @ '' provider is not configured'')), w)
      | Some p \<Rightarrow>
          if cp_kind p \<noteq> cj_provider job
          then (Err (contact_internal ''contact registry returned the wrong provider kind''), w)
          else case limiter_slot reg (cj_provider job) of
            None \<Rightarrow> on_contact_world (cp_send p job) w
          | Some i \<Rightarrow>
              (case try_acquire i w of
                 (Inl retry_after, w') \<Rightarrow> (Err (contact_throttled retry_after), w')
               | (Inr _, w') \<Rightarrow> on_contact_world (cp_send p job) w'))"

definition contact_readiness :: "contact_provider option \<Rightarrow> readiness_view" where
  "contact_readiness p = readiness_view_of
     (case p of Some q \<Rightarrow> cp_readiness q
      | None \<Rightarrow> readiness_not_ready ''provider is not configured'')"

record contact_registry_readiness =
  crr_sendgrid :: readiness_view
  crr_twilio :: readiness_view

definition contact_registry_readiness_of :: "contact_registry \<Rightarrow> contact_registry_readiness" where
  "contact_registry_readiness_of reg =
     \<lparr>crr_sendgrid = contact_readiness (cr_sendgrid reg), crr_twilio = contact_readiness (cr_twilio reg)\<rparr>"

definition contact_has_configured_provider :: "contact_registry \<Rightarrow> bool" where
  "contact_has_configured_provider reg =
     list_ex (\<lambda>p. pr_configured (cp_readiness p)) (flatten [cr_sendgrid reg, cr_twilio reg])"

section \<open>What a registry promises\<close>

lemma contact_slot_with_provider:
  "contact_slot (contact_with_provider reg p) k = (if k = cp_kind p then Some p else contact_slot reg k)"
  by (cases k; cases "cp_kind p") (simp_all add: contact_with_provider_def)

lemma contact_slot_with_rate_limit [simp]:
  "contact_slot (fst (contact_with_rate_limit reg k n w)) k' = contact_slot reg k'"
  by (cases k; cases k') (simp_all add: contact_with_rate_limit_def split: prod.splits)

lemma try_acquire_frame:
  assumes "try_acquire i w = (r, w')"
  shows "silent (cw_world w) (cw_world w')" "length (cw_buckets w') = length (cw_buckets w)"
    "j \<noteq> i \<Longrightarrow> cw_buckets w' ! j = cw_buckets w ! j"
  using assms by (auto simp: try_acquire_def silent_clock split: prod.splits)

lemma try_acquire_hint: "try_acquire i w = (Inl d, w') \<Longrightarrow> d \<le> from_secs 60"
  by (auto simp: try_acquire_def try_take_def Let_def retry_hint_bounds split: prod.splits if_splits)

lemma contact_throttled_bounded: "d \<le> from_secs 60 \<Longrightarrow> contact_bounded (contact_throttled d)"
  by (auto simp: contact_throttled_def bounded_wait_def max_retry_after_def from_secs_def)

locale contact_dispatcher =
  fixes X :: externals and reg :: contact_registry
  assumes registered: "contact_slot reg k = Some p \<Longrightarrow> contact_adapter X p \<and> cp_kind p = k"
begin

lemma dispatch_cases:
  obtains (missing) "contact_slot reg (cj_provider job) = None"
      "contact_dispatch reg job w = (Err (contact_not_configured
         (contact_provider_as_str (cj_provider job) @ '' provider is not configured'')), w)"
  | (throttled) d w1 where "contact_dispatch reg job w = (Err (contact_throttled d), w1)"
      "d \<le> from_secs 60" "silent (cw_world w) (cw_world w1)"
  | (sent) p w1 where "contact_slot reg (cj_provider job) = Some p" "contact_adapter X p"
      "cp_kind p = cj_provider job"
      "contact_dispatch reg job w = on_contact_world (cp_send p job) w1"
      "silent (cw_world w) (cw_world w1)"
proof (cases "contact_slot reg (cj_provider job)")
  case None
  then show ?thesis by (intro missing) (simp_all add: contact_dispatch_def)
next
  case (Some p)
  note p = registered [OF Some]
  show ?thesis
  proof (cases "limiter_slot reg (cj_provider job)")
    case None
    with Some p show ?thesis by (intro sent [of p w]) (simp_all add: contact_dispatch_def)
  next
    case (Some i)
    obtain r w1 where a: "try_acquire i w = (r, w1)" by fastforce
    show ?thesis
    proof (cases r)
      case (Inl d)
      with a Some \<open>contact_slot reg (cj_provider job) = _\<close> p show ?thesis
        by (intro throttled [of d w1])
           (simp_all add: contact_dispatch_def try_acquire_hint try_acquire_frame(1))
    next
      case (Inr u)
      with a Some \<open>contact_slot reg (cj_provider job) = _\<close> p show ?thesis
        by (intro sent [of p w1]) (simp_all add: contact_dispatch_def try_acquire_frame(1))
    qed
  qed
qed

lemma dispatch_identity: "contact_dispatch reg job w = (Inr out, w') \<Longrightarrow> contact_outcome_of X job out"
  by (cases rule: dispatch_cases [of job w])
     (auto simp: on_contact_world_def dest: contact_adapter.outcome_identity split: prod.splits)

lemma dispatch_error_bounded: "contact_dispatch reg job w = (Inl e, w') \<Longrightarrow> contact_bounded e"
  by (cases rule: dispatch_cases [of job w])
     (auto simp: on_contact_world_def contact_throttled_bounded
       dest: contact_adapter.error_is_bounded split: prod.splits)

lemma dispatch_sent_valid:
  "contact_dispatch reg job w = (r, w') \<Longrightarrow> \<not> silent (cw_world w) (cw_world w') \<Longrightarrow> contact_job_ok X job"
  by (cases rule: dispatch_cases [of job w])
     (auto simp: on_contact_world_def silent_def dest: contact_adapter.sent_job_valid split: prod.splits)

lemma registered_with_provider:
  "contact_adapter X p \<Longrightarrow> contact_dispatcher X (contact_with_provider reg p)"
  using registered by unfold_locales (auto simp: contact_slot_with_provider split: if_splits)

lemma registered_with_rate_limit:
  "contact_dispatcher X (fst (contact_with_rate_limit reg k n w))"
  using registered by unfold_locales simp_all

end

lemma contact_dispatcher_new: "contact_dispatcher X contact_registry_new"
proof
  fix k p assume "contact_slot contact_registry_new k = Some p"
  then show "contact_adapter X p \<and> cp_kind p = k" by (cases k) (simp_all add: contact_registry_new_def)
qed

section \<open>Limits hold across dispatches\<close>

text \<open>Limiter addresses are allocated, and the two providers do not share a bucket.\<close>

definition limiters_wf :: "contact_registry \<Rightarrow> contact_world \<Rightarrow> bool" where
  "limiters_wf reg w \<longleftrightarrow>
     is_none_or (\<lambda>i. i < length (cw_buckets w)) (cr_sendgrid_limiter reg)
     \<and> is_none_or (\<lambda>i. i < length (cw_buckets w)) (cr_twilio_limiter reg)
     \<and> (case (cr_sendgrid_limiter reg, cr_twilio_limiter reg) of
          (Some i, Some j) \<Rightarrow> i \<noteq> j | _ \<Rightarrow> True)"

text \<open>
  Over a sequence of dispatches: how many jobs for a provider had a request sent, and the
  clock readings its limiter took.
\<close>

definition limiter_asked :: "contact_registry \<Rightarrow> contact_provider_kind \<Rightarrow> contact_job \<Rightarrow> bool" where
  "limiter_asked reg k job \<longleftrightarrow> cj_provider job = k
     \<and> is_some_and (\<lambda>p. cp_kind p = k) (contact_slot reg k) \<and> limiter_slot reg k \<noteq> None"

fun deliveries :: "contact_registry \<Rightarrow> contact_provider_kind \<Rightarrow> contact_job list \<Rightarrow> contact_world \<Rightarrow> nat" where
  "deliveries reg k [] w = 0"
| "deliveries reg k (job # jobs) w =
     (let w' = snd (contact_dispatch reg job w) in
      (if cj_provider job = k \<and> \<not> silent (cw_world w) (cw_world w') then 1 else 0)
        + deliveries reg k jobs w')"

fun limiter_readings ::
  "contact_registry \<Rightarrow> contact_provider_kind \<Rightarrow> contact_job list \<Rightarrow> contact_world \<Rightarrow> duration list" where
  "limiter_readings reg k [] w = []"
| "limiter_readings reg k (job # jobs) w =
     (if limiter_asked reg k job then [fst (instant_now (cw_world w))] else [])
       @ limiter_readings reg k jobs (snd (contact_dispatch reg job w))"

lemma on_contact_world_buckets [simp]: "cw_buckets (snd (on_contact_world f w)) = cw_buckets w"
  by (simp add: on_contact_world_def split: prod.splits)

lemma dispatch_buckets_length: "length (cw_buckets (snd (contact_dispatch reg job w))) = length (cw_buckets w)"
  by (auto simp: contact_dispatch_def try_acquire_frame(2) split: option.splits prod.splits sum.splits)

lemma limiters_distinct:
  "limiters_wf reg w \<Longrightarrow> limiter_slot reg k = Some i \<Longrightarrow> limiter_slot reg k' = Some j \<Longrightarrow>
     k \<noteq> k' \<Longrightarrow> i \<noteq> j"
  by (cases k; cases k') (auto simp: limiters_wf_def)

lemma limiter_allocated: "limiters_wf reg w \<Longrightarrow> limiter_slot reg k = Some i \<Longrightarrow> i < length (cw_buckets w)"
  by (cases k) (auto simp: limiters_wf_def)

text \<open>A job for another provider leaves the bucket of \<open>k\<close> alone.\<close>

lemma dispatch_other_bucket:
  assumes wf: "limiters_wf reg w" and k: "limiter_slot reg k = Some i" and "\<not> limiter_asked reg k job"
  shows "cw_buckets (snd (contact_dispatch reg job w)) ! i = cw_buckets w ! i"
proof (cases "limiter_slot reg (cj_provider job)")
  case None
  then show ?thesis by (auto simp: contact_dispatch_def split: option.splits)
next
  case (Some j)
  show ?thesis
  proof (cases "cj_provider job = k")
    case True
    with assms(3) Some have "\<not> is_some_and (\<lambda>p. cp_kind p = k) (contact_slot reg k)"
      by (simp add: limiter_asked_def)
    with True show ?thesis by (auto simp: contact_dispatch_def split: option.splits)
  next
    case False
    then have "i \<noteq> j" using limiters_distinct [OF wf k Some] by auto
    then show ?thesis
      by (auto simp: contact_dispatch_def Some try_acquire_frame(3) split: option.splits prod.splits sum.splits)
  qed
qed

lemma dispatch_asked_bucket:
  assumes wf: "limiters_wf reg w" and k: "limiter_slot reg k = Some i" and asked: "limiter_asked reg k job"
  defines "t \<equiv> try_take (cw_buckets w ! i) (fst (instant_now (cw_world w)))"
  shows "cw_buckets (snd (contact_dispatch reg job w)) ! i = snd t"
    and "\<not> silent (cw_world w) (cw_world (snd (contact_dispatch reg job w))) \<Longrightarrow> \<exists>u. fst t = Inr u"
proof -
  obtain p where p: "contact_slot reg (cj_provider job) = Some p" "cp_kind p = cj_provider job"
    "cj_provider job = k"
    using asked by (auto simp: limiter_asked_def is_some_and_iff)
  note i = limiter_allocated [OF wf k]
  obtain r w1 where a: "try_acquire i w = (r, w1)" by fastforce
  then have r: "r = fst t" and b: "cw_buckets w1 ! i = snd t"
    using i by (auto simp: try_acquire_def t_def split: prod.splits)
  show "cw_buckets (snd (contact_dispatch reg job w)) ! i = snd t"
    using p k a b by (auto simp: contact_dispatch_def split: sum.splits)
  show "\<exists>u. fst t = Inr u" if "\<not> silent (cw_world w) (cw_world (snd (contact_dispatch reg job w)))"
    unfolding r [symmetric]
    using that p k a try_acquire_frame(1) [OF a] by (cases r) (auto simp: contact_dispatch_def)
qed

lemma limiters_wf_dispatch: "limiters_wf reg w \<Longrightarrow> limiters_wf reg (snd (contact_dispatch reg job w))"
  by (simp add: limiters_wf_def dispatch_buckets_length)

lemma deliveries_le_grants:
  "limiters_wf reg w \<Longrightarrow> limiter_slot reg k = Some i \<Longrightarrow>
     deliveries reg k jobs w \<le> grants (cw_buckets w ! i) (limiter_readings reg k jobs w)"
proof (induction jobs arbitrary: w)
  case (Cons job jobs)
  define w' where "w' = snd (contact_dispatch reg job w)"
  have IH: "deliveries reg k jobs w' \<le> grants (cw_buckets w' ! i) (limiter_readings reg k jobs w')"
    unfolding w'_def using Cons.prems by (intro Cons.IH limiters_wf_dispatch)
  show ?case
  proof (cases "limiter_asked reg k job")
    case True
    note b = dispatch_asked_bucket [OF Cons.prems True]
    from IH b show ?thesis using True
      by (auto simp: w'_def [symmetric] Let_def split: sum.splits)
  next
    case False
    have quiet: "silent (cw_world w) (cw_world w')" if "cj_provider job = k"
      using that False Cons.prems(2)
      by (auto simp: w'_def contact_dispatch_def limiter_asked_def split: option.splits)
    from IH dispatch_other_bucket [OF Cons.prems False] show ?thesis
      using False quiet by (auto simp: w'_def [symmetric] Let_def)
  qed
qed simp

text \<open>The limiter's bound, for the jobs of one provider that have a request sent.\<close>

lemma deliveries_limited:
  assumes "limiters_wf reg w" and "limiter_slot reg k = Some i"
    and b: "cw_buckets w ! i = limiter_per_minute limit start"
  shows "of_nat (deliveries reg k jobs w)
    \<le> of_nat (limit_of limit)
      + seconds (elapsed start (limiter_readings reg k jobs w))
          * (of_nat (limit_of limit) / 60) * (1 + 1 / 2 ^ 50)
      + (of_nat (length (limiter_readings reg k jobs w)) / 2 ^ 20 :: rat)"
proof -
  have "(of_nat (deliveries reg k jobs w) :: rat)
      \<le> of_nat (grants (limiter_per_minute limit start) (limiter_readings reg k jobs w))"
    using deliveries_le_grants [OF assms(1,2), of jobs] unfolding b of_nat_le_iff .
  then show ?thesis using grants_limited order_trans by blast
qed

lemma with_rate_limit_result:
  assumes "contact_with_rate_limit reg k limit w = (reg', w')" and "limiters_wf reg w"
  shows "limiters_wf reg' w'" "limiter_slot reg' k = Some (length (cw_buckets w))"
    "cw_buckets w' ! length (cw_buckets w) = limiter_per_minute limit (fst (instant_now (cw_world w)))"
    "i < length (cw_buckets w) \<Longrightarrow> cw_buckets w' ! i = cw_buckets w ! i"
    "k' \<noteq> k \<Longrightarrow> limiter_slot reg' k' = limiter_slot reg k'"
    "silent (cw_world w) (cw_world w')" "contact_slot reg' = contact_slot reg"
    "length (cw_buckets w') = Suc (length (cw_buckets w))"
proof -
  obtain t w1 where n: "instant_now (cw_world w) = (t, w1)" by fastforce
  note defs = contact_with_rate_limit_def new_limiter_def n
  have w': "w' = w\<lparr>cw_world := w1, cw_buckets := cw_buckets w @ [limiter_per_minute limit t]\<rparr>"
    using assms(1) by (simp add: defs)
  show "limiters_wf reg' w'"
    using assms by (cases k) (auto simp: defs limiters_wf_def is_none_or_def split: option.splits)
  show "limiter_slot reg' k = Some (length (cw_buckets w))" "k' \<noteq> k \<Longrightarrow> limiter_slot reg' k' = limiter_slot reg k'"
    using assms(1) by (cases k; cases k'; auto simp: defs)+
  show "contact_slot reg' = contact_slot reg"
    using contact_slot_with_rate_limit [of reg k limit w] assms(1) by auto
  show "silent (cw_world w) (cw_world w')" using n silent_clock(2) [OF n] by (simp add: w')
  show "cw_buckets w' ! length (cw_buckets w) = limiter_per_minute limit (fst (instant_now (cw_world w)))"
    "i < length (cw_buckets w) \<Longrightarrow> cw_buckets w' ! i = cw_buckets w ! i"
    "length (cw_buckets w') = Suc (length (cw_buckets w))"
    by (simp_all add: w' n nth_append)
qed

definition demo_contact_world :: contact_world where
  "demo_contact_world = \<lparr>cw_world = demo_world, cw_buckets = []\<rparr>"

end
