(* ===== verification/Sendgrid.thy ===== *)
theory Sendgrid
  imports Contact_Dispatch
begin

text \<open>
  The SendGrid email adapter (\<open>src/contact/sendgrid.rs\<close>): configuration, the Mail Send body,
  the request and the classification of its answer. \<open>serde_json\<close>'s decoding of an error
  document is an argument (\<open>sendgrid_codec\<close>).
\<close>

section \<open>Configuration\<close>

datatype sendgrid_region = GlobalRegion | EuropeRegion

datatype sendgrid_config_error =
    SendgridInvalidApiKey
  | SendgridInvalidFromEmail
  | SendgridInvalidFromName
  | SendgridInvalidApiBaseUrl
  | SendgridHttpClient
  | SendgridConstantUrlPanic \<comment> \<open>\<open>expect\<close> on a constant URL\<close>

record sendgrid_config =
  sg_api_key :: string
  sg_from_email :: string
  sg_from_name :: "string option"
  sg_api_base_url :: url
  sg_sandbox_mode :: bool
  sg_request_timeout :: duration

record sendgrid_codec =
  sgx_error_fields :: "string \<Rightarrow> string option list option"
    \<comment> \<open>the \<open>field\<close> of each error of an error document\<close>

definition sendgrid_code_bytes :: nat where "sendgrid_code_bytes = 256"

fun region_base_url :: "sendgrid_region \<Rightarrow> string" where
  "region_base_url GlobalRegion = ''https://api.sendgrid.com/''"
| "region_base_url EuropeRegion = ''https://api.eu.sendgrid.com/''"

definition sendgrid_base_url :: "externals \<Rightarrow> sendgrid_region \<Rightarrow> sendgrid_config_error + url" where
  "sendgrid_base_url X region = ok_or SendgridConstantUrlPanic (x_parse_url X (region_base_url region))"

definition sendgrid_config_new ::
  "externals \<Rightarrow> string \<Rightarrow> string \<Rightarrow> string option \<Rightarrow> sendgrid_region \<Rightarrow>
   sendgrid_config_error + sendgrid_config" where
  "sendgrid_config_new X api_key from_email from_name region =
     (let api_key = trim api_key in
      if \<not> (20 \<le> length api_key \<and> length api_key \<le> 512) \<or> any_char is_control api_key
      then Err SendgridInvalidApiKey
      else let from_email = to_ascii_lowercase (trim from_email) in
      if \<not> valid_email_address from_email then Err SendgridInvalidFromEmail
      else let from_name = opt_filter (\<lambda>v. v \<noteq> []) (map_option trim from_name) in
      if is_some_and (\<lambda>v. length v > 256 \<or> any_char is_control v) from_name
      then Err SendgridInvalidFromName
      else and_then (sendgrid_base_url X region) (\<lambda>base.
        Ok \<lparr>sg_api_key = api_key, sg_from_email = from_email, sg_from_name = from_name,
            sg_api_base_url = base, sg_sandbox_mode = False,
            sg_request_timeout = contact_request_timeout\<rparr>))"

definition sendgrid_with_sandbox_mode :: "sendgrid_config \<Rightarrow> bool \<Rightarrow> sendgrid_config" where
  "sendgrid_with_sandbox_mode cfg enabled = cfg\<lparr>sg_sandbox_mode := enabled\<rparr>"

definition sendgrid_with_api_base_url ::
  "sendgrid_config \<Rightarrow> url \<Rightarrow> sendgrid_config_error + sendgrid_config" where
  "sendgrid_with_api_base_url cfg u =
     (if \<not> https_base_url u then Err SendgridInvalidApiBaseUrl
      else Ok (cfg\<lparr>sg_api_base_url := u\<rparr>))"

definition sendgrid_with_request_timeout :: "duration \<Rightarrow> sendgrid_config \<Rightarrow> sendgrid_config" where
  "sendgrid_with_request_timeout timeout cfg = cfg\<lparr>sg_request_timeout := timeout\<rparr>"

section \<open>The Mail Send body\<close>

definition recipient_json :: "string \<Rightarrow> string option \<Rightarrow> json" where
  "recipient_json address name =
     JObj (json_members [string_entry ''email'' (Some address), string_entry ''name'' name])"

definition personalization_json :: "string \<Rightarrow> string option \<Rightarrow> email_content \<Rightarrow> json" where
  "personalization_json address name c = JObj (json_members
     [Some (''to'', JArr [recipient_json address name]),
      then_some (ec_dynamic_template_data c \<noteq> [])
        (''dynamic_template_data'', JObj (bt_collect (ec_dynamic_template_data c)))])"

definition content_part :: "string \<Rightarrow> string \<Rightarrow> json" where
  "content_part mime v = JObj (bt_collect [(''type'', JStr mime), (''value'', JStr v)])"

text \<open>Either a dynamic template or explicit subject and content.\<close>

definition content_members :: "email_content \<Rightarrow> (string \<times> json) list" where
  "content_members c =
     (case ec_template_id c of
        Some template_id \<Rightarrow> [(''template_id'', JStr template_id)]
      | None \<Rightarrow>
          [(''subject'', JStr (unwrap_or [] (ec_subject c))),
           (''content'', JArr (flatten
             [map_option (content_part ''text/plain'') (ec_text c),
              map_option (content_part ''text/html'') (ec_html c)]))])"

definition mail_body :: "sendgrid_config \<Rightarrow> string \<Rightarrow> string option \<Rightarrow> email_content \<Rightarrow> json" where
  "mail_body cfg address name c = JObj (bt_collect (
     flatten
       [Some (''personalizations'', JArr [personalization_json address name c]),
        Some (''from'', recipient_json (sg_from_email cfg) (sg_from_name cfg)),
        map_option (\<lambda>r. (''reply_to'', JObj (bt_collect [(''email'', JStr r)]))) (ec_reply_to c)]
     @ content_members c
     @ flatten [then_some (sg_sandbox_mode cfg)
         (''mail_settings'', JObj (bt_collect [(''sandbox_mode'',
            JObj (bt_collect [(''enable'', JBool True)]))]))]))"

definition build_mail_send_body ::
  "contact_job \<Rightarrow> sendgrid_config \<Rightarrow> contact_provider_error + json" where
  "build_mail_send_body job cfg =
     (case cj_target job of
        EmailTarget address name \<Rightarrow>
          (case cj_content job of
             EmailContent c \<Rightarrow> Ok (mail_body cfg address name c)
           | _ \<Rightarrow> Err (contact_mismatch ''SendGrid provider received non-email content''
                    ''provider_content_mismatch''))
      | _ \<Rightarrow> Err (contact_mismatch ''SendGrid provider received a non-email target''
               ''provider_target_mismatch''))"

section \<open>Answers\<close>

definition sanitize_error_field :: "string \<Rightarrow> string option" where
  "sanitize_error_field s =
     (if length s > 128 \<or> s = []
         \<or> any_char (\<lambda>c. \<not> (is_ascii_alphanumeric c \<or> one_of ''._[]'' c)) s
      then None else Some s)"

definition sendgrid_provider_code :: "string \<Rightarrow> string option" where
  "sendgrid_provider_code s =
     (if s = [] \<or> length s > sendgrid_code_bytes \<or> any_char control_or_space s then None else Some s)"

fun first_some :: "'a option list \<Rightarrow> 'a option" where
  "first_some [] = None"
| "first_some (x # xs) = or_else x (first_some xs)"

definition sendgrid_failure_class :: "nat \<Rightarrow> duration option \<Rightarrow> contact_outcome_class" where
  "sendgrid_failure_class status retry_after =
     (if status = 400 \<or> status = 413 \<or> status = 406 then ContactInvalidPayload
      else if status = 429 then ContactThrottled
      else if rd_retryable (classify_http_status status retry_after) then ContactTransientFailure
      else ContactPermanentFailure)"

definition sendgrid_failure_detail :: "sendgrid_codec \<Rightarrow> nat \<Rightarrow> string \<Rightarrow> string" where
  "sendgrid_failure_detail C status text =
     (case Option.bind (Option.bind (sgx_error_fields C text) first_some) sanitize_error_field of
        Some field \<Rightarrow> ''SendGrid rejected the request with HTTP '' @ show_nat status
          @ '' in field '' @ field
      | None \<Rightarrow> ''SendGrid rejected the request with HTTP '' @ show_nat status)"

definition classify_sendgrid_failure ::
  "sendgrid_codec \<Rightarrow> nat \<Rightarrow> string \<Rightarrow> duration option \<Rightarrow>
   contact_outcome_class \<times> string \<times> string option" where
  "classify_sendgrid_failure C status text retry_after =
     (sendgrid_failure_class status retry_after,
      truncate_utf8 (sendgrid_failure_detail C status text) 512,
      Some (''http_'' @ show_nat status))"

definition sendgrid_outcome ::
  "externals \<Rightarrow> sendgrid_codec \<Rightarrow> contact_job \<Rightarrow> http_response \<Rightarrow> duration option \<Rightarrow> contact_outcome" where
  "sendgrid_outcome X C job rs retry_after =
     (let message_id = Option.bind (rs_header rs ''x-message-id'') sendgrid_provider_code;
          text = unwrap_or [] (rs_text rs)
      in if is_success (rs_status rs) then contact_accepted X job message_id
         else case classify_sendgrid_failure C (rs_status rs) text retry_after of
           (class, safe_detail, provider_code) \<Rightarrow>
             \<lparr>co_version = cj_version job,
              co_job_id = cj_job_id job,
              co_provider = Sendgrid,
              co_target_fingerprint = contact_fingerprint X (cj_target job),
              co_class = class,
              co_provider_code = provider_code,
              co_retry_after_ms = map_option duration_to_millis retry_after,
              co_safe_detail = Some safe_detail\<rparr>)"

section \<open>Sending\<close>

definition mail_send_url :: "externals \<Rightarrow> sendgrid_config \<Rightarrow> contact_provider_error + url" where
  "mail_send_url X cfg =
     ok_or (contact_internal ''SendGrid endpoint could not be constructed'')
       (x_join_url X (sg_api_base_url cfg) ''v3/mail/send'')"

definition sendgrid_request :: "sendgrid_config \<Rightarrow> url \<Rightarrow> json \<Rightarrow> http_request" where
  "sendgrid_request cfg u body =
     \<lparr>rq_url = u, rq_auth = Bearer (sg_api_key cfg), rq_headers = [], rq_body = JsonBody body\<rparr>"

definition sendgrid_deliver ::
  "externals \<Rightarrow> sendgrid_codec \<Rightarrow> sendgrid_config \<Rightarrow> contact_job \<Rightarrow>
   (contact_provider_error, world, contact_outcome) io" where
  "sendgrid_deliver X C cfg job =
     io_bind (io_lift (build_mail_send_body job cfg)) (\<lambda>body.
     io_bind (io_lift (mail_send_url X cfg)) (\<lambda>u.
       post_and_classify X ''SendGrid request failed'' (sendgrid_request cfg u body) (sendgrid_outcome X C job)))"

definition sendgrid_send_email ::
  "externals \<Rightarrow> sendgrid_codec \<Rightarrow> sendgrid_config \<Rightarrow> contact_job \<Rightarrow>
   (contact_provider_error, world, contact_outcome) io" where
  "sendgrid_send_email X C cfg job =
     io_bind (io_lift (contact_job_check X job)) (\<lambda>_. sendgrid_deliver X C cfg job)"

definition sendgrid_provider ::
  "externals \<Rightarrow> sendgrid_codec \<Rightarrow> sendgrid_config \<Rightarrow> contact_provider" where
  "sendgrid_provider X C cfg =
     \<lparr>cp_kind = Sendgrid, cp_readiness = readiness_ready, cp_send = sendgrid_send_email X C cfg\<rparr>"

section \<open>The adapter contract\<close>

lemma sendgrid_outcome_of:
  "cj_provider job = Sendgrid \<Longrightarrow> contact_outcome_of X job (sendgrid_outcome X C job rs r)"
  by (simp add: contact_outcome_of_def sendgrid_outcome_def Let_def classify_sendgrid_failure_def)

lemma build_mail_send_body_provider:
  "build_mail_send_body job cfg = Ok body \<Longrightarrow> contact_job_ok X job \<Longrightarrow> cj_provider job = Sendgrid"
  by (auto simp: build_mail_send_body_def dest: contact_job_ok_channel split: contact_target.splits)

lemma sendgrid_deliver_post:
  assumes "contact_job_ok X job"
  shows "io_post contact_bounded (contact_outcome_of X job) (sendgrid_deliver X C cfg job)"
proof (cases "build_mail_send_body job cfg")
  case (Inl e)
  then have "contact_bounded e"
    by (auto simp: build_mail_send_body_def contact_mismatch_def
        split: contact_target.splits contact_content.splits)
  with Inl show ?thesis by (simp add: sendgrid_deliver_def)
next
  case (Inr body)
  note p = build_mail_send_body_provider [OF Inr assms]
  show ?thesis
    unfolding sendgrid_deliver_def Inr io_lift_simps mail_send_url_def
    by (intro io_post_bind [where R = "\<lambda>_. True"] lift_ok_or_post post_and_classify_post)
       (simp_all add: sendgrid_outcome_of [OF p])
qed

lemma sendgrid_contact_adapter: "contact_adapter X (sendgrid_provider X C cfg)"
proof (rule contact_adapterI)
  show "cp_send (sendgrid_provider X C cfg) job
      = io_bind (io_lift (contact_job_check X job)) (\<lambda>_. sendgrid_deliver X C cfg job)" for job
    by (simp add: sendgrid_provider_def sendgrid_send_email_def)
  show "\<exists>e. sendgrid_deliver X C cfg job w = (Err e, w) \<and> contact_error_class e = ContactInvalidPayload"
    if "contact_job_ok X job" "cj_provider job \<noteq> cp_kind (sendgrid_provider X C cfg)" for job w
    using that contact_job_ok_channel [OF that(1)]
    by (cases "cj_target job")
       (auto simp: sendgrid_provider_def sendgrid_deliver_def build_mail_send_body_def
         contact_mismatch_def io_throw_def)
qed (auto simp: sendgrid_provider_def readiness_ready_def sendgrid_deliver_post)

interpretation sendgrid: contact_adapter X "sendgrid_provider X C cfg" for X C cfg
  by (rule sendgrid_contact_adapter)

text \<open>\<open>new\<close>: building the HTTP client may fail, as \<open>client\<close> says.\<close>

definition sendgrid_provider_new ::
  "externals \<Rightarrow> sendgrid_codec \<Rightarrow> bool \<Rightarrow> sendgrid_config \<Rightarrow> sendgrid_config_error + contact_provider" where
  "sendgrid_provider_new X C client cfg =
     (if \<not> client then Err SendgridHttpClient else Ok (sendgrid_provider X C cfg))"

section \<open>Properties\<close>

text \<open>The one request a job leads to, if any.\<close>

definition sendgrid_post :: "externals \<Rightarrow> sendgrid_config \<Rightarrow> contact_job \<Rightarrow> http_request option" where
  "sendgrid_post X cfg job =
     (if \<not> contact_job_ok X job then None
      else case (cj_target job, cj_content job, x_join_url X (sg_api_base_url cfg) ''v3/mail/send'') of
        (EmailTarget address name, EmailContent c, Some u) \<Rightarrow>
          Some (sendgrid_request cfg u (mail_body cfg address name c))
      | _ \<Rightarrow> None)"

lemma sendgrid_outcome_fields:
  "is_success (rs_status rs) \<Longrightarrow> co_class (sendgrid_outcome X C job rs ra) = ContactAccepted
     \<and> co_provider_code (sendgrid_outcome X C job rs ra)
         = Option.bind (rs_header rs ''x-message-id'') sendgrid_provider_code"
  "\<not> is_success (rs_status rs) \<Longrightarrow>
     co_class (sendgrid_outcome X C job rs ra) = sendgrid_failure_class (rs_status rs) ra
     \<and> co_provider_code (sendgrid_outcome X C job rs ra) = Some (''http_'' @ show_nat (rs_status rs))
     \<and> co_retry_after_ms (sendgrid_outcome X C job rs ra) = map_option duration_to_millis ra
     \<and> is_some_and (\<lambda>d. length d \<le> 512) (co_safe_detail (sendgrid_outcome X C job rs ra))"
  by (simp_all add: sendgrid_outcome_def Let_def classify_sendgrid_failure_def truncate_length)

lemma sendgrid_failure_table:
  "sendgrid_failure_class status ra =
     (if status \<in> {400, 406, 413} then ContactInvalidPayload
      else if status = 429 then ContactThrottled
      else if status \<in> {408, 425} \<union> {500..599} then ContactTransientFailure
      else ContactPermanentFailure)"
  by (simp add: sendgrid_failure_class_def classify_http_status_retryable)


text \<open>
  The Mail Send body names exactly one recipient, the job's address and name, and as sender
  the configured one, whatever the job says; template data, reply-to and sandbox mode appear
  exactly when they are set; and it holds either the template id or the subject with one part
  per given body, never both.
\<close>

theorem mail_body_spec:
  "case build_mail_send_body job cfg of
     Inl e \<Rightarrow> contact_error_class e = ContactInvalidPayload
   | Inr body \<Rightarrow> \<exists>address name c p rcpt.
       cj_target job = EmailTarget address name \<and> cj_content job = EmailContent c
       \<and> json_get body ''personalizations'' = Some (JArr [p]) \<and> json_get p ''to'' = Some (JArr [rcpt])
       \<and> json_get rcpt ''email'' = Some (JStr address) \<and> json_get rcpt ''name'' = map_option JStr name
       \<and> json_get p ''dynamic_template_data''
           = (if ec_dynamic_template_data c = [] then None else Some (JObj (bt_collect (ec_dynamic_template_data c))))
       \<and> Option.bind (json_get body ''from'') (\<lambda>f. json_get f ''email'') = Some (JStr (sg_from_email cfg))
       \<and> Option.bind (json_get body ''reply_to'') (\<lambda>f. json_get f ''email'') = map_option JStr (ec_reply_to c)
       \<and> (json_get body ''mail_settings'' = None \<longleftrightarrow> \<not> sg_sandbox_mode cfg)
       \<and> json_get body ''template_id'' = map_option JStr (ec_template_id c)
       \<and> json_get body ''subject''
           = (if ec_template_id c = None then Some (JStr (unwrap_or [] (ec_subject c))) else None)
       \<and> json_get body ''content''
           = (if ec_template_id c = None
              then Some (JArr (flatten [map_option (content_part ''text/plain'') (ec_text c),
                map_option (content_part ''text/html'') (ec_html c)]))
              else None)"
proof (cases "build_mail_send_body job cfg")
  case (Inl e)
  then show ?thesis
    by (auto simp: build_mail_send_body_def contact_mismatch_def split: contact_target.splits contact_content.splits)
next
  case (Inr body)
  then obtain address name c where job: "cj_target job = EmailTarget address name" "cj_content job = EmailContent c"
    and body: "body = mail_body cfg address name c"
    by (auto simp: build_mail_send_body_def split: contact_target.splits contact_content.splits)
  have members: "json_get body k = map_of (rev (
       flatten [Some (''personalizations'', JArr [personalization_json address name c]),
         Some (''from'', recipient_json (sg_from_email cfg) (sg_from_name cfg)),
         map_option (\<lambda>r. (''reply_to'', JObj (bt_collect [(''email'', JStr r)]))) (ec_reply_to c)]
       @ content_members c
       @ flatten [then_some (sg_sandbox_mode cfg) (''mail_settings'', JObj (bt_collect [(''sandbox_mode'',
            JObj (bt_collect [(''enable'', JBool True)]))]))])) k" for k
    by (simp add: body mail_body_def map_of_bt_collect)
  have rcpt: "json_get (recipient_json a n) ''email'' = Some (JStr a)"
    "json_get (recipient_json a n) ''name'' = map_option JStr n" for a n
    by (cases n; simp add: recipient_json_def map_of_members string_entry_def)+
  have pers: "json_get (personalization_json address name c) ''to'' = Some (JArr [recipient_json address name])"
    "json_get (personalization_json address name c) ''dynamic_template_data''
      = (if ec_dynamic_template_data c = [] then None else Some (JObj (bt_collect (ec_dynamic_template_data c))))"
    by (simp_all add: personalization_json_def map_of_members then_some_def)
  have one: "map_of (bt_collect [(''email'', JStr r)]) ''email'' = Some (JStr r)" for r
    by (simp add: map_of_bt_collect)
  show ?thesis
    unfolding Inr sum.case
    by (intro exI [of _ address] exI [of _ name] exI [of _ c] exI [of _ "personalization_json address name c"]
          exI [of _ "recipient_json address name"] conjI job rcpt pers;
        cases "ec_template_id c"; cases "ec_reply_to c"; cases "sg_sandbox_mode cfg";
        simp add: members content_members_def rcpt one)
qed

text \<open>
  A blank template id: validation treats the email as explicit content, and the body then
  carries the blank id and neither subject nor content.
\<close>

definition blank_template_job :: contact_job where
  "blank_template_job = demo_email_job\<lparr>cj_content := EmailContent \<lparr>ec_subject = Some ''Hello'',
     ec_text = Some ''World'', ec_html = None, ec_template_id = Some '' '',
     ec_dynamic_template_data = [], ec_reply_to = None\<rparr>\<rparr>"

lemma blank_template_drops_content:
  "contact_job_ok demo_externals blank_template_job
   \<and> (case build_mail_send_body blank_template_job cfg of
        Inl _ \<Rightarrow> False
      | Inr body \<Rightarrow> json_get body ''template_id'' = Some (JStr '' '')
          \<and> json_get body ''subject'' = None \<and> json_get body ''content'' = None)"
proof
  show "contact_job_ok demo_externals blank_template_job" by code_simp
  show "case build_mail_send_body blank_template_job cfg of
        Inl _ \<Rightarrow> False
      | Inr body \<Rightarrow> json_get body ''template_id'' = Some (JStr '' '')
          \<and> json_get body ''subject'' = None \<and> json_get body ''content'' = None"
    by (simp add: build_mail_send_body_def blank_template_job_def demo_email_job_def mail_body_def
        map_of_bt_collect content_members_def then_some_def)
qed

end
