(* ===== verification/Twilio.thy ===== *)
theory Twilio
  imports Contact_Dispatch
begin

text \<open>
  The Twilio SMS adapter (\<open>src/contact/twilio.rs\<close>): credentials and sender, the message form,
  the request and the classification of provider codes. \<open>serde_json\<close>'s decoding of a message
  document is an argument (\<open>twilio_codec\<close>).
\<close>

section \<open>Configuration\<close>

datatype twilio_credentials = AuthToken string | ApiKey string string \<comment> \<open>SID and secret\<close>

datatype twilio_sender = MessagingService string | PhoneNumber string

datatype twilio_config_error =
    InvalidAccountSid
  | InvalidAuthToken
  | InvalidApiKeySid
  | InvalidApiKeySecret
  | InvalidMessagingServiceSid
  | InvalidFromNumber
  | InvalidStatusCallbackUrl
  | InvalidValidityPeriod
  | TwilioInvalidApiBaseUrl
  | TwilioHttpClient
  | TwilioConstantUrlPanic \<comment> \<open>\<open>expect\<close> on a constant URL\<close>

record twilio_config =
  tw_account_sid :: string
  tw_credentials :: twilio_credentials
  tw_sender :: twilio_sender
  tw_status_callback_url :: "url option"
  tw_validity_period_seconds :: "u32 option"
  tw_api_base_url :: url
  tw_request_timeout :: duration

record twilio_message =
  tm_sid :: "string option"
  tm_code :: "u32 option"
  tm_error_code :: "u32 option"

record twilio_codec =
  twx_message :: "string \<Rightarrow> twilio_message option"

definition twilio_api_base :: string where "twilio_api_base = ''https://api.twilio.com/''"
definition twilio_code_bytes :: nat where "twilio_code_bytes = 128"

definition valid_twilio_sid :: "string \<Rightarrow> string \<Rightarrow> bool" where
  "valid_twilio_sid s prefix \<longleftrightarrow> length s = 34 \<and> starts_with prefix s
     \<and> all_chars is_ascii_hexdigit (drop (length prefix) s)"

definition valid_secret :: "string \<Rightarrow> bool" where
  "valid_secret s \<longleftrightarrow> 16 \<le> length s \<and> length s \<le> 512 \<and> \<not> any_char is_control s"

fun validate_credentials :: "twilio_credentials \<Rightarrow> twilio_config_error + unit" where
  "validate_credentials (AuthToken token) =
     (if \<not> valid_secret token then Err InvalidAuthToken else Ok ())"
| "validate_credentials (ApiKey sid secret) =
     (if \<not> valid_twilio_sid sid ''SK'' then Err InvalidApiKeySid
      else if \<not> valid_secret secret then Err InvalidApiKeySecret
      else Ok ())"

fun validate_sender :: "twilio_sender \<Rightarrow> twilio_config_error + unit" where
  "validate_sender (MessagingService sid) =
     (if \<not> valid_twilio_sid sid ''MG'' then Err InvalidMessagingServiceSid else Ok ())"
| "validate_sender (PhoneNumber e164) =
     (if \<not> valid_e164 e164 then Err InvalidFromNumber else Ok ())"

definition twilio_config_new ::
  "externals \<Rightarrow> string \<Rightarrow> twilio_credentials \<Rightarrow> twilio_sender \<Rightarrow> twilio_config_error + twilio_config" where
  "twilio_config_new X account_sid credentials sender =
     (let account_sid = trim account_sid in
      if \<not> valid_twilio_sid account_sid ''AC'' then Err InvalidAccountSid
      else
        and_then (validate_credentials credentials) (\<lambda>_.
        and_then (validate_sender sender) (\<lambda>_.
        and_then (ok_or TwilioConstantUrlPanic (x_parse_url X twilio_api_base)) (\<lambda>base.
          Ok \<lparr>tw_account_sid = account_sid, tw_credentials = credentials, tw_sender = sender,
              tw_status_callback_url = None, tw_validity_period_seconds = None,
              tw_api_base_url = base, tw_request_timeout = contact_request_timeout\<rparr>))))"

definition with_status_callback_url :: "twilio_config \<Rightarrow> url \<Rightarrow> twilio_config_error + twilio_config" where
  "with_status_callback_url cfg u =
     (if \<not> https_base_url u \<or> url_fragment u \<noteq> None then Err InvalidStatusCallbackUrl
      else Ok (cfg\<lparr>tw_status_callback_url := Some u\<rparr>))"

definition with_validity_period_seconds ::
  "twilio_config \<Rightarrow> u32 \<Rightarrow> twilio_config_error + twilio_config" where
  "with_validity_period_seconds cfg n =
     (if \<not> (1 \<le> n \<and> n \<le> 36000) then Err InvalidValidityPeriod
      else Ok (cfg\<lparr>tw_validity_period_seconds := Some n\<rparr>))"

definition twilio_with_request_timeout :: "duration \<Rightarrow> twilio_config \<Rightarrow> twilio_config" where
  "twilio_with_request_timeout timeout cfg = cfg\<lparr>tw_request_timeout := timeout\<rparr>"

definition twilio_with_api_base_url :: "twilio_config \<Rightarrow> url \<Rightarrow> twilio_config_error + twilio_config" where
  "twilio_with_api_base_url cfg u =
     (if \<not> https_base_url u then Err TwilioInvalidApiBaseUrl else Ok (cfg\<lparr>tw_api_base_url := u\<rparr>))"

section \<open>The message form\<close>

fun sender_field :: "twilio_sender \<Rightarrow> string \<times> string" where
  "sender_field (MessagingService sid) = (''MessagingServiceSid'', sid)"
| "sender_field (PhoneNumber e164) = (''From'', e164)"

definition twilio_form :: "twilio_config \<Rightarrow> string \<Rightarrow> string \<Rightarrow> (string \<times> string) list" where
  "twilio_form cfg e164 body = bt_collect (flatten
     [Some (''To'', e164), Some (''Body'', body), Some (sender_field (tw_sender cfg)),
      map_option (\<lambda>u. (''StatusCallback'', url_as_str u)) (tw_status_callback_url cfg),
      map_option (\<lambda>n. (''ValidityPeriod'', show_nat (unat n))) (tw_validity_period_seconds cfg)])"

definition build_twilio_form ::
  "contact_job \<Rightarrow> twilio_config \<Rightarrow> contact_provider_error + (string \<times> string) list" where
  "build_twilio_form job cfg =
     (case cj_target job of
        SmsTarget e164 \<Rightarrow>
          (case cj_content job of
             SmsContent body \<Rightarrow> Ok (twilio_form cfg e164 body)
           | _ \<Rightarrow> Err (contact_mismatch ''Twilio provider received non-SMS content''
                    ''provider_content_mismatch''))
      | _ \<Rightarrow> Err (contact_mismatch ''Twilio provider received a non-SMS target''
               ''provider_target_mismatch''))"

section \<open>Answers\<close>

definition twilio_error_class ::
  "nat \<Rightarrow> u32 option \<Rightarrow> duration option \<Rightarrow> contact_outcome_class" where
  "twilio_error_class status error_code retry_after =
     (if is_some_and (\<lambda>c. c \<in> set [21211, 21612, 21614, 21610, 30003, 30005, 30006]) error_code
      then ContactInvalidTarget
      else if is_some_and (\<lambda>c. c \<in> set [21602, 21617]) error_code then ContactInvalidPayload
      else if is_some_and (\<lambda>c. c \<in> set [20003, 20404, 21606, 21608]) error_code
      then ContactPermanentFailure
      else if status = 429 then ContactThrottled
      else if rd_retryable (classify_http_status status retry_after) then ContactTransientFailure
      else if status = 400 then ContactInvalidPayload
      else ContactPermanentFailure)"

definition outcome_for_twilio_error ::
  "externals \<Rightarrow> contact_job \<Rightarrow> nat \<Rightarrow> u32 option \<Rightarrow> duration option \<Rightarrow> contact_outcome" where
  "outcome_for_twilio_error X job status error_code retry_after =
     \<lparr>co_version = cj_version job,
      co_job_id = cj_job_id job,
      co_provider = Twilio,
      co_target_fingerprint = contact_fingerprint X (cj_target job),
      co_class = twilio_error_class status error_code retry_after,
      co_provider_code = or_else (map_option (\<lambda>c. ''twilio_'' @ show_nat (unat c)) error_code)
        (Some (''http_'' @ show_nat status)),
      co_retry_after_ms = map_option duration_to_millis retry_after,
      co_safe_detail = Some (truncate_utf8
        (case error_code of
           Some c \<Rightarrow> ''Twilio rejected the request with provider code '' @ show_nat (unat c)
             @ '' and HTTP '' @ show_nat status
         | None \<Rightarrow> ''Twilio rejected the request with HTTP '' @ show_nat status) 512)\<rparr>"

definition twilio_provider_code :: "string \<Rightarrow> string option" where
  "twilio_provider_code s =
     (if length s > twilio_code_bytes \<or> length s < 2 \<or> any_char (\<lambda>c. \<not> is_ascii_alphanumeric c) s
      then None else Some s)"

definition twilio_outcome ::
  "externals \<Rightarrow> twilio_codec \<Rightarrow> contact_job \<Rightarrow> http_response \<Rightarrow> duration option \<Rightarrow> contact_outcome" where
  "twilio_outcome X C job rs retry_after =
     (let parsed = twx_message C (unwrap_or [] (rs_text rs)) in
      if is_success (rs_status rs)
      then case Option.bind parsed tm_error_code of
             Some error_code \<Rightarrow>
               outcome_for_twilio_error X job (rs_status rs) (Some error_code) retry_after
           | None \<Rightarrow>
               contact_accepted X job (Option.bind (Option.bind parsed tm_sid) twilio_provider_code)
      else outcome_for_twilio_error X job (rs_status rs) (Option.bind parsed tm_code) retry_after)"

section \<open>Sending\<close>

definition messages_url :: "externals \<Rightarrow> twilio_config \<Rightarrow> contact_provider_error + url" where
  "messages_url X cfg =
     ok_or (contact_internal ''Twilio endpoint could not be constructed'')
       (x_join_url X (tw_api_base_url cfg)
         (''2010-04-01/Accounts/'' @ tw_account_sid cfg @ ''/Messages.json''))"

fun twilio_auth :: "string \<Rightarrow> twilio_credentials \<Rightarrow> http_auth" where
  "twilio_auth account_sid (AuthToken token) = Basic account_sid token"
| "twilio_auth account_sid (ApiKey sid secret) = Basic sid secret"

definition twilio_request :: "twilio_config \<Rightarrow> url \<Rightarrow> (string \<times> string) list \<Rightarrow> http_request" where
  "twilio_request cfg u form =
     \<lparr>rq_url = u, rq_auth = twilio_auth (tw_account_sid cfg) (tw_credentials cfg), rq_headers = [],
      rq_body = FormBody form\<rparr>"

definition twilio_deliver ::
  "externals \<Rightarrow> twilio_codec \<Rightarrow> twilio_config \<Rightarrow> contact_job \<Rightarrow>
   (contact_provider_error, world, contact_outcome) io" where
  "twilio_deliver X C cfg job =
     io_bind (io_lift (build_twilio_form job cfg)) (\<lambda>form.
     io_bind (io_lift (messages_url X cfg)) (\<lambda>u.
       post_and_classify X ''Twilio request failed'' (twilio_request cfg u form) (twilio_outcome X C job)))"

definition twilio_send_sms ::
  "externals \<Rightarrow> twilio_codec \<Rightarrow> twilio_config \<Rightarrow> contact_job \<Rightarrow>
   (contact_provider_error, world, contact_outcome) io" where
  "twilio_send_sms X C cfg job =
     io_bind (io_lift (contact_job_check X job)) (\<lambda>_. twilio_deliver X C cfg job)"

definition twilio_provider ::
  "externals \<Rightarrow> twilio_codec \<Rightarrow> twilio_config \<Rightarrow> contact_provider" where
  "twilio_provider X C cfg =
     \<lparr>cp_kind = Twilio, cp_readiness = readiness_ready, cp_send = twilio_send_sms X C cfg\<rparr>"

section \<open>The adapter contract\<close>

lemma twilio_outcome_of:
  "cj_provider job = Twilio \<Longrightarrow> contact_outcome_of X job (twilio_outcome X C job rs r)"
  by (auto simp: contact_outcome_of_def twilio_outcome_def Let_def outcome_for_twilio_error_def
      split: option.splits)

lemma build_twilio_form_provider:
  "build_twilio_form job cfg = Ok form \<Longrightarrow> contact_job_ok X job \<Longrightarrow> cj_provider job = Twilio"
  by (auto simp: build_twilio_form_def dest: contact_job_ok_channel split: contact_target.splits)

lemma twilio_deliver_post:
  assumes "contact_job_ok X job"
  shows "io_post contact_bounded (contact_outcome_of X job) (twilio_deliver X C cfg job)"
proof (cases "build_twilio_form job cfg")
  case (Inl e)
  then have "contact_bounded e"
    by (auto simp: build_twilio_form_def contact_mismatch_def
        split: contact_target.splits contact_content.splits)
  with Inl show ?thesis by (simp add: twilio_deliver_def)
next
  case (Inr form)
  note p = build_twilio_form_provider [OF Inr assms]
  show ?thesis
    unfolding twilio_deliver_def Inr io_lift_simps messages_url_def
    by (intro io_post_bind [where R = "\<lambda>_. True"] lift_ok_or_post post_and_classify_post)
       (simp_all add: twilio_outcome_of [OF p])
qed

lemma twilio_contact_adapter: "contact_adapter X (twilio_provider X C cfg)"
proof (rule contact_adapterI)
  show "cp_send (twilio_provider X C cfg) job
      = io_bind (io_lift (contact_job_check X job)) (\<lambda>_. twilio_deliver X C cfg job)" for job
    by (simp add: twilio_provider_def twilio_send_sms_def)
  show "\<exists>e. twilio_deliver X C cfg job w = (Err e, w) \<and> contact_error_class e = ContactInvalidPayload"
    if "contact_job_ok X job" "cj_provider job \<noteq> cp_kind (twilio_provider X C cfg)" for job w
    using that contact_job_ok_channel [OF that(1)]
    by (cases "cj_target job")
       (auto simp: twilio_provider_def twilio_deliver_def build_twilio_form_def
         contact_mismatch_def io_throw_def)
qed (auto simp: twilio_provider_def readiness_ready_def twilio_deliver_post)

interpretation twilio: contact_adapter X "twilio_provider X C cfg" for X C cfg
  by (rule twilio_contact_adapter)

text \<open>\<open>new\<close>: building the HTTP client may fail, as \<open>client\<close> says.\<close>

definition twilio_provider_new ::
  "externals \<Rightarrow> twilio_codec \<Rightarrow> bool \<Rightarrow> twilio_config \<Rightarrow> twilio_config_error + contact_provider" where
  "twilio_provider_new X C client cfg =
     (if \<not> client then Err TwilioHttpClient else Ok (twilio_provider X C cfg))"

section \<open>Properties\<close>

text \<open>The one request a job leads to, if any.\<close>

definition twilio_post :: "externals \<Rightarrow> twilio_config \<Rightarrow> contact_job \<Rightarrow> http_request option" where
  "twilio_post X cfg job =
     (if \<not> contact_job_ok X job then None
      else case (cj_target job, cj_content job, messages_url X cfg) of
        (SmsTarget e164, SmsContent body, Inr u) \<Rightarrow>
          Some (twilio_request cfg u (twilio_form cfg e164 body))
      | _ \<Rightarrow> None)"

text \<open>The error code of an answer: a success document and an error document name it differently.\<close>

definition twilio_answer_code :: "twilio_codec \<Rightarrow> http_response \<Rightarrow> u32 option" where
  "twilio_answer_code C rs = Option.bind (twx_message C (unwrap_or [] (rs_text rs)))
     (if is_success (rs_status rs) then tm_error_code else tm_code)"

lemma twilio_outcome_eq:
  "twilio_outcome X C job rs ra =
     (if is_success (rs_status rs) \<and> twilio_answer_code C rs = None
      then contact_accepted X job (Option.bind
        (Option.bind (twx_message C (unwrap_or [] (rs_text rs))) tm_sid) twilio_provider_code)
      else outcome_for_twilio_error X job (rs_status rs) (twilio_answer_code C rs) ra)"
  by (simp add: twilio_outcome_def twilio_answer_code_def Let_def split: option.splits)

lemma twilio_error_table:
  "twilio_error_class status code ra =
     (if code \<in> Some ` {21211, 21610, 21612, 21614, 30003, 30005, 30006} then ContactInvalidTarget
      else if code \<in> Some ` {21602, 21617} then ContactInvalidPayload
      else if code \<in> Some ` {20003, 20404, 21606, 21608} then ContactPermanentFailure
      else if status = 429 then ContactThrottled
      else if status \<in> {408, 425} \<union> {500..599} then ContactTransientFailure
      else if status = 400 then ContactInvalidPayload
      else ContactPermanentFailure)"
proof -
  have codes: "is_some_and (\<lambda>c. c \<in> A) code \<longleftrightarrow> code \<in> Some ` A" for A
    by (cases code) auto
  have sets: "set [21211, 21612, 21614, 21610, 30003, 30005, 30006 :: u32]
      = {21211, 21610, 21612, 21614, 30003, 30005, 30006}"
    "set [21602, 21617 :: u32] = {21602, 21617}"
    "set [20003, 20404, 21606, 21608 :: u32] = {20003, 20404, 21606, 21608}"
    by (simp_all add: insert_commute)
  show ?thesis
    unfolding twilio_error_class_def codes sets classify_http_status_retryable by simp
qed

lemma twilio_outcome_spec:
  "if is_success (rs_status rs) \<and> twilio_answer_code C rs = None
   then co_class (twilio_outcome X C job rs ra) = ContactAccepted
     \<and> co_provider_code (twilio_outcome X C job rs ra) = Option.bind
        (Option.bind (twx_message C (unwrap_or [] (rs_text rs))) tm_sid) twilio_provider_code
   else co_class (twilio_outcome X C job rs ra) =
       (if twilio_answer_code C rs \<in> Some ` {21211, 21610, 21612, 21614, 30003, 30005, 30006}
        then ContactInvalidTarget
        else if twilio_answer_code C rs \<in> Some ` {21602, 21617} then ContactInvalidPayload
        else if twilio_answer_code C rs \<in> Some ` {20003, 20404, 21606, 21608}
        then ContactPermanentFailure
        else if rs_status rs = 429 then ContactThrottled
        else if rs_status rs \<in> {408, 425} \<union> {500..599} then ContactTransientFailure
        else if rs_status rs = 400 then ContactInvalidPayload
        else ContactPermanentFailure)
     \<and> co_provider_code (twilio_outcome X C job rs ra) = Some (case twilio_answer_code C rs of
          Some c \<Rightarrow> ''twilio_'' @ show_nat (unat c)
        | None \<Rightarrow> ''http_'' @ show_nat (rs_status rs))
     \<and> co_retry_after_ms (twilio_outcome X C job rs ra) = map_option duration_to_millis ra"
proof (cases "is_success (rs_status rs) \<and> twilio_answer_code C rs = None")
  case True
  then show ?thesis by (simp add: twilio_outcome_eq)
next
  case False
  have eq: "twilio_outcome X C job rs ra
      = outcome_for_twilio_error X job (rs_status rs) (twilio_answer_code C rs) ra"
    unfolding twilio_outcome_eq if_not_P [OF False] ..
  have code: "co_provider_code (twilio_outcome X C job rs ra) = Some (case twilio_answer_code C rs of
          Some c \<Rightarrow> ''twilio_'' @ show_nat (unat c)
        | None \<Rightarrow> ''http_'' @ show_nat (rs_status rs))"
    unfolding eq outcome_for_twilio_error_def by (simp split: option.split)
  have "co_class (twilio_outcome X C job rs ra)
      = twilio_error_class (rs_status rs) (twilio_answer_code C rs) ra"
    "co_retry_after_ms (twilio_outcome X C job rs ra) = map_option duration_to_millis ra"
    unfolding eq by (simp_all add: outcome_for_twilio_error_def)
  then show ?thesis unfolding if_not_P [OF False] twilio_error_table using code by blast
qed

text \<open>
  C32: The Twilio adapter on every branch. It sends exactly one request for a valid SMS job (its
  form to the account's messages URL, under the account's or the API key's credentials) and none
  for any other: an invalid or foreign job is an invalid payload, an unusable URL an internal
  failure. A transport failure is retryable. A success status without an error code is
  \<open>accepted\<close>, with the message SID if it is well formed; any other answer has the class of its
  error code or else of its status, that code or status as provider code, and the wait Twilio
  asked for. Every outcome carries the job's id, provider and fingerprint.
\<close>

theorem twilio_send_spec:
  "case cp_send (twilio_provider X C cfg) job w of (r, w') \<Rightarrow>
     case twilio_post X cfg job of
       None \<Rightarrow> silent w w' \<and> (\<exists>e. r = Err e \<and> contact_error_class e =
          (if contact_job_ok X job \<and> cj_provider job = Twilio then ContactInternalFailure
           else ContactInvalidPayload))
     | Some rq \<Rightarrow> w_sent w' = w_sent w @ [rq] \<and>
         (case w_answers w (w_sent w @ [rq]) of
            Failed e \<Rightarrow> r = Err (contact_delivery ContactTransientFailure
              (''Twilio request failed'' @ '': '' @ te_text e) None (Some ''transport_error''))
          | Answered rs \<Rightarrow> \<exists>out. r = Ok out \<and> contact_outcome_of X job out
              \<and> (if is_success (rs_status rs) \<and> twilio_answer_code C rs = None
                 then co_class out = ContactAccepted \<and> co_provider_code out
                   = Option.bind (Option.bind (twx_message C (unwrap_or [] (rs_text rs))) tm_sid)
                       twilio_provider_code
                 else co_class out =
                     (if twilio_answer_code C rs \<in> Some ` {21211, 21610, 21612, 21614, 30003, 30005, 30006}
                      then ContactInvalidTarget
                      else if twilio_answer_code C rs \<in> Some ` {21602, 21617} then ContactInvalidPayload
                      else if twilio_answer_code C rs \<in> Some ` {20003, 20404, 21606, 21608}
                      then ContactPermanentFailure
                      else if rs_status rs = 429 then ContactThrottled
                      else if rs_status rs \<in> {408, 425} \<union> {500..599} then ContactTransientFailure
                      else if rs_status rs = 400 then ContactInvalidPayload
                      else ContactPermanentFailure)
                   \<and> co_provider_code out = Some (case twilio_answer_code C rs of
                        Some c \<Rightarrow> ''twilio_'' @ show_nat (unat c)
                      | None \<Rightarrow> ''http_'' @ show_nat (rs_status rs))
                   \<and> co_retry_after_ms out = map_option duration_to_millis
                       (fst (response_retry_after X rs (w\<lparr>w_sent := w_sent w @ [rq]\<rparr>)))))"
proof (cases "twilio_post X cfg job")
  case None
  have "\<exists>e. cp_send (twilio_provider X C cfg) job w = (Err e, w) \<and> contact_error_class e =
      (if contact_job_ok X job \<and> cj_provider job = Twilio then ContactInternalFailure
       else ContactInvalidPayload)"
  proof (cases "contact_job_ok X job")
    case True
    with None contact_job_ok_channel [OF True] show ?thesis
      by (cases "cj_target job"; cases "cj_content job")
         (auto simp: twilio_post_def twilio_provider_def twilio_send_sms_def contact_job_check_eq
           twilio_deliver_def build_twilio_form_def contact_mismatch_def messages_url_def io_throw_def
           ok_or_def split: option.splits)
  next
    case False
    then show ?thesis
      by (simp add: twilio_provider_def twilio_send_sms_def contact_job_check_eq io_throw_def)
  qed
  with None show ?thesis by auto
next
  case (Some rq)
  then obtain e164 body u where ok: "contact_job_ok X job"
    and job: "cj_target job = SmsTarget e164" "cj_content job = SmsContent body"
    and u: "messages_url X cfg = Ok u" and rq: "rq = twilio_request cfg u (twilio_form cfg e164 body)"
    by (auto simp: twilio_post_def split: if_splits contact_target.splits contact_content.splits sum.splits)
  have form: "build_twilio_form job cfg = Ok (twilio_form cfg e164 body)"
    by (simp add: build_twilio_form_def job)
  note p = build_twilio_form_provider [OF form ok]
  have send: "cp_send (twilio_provider X C cfg) job w
      = post_and_classify X ''Twilio request failed'' rq (twilio_outcome X C job) w"
    by (simp add: twilio_provider_def twilio_send_sms_def contact_job_check_eq ok
        twilio_deliver_def form u rq)
  show ?thesis
    unfolding send Some option.case
    by (rule posted_answer) (intro conjI twilio_outcome_of [OF p] twilio_outcome_spec)
qed

text \<open>
  A Twilio configuration that could be built posts below its own account, with a sender and
  credentials of the checked shapes: no path separator, form separator or header character can
  come from the account id, and every form names the recipient, the text and that sender.
\<close>

theorem twilio_config_wf:
  "case twilio_config_new X sid credentials sender of
     Inl _ \<Rightarrow> \<not> (valid_twilio_sid (trim sid) ''AC'' \<and> validate_credentials credentials = Ok ()
        \<and> validate_sender sender = Ok () \<and> x_parse_url X twilio_api_base \<noteq> None)
   | Inr cfg \<Rightarrow> length (tw_account_sid cfg) = 34 \<and> starts_with ''AC'' (tw_account_sid cfg)
       \<and> all_chars is_ascii_hexdigit (drop 2 (tw_account_sid cfg))
       \<and> map_of (twilio_form cfg to text) ''To'' = Some to
       \<and> map_of (twilio_form cfg to text) ''Body'' = Some text
       \<and> (case sender of
            MessagingService mg \<Rightarrow> valid_twilio_sid mg ''MG''
              \<and> map_of (twilio_form cfg to text) ''MessagingServiceSid'' = Some mg
              \<and> map_of (twilio_form cfg to text) ''From'' = None
          | PhoneNumber e164 \<Rightarrow> valid_e164 e164
              \<and> map_of (twilio_form cfg to text) ''From'' = Some e164
              \<and> map_of (twilio_form cfg to text) ''MessagingServiceSid'' = None)"
proof (cases "twilio_config_new X sid credentials sender")
  case (Inl e)
  then show ?thesis
    by (cases "x_parse_url X twilio_api_base") (auto simp: twilio_config_new_def Let_def split: if_splits)
next
  case (Inr cfg)
  then have fields: "valid_twilio_sid (tw_account_sid cfg) ''AC''" "tw_sender cfg = sender"
    "validate_sender sender = Ok ()" "tw_status_callback_url cfg = None" "tw_validity_period_seconds cfg = None"
    by (auto simp: twilio_config_new_def Let_def and_then_eq_Ok split: if_splits)
  show ?thesis
    unfolding Inr sum.case
    using fields
    by (cases sender)
       (simp_all add: valid_twilio_sid_def twilio_form_def map_of_bt_collect numeral_2_eq_2 split: if_splits)
qed

end
