(* ===== verification/Contact_Http.thy ===== *)
theory Contact_Http
  imports Contact_Dispatch Http_Api
begin

text \<open>
  The contact HTTP API (\<open>src/contact/http.rs\<close>): readiness, job and batch submission, sharing
  the authenticator of the push API and its way of running a batch (\<open>run_each\<close> and the locale
  \<open>job_service\<close>, interpreted here for contact jobs).
\<close>

section \<open>Responses\<close>

record contact_batch_response =
  cbr_accepted :: nat
  cbr_rejected :: nat
  cbr_outcomes :: "contact_outcome list"

record contact_readiness_response =
  crd_ok :: bool
  crd_auth_configured :: bool
  crd_auth_mode :: string
  crd_providers :: contact_registry_readiness

datatype contact_response_body =
    ContactReadinessBody contact_readiness_response
  | ContactOutcomeBody contact_outcome
  | ContactBatchBody contact_batch_response
  | ContactErrorEnvelope error_body
  | ContactExtractorRejection string \<comment> \<open>axum's own text\<close>

record contact_reply =
  ch_status :: nat
  ch_body :: contact_response_body

definition contact_reply_of :: "nat \<Rightarrow> contact_response_body \<Rightarrow> contact_reply" where
  "contact_reply_of status body = \<lparr>ch_status = status, ch_body = body\<rparr>"

definition max_contact_http_body_bytes :: nat where "max_contact_http_body_bytes = 768 * 1024"
definition max_contact_batch_jobs :: nat where "max_contact_batch_jobs = 100"

definition contact_api_error :: "nat \<Rightarrow> string \<Rightarrow> string \<Rightarrow> contact_reply" where
  "contact_api_error status code detail =
     contact_reply_of status (ContactErrorEnvelope
       \<lparr>eb_code = code, eb_safe_detail = truncate_utf8 detail max_safe_detail_bytes\<rparr>)"

definition contact_unauthorized :: contact_reply where
  "contact_unauthorized = contact_api_error 401 ''unauthorized'' ''request authentication failed''"

fun contact_status_for_outcome :: "contact_outcome_class \<Rightarrow> nat" where
  "contact_status_for_outcome ContactAccepted = 202"
| "contact_status_for_outcome ContactInvalidPayload = 400"
| "contact_status_for_outcome ContactInvalidTarget = 422"
| "contact_status_for_outcome ContactThrottled = 429"
| "contact_status_for_outcome ContactTransientFailure = 503"
| "contact_status_for_outcome ContactInternalFailure = 503"
| "contact_status_for_outcome ContactPermanentFailure = 502"

section \<open>Dispatch of one job\<close>

fun contact_error_parts ::
  "contact_provider_error \<Rightarrow> contact_outcome_class \<times> string \<times> duration option \<times> string option" where
  "contact_error_parts (ContactNotConfigured safe_reason) =
     (ContactPermanentFailure, safe_reason, None, Some ''provider_not_configured'')"
| "contact_error_parts (ContactDelivery class safe_detail retry_after provider_code) =
     (class, safe_detail, retry_after, provider_code)"
| "contact_error_parts (ContactInternal safe_detail) =
     (ContactInternalFailure, safe_detail, None, Some ''internal_provider_error'')"

definition contact_outcome_from_error ::
  "externals \<Rightarrow> contact_job \<Rightarrow> contact_provider_error \<Rightarrow> contact_outcome" where
  "contact_outcome_from_error X job e =
     (case contact_error_parts e of (class, safe_detail, retry_after, provider_code) \<Rightarrow>
       \<lparr>co_version = cj_version job,
        co_job_id = cj_job_id job,
        co_provider = cj_provider job,
        co_target_fingerprint = contact_fingerprint X (cj_target job),
        co_class = class,
        co_provider_code = provider_code,
        co_retry_after_ms = map_option duration_to_millis retry_after,
        co_safe_detail = Some (truncate_utf8 safe_detail max_safe_detail_bytes)\<rparr>)"

definition contact_validation_outcome ::
  "externals \<Rightarrow> contact_job \<Rightarrow> contact_validation_error list \<Rightarrow> contact_outcome" where
  "contact_validation_outcome X job errors =
     \<lparr>co_version = V1,
      co_job_id = cj_job_id job,
      co_provider = cj_provider job,
      co_target_fingerprint = contact_fingerprint X (cj_target job),
      co_class = ContactInvalidPayload,
      co_provider_code = Some ''contract_validation_failed'',
      co_retry_after_ms = None,
      co_safe_detail = Some (truncate_utf8 (contact_report errors) max_safe_detail_bytes)\<rparr>"

definition contact_dispatch_job ::
  "externals \<Rightarrow> contact_registry \<Rightarrow> contact_job \<Rightarrow> contact_world \<Rightarrow> contact_outcome \<times> contact_world" where
  "contact_dispatch_job X reg job w =
     (case validate_contact_job X job of
        Inl errors \<Rightarrow> (contact_validation_outcome X job errors, w)
      | Inr _ \<Rightarrow>
          (case contact_dispatch reg job w of
             (Inr outcome, w') \<Rightarrow> (outcome, w')
           | (Inl e, w') \<Rightarrow> (contact_outcome_from_error X job e, w')))"

section \<open>Handlers\<close>

record contact_api_state =
  ca_registry :: contact_registry
  ca_authenticator :: authenticator

definition contact_readyz :: "contact_api_state \<Rightarrow> contact_reply" where
  "contact_readyz st =
     (let auth_ok = auth_configured (ca_authenticator st);
          provider_ok = contact_has_configured_provider (ca_registry st);
          status = (if auth_ok \<and> provider_ok then 200 else 503)
      in contact_reply_of status (ContactReadinessBody
           \<lparr>crd_ok = (status = 200), crd_auth_configured = auth_ok,
            crd_auth_mode = auth_mode (ca_authenticator st),
            crd_providers = contact_registry_readiness_of (ca_registry st)\<rparr>))"

definition contact_submit_job ::
  "externals \<Rightarrow> contact_api_state \<Rightarrow> header_map \<Rightarrow> contact_job \<Rightarrow> contact_world \<Rightarrow>
   contact_reply \<times> contact_world" where
  "contact_submit_job X st headers job w =
     (if \<not> auth_authenticate (ca_authenticator st) headers then (contact_unauthorized, w)
      else case contact_dispatch_job X (ca_registry st) job w of
        (outcome, w') \<Rightarrow>
          (contact_reply_of (contact_status_for_outcome (co_class outcome)) (ContactOutcomeBody outcome), w'))"

definition contact_submit_batch ::
  "externals \<Rightarrow> contact_api_state \<Rightarrow> header_map \<Rightarrow> contact_job list \<Rightarrow> contact_world \<Rightarrow>
   contact_reply \<times> contact_world" where
  "contact_submit_batch X st headers jobs w =
     (if \<not> auth_authenticate (ca_authenticator st) headers then (contact_unauthorized, w)
      else if jobs = [] \<or> length jobs > max_contact_batch_jobs
      then (contact_api_error 400 ''invalid_batch_size''
              (''batch must contain 1 to '' @ show_nat max_contact_batch_jobs @ '' jobs''), w)
      else case run_each (contact_dispatch_job X (ca_registry st)) jobs w of
        (outcomes, w') \<Rightarrow>
          let accepted = length (filter (\<lambda>out. co_class out = ContactAccepted) outcomes);
              status = (if accepted = length outcomes then 202 else 207)
          in (contact_reply_of status (ContactBatchBody \<lparr>cbr_accepted = accepted,
                cbr_rejected = length outcomes - accepted, cbr_outcomes = outcomes\<rparr>), w'))"

datatype contact_request = GetContactReadyz | PostContactJob string | PostContactBatch string

definition with_contact_extracted ::
  "(nat \<times> string) + 'j \<Rightarrow> ('j \<Rightarrow> contact_world \<Rightarrow> contact_reply \<times> contact_world) \<Rightarrow> contact_world \<Rightarrow>
   contact_reply \<times> contact_world" where
  "with_contact_extracted body handler w =
     (case body of
        Inl (status, rejection) \<Rightarrow> (contact_reply_of status (ContactExtractorRejection rejection), w)
      | Inr j \<Rightarrow> handler j w)"

fun contact_router ::
  "externals \<Rightarrow> (nat \<Rightarrow> string \<Rightarrow> (nat \<times> string) + contact_job) \<Rightarrow>
   (nat \<Rightarrow> string \<Rightarrow> (nat \<times> string) + contact_job list) \<Rightarrow> contact_api_state \<Rightarrow> header_map \<Rightarrow>
   contact_request \<Rightarrow> contact_world \<Rightarrow> contact_reply \<times> contact_world" where
  "contact_router X extract extract_batch st headers GetContactReadyz w = (contact_readyz st, w)"
| "contact_router X extract extract_batch st headers (PostContactJob body) w =
     with_contact_extracted (extract max_contact_http_body_bytes body) (contact_submit_job X st headers) w"
| "contact_router X extract extract_batch st headers (PostContactBatch body) w =
     with_contact_extracted (extract_batch max_contact_http_body_bytes body)
       (contact_submit_batch X st headers) w"

section \<open>Facts about submissions\<close>

lemma contact_outcome_from_error_of [simp]: "contact_outcome_of X job (contact_outcome_from_error X job e)"
  by (cases e) (simp_all add: contact_outcome_of_def contact_outcome_from_error_def)

lemma contact_outcome_from_error_class [simp, outcome_simps]:
  "co_class (contact_outcome_from_error X job e) = contact_error_class e"
  by (cases e) (simp_all add: contact_outcome_from_error_def)

lemma contact_validation_outcome_of [simp]: "contact_outcome_of X job (contact_validation_outcome X job es)"
  by (simp add: contact_outcome_of_def contact_validation_outcome_def)

lemma contact_dispatch_job_eq:
  "contact_dispatch_job X reg job w =
     (if contact_job_ok X job
      then case contact_dispatch reg job w of
             (Inr outcome, w') \<Rightarrow> (outcome, w')
           | (Inl e, w') \<Rightarrow> (contact_outcome_from_error X job e, w')
      else (contact_validation_outcome X job (contact_job_errors X job), w))"
  by (simp add: contact_dispatch_job_def validate_contact_job_eq)

sublocale contact_dispatcher \<subseteq> contact_jobs: job_service "contact_dispatch_job X reg" "contact_outcome_of X"
proof
  fix job w out w' assume d: "contact_dispatch_job X reg job w = (out, w')"
  show "contact_outcome_of X job out"
  proof (cases "contact_job_ok X job")
    case True
    with d show ?thesis
      using dispatch_identity [of job w]
      by (auto simp: contact_dispatch_job_eq split: sum.splits prod.splits)
  next
    case False
    with d show ?thesis by (auto simp: contact_dispatch_job_eq)
  qed
qed

section \<open>Properties\<close>

text \<open>
  A contact submission on every branch: no reply but 401 without authentication and no
  effect; 400 with an \<open>invalid_payload\<close> outcome for an invalid job, which reaches neither a
  limiter nor a provider; otherwise one dispatch and the status of its outcome class.
\<close>

theorem contact_submit_job_spec:
  "contact_submit_job X st headers job w =
     (if \<not> auth_authenticate (ca_authenticator st) headers then (contact_unauthorized, w)
      else if \<not> contact_job_ok X job
      then (contact_reply_of 400 (ContactOutcomeBody
              (contact_validation_outcome X job (contact_job_errors X job))), w)
      else case contact_dispatch (ca_registry st) job w of
             (Inl e, w') \<Rightarrow> (contact_reply_of (contact_status_for_outcome (contact_error_class e))
                (ContactOutcomeBody (contact_outcome_from_error X job e)), w')
           | (Inr out, w') \<Rightarrow>
               (contact_reply_of (contact_status_for_outcome (co_class out)) (ContactOutcomeBody out), w'))"
proof -
  have "co_class (contact_validation_outcome X job es) = ContactInvalidPayload" for es
    by (simp add: contact_validation_outcome_def)
  then show ?thesis
    by (auto simp: contact_submit_job_def contact_dispatch_job_eq split: prod.splits sum.splits)
qed

text \<open>
  C20: A contact batch is refused as a whole (401 or 400, without effect) or answered with one
  outcome per job, in order, the right counts, and 202 exactly when all were accepted.
\<close>

theorem contact_submit_batch_spec:
  "case contact_submit_batch X st headers jobs w of (rep, w') \<Rightarrow>
     if \<not> auth_authenticate (ca_authenticator st) headers then rep = contact_unauthorized \<and> w' = w
     else if \<not> (1 \<le> length jobs \<and> length jobs \<le> 100) then ch_status rep = 400 \<and> w' = w
     else \<exists>outs. run_each (contact_dispatch_job X (ca_registry st)) jobs w = (outs, w')
       \<and> length outs = length jobs
       \<and> ch_status rep = (if list_all (\<lambda>out. co_class out = ContactAccepted) outs then 202 else 207)
       \<and> ch_body rep = ContactBatchBody
           \<lparr>cbr_accepted = length (filter (\<lambda>out. co_class out = ContactAccepted) outs),
            cbr_rejected = length (filter (\<lambda>out. co_class out \<noteq> ContactAccepted) outs),
            cbr_outcomes = outs\<rparr>"
proof -
  obtain outs w' where r: "run_each (contact_dispatch_job X (ca_registry st)) jobs w = (outs, w')"
    by fastforce
  have len: "length outs = length jobs"
    using run_each_length [of "contact_dispatch_job X (ca_registry st)" jobs w] r by simp
  have rej: "length outs - length (filter (\<lambda>out. co_class out = ContactAccepted) outs)
      = length (filter (\<lambda>out. co_class out \<noteq> ContactAccepted) outs)"
    using sum_length_filter_compl [of "\<lambda>out. co_class out = ContactAccepted" outs] by simp
  have size: "jobs = [] \<or> length jobs > max_contact_batch_jobs \<longleftrightarrow> \<not> (1 \<le> length jobs \<and> length jobs \<le> 100)"
    by (cases jobs) (auto simp: max_contact_batch_jobs_def)
  show ?thesis
    unfolding contact_submit_batch_def size
    using r len rej by (simp add: contact_reply_of_def contact_api_error_def Let_def all_counted)
qed

end
