(* ===== verification/Contact_Nats.thy ===== *)
theory Contact_Nats
  imports Contact_Http Nats_Ingestion
begin

text \<open>
  The contact queue worker (\<open>src/contact_nats_ingestion.rs\<close>): its configuration, streams and
  consumer, and the instance of the message handler for email and SMS jobs, which threads the
  limiters of the registry beside the rest of the world.
\<close>

section \<open>The module's own helpers\<close>

text \<open>
  The module repeats the readers and helpers of \<open>src/nats_ingestion.rs\<close> with its own error type;
  each is translated here and shown equal to the shared one, which is what lets both queues run
  the handler of theory Jetstream.
\<close>

type_synonym contact_nats_config = nats_config
type_synonym contact_job_envelope = "contact_job envelope"
type_synonym contact_result_event = "contact_outcome result_event"
type_synonym contact_dead_letter_event = "contact_outcome dead_letter_event"
type_synonym contact_nats_disposition = nats_disposition

datatype contact_nats_config_error =
    MissingNatsUrl
  | MissingContactSecret
  | InvalidContactSecret
  | InvalidContactInteger string

definition contact_non_empty_env :: "environment \<Rightarrow> string \<Rightarrow> string option" where
  "contact_non_empty_env env name = opt_filter (\<lambda>v. v \<noteq> []) (map_option trim (env_ok env name))"

definition contact_env_value :: "environment \<Rightarrow> string \<Rightarrow> string \<Rightarrow> string" where
  "contact_env_value env name d = unwrap_or d (contact_non_empty_env env name)"

definition contact_environment_flag :: "environment \<Rightarrow> string \<Rightarrow> bool" where
  "contact_environment_flag env name = is_some_and (\<lambda>v. to_ascii_lowercase (trim v)
     \<in> set [''1'', ''true'', ''yes'', ''on'']) (env_ok env name)"

definition contact_positive_u64 ::
  "environment \<Rightarrow> string \<Rightarrow> nat \<Rightarrow> contact_nats_config_error + nat" where
  "contact_positive_u64 env name d =
     (case contact_non_empty_env env name of
        None \<Rightarrow> Ok d
      | Some v \<Rightarrow> ok_or (InvalidContactInteger name) (opt_filter (\<lambda>n. 0 < n) (parse_uint 64 v)))"

definition contact_positive_i64 ::
  "environment \<Rightarrow> string \<Rightarrow> i64 \<Rightarrow> contact_nats_config_error + i64" where
  "contact_positive_i64 env name d =
     (case contact_non_empty_env env name of
        None \<Rightarrow> Ok d
      | Some v \<Rightarrow> ok_or (InvalidContactInteger name)
          (map_option of_int (opt_filter (\<lambda>n. 0 < n) (parse_sint 64 v))))"

definition contact_positive_usize ::
  "environment \<Rightarrow> string \<Rightarrow> nat \<Rightarrow> contact_nats_config_error + nat" where
  "contact_positive_usize env name d =
     (case contact_non_empty_env env name of
        None \<Rightarrow> Ok d
      | Some v \<Rightarrow> ok_or (InvalidContactInteger name) (opt_filter (\<lambda>n. 0 < n) (parse_uint 64 v)))"

definition contact_constant_time_eq :: "string \<Rightarrow> string \<Rightarrow> bool" where
  "contact_constant_time_eq left right =
     (if length left \<noteq> length right then False
      else foldl (\<lambda>diff (l, r). diff OR (byte_word l XOR byte_word r)) 0 (zip left right) = 0)"

definition contact_authenticate :: "contact_nats_config \<Rightarrow> string option \<Rightarrow> bool" where
  "contact_authenticate cfg supplied =
     (case nc_envelope_secret cfg of
        None \<Rightarrow> True
      | Some expected \<Rightarrow>
          unwrap_or False (map_option (\<lambda>v. contact_constant_time_eq v expected) supplied))"

definition contact_duration_to_millis :: "duration \<Rightarrow> u64" where
  "contact_duration_to_millis d = saturate_u64 (as_millis d)"

definition contact_now_ms :: "contact_world \<Rightarrow> u64 \<times> contact_world" where
  "contact_now_ms cw = (case system_now (cw_world cw) of (now, w) \<Rightarrow>
     (if now < 0 then 0 else saturate_u64 (nat now div 1000000), cw\<lparr>cw_world := w\<rparr>))"

definition contact_outcome_from_provider_error ::
  "externals \<Rightarrow> contact_job \<Rightarrow> contact_provider_error \<Rightarrow> contact_outcome" where
  "contact_outcome_from_provider_error X job e =
     (case (case e of
          ContactNotConfigured safe_reason \<Rightarrow>
            (ContactPermanentFailure, safe_reason, None, Some ''provider_not_configured'')
        | ContactDelivery class safe_detail retry_after provider_code \<Rightarrow>
            (class, safe_detail, retry_after, provider_code)
        | ContactInternal safe_detail \<Rightarrow>
            (ContactInternalFailure, safe_detail, None, Some ''internal_provider_error''))
      of (class, safe_detail, retry_after, provider_code) \<Rightarrow>
       \<lparr>co_version = cj_version job,
        co_job_id = cj_job_id job,
        co_provider = cj_provider job,
        co_target_fingerprint = contact_fingerprint X (cj_target job),
        co_class = class,
        co_provider_code = provider_code,
        co_retry_after_ms = map_option contact_duration_to_millis retry_after,
        co_safe_detail = Some (truncate_utf8 safe_detail max_safe_detail_bytes)\<rparr>)"

lemma contact_env_eq [simp]:
  "contact_non_empty_env = non_empty_env" "contact_env_value = env_value"
  "contact_environment_flag = environment_flag"
  by (intro ext; simp add: contact_non_empty_env_def non_empty_env_def contact_env_value_def env_value_def
      contact_environment_flag_def environment_flag_def is_truthy_def)+

fun contact_env_error :: "env_error \<Rightarrow> contact_nats_config_error" where
  "contact_env_error (InvalidPositiveInteger name) = InvalidContactInteger name"

lemma contact_positive_eq [simp]:
  "contact_positive_u64 env name d = map_err contact_env_error (positive_u64 env name d)"
  "contact_positive_i64 env name n = map_err contact_env_error (positive_i64 env name n)"
  "contact_positive_usize env name d = map_err contact_env_error (positive_usize env name d)"
  by (simp_all add: contact_positive_u64_def positive_u64_def contact_positive_i64_def positive_i64_def
      contact_positive_usize_def positive_usize_def ok_or_def split: option.splits)

lemma contact_constant_time_eq_eq: "contact_constant_time_eq = constant_time_eq"
  by (intro ext) (simp add: contact_constant_time_eq_def constant_time_eq_def)

lemma contact_authenticate_eq: "contact_authenticate = nats_authenticate"
  unfolding contact_authenticate_def nats_authenticate_def contact_constant_time_eq_eq by (rule refl)

lemma contact_duration_to_millis_eq: "contact_duration_to_millis = duration_to_millis"
  by (intro ext) (simp add: contact_duration_to_millis_def duration_to_millis_def)

lemma contact_now_ms_eq: "contact_now_ms = on_contact_world now_ms"
  by (intro ext) (simp add: contact_now_ms_def now_ms_def on_contact_world_def split_beta)

lemma contact_outcome_from_provider_error_eq:
  "contact_outcome_from_provider_error = contact_outcome_from_error"
proof (intro ext)
  fix X e and job :: contact_job
  have "cj_version job = V1" by (cases "cj_version job") simp
  then show "contact_outcome_from_provider_error X job e = contact_outcome_from_error X job e"
    by (cases e) (simp_all add: contact_outcome_from_provider_error_def contact_outcome_from_error_def
        contact_duration_to_millis_eq)
qed

section \<open>Configuration\<close>

definition contact_validate_secret :: "string \<Rightarrow> contact_nats_config_error + unit" where
  "contact_validate_secret s =
     (if \<not> (32 \<le> length s \<and> length s \<le> 4096) \<or> any_char is_control s
      then Err InvalidContactSecret else Ok ())"

definition contact_envelope_secret ::
  "environment \<Rightarrow> contact_nats_config_error + string option" where
  "contact_envelope_secret env =
     (if contact_environment_flag env ''ENABLE_NATS_ENVELOPE_AUTH''
      then and_then (ok_or MissingContactSecret (contact_non_empty_env env ''NATS_SHARED_SECRET'')) (\<lambda>v.
             and_then (contact_validate_secret v) (\<lambda>_. Ok (Some v)))
      else Ok None)"

definition contact_nats_config_from_env ::
  "environment \<Rightarrow> contact_nats_config_error + contact_nats_config option" where
  "contact_nats_config_from_env env =
     (if \<not> contact_environment_flag env ''ENABLE_NATS_CONTACT_INGESTION'' then Ok None
      else
        and_then (ok_or MissingNatsUrl (contact_non_empty_env env ''NATS_URL'')) (\<lambda>url.
        and_then (contact_envelope_secret env) (\<lambda>secret.
        and_then (contact_positive_u64 env ''NATS_CONTACT_ACK_WAIT_SECONDS'' 120)
          (\<lambda>ack_wait.
        and_then (contact_positive_u64 env ''NATS_CONTACT_NAK_DELAY_SECONDS'' 15)
          (\<lambda>nak_delay.
        and_then (contact_positive_i64 env ''NATS_CONTACT_MAX_DELIVER'' 8)
          (\<lambda>max_deliver.
        and_then (contact_positive_usize env ''NATS_CONTACT_MAX_PAYLOAD_BYTES'' (1024 * 1024)) (\<lambda>max_payload_bytes.
        and_then (contact_positive_usize env ''NATS_CONTACT_MAX_CONCURRENCY'' 32)
          (\<lambda>max_concurrency.
        Ok (Some \<lparr>
          nc_url = url,
          nc_job_stream = contact_env_value env ''NATS_CONTACT_JOB_STREAM'' ''CONTACT_JOBS_V1'',
          nc_result_stream = contact_env_value env ''NATS_CONTACT_RESULT_STREAM'' ''CONTACT_RESULTS_V1'',
          nc_dead_stream = contact_env_value env ''NATS_CONTACT_DEAD_STREAM'' ''CONTACT_DEAD_V1'',
          nc_job_subject = contact_env_value env ''NATS_CONTACT_JOB_SUBJECT'' ''contact.jobs.v1'',
          nc_result_subject = contact_env_value env ''NATS_CONTACT_RESULT_SUBJECT'' ''contact.results.v1'',
          nc_dead_subject = contact_env_value env ''NATS_CONTACT_DEAD_SUBJECT'' ''contact.dead.v1'',
          nc_consumer = contact_env_value env ''NATS_CONTACT_CONSUMER'' ''fanwaave-contact-worker-v1'',
          nc_ack_wait = from_secs ack_wait,
          nc_nak_delay = from_secs nak_delay,
          nc_max_deliver = max_deliver,
          nc_max_payload_bytes = max_payload_bytes,
          nc_max_concurrency = max_concurrency,
          nc_envelope_secret = secret\<rparr>)))))))))"

section \<open>Streams\<close>

datatype storage = FileStorage

text \<open>The streams name their storage here, and keep jobs and results for longer.\<close>

definition contact_streams :: "contact_nats_config \<Rightarrow> (storage \<times> stream_config) list" where
  "contact_streams cfg =
     [(FileStorage, \<lparr>st_name = nc_job_stream cfg, st_subjects = [nc_job_subject cfg],
         st_retention = WorkQueue, st_max_age = days 14,
         st_max_message_size = Some (min (nc_max_payload_bytes cfg) (2 ^ 31 - 1))\<rparr>),
      (FileStorage, \<lparr>st_name = nc_result_stream cfg, st_subjects = [nc_result_subject cfg],
         st_retention = Limits, st_max_age = days 14, st_max_message_size = None\<rparr>),
      (FileStorage, \<lparr>st_name = nc_dead_stream cfg, st_subjects = [nc_dead_subject cfg],
         st_retention = Limits, st_max_age = days 30, st_max_message_size = None\<rparr>)]"

definition contact_consumer :: "contact_nats_config \<Rightarrow> consumer_config" where
  "contact_consumer cfg = \<lparr>cs_durable_name = Some (nc_consumer cfg),
     cs_filter_subject = nc_job_subject cfg, cs_ack_wait = nc_ack_wait cfg,
     cs_max_deliver = nc_max_deliver cfg\<rparr>"

section \<open>Dispositions\<close>

text \<open>Unlike the push queue's, the budget test does not exempt a limit below one.\<close>

definition contact_disposition_for_outcome ::
  "contact_outcome_class \<Rightarrow> u64 \<Rightarrow> i64 \<Rightarrow> duration \<Rightarrow> contact_nats_disposition" where
  "contact_disposition_for_outcome class attempt max_deliver nak_delay =
     (if \<not> contact_is_retryable class then DoAck
      else if budget_u64 max_deliver \<le> attempt then DoDeadLetter
      else DoNak nak_delay)"

definition contact_disposition_for_result_publish_failure ::
  "contact_outcome_class \<Rightarrow> u64 \<Rightarrow> i64 \<Rightarrow> duration \<Rightarrow> contact_nats_disposition" where
  "contact_disposition_for_result_publish_failure class attempt max_deliver nak_delay =
     (if class = ContactAccepted \<or> \<not> contact_is_retryable class then DoDeadLetter
      else contact_disposition_for_outcome class attempt max_deliver nak_delay)"

section \<open>The contact instance\<close>

definition contact_envelope_schema :: string where "contact_envelope_schema = ''contact.job.envelope.v1''"
definition contact_result_schema :: string where "contact_result_schema = ''contact.result.v1''"
definition contact_dead_schema :: string where "contact_dead_schema = ''contact.dead.v1''"

definition contact_envelope_new :: "contact_job \<Rightarrow> contact_job_envelope" where
  "contact_envelope_new job = \<lparr>en_schema = contact_envelope_schema, en_auth = None, en_job = job\<rparr>"

definition process_contact_job ::
  "externals \<Rightarrow> contact_registry \<Rightarrow> contact_job \<Rightarrow> contact_world \<Rightarrow> contact_outcome \<times> contact_world" where
  "process_contact_job X reg job w =
     (case validate_contact_job X job of
        Inl errors \<Rightarrow>
          (\<lparr>co_version = cj_version job,
            co_job_id = cj_job_id job,
            co_provider = cj_provider job,
            co_target_fingerprint = contact_fingerprint X (cj_target job),
            co_class = ContactInvalidPayload,
            co_provider_code = Some ''contract_validation_failed'',
            co_retry_after_ms = None,
            co_safe_detail = Some (truncate_utf8 (contact_report errors) max_safe_detail_bytes)\<rparr>, w)
      | Inr _ \<Rightarrow>
          (case contact_dispatch reg job w of
             (Inr outcome, w') \<Rightarrow> (outcome, w')
           | (Inl e, w') \<Rightarrow> (contact_outcome_from_provider_error X job e, w')))"

definition contact_ingestion ::
  "externals \<Rightarrow> (string \<Rightarrow> contact_job_envelope option) \<Rightarrow> contact_registry \<Rightarrow>
   (contact_job, contact_outcome, contact_world) ingestion_ops" where
  "contact_ingestion X decode reg = \<lparr>
     sv_envelope_schema = contact_envelope_schema,
     sv_result_schema = contact_result_schema,
     sv_dead_schema = contact_dead_schema,
     sv_decode = decode,
     sv_process = process_contact_job X reg,
     sv_now_ms = contact_now_ms,
     sv_ids = (\<lambda>job. (cj_job_id job, cj_tenant_id job, cj_application_id job)),
     sv_trace = cj_trace,
     sv_disposition = (\<lambda>out. contact_disposition_for_outcome (co_class out)),
     sv_disposition_unpublished = (\<lambda>out. contact_disposition_for_result_publish_failure (co_class out)),
     sv_digest = (\<lambda>payload. x_hex X (x_sha256 X payload))\<rparr>"

definition contact_handle_message ::
  "externals \<Rightarrow> (string \<Rightarrow> contact_job_envelope option) \<Rightarrow> contact_registry \<Rightarrow> contact_nats_config \<Rightarrow> message \<Rightarrow>
   (bus_error, (contact_world, contact_outcome) broker, unit) io" where
  "contact_handle_message X decode reg = handle_message (contact_ingestion X decode reg)"

text \<open>The event and the publication the module spells out for itself, against the shared ones.\<close>

definition contact_dead_letter_for_payload ::
  "externals \<Rightarrow> string \<Rightarrow> string \<Rightarrow> contact_job option \<Rightarrow> contact_outcome option \<Rightarrow> u64 \<Rightarrow> i64 \<Rightarrow>
   contact_world \<Rightarrow> contact_dead_letter_event \<times> contact_world" where
  "contact_dead_letter_for_payload X payload reason_code job outcome attempt max_deliver w =
     (case contact_now_ms w of (now, w') \<Rightarrow>
        (\<lparr>dl_schema = contact_dead_schema,
          dl_reason_code = reason_code,
          dl_payload_sha256 = x_hex X (x_sha256 X payload),
          dl_payload_bytes = length payload,
          dl_job_id = map_option cj_job_id job,
          dl_tenant_id = map_option cj_tenant_id job,
          dl_application_id = map_option cj_application_id job,
          dl_outcome = outcome,
          dl_delivery_attempt = attempt,
          dl_max_deliver = max_deliver,
          dl_emitted_at_ms = now\<rparr>, w'))"

definition contact_publish_json ::
  "string \<Rightarrow> contact_outcome bus_event \<Rightarrow> (bus_error, (contact_world, contact_outcome) broker, unit) io" where
  "contact_publish_json subject event b =
     (let ok = bk_publish_ok b (length (bk_log b)) in
      (if ok then Ok () else Err (PublishError subject),
       b\<lparr>bk_log := bk_log b @ [Published subject event ok]\<rparr>))"

definition contact_run_with_ack_progress ::
  "(contact_world \<Rightarrow> 'a \<times> contact_world) \<Rightarrow> (contact_world, contact_outcome) broker \<Rightarrow>
   'a \<times> (contact_world, contact_outcome) broker" where
  "contact_run_with_ack_progress future b = on_world future (heartbeats (bk_ticks b) b)"

lemma contact_copies_eq:
  "contact_dead_letter_for_payload X = dead_letter_for_payload (contact_ingestion X decode reg)"
  "contact_publish_json = publish_json"
  "contact_run_with_ack_progress = run_with_ack_progress"
  by (intro ext; simp add: contact_dead_letter_for_payload_def dead_letter_for_payload_def
      contact_ingestion_def contact_publish_json_def publish_json_def
      contact_run_with_ack_progress_def run_with_ack_progress_def)+

definition contact_exhausted :: "u64 \<Rightarrow> i64 \<Rightarrow> bool" where
  "contact_exhausted attempt max_deliver \<longleftrightarrow> budget_u64 max_deliver \<le> attempt"

lemma contact_ingestion_locale:
  "ingestion (contact_ingestion X decode reg) (\<lambda>out. contact_is_retryable (co_class out)) contact_exhausted"
  by unfold_locales
     (auto simp: contact_ingestion_def contact_disposition_for_outcome_def
       contact_disposition_for_result_publish_failure_def contact_exhausted_def)

interpretation contact_queue: ingestion "contact_ingestion X decode reg"
  "\<lambda>out. contact_is_retryable (co_class out)" contact_exhausted for X decode reg
  by (rule contact_ingestion_locale)

text \<open>Both front ends, HTTP and the queue, give a job the same outcome and the same effects.\<close>

lemma process_contact_job_eq: "process_contact_job X reg = contact_dispatch_job X reg"
proof (intro ext)
  fix job :: contact_job and w
  have "cj_version job = V1" by (cases "cj_version job") simp
  then show "process_contact_job X reg job w = contact_dispatch_job X reg job w"
    unfolding process_contact_job_def contact_outcome_from_provider_error_eq
    by (cases "validate_contact_job X job")
       (simp_all add: contact_dispatch_job_def contact_validation_outcome_def)
qed

lemma contact_accepted_job:
  "accepted_job (contact_ingestion X decode reg) cfg m =
     (case decode (ms_payload m) of
        None \<Rightarrow> None
      | Some e \<Rightarrow> then_some (length (ms_payload m) \<le> nc_max_payload_bytes cfg
          \<and> en_schema e = contact_envelope_schema
          \<and> (nc_envelope_secret cfg = None \<or> en_auth e = nc_envelope_secret cfg)) (en_job e))"
  by (auto simp: accepted_job_def contact_ingestion_def nats_authenticate_iff then_some_def
      split: option.splits)

lemma sint_le_word_le: "0 < sint (a :: i64) \<Longrightarrow> sint a \<le> sint b \<Longrightarrow> a \<le> b"
proof -
  assume a: "0 < sint a" "sint a \<le> sint b"
  have "uint c = sint c" if "0 \<le> sint c" for c :: i64
    using that sint_less [of c] by (simp add: uint_sint take_bit_int_eq_self)
  with a show "a \<le> b" by (simp add: word_le_def)
qed

section \<open>Properties\<close>

definition contact_settlement ::
  "contact_nats_config \<Rightarrow> message \<Rightarrow> contact_outcome \<Rightarrow> bool \<Rightarrow> bool \<Rightarrow> entry_kind list" where
  "contact_settlement cfg m out published ok =
     (if contact_is_retryable (co_class out) \<and> \<not> contact_exhausted (delivery_attempt m) (nc_max_deliver cfg)
      then [KAck (AckNak (nc_nak_delay cfg))]
      else if published \<and> \<not> contact_is_retryable (co_class out) then [KAck AckAck]
      else if published then dead_then_term ''retry_budget_exhausted'' ok
      else [KDead ''result_publish_failed_after_terminal_outcome'' ok, KAck AckTerm])"

text \<open>
  C8: A contact message is settled as the specification \<open>contact_settlement\<close> says: a message
  that is too large, malformed, of another schema or not authenticated is dead-lettered and
  terminated without contacting a provider or a limiter; any other has its job dispatched
  exactly once, its result published, and is then NAKed (retryable, attempts left),
  acknowledged (terminal), or dead-lettered and terminated.
\<close>

theorem contact_message_settled:
  "case contact_handle_message X decode reg cfg m b of (r, b') \<Rightarrow>
     (case accepted_job (contact_ingestion X decode reg) cfg m of
        None \<Rightarrow> silent (cw_world (bk_world b)) (cw_world (bk_world b'))
          \<and> cw_buckets (bk_world b') = cw_buckets (bk_world b)
          \<and> (\<exists>reason ok. appended b b' = dead_then_term reason ok)
      | Some job \<Rightarrow> \<exists>out w ok published. contact_dispatch_job X reg job (bk_world b) = (out, w)
          \<and> appended b b' = replicate (bk_ticks b) (KAck AckProgress) @ [KResult published]
             @ contact_settlement cfg m out published ok)"
proof -
  let ?S = "contact_ingestion X decode reg"
  obtain r b' where h: "contact_handle_message X decode reg cfg m b = (r, b')" by fastforce
  have settle: "contact_queue.settlement = contact_settlement"
    by (intro ext) (simp add: contact_queue.settlement_def contact_settlement_def)
  have ops: "sv_process ?S = contact_dispatch_job X reg" "sv_now_ms ?S = on_contact_world now_ms"
    by (simp_all add: contact_ingestion_def process_contact_job_eq contact_now_ms_eq)
  have clock: "silent (cw_world w) (cw_world (snd (on_contact_world now_ms w)))" for w
    by (simp add: on_contact_world_def now_ms_def split_beta)
  show ?thesis
    using contact_queue.handle_message_log [where X = X and decode = decode and reg = reg and cfg = cfg
        and m = m and b = b] h clock [of "bk_world b"]
    unfolding settle ops
    by (auto simp: contact_handle_message_def split: option.splits)
qed

text \<open>
  However often a contact message is delivered, one delivery after the other until a handler
  settles it, and whichever publications fail, an outcome that is not retryable, in particular
  an email or SMS the provider accepted, is the last one: the handler that got it settles the
  message.
\<close>

theorem contact_terminal_outcome_is_last:
  assumes "delivered (contact_ingestion X decode reg) cfg payload n outs settled"
  shows "list_all (\<lambda>out. contact_is_retryable (co_class out)) (butlast outs)
    \<and> (settled \<or> list_all (\<lambda>out. contact_is_retryable (co_class out)) outs)"
  using contact_queue.delivered_outcomes [OF assms] .

text \<open>
  C9: At the delivery whose count reaches the configured budget, whatever the payload and
  whatever the provider answers, neither queue asks for another delivery, and both settle the
  message (acknowledge or terminate it), unless publishing its dead letter fails: then that
  failed publication is the last thing the handler does and the message is left unsettled. With
  a broker that takes every publication both always settle it.
\<close>

theorem queues_settle_within_budget:
  "if 0 < sint (nc_max_deliver cfg) \<and> sint (nc_max_deliver cfg) \<le> sint n
   then (let log = appended b (snd (push_handle_message X decode reg cfg
            \<lparr>ms_payload = payload, ms_delivered = Some n\<rparr> b));
          log2 = appended b2 (snd (contact_handle_message X decode2 reg2 cfg
            \<lparr>ms_payload = payload, ms_delivered = Some n\<rparr> b2))
      in KAck (AckNak d) \<notin> set log \<and> KAck (AckNak d) \<notin> set log2
       \<and> settled_or_dead_letter_lost log \<and> settled_or_dead_letter_lost log2
       \<and> (if publishing b then settled_by log else True)
       \<and> (if publishing b2 then settled_by log2 else True))
   else True"
proof -
  let ?m = "\<lparr>ms_payload = payload, ms_delivered = Some n\<rparr>"
  have "push_exhausted (delivery_attempt ?m) (nc_max_deliver cfg)"
    "contact_exhausted (delivery_attempt ?m) (nc_max_deliver cfg)"
    if limit: "0 < sint (nc_max_deliver cfg)" "sint (nc_max_deliver cfg) \<le> sint n"
  proof -
    have attempt: "delivery_attempt ?m = n"
      using limit by (simp add: delivery_attempt_def unwrap_or_def)
    have "nc_max_deliver cfg \<le> n"
      using limit by (rule sint_le_word_le)
    then show "push_exhausted (delivery_attempt ?m) (nc_max_deliver cfg)"
      "contact_exhausted (delivery_attempt ?m) (nc_max_deliver cfg)"
      using limit by (simp_all add: push_exhausted_def contact_exhausted_def budget_u64_def attempt)
  qed
  note push = push_queue.exhausted_ends [OF this(1) prod.collapse [symmetric]]
    push_queue.exhausted_settles [OF this(1) _ prod.collapse [symmetric]]
    and contact = contact_queue.exhausted_ends [OF this(2) prod.collapse [symmetric]]
    contact_queue.exhausted_settles [OF this(2) _ prod.collapse [symmetric]]
  show ?thesis
    unfolding push_handle_message_def contact_handle_message_def Let_def
    by (simp add: push contact)
qed

definition demo_contact_decode :: "string \<Rightarrow> contact_job_envelope option" where
  "demo_contact_decode s = (if s = ''job'' then Some (contact_envelope_new demo_email_job) else None)"

definition demo_contact_broker :: "(contact_world, contact_outcome) broker" where
  "demo_contact_broker = \<lparr>bk_world = demo_contact_world, bk_publish_ok = (\<lambda>n. False),
     bk_ack_ok = (\<lambda>n. True), bk_ticks = 1, bk_log = []\<rparr>"

theorem contact_terminal_outcome_is_last_witness:
  "map co_class (processed (contact_ingestion demo_externals demo_contact_decode contact_registry_new)
      demo_nats_config demo_delivery demo_contact_broker) = [ContactPermanentFailure]
   \<and> settled_by (appended demo_contact_broker (snd (contact_handle_message demo_externals
      demo_contact_decode contact_registry_new demo_nats_config demo_delivery demo_contact_broker)))"
proof -
  let ?S = "contact_ingestion demo_externals demo_contact_decode contact_registry_new"
  let ?p = "processed ?S demo_nats_config demo_delivery demo_contact_broker"
  have p: "map co_class ?p = [ContactPermanentFailure]"
    by code_simp
  then obtain out where out: "?p = [out]" "co_class out = ContactPermanentFailure"
    by (auto simp: map_eq_Cons_conv)
  have "delivered ?S demo_nats_config ''job'' (Suc 0) ([] @ ?p)
      (settled_by (appended demo_contact_broker
        (snd (handle_message ?S demo_nats_config demo_delivery demo_contact_broker))))"
    by (rule delivered.again [OF delivered.fresh _ prod.collapse [symmetric]]) (simp add: demo_delivery_def)
  from contact_terminal_outcome_is_last [OF this] p out show ?thesis
    by (simp add: contact_handle_message_def)
qed

section \<open>Configuration, first cause first\<close>

text \<open>What is wrong with the environment when an error is returned, and the order of the checks.\<close>

fun contact_config_cause :: "environment \<Rightarrow> contact_nats_config_error \<Rightarrow> bool" where
  "contact_config_cause env MissingNatsUrl \<longleftrightarrow> non_empty_env env ''NATS_URL'' = None"
| "contact_config_cause env MissingContactSecret \<longleftrightarrow> environment_flag env ''ENABLE_NATS_ENVELOPE_AUTH''
     \<and> non_empty_env env ''NATS_SHARED_SECRET'' = None"
| "contact_config_cause env InvalidContactSecret \<longleftrightarrow> environment_flag env ''ENABLE_NATS_ENVELOPE_AUTH''
     \<and> is_some_and (\<lambda>s. length s < 32 \<or> 4096 < length s \<or> any_char is_control s)
         (non_empty_env env ''NATS_SHARED_SECRET'')"
| "contact_config_cause env (InvalidContactInteger name) \<longleftrightarrow>
     (if name = ''NATS_CONTACT_MAX_DELIVER'' then bad_signed env name else bad_unsigned env name)"

definition contact_config_errors :: "contact_nats_config_error list" where
  "contact_config_errors = [MissingNatsUrl, MissingContactSecret, InvalidContactSecret,
     InvalidContactInteger ''NATS_CONTACT_ACK_WAIT_SECONDS'',
     InvalidContactInteger ''NATS_CONTACT_NAK_DELAY_SECONDS'',
     InvalidContactInteger ''NATS_CONTACT_MAX_DELIVER'',
     InvalidContactInteger ''NATS_CONTACT_MAX_PAYLOAD_BYTES'',
     InvalidContactInteger ''NATS_CONTACT_MAX_CONCURRENCY'']"

lemma contact_secret_eq:
  "contact_envelope_secret env =
     (if contact_config_cause env MissingContactSecret then Err MissingContactSecret
      else if contact_config_cause env InvalidContactSecret then Err InvalidContactSecret
      else Ok (if environment_flag env ''ENABLE_NATS_ENVELOPE_AUTH''
        then non_empty_env env ''NATS_SHARED_SECRET'' else None))"
  by (cases "non_empty_env env ''NATS_SHARED_SECRET''")
     (auto simp: contact_envelope_secret_def contact_validate_secret_def)

lemma contact_integer_eq:
  "contact_positive_u64 env name d = (if bad_unsigned env name then Err (InvalidContactInteger name)
     else Ok (env_unsigned env name d))"
  "contact_positive_usize env name d = (if bad_unsigned env name then Err (InvalidContactInteger name)
     else Ok (env_unsigned env name d))"
  "contact_positive_i64 env name 8 = (if bad_signed env name then Err (InvalidContactInteger name)
     else Ok (of_int (env_signed env name 8)))"
  using positive_i64_eq [of env name 8] by (simp_all add: positive_unsigned_eq)


text \<open>A configuration that was read has a positive delivery budget.\<close>

lemma contact_config_positive:
  "contact_nats_config_from_env env = Inr (Some cfg) \<Longrightarrow> 0 < sint (nc_max_deliver cfg)"
  by (auto simp: contact_nats_config_from_env_def and_then_eq_Ok map_err_eq_Ok
      dest: positive_i64_pos split: if_splits)

end
