(* ===== verification/Worker.thy ===== *)
theory Worker
  imports Contact_Nats
begin

text \<open>
  The consumer loops of both queues (\<open>run_nats_consumer\<close> in \<open>src/nats_ingestion.rs\<close>,
  \<open>run_contact_nats_consumer\<close> in \<open>src/contact_nats_ingestion.rs\<close>): connecting, ensuring the
  streams, the fetch loop, the semaphore and the spawned handlers, as a step function over
  events, and the heartbeats of a handler in time. Theory Worker_System runs any number of these
  loops together.
\<close>

section \<open>Heartbeats in time\<close>

text \<open>
  When \<open>run_with_ack_progress\<close> signals progress while its future is pending until \<open>done\<close>: the
  ticker's first tick is consumed at once, each later one extends the deadline, and the future's
  result ends the loop. Sending a heartbeat takes no time.
\<close>

function progress_acks :: "duration \<Rightarrow> duration \<Rightarrow> duration \<Rightarrow> duration list" where
  "progress_acks interval next_tick done_at =
     (if done_at \<le> next_tick \<or> interval = 0 then []
      else next_tick # progress_acks interval (next_tick + interval) done_at)"
  by pat_completeness auto

termination progress_acks
  by (relation "measure (\<lambda>(i, t, d). d - t)") auto

declare progress_acks.simps [simp del]

definition heartbeat_times :: "nats_config \<Rightarrow> duration \<Rightarrow> duration list" where
  "heartbeat_times cfg done_at = progress_acks (progress_interval cfg) (progress_interval cfg) done_at"

text \<open>At \<open>t\<close> the server has heard of the message less than \<open>ack_wait\<close> ago.\<close>

definition ack_pending_at :: "duration \<Rightarrow> duration list \<Rightarrow> duration \<Rightarrow> bool" where
  "ack_pending_at ack_wait signals t \<longleftrightarrow> (\<exists>s \<in> set (0 # signals). (s < t \<or> t = 0) \<and> t < s + ack_wait)"

lemma progress_acks_iff:
  "0 < i \<Longrightarrow> s \<in> set (progress_acks i t d) \<longleftrightarrow> s < d \<and> (\<exists>k. s = t + k * i)"
proof (induction i t d rule: progress_acks.induct)
  case (1 i t d)
  show ?case
  proof (cases "d \<le> t \<or> i = 0")
    case True
    with 1 show ?thesis by (subst progress_acks.simps) auto
  next
    case False
    have "(\<exists>k. s = t + k * i) \<longleftrightarrow> s = t \<or> (\<exists>k. s = t + i + k * i)"
      by (metis add.assoc add.right_neutral mult_Suc mult_zero_left not0_implies_Suc)
    with False 1 show ?thesis by (subst progress_acks.simps) auto
  qed
qed

lemma heartbeat_times_iff:
  "s \<in> set (heartbeat_times cfg d) \<longleftrightarrow> s < d \<and> (\<exists>k > 0. s = k * progress_interval cfg)"
proof -
  have pos: "0 < progress_interval cfg" by (simp add: progress_interval_def from_secs_def max_def)
  have "(\<exists>k. s = p + k * p) \<longleftrightarrow> (\<exists>k > 0. s = k * p)" for p :: nat
    by (metis gr0_conv_Suc mult_Suc)
  then show ?thesis by (simp add: heartbeat_times_def progress_acks_iff [OF pos])
qed

lemma progress_interval_less:
  "from_secs 5 < nc_ack_wait cfg \<Longrightarrow> progress_interval cfg < nc_ack_wait cfg"
  by (auto simp: progress_interval_def)

lemma heartbeats_in_time:
  "(\<forall>done_at t. t < done_at \<longrightarrow> ack_pending_at (nc_ack_wait cfg) (heartbeat_times cfg done_at) t)
     \<longleftrightarrow> from_secs 5 < nc_ack_wait cfg"
proof
  assume wait: "from_secs 5 < nc_ack_wait cfg"
  let ?p = "progress_interval cfg"
  have p: "0 < ?p" "?p < nc_ack_wait cfg"
    using progress_interval_less [OF wait] by (simp_all add: progress_interval_def from_secs_def max_def)
  show "\<forall>done_at t. t < done_at \<longrightarrow> ack_pending_at (nc_ack_wait cfg) (heartbeat_times cfg done_at) t"
  proof (intro allI impI)
    fix d t :: nat
    assume t: "t < d"
    show "ack_pending_at (nc_ack_wait cfg) (heartbeat_times cfg d) t"
    proof (cases "t = 0")
      case True
      with p show ?thesis unfolding ack_pending_at_def by (intro bexI [of _ 0]) simp_all
    next
      case False
      define k where "k = (t - 1) div ?p"
      have "k * ?p + (t - 1) mod ?p = t - 1" by (simp add: k_def)
      moreover have "(t - 1) mod ?p < ?p" using p by simp
      ultimately have lo: "k * ?p < t" and "t < k * ?p + ?p + 1" using False by linarith+
      then have hi: "t < k * ?p + nc_ack_wait cfg" using p by linarith
      have "k * ?p \<in> set (0 # heartbeat_times cfg d)"
        using lo t by (cases "k = 0") (auto simp: heartbeat_times_iff)
      with lo hi show ?thesis unfolding ack_pending_at_def by blast
    qed
  qed
next
  assume alive: "\<forall>done_at t. t < done_at \<longrightarrow> ack_pending_at (nc_ack_wait cfg) (heartbeat_times cfg done_at) t"
  let ?t = "nc_ack_wait cfg"
  have "ack_pending_at ?t (heartbeat_times cfg (?t + 1)) ?t" using alive by simp
  then obtain s where s: "s = 0 \<or> s < ?t + 1 \<and> (\<exists>k > 0. s = k * progress_interval cfg)"
    "s < ?t \<or> ?t = 0" "?t < s + ?t"
    by (auto simp: ack_pending_at_def heartbeat_times_iff)
  then obtain k where "0 < k" "s = k * progress_interval cfg" by auto
  moreover have "from_secs 5 \<le> progress_interval cfg" by (simp add: progress_interval_def)
  ultimately have "from_secs 5 \<le> s" by (metis One_nat_def Suc_leI le_trans mult_le_mono1 nat_mult_1)
  with s show "from_secs 5 < nc_ack_wait cfg" by (auto simp: from_secs_def)
qed

text \<open>
  C12: Heartbeats keep a message from being redelivered while its job is processed, however long
  that takes, if and only if the configured \<open>ack_wait\<close> exceeds five seconds: the interval is a
  third of it but never less than five seconds.
\<close>

theorem heartbeats_keep_message:
  "(\<exists>done_at t. t < done_at \<and> \<not> ack_pending_at (nc_ack_wait cfg) (heartbeat_times cfg done_at) t)
     \<longleftrightarrow> nc_ack_wait cfg \<le> from_secs 5"
proof -
  have "(\<forall>done_at t. t < done_at \<longrightarrow> ack_pending_at (nc_ack_wait cfg) (heartbeat_times cfg done_at) t)
     \<longleftrightarrow> from_secs 5 < nc_ack_wait cfg"
    by (rule heartbeats_in_time)
  then show ?thesis by (metis linorder_not_le)
qed

section \<open>The consumer loop\<close>

text \<open>What one module passes to the client library, beside its handler's operations.\<close>

record connect_options =
  cn_name :: "string option"
  cn_retry_on_initial_connect :: bool

record ('j, 'o, 'w, 's) worker_ops =
  wo_ingestion :: "('j, 'o, 'w) ingestion_ops"
  wo_connect :: connect_options
  wo_streams :: "nats_config \<Rightarrow> 's list"
  wo_consumer :: "nats_config \<Rightarrow> consumer_config"

text \<open>The calls to JetStream before messages flow, in the order of the code.\<close>

datatype 's js_call =
    Connect string connect_options
  | GetOrCreateStream 's
  | GetStream string
  | GetOrCreateConsumer string consumer_config
  | OpenMessages

text \<open>
  \<open>wk_calls\<close> is the history of the calls, each with whether it succeeded. Where the loop is: waiting for a call's answer, for the next message, for a permit with the
  message in hand, sleeping, returned with the error of a call (\<open>?\<close>), or panicked because
  \<open>Semaphore::new\<close> was given more than \<open>usize::MAX >> 3\<close> permits.
\<close>

datatype 's phase =
    Calling "'s js_call" "'s list"
  | Polling
  | Acquiring nat message
  | Sleeping
  | Stopped "'s js_call"
  | Panicked

record ('w, 'o, 's) worker =
  wk_phase :: "'s phase"
  wk_permits :: nat
  wk_tasks :: "(nat \<times> message) list"
  wk_calls :: "('s js_call \<times> bool) list"
  wk_broker :: "('w, 'o) broker"

definition max_permits :: nat where "max_permits = (2 ^ 64 - 1) div 8"

definition worker_start :: "('j, 'o, 'w, 's) worker_ops \<Rightarrow> nats_config \<Rightarrow> ('w, 'o) broker \<Rightarrow> ('w, 'o, 's) worker" where
  "worker_start W cfg b = \<lparr>wk_phase = Calling (Connect (nc_url cfg) (wo_connect W)) (wo_streams W cfg),
     wk_permits = 0, wk_tasks = [], wk_calls = [], wk_broker = b\<rparr>"

text \<open>
  What happens to the loop: an answer to its call, an item of the message stream (a message
  with its place in the job stream, an error, or the end), a permit, the end of the sleep, and
  the end of a spawned handler: it returned, or it panicked before or after processing the job
  and settled nothing. Either way its permit is dropped.
\<close>

datatype event =
    Answered bool
  | NextMessage nat message
  | NextError
  | NextEnd
  | Permit
  | Slept
  | TaskReturned nat
  | TaskPanicked nat bool

text \<open>The call after an answered one; \<open>None\<close> once the semaphore is needed or messages flow.\<close>

fun next_call :: "nats_config \<Rightarrow> ('j, 'o, 'w, 's) worker_ops \<Rightarrow> 's js_call \<Rightarrow> 's list \<Rightarrow> 's phase option" where
  "next_call cfg W (Connect url opts) (s # ss) = Some (Calling (GetOrCreateStream s) ss)"
| "next_call cfg W (GetOrCreateStream s0) (s # ss) = Some (Calling (GetOrCreateStream s) ss)"
| "next_call cfg W (GetStream name) ss =
     Some (Calling (GetOrCreateConsumer (nc_consumer cfg) (wo_consumer W cfg)) ss)"
| "next_call cfg W (GetOrCreateConsumer name c) ss = Some (Calling OpenMessages ss)"
| "next_call cfg W OpenMessages ss = Some Polling"
| "next_call cfg W call ss = None"

definition build_consumer :: "nats_config \<Rightarrow> 's phase" where
  "build_consumer cfg = Calling (GetStream (nc_job_stream cfg)) []"

definition answered ::
  "('j, 'o, 'w, 's) worker_ops \<Rightarrow> nats_config \<Rightarrow> 's js_call \<Rightarrow> 's list \<Rightarrow> bool \<Rightarrow>
   ('w, 'o, 's) worker \<Rightarrow> ('w, 'o, 's) worker" where
  "answered W cfg call streams ok wk =
     (let wk1 = wk\<lparr>wk_calls := wk_calls wk @ [(call, ok)]\<rparr> in
      if \<not> ok then wk1\<lparr>wk_phase := Stopped call\<rparr>
      else case next_call cfg W call streams of
        Some phase \<Rightarrow> wk1\<lparr>wk_phase := phase\<rparr>
      | None \<Rightarrow>
          if nc_max_concurrency cfg > max_permits then wk1\<lparr>wk_phase := Panicked\<rparr>
          else wk1\<lparr>wk_permits := nc_max_concurrency cfg, wk_phase := build_consumer cfg\<rparr>)"

text \<open>A handler that panics after its job was processed leaves the effects of the processing.\<close>

definition panicked_broker ::
  "('j, 'o, 'w) ingestion_ops \<Rightarrow> nats_config \<Rightarrow> message \<Rightarrow> bool \<Rightarrow> ('w, 'o) broker \<Rightarrow> ('w, 'o) broker" where
  "panicked_broker S cfg m after_processing b =
     (case accepted_job S cfg m of
        Some job \<Rightarrow> if after_processing then snd (run_with_ack_progress (sv_process S job) b) else b
      | None \<Rightarrow> b)"

definition drop_task :: "nat \<Rightarrow> ('w, 'o, 's) worker \<Rightarrow> ('w, 'o, 's) worker" where
  "drop_task i wk = wk\<lparr>wk_tasks := take i (wk_tasks wk) @ drop (Suc i) (wk_tasks wk),
     wk_permits := Suc (wk_permits wk)\<rparr>"

text \<open>One event; \<open>None\<close> when the loop is not waiting for it.\<close>

fun worker_step ::
  "('j, 'o, 'w, 's) worker_ops \<Rightarrow> nats_config \<Rightarrow> ('w, 'o, 's) worker \<Rightarrow> event \<Rightarrow> ('w, 'o, 's) worker option" where
  "worker_step W cfg wk (Answered ok) =
     (case wk_phase wk of Calling call streams \<Rightarrow> Some (answered W cfg call streams ok wk) | _ \<Rightarrow> None)"
| "worker_step W cfg wk (NextMessage seq m) =
     (case wk_phase wk of Polling \<Rightarrow> Some (wk\<lparr>wk_phase := Acquiring seq m\<rparr>) | _ \<Rightarrow> None)"
| "worker_step W cfg wk NextError =
     (case wk_phase wk of Polling \<Rightarrow> Some (wk\<lparr>wk_phase := Sleeping\<rparr>) | _ \<Rightarrow> None)"
| "worker_step W cfg wk NextEnd =
     (case wk_phase wk of Polling \<Rightarrow> Some (wk\<lparr>wk_phase := Sleeping\<rparr>) | _ \<Rightarrow> None)"
| "worker_step W cfg wk Permit =
     (case wk_phase wk of
        Acquiring seq m \<Rightarrow>
          (case wk_permits wk of
             0 \<Rightarrow> None
           | Suc n \<Rightarrow> Some (wk\<lparr>wk_permits := n, wk_tasks := wk_tasks wk @ [(seq, m)], wk_phase := Polling\<rparr>))
      | _ \<Rightarrow> None)"
| "worker_step W cfg wk Slept =
     (case wk_phase wk of Sleeping \<Rightarrow> Some (wk\<lparr>wk_phase := build_consumer cfg\<rparr>) | _ \<Rightarrow> None)"
| "worker_step W cfg wk (TaskReturned i) =
     (if i < length (wk_tasks wk)
      then Some (drop_task i (wk\<lparr>wk_broker :=
        snd (handle_message (wo_ingestion W) cfg (snd (wk_tasks wk ! i)) (wk_broker wk))\<rparr>))
      else None)"
| "worker_step W cfg wk (TaskPanicked i after_processing) =
     (if i < length (wk_tasks wk)
      then Some (drop_task i (wk\<lparr>wk_broker :=
        panicked_broker (wo_ingestion W) cfg (snd (wk_tasks wk ! i)) after_processing (wk_broker wk)\<rparr>))
      else None)"

text \<open>Whether the semaphore exists: the loop is past its set-up.\<close>

fun set_up :: "'s phase \<Rightarrow> bool" where
  "set_up (Calling call streams) \<longleftrightarrow> (case call of Connect _ _ \<Rightarrow> False | GetOrCreateStream _ \<Rightarrow> False | _ \<Rightarrow> True)"
| "set_up (Stopped call) \<longleftrightarrow> (case call of Connect _ _ \<Rightarrow> False | GetOrCreateStream _ \<Rightarrow> False | _ \<Rightarrow> True)"
| "set_up Panicked \<longleftrightarrow> False"
| "set_up phase \<longleftrightarrow> True"

definition permits_balance :: "nats_config \<Rightarrow> ('w, 'o, 's) worker \<Rightarrow> bool" where
  "permits_balance cfg wk \<longleftrightarrow>
     (if set_up (wk_phase wk)
      then wk_permits wk + length (wk_tasks wk) = nc_max_concurrency cfg
      else wk_permits wk = 0 \<and> wk_tasks wk = [])"

lemma permits_balance_start: "permits_balance cfg (worker_start W cfg b)"
  by (simp add: permits_balance_def worker_start_def)

lemma next_call_set_up: "next_call cfg W call ss = Some ph \<Longrightarrow> set_up ph = set_up (Calling call ss)"
  by (induction cfg W call ss rule: next_call.induct) auto

lemma next_call_None: "next_call cfg W call ss = None \<Longrightarrow> \<not> set_up (Calling call ss)"
  by (induction cfg W call ss rule: next_call.induct) auto

lemma permits_balance_step:
  "worker_step W cfg wk e = Some wk' \<Longrightarrow> permits_balance cfg wk \<Longrightarrow> permits_balance cfg wk'"
proof (induction W cfg wk e rule: worker_step.induct)
  case (1 W cfg wk ok)
  then obtain call streams where c: "wk_phase wk = Calling call streams"
    "wk' = answered W cfg call streams ok wk" by (auto split: phase.splits)
  with 1 show ?case
    by (auto simp: permits_balance_def answered_def Let_def build_consumer_def
        dest: next_call_set_up next_call_None split: option.splits if_splits)
next
  case (7 W cfg wk i)
  then show ?case
    by (cases "wk_phase wk") (auto simp: permits_balance_def drop_task_def split: if_splits)
next
  case (8 W cfg wk i after_processing)
  then show ?case
    by (cases "wk_phase wk") (auto simp: permits_balance_def drop_task_def split: if_splits)
qed (auto simp: permits_balance_def build_consumer_def split: phase.splits nat.splits)

fun worker_run ::
  "('j, 'o, 'w, 's) worker_ops \<Rightarrow> nats_config \<Rightarrow> ('w, 'o, 's) worker \<Rightarrow> event list \<Rightarrow> ('w, 'o, 's) worker option" where
  "worker_run W cfg wk [] = Some wk"
| "worker_run W cfg wk (e # es) = Option.bind (worker_step W cfg wk e) (\<lambda>wk'. worker_run W cfg wk' es)"

lemma permits_balance_run:
  "worker_run W cfg wk es = Some wk' \<Longrightarrow> permits_balance cfg wk \<Longrightarrow> permits_balance cfg wk'"
  by (induction es arbitrary: wk) (auto simp: bind_eq_Some_conv dest: permits_balance_step)

lemma permits_balance_bound: "permits_balance cfg wk \<Longrightarrow> length (wk_tasks wk) \<le> nc_max_concurrency cfg"
  by (auto simp: permits_balance_def split: if_splits)

section \<open>The order of the calls\<close>

definition setup_calls :: "('j, 'o, 'w, 's) worker_ops \<Rightarrow> nats_config \<Rightarrow> 's js_call list" where
  "setup_calls W cfg = Connect (nc_url cfg) (wo_connect W) # map GetOrCreateStream (wo_streams W cfg)"

definition consumer_calls :: "('j, 'o, 'w, 's) worker_ops \<Rightarrow> nats_config \<Rightarrow> 's js_call list" where
  "consumer_calls W cfg = [GetStream (nc_job_stream cfg),
     GetOrCreateConsumer (nc_consumer cfg) (wo_consumer W cfg), OpenMessages]"

text \<open>The set-up once, then the consumer built over and over.\<close>

definition expected_calls :: "('j, 'o, 'w, 's) worker_ops \<Rightarrow> nats_config \<Rightarrow> nat \<Rightarrow> 's js_call list" where
  "expected_calls W cfg n = setup_calls W cfg @ concat (replicate n (consumer_calls W cfg))"

text \<open>What was called so far, by where the loop is.\<close>

fun in_order ::
  "('j, 'o, 'w, 's) worker_ops \<Rightarrow> nats_config \<Rightarrow> 's js_call list \<Rightarrow> 's phase \<Rightarrow> bool" where
  "in_order W cfg calls (Calling call streams) \<longleftrightarrow>
     (case call of
        Connect url opts \<Rightarrow> calls = [] \<and> call # map GetOrCreateStream streams = setup_calls W cfg
      | GetOrCreateStream s \<Rightarrow> calls @ call # map GetOrCreateStream streams = setup_calls W cfg
      | GetStream name \<Rightarrow> (\<exists>n. calls = expected_calls W cfg n) \<and> name = nc_job_stream cfg
      | GetOrCreateConsumer name c \<Rightarrow> (\<exists>n. calls = expected_calls W cfg n @ take 1 (consumer_calls W cfg))
          \<and> name = nc_consumer cfg \<and> c = wo_consumer W cfg
      | OpenMessages \<Rightarrow> (\<exists>n. calls = expected_calls W cfg n @ take 2 (consumer_calls W cfg)))"
| "in_order W cfg calls (Stopped call) \<longleftrightarrow> (\<exists>n rest. calls @ rest = expected_calls W cfg n)"
| "in_order W cfg calls Panicked \<longleftrightarrow> calls = setup_calls W cfg"
| "in_order W cfg calls phase \<longleftrightarrow> (\<exists>n. calls = expected_calls W cfg (Suc n))"

text \<open>The calls so far were all answered, except the one that ended the loop.\<close>

definition failed_last :: "('w, 'o, 's) worker \<Rightarrow> bool" where
  "failed_last wk \<longleftrightarrow> (case wk_phase wk of
       Stopped call \<Rightarrow> \<exists>earlier. wk_calls wk = earlier @ [(call, False)] \<and> list_all snd earlier
     | _ \<Rightarrow> list_all snd (wk_calls wk))"

lemma expected_calls_0: "expected_calls W cfg 0 = setup_calls W cfg"
  by (simp add: expected_calls_def)

lemma expected_calls_Suc: "expected_calls W cfg (Suc n) = expected_calls W cfg n @ consumer_calls W cfg"
proof -
  have "xs @ concat (replicate n xs) = concat (replicate n xs) @ xs" for xs :: "'z list"
    by (induction n) auto
  then show ?thesis by (simp add: expected_calls_def)
qed

lemma in_order_start: "in_order W cfg [] (wk_phase (worker_start W cfg b))"
  by (simp add: worker_start_def setup_calls_def)

text \<open>Whatever call is under way comes next in the expected order.\<close>

lemma in_order_next:
  assumes "in_order W cfg calls (Calling call streams)"
  shows "\<exists>n rest. calls @ call # rest = expected_calls W cfg n"
proof (cases call)
  case (Connect url opts)
  with assms show ?thesis
    by (intro exI [of _ 0]) (auto simp: expected_calls_0)
next
  case (GetOrCreateStream x)
  with assms show ?thesis
    by (intro exI [of _ 0]) (auto simp: expected_calls_0)
next
  case (GetStream name)
  with assms obtain n where "calls = expected_calls W cfg n" "name = nc_job_stream cfg" by auto
  then have "calls @ call # drop 1 (consumer_calls W cfg) = expected_calls W cfg (Suc n)"
    using GetStream by (simp add: expected_calls_Suc consumer_calls_def)
  then show ?thesis by blast
next
  case (GetOrCreateConsumer name c)
  with assms obtain n where "calls = expected_calls W cfg n @ take 1 (consumer_calls W cfg)"
    "name = nc_consumer cfg" "c = wo_consumer W cfg" by auto
  then have "calls @ call # drop 2 (consumer_calls W cfg) = expected_calls W cfg (Suc n)"
    using GetOrCreateConsumer by (simp add: expected_calls_Suc consumer_calls_def)
  then show ?thesis by blast
next
  case OpenMessages
  with assms obtain n where "calls = expected_calls W cfg n @ take 2 (consumer_calls W cfg)" by auto
  then have "calls @ [call] = expected_calls W cfg (Suc n)"
    using OpenMessages by (simp add: expected_calls_Suc consumer_calls_def)
  then show ?thesis by blast
qed

lemma in_order_answered:
  assumes "in_order W cfg (map fst (wk_calls wk)) (Calling call streams)"
  shows "in_order W cfg (map fst (wk_calls (answered W cfg call streams ok wk)))
    (wk_phase (answered W cfg call streams ok wk))"
proof (cases ok)
  case False
  obtain n rest where "map fst (wk_calls wk) @ call # rest = expected_calls W cfg n"
    using in_order_next [OF assms] by blast
  then have "\<exists>n rest. (map fst (wk_calls wk) @ [call]) @ rest = expected_calls W cfg n" by auto
  with False show ?thesis by (auto simp: answered_def)
next
  case ok: True
  show ?thesis
  proof (cases call)
    case (Connect url opts)
    with ok assms show ?thesis
      by (cases streams) (auto simp: answered_def Let_def expected_calls_0 build_consumer_def intro!: exI [of _ 0])
  next
    case (GetOrCreateStream x)
    with ok assms show ?thesis
      by (cases streams) (auto simp: answered_def Let_def expected_calls_0 build_consumer_def intro!: exI [of _ 0])
  next
    case (GetStream name)
    with ok assms show ?thesis by (auto simp: answered_def consumer_calls_def)
  next
    case (GetOrCreateConsumer name c)
    with ok assms show ?thesis by (auto simp: answered_def consumer_calls_def)
  next
    case OpenMessages
    with assms obtain n where "map fst (wk_calls wk) = expected_calls W cfg n @ take 2 (consumer_calls W cfg)" by auto
    then have "map fst (wk_calls wk) @ [OpenMessages] = expected_calls W cfg (Suc n)"
      by (simp add: expected_calls_Suc consumer_calls_def)
    with ok OpenMessages show ?thesis by (auto simp: answered_def)
  qed
qed

lemma in_order_step:
  "worker_step W cfg wk e = Some wk' \<Longrightarrow> in_order W cfg (map fst (wk_calls wk)) (wk_phase wk) \<Longrightarrow>
     in_order W cfg (map fst (wk_calls wk')) (wk_phase wk')"
proof (induction W cfg wk e rule: worker_step.induct)
  case (1 W cfg wk ok)
  then obtain call streams where "wk_phase wk = Calling call streams" "wk' = answered W cfg call streams ok wk"
    by (auto split: phase.splits)
  with 1 show ?case by (auto dest: in_order_answered simp del: in_order.simps)
qed (auto simp: build_consumer_def drop_task_def split: phase.splits nat.splits if_splits)

lemma in_order_run:
  "worker_run W cfg wk es = Some wk' \<Longrightarrow> in_order W cfg (map fst (wk_calls wk)) (wk_phase wk) \<Longrightarrow>
     in_order W cfg (map fst (wk_calls wk')) (wk_phase wk')"
  by (induction es arbitrary: wk)
     (simp_all add: bind_eq_Some_conv del: worker_step.simps in_order.simps, blast intro: in_order_step)

lemma failed_last_step:
  "worker_step W cfg wk e = Some wk' \<Longrightarrow> failed_last wk \<Longrightarrow> failed_last wk'"
proof (induction W cfg wk e rule: worker_step.induct)
  case (1 W cfg wk ok)
  then obtain call streams where "wk_phase wk = Calling call streams" "wk' = answered W cfg call streams ok wk"
    by (auto split: phase.splits)
  moreover have "next_call cfg W call streams \<noteq> Some (Stopped c)" for c
    by (induction cfg W call streams rule: next_call.induct) auto
  ultimately show ?case
    using 1(2) by (auto simp: failed_last_def answered_def Let_def build_consumer_def split: option.split phase.split)
qed (auto simp: failed_last_def build_consumer_def drop_task_def split: phase.splits nat.splits if_splits)

lemma failed_last_run:
  "worker_run W cfg wk es = Some wk' \<Longrightarrow> failed_last wk \<Longrightarrow> failed_last wk'"
  by (induction es arbitrary: wk)
     (simp_all add: bind_eq_Some_conv del: worker_step.simps, blast intro: failed_last_step)

section \<open>Both queues\<close>

definition push_worker ::
  "externals \<Rightarrow> (string \<Rightarrow> push_job envelope option) \<Rightarrow> provider_registry \<Rightarrow>
   (push_job, push_outcome, world, stream_config) worker_ops" where
  "push_worker X decode reg = \<lparr>wo_ingestion = push_ingestion X decode reg,
     wo_connect = \<lparr>cn_name = None, cn_retry_on_initial_connect = False\<rparr>,
     wo_streams = push_streams, wo_consumer = push_consumer\<rparr>"

definition contact_worker ::
  "externals \<Rightarrow> (string \<Rightarrow> contact_job envelope option) \<Rightarrow> contact_registry \<Rightarrow>
   (contact_job, contact_outcome, contact_world, storage \<times> stream_config) worker_ops" where
  "contact_worker X decode reg = \<lparr>wo_ingestion = contact_ingestion X decode reg,
     wo_connect = \<lparr>cn_name = Some ''fanwaave-contact-worker'', cn_retry_on_initial_connect = True\<rparr>,
     wo_streams = contact_streams, wo_consumer = contact_consumer\<rparr>"

definition run_nats_consumer ::
  "externals \<Rightarrow> (string \<Rightarrow> push_job envelope option) \<Rightarrow> nats_config \<Rightarrow> provider_registry \<Rightarrow>
   (world, push_outcome) broker \<Rightarrow> event list \<Rightarrow> (world, push_outcome, stream_config) worker option" where
  "run_nats_consumer X decode cfg reg b events =
     worker_run (push_worker X decode reg) cfg (worker_start (push_worker X decode reg) cfg b) events"

definition run_contact_nats_consumer ::
  "externals \<Rightarrow> (string \<Rightarrow> contact_job envelope option) \<Rightarrow> nats_config \<Rightarrow> contact_registry \<Rightarrow>
   (contact_world, contact_outcome) broker \<Rightarrow> event list \<Rightarrow>
   (contact_world, contact_outcome, storage \<times> stream_config) worker option" where
  "run_contact_nats_consumer X decode cfg reg b events =
     worker_run (contact_worker X decode reg) cfg (worker_start (contact_worker X decode reg) cfg b) events"

text \<open>The loop has returned or panicked.\<close>

fun loop_over :: "'s phase \<Rightarrow> bool" where
  "loop_over (Stopped call) = True"
| "loop_over Panicked = True"
| "loop_over phase = False"

text \<open>
  What holds of a loop at any time: never more handlers than configured and a permit for each
  that is missing; the calls in their order, all of them successful but the one it stopped at;
  once over it takes no message, and until then it is never stuck.
\<close>

definition loop_ok ::
  "('j, 'o, 'w, 's) worker_ops \<Rightarrow> nats_config \<Rightarrow> ('w, 'o, 's) worker \<Rightarrow> bool" where
  "loop_ok W cfg wk \<longleftrightarrow>
     length (wk_tasks wk) \<le> nc_max_concurrency cfg
     \<and> (set_up (wk_phase wk) \<longrightarrow> wk_permits wk + length (wk_tasks wk) = nc_max_concurrency cfg)
     \<and> failed_last wk
     \<and> (case wk_phase wk of
          Calling call streams \<Rightarrow> \<exists>n rest. map fst (wk_calls wk) @ call # rest = expected_calls W cfg n
        | Stopped call \<Rightarrow> \<exists>n rest. map fst (wk_calls wk) @ rest = expected_calls W cfg n
        | Panicked \<Rightarrow> map fst (wk_calls wk) = setup_calls W cfg \<and> max_permits < nc_max_concurrency cfg
        | _ \<Rightarrow> \<exists>n. map fst (wk_calls wk) = expected_calls W cfg (Suc n))
     \<and> (if loop_over (wk_phase wk) then \<forall>seq m. worker_step W cfg wk (NextMessage seq m) = None
        else nc_max_concurrency cfg = 0 \<or> (\<exists>e. worker_step W cfg wk e \<noteq> None))"

lemma loop_not_stuck:
  assumes "permits_balance cfg wk" and "0 < nc_max_concurrency cfg" and "\<not> loop_over (wk_phase wk)"
  shows "\<exists>e. worker_step W cfg wk e \<noteq> None"
proof (cases "wk_phase wk")
  case (Calling call streams)
  then show ?thesis by (intro exI [of _ "Answered True"]) simp
next
  case Polling
  then show ?thesis by (intro exI [of _ NextEnd]) simp
next
  case (Acquiring seq m)
  with assms show ?thesis
    by (cases "wk_permits wk")
       (force simp: permits_balance_def intro: exI [of _ "TaskReturned 0"] exI [of _ Permit])+
next
  case Sleeping
  then show ?thesis by (intro exI [of _ Slept]) simp
qed (use assms in simp_all)

lemma panicked_step:
  "worker_step W cfg wk e = Some wk' \<Longrightarrow> (wk_phase wk = Panicked \<Longrightarrow> max_permits < nc_max_concurrency cfg) \<Longrightarrow>
     wk_phase wk' = Panicked \<Longrightarrow> max_permits < nc_max_concurrency cfg"
proof (induction W cfg wk e rule: worker_step.induct)
  case (1 W cfg wk ok)
  then obtain call streams where "wk_phase wk = Calling call streams" "wk' = answered W cfg call streams ok wk"
    by (auto split: phase.splits)
  moreover have "next_call cfg W call streams \<noteq> Some Panicked"
    by (induction cfg W call streams rule: next_call.induct) auto
  ultimately show ?case
    using 1 by (auto simp: answered_def Let_def build_consumer_def split: if_splits option.splits)
qed (auto simp: build_consumer_def drop_task_def split: phase.splits nat.splits if_splits)

lemma panicked_run:
  "worker_run W cfg wk es = Some wk' \<Longrightarrow> (wk_phase wk = Panicked \<Longrightarrow> max_permits < nc_max_concurrency cfg) \<Longrightarrow>
     wk_phase wk' = Panicked \<Longrightarrow> max_permits < nc_max_concurrency cfg"
proof (induction es arbitrary: wk)
  case (Cons e es)
  then obtain wk1 where "worker_step W cfg wk e = Some wk1" "worker_run W cfg wk1 es = Some wk'"
    by (auto simp: bind_eq_Some_conv)
  with Cons panicked_step show ?case by blast
qed simp

lemma worker_run_ok:
  assumes "worker_run W cfg (worker_start W cfg b) es = Some wk"
  shows "loop_ok W cfg wk"
proof -
  have order: "in_order W cfg (map fst (wk_calls wk)) (wk_phase wk)"
    by (rule in_order_run [OF assms]) (simp add: worker_start_def setup_calls_def)
  have balance: "permits_balance cfg wk"
    by (rule permits_balance_run [OF assms permits_balance_start])
  have "failed_last wk"
    by (rule failed_last_run [OF assms]) (simp add: worker_start_def failed_last_def)
  moreover have "wk_phase wk = Panicked \<Longrightarrow> max_permits < nc_max_concurrency cfg"
    by (rule panicked_run [OF assms]) (simp_all add: worker_start_def)
  moreover have "if loop_over (wk_phase wk) then \<forall>seq m. worker_step W cfg wk (NextMessage seq m) = None
      else nc_max_concurrency cfg = 0 \<or> (\<exists>e. worker_step W cfg wk e \<noteq> None)"
  proof (cases "loop_over (wk_phase wk)")
    case True
    then show ?thesis by (cases "wk_phase wk") auto
  next
    case False
    with loop_not_stuck [OF balance] show ?thesis by (metis neq0_conv)
  qed
  moreover have "case wk_phase wk of
      Calling call streams \<Rightarrow> \<exists>n rest. map fst (wk_calls wk) @ call # rest = expected_calls W cfg n
    | Stopped call \<Rightarrow> \<exists>n rest. map fst (wk_calls wk) @ rest = expected_calls W cfg n
    | Panicked \<Rightarrow> map fst (wk_calls wk) = setup_calls W cfg
    | _ \<Rightarrow> \<exists>n. map fst (wk_calls wk) = expected_calls W cfg (Suc n)"
    using order in_order_next [of W cfg "map fst (wk_calls wk)"]
    by (cases "wk_phase wk") (auto simp del: in_order.simps(1))
  ultimately show ?thesis
    unfolding loop_ok_def
    using balance permits_balance_bound [OF balance]
    by (intro conjI) (auto simp: permits_balance_def split: phase.split simp del: worker_step.simps)
qed

section \<open>Properties\<close>

text \<open>
  C3: The consumer loops of both queues, at any time: at most \<open>max_concurrency\<close> handlers run, and
  permits and handlers add up; the streams are ensured before a consumer is built, and every
  consumer is built anew by the same calls. A loop ends only, and at once, when a call fails (also
  when rebuilding the consumer after a fetch error) or when the semaphore cannot be created: every
  call before the last one succeeded, and while the loop runs all did. A loop that is over fetches
  nothing more; one that is not can always go on, given a positive concurrency.
\<close>

theorem consumer_loops_ok:
  "(case run_nats_consumer X decode cfg reg b events of
      None \<Rightarrow> True | Some wk \<Rightarrow> loop_ok (push_worker X decode reg) cfg wk)
   \<and> (case run_contact_nats_consumer X decode2 cfg reg2 b2 events of
      None \<Rightarrow> True | Some wk \<Rightarrow> loop_ok (contact_worker X decode2 reg2) cfg wk)"
  by (auto simp: run_nats_consumer_def run_contact_nats_consumer_def dest: worker_run_ok split: option.splits)

end
