(* ===== verification/Dispatch_Log.thy ===== *)
theory Dispatch_Log
  imports Contact_Nats
begin

text \<open>
  What a queue handler dispatches, read off a run of \<open>handle_message\<close> itself: the handler is run
  with a \<open>sv_process\<close> that also notes every outcome it produces. Noting changes nothing the
  handler does (\<open>mirrors\<close>), and a handler processes the job of an accepted message exactly
  once and that of a rejected one never. The locale \<open>budgeted_ingestion\<close> adds to the contract
  \<open>ingestion\<close> what the last attempt is.
\<close>

section \<open>A handler under observation\<close>

definition recorded :: "('j, 'o, 'w) ingestion_ops \<Rightarrow> ('j, 'o, 'w \<times> 'o list) ingestion_ops" where
  "recorded S = \<lparr>sv_envelope_schema = sv_envelope_schema S, sv_result_schema = sv_result_schema S,
     sv_dead_schema = sv_dead_schema S, sv_decode = sv_decode S,
     sv_process = (\<lambda>job (w, outs). case sv_process S job w of (out, w') \<Rightarrow> (out, (w', outs @ [out]))),
     sv_now_ms = (\<lambda>(w, outs). case sv_now_ms S w of (now, w') \<Rightarrow> (now, (w', outs))),
     sv_ids = sv_ids S, sv_trace = sv_trace S, sv_disposition = sv_disposition S,
     sv_disposition_unpublished = sv_disposition_unpublished S, sv_digest = sv_digest S\<rparr>"

definition watched :: "('w, 'o) broker \<Rightarrow> ('w \<times> 'o list, 'o) broker" where
  "watched b = \<lparr>bk_world = (bk_world b, []), bk_publish_ok = bk_publish_ok b,
     bk_ack_ok = bk_ack_ok b, bk_ticks = bk_ticks b, bk_log = bk_log b\<rparr>"

definition unwatched :: "('w \<times> 'o list, 'o) broker \<Rightarrow> ('w, 'o) broker" where
  "unwatched b = \<lparr>bk_world = fst (bk_world b), bk_publish_ok = bk_publish_ok b,
     bk_ack_ok = bk_ack_ok b, bk_ticks = bk_ticks b, bk_log = bk_log b\<rparr>"

text \<open>The outcomes of every job processed while \<open>run\<close> is under observation.\<close>

definition dispatches ::
  "(('w \<times> 'o list, 'o) broker \<Rightarrow> ('w \<times> 'o list, 'o) broker) \<Rightarrow> ('w, 'o) broker \<Rightarrow> 'o list" where
  "dispatches run b = snd (bk_world (run (watched b)))"

lemma recorded_sel [simp]:
  "sv_envelope_schema (recorded S) = sv_envelope_schema S" "sv_result_schema (recorded S) = sv_result_schema S"
  "sv_dead_schema (recorded S) = sv_dead_schema S" "sv_decode (recorded S) = sv_decode S"
  "sv_ids (recorded S) = sv_ids S" "sv_trace (recorded S) = sv_trace S"
  "sv_disposition (recorded S) = sv_disposition S" "sv_digest (recorded S) = sv_digest S"
  "sv_disposition_unpublished (recorded S) = sv_disposition_unpublished S"
  by (simp_all add: recorded_def)

lemma unwatched_watched [simp]: "unwatched (watched b) = b"
  by (simp add: watched_def unwatched_def)

lemma unwatched_ticks [simp]: "bk_ticks (unwatched b) = bk_ticks b"
  by (simp add: unwatched_def)

lemma watched_sel [simp]:
  "bk_log (watched b) = bk_log b" "bk_world (watched b) = (bk_world b, [])"
  by (simp_all add: watched_def)

section \<open>Observing changes nothing\<close>

text \<open>\<open>f\<close> does to an observed broker what \<open>g\<close> does to the broker.\<close>

definition mirrors ::
  "(('w \<times> 'o list, 'o) broker \<Rightarrow> 'a \<times> ('w \<times> 'o list, 'o) broker) \<Rightarrow>
   (('w, 'o) broker \<Rightarrow> 'a \<times> ('w, 'o) broker) \<Rightarrow> bool" where
  "mirrors f g \<longleftrightarrow> (\<forall>b. g (unwatched b) = (fst (f b), unwatched (snd (f b))))"

named_theorems mirror_intros

lemma mirrors_step [mirror_intros]: "mirrors f g \<Longrightarrow> mirrors (io_step f) (io_step g)"
  by (simp add: mirrors_def io_step_def split_beta)

lemma mirrors_throw [mirror_intros]: "mirrors (io_throw e) (io_throw e)"
  by (simp add: mirrors_def io_throw_def)

lemma mirrors_bind [mirror_intros]:
  assumes "mirrors f g" and "\<And>x. mirrors (f2 x) (g2 x)"
  shows "mirrors (io_bind f f2) (io_bind g g2)"
  using assms by (auto simp: mirrors_def io_bind_def split_beta split: sum.splits)

lemma mirrors_publish [mirror_intros]: "mirrors (publish_json subject event) (publish_json subject event)"
  by (simp add: mirrors_def publish_json_def Let_def unwatched_def)

lemma mirrors_ack [mirror_intros]: "mirrors (ack_with kind) (ack_with kind)"
  by (simp add: mirrors_def ack_with_def Let_def unwatched_def)

lemma mirrors_dead_letter [mirror_intros]:
  "mirrors (on_world (dead_letter_for_payload (recorded S) payload reason job out n limit))
     (on_world (dead_letter_for_payload S payload reason job out n limit))"
  by (simp add: mirrors_def on_world_def dead_letter_for_payload_def recorded_def unwatched_def split_beta)

lemma mirrors_now [mirror_intros]: "mirrors (on_world (sv_now_ms (recorded S))) (on_world (sv_now_ms S))"
  by (simp add: mirrors_def on_world_def recorded_def unwatched_def split_beta)

lemma unwatched_heartbeats: "heartbeats n (unwatched b) = unwatched (heartbeats n b)"
proof (induction n arbitrary: b)
  case (Suc n)
  have "ack_with AckProgress (unwatched b)
      = (fst (ack_with AckProgress b), unwatched (snd (ack_with AckProgress b)))"
    by (simp add: ack_with_def Let_def unwatched_def)
  with Suc [of "snd (ack_with AckProgress b)"] show ?case by simp
qed simp

lemma mirrors_process [mirror_intros]:
  "mirrors (run_with_ack_progress (sv_process (recorded S) job)) (run_with_ack_progress (sv_process S job))"
proof -
  have "mirrors (on_world (sv_process (recorded S) job)) (on_world (sv_process S job))"
    by (simp add: mirrors_def on_world_def recorded_def unwatched_def split_beta)
  then show ?thesis
    by (simp add: mirrors_def run_with_ack_progress_def unwatched_heartbeats)
qed

lemma mirrors_reject [mirror_intros]:
  "mirrors (reject_message (recorded S) cfg m reason job out) (reject_message S cfg m reason job out)"
  unfolding reject_message_def by (intro mirror_intros)

lemma mirrors_settle [mirror_intros]:
  "mirrors (settle_published (recorded S) cfg m job out) (settle_published S cfg m job out)"
  "mirrors (settle_unpublished (recorded S) cfg m job out) (settle_unpublished S cfg m job out)"
  unfolding settle_published_def settle_unpublished_def
  by (auto split: nats_disposition.split intro!: mirror_intros)

lemma mirrors_handle_message: "mirrors (handle_message (recorded S) cfg m) (handle_message S cfg m)"
proof -
  have "mirrors (process_and_settle (recorded S) cfg m job) (process_and_settle S cfg m job)" for job
    unfolding process_and_settle_def result_event_for_def recorded_sel
    by (intro mirror_intros) (auto split: sum.split intro!: mirror_intros)
  then show ?thesis
    unfolding handle_message_def recorded_sel
    by (auto split: option.split intro!: mirror_intros)
qed

section \<open>One dispatch for each accepted delivery\<close>

interpretation undispatched: step_frame "\<lambda>b b'. snd (bk_world b') = snd (bk_world b)"
  by unfold_locales simp_all

lemma undispatched_steps:
  "io_frame (\<lambda>b b'. snd (bk_world b') = snd (bk_world b)) (publish_json subject event)"
  "io_frame (\<lambda>b b'. snd (bk_world b') = snd (bk_world b)) (io_step (publish_json subject event))"
  "io_frame (\<lambda>b b'. snd (bk_world b') = snd (bk_world b)) (ack_with kind)"
  "io_frame (\<lambda>b b'. snd (bk_world b') = snd (bk_world b)) (io_step (on_world (sv_now_ms (recorded S))))"
  "io_frame (\<lambda>b b'. snd (bk_world b') = snd (bk_world b))
     (io_step (on_world (dead_letter_for_payload (recorded S) payload reason job out n limit)))"
  by (simp_all add: io_frame_def io_step_def publish_json_def ack_with_def on_world_def Let_def
      recorded_def dead_letter_for_payload_def split_beta)

lemmas undispatched_intros = undispatched_steps undispatched.frame_bind undispatched.frame_pure

lemma undispatched_reject:
  "io_frame (\<lambda>b b'. snd (bk_world b') = snd (bk_world b)) (reject_message (recorded S) cfg m reason job out)"
  unfolding reject_message_def by (intro undispatched_intros)

lemma undispatched_settle:
  "io_frame (\<lambda>b b'. snd (bk_world b') = snd (bk_world b)) (settle_published (recorded S) cfg m job out)"
  "io_frame (\<lambda>b b'. snd (bk_world b') = snd (bk_world b)) (settle_unpublished (recorded S) cfg m job out)"
  unfolding settle_published_def settle_unpublished_def
  by (auto split: nats_disposition.split intro!: undispatched_intros undispatched_reject simp del: undispatched.frame_pure)

lemma heartbeats_world: "bk_world (heartbeats n b) = bk_world b"
  using heartbeats_spec [of n b] by simp

lemma run_with_ack_progress_world:
  "bk_world (snd (run_with_ack_progress f b)) = snd (f (bk_world b))"
  "fst (run_with_ack_progress f b) = fst (f (bk_world b))"
  by (simp_all add: run_with_ack_progress_def on_world_def heartbeats_world split_beta)

lemma recorded_process:
  "sv_process (recorded S) job (w, outs)
     = (fst (sv_process S job w), (snd (sv_process S job w), outs @ [fst (sv_process S job w)]))"
  by (simp add: recorded_def split_beta)

lemma process_and_settle_dispatch:
  "snd (bk_world (snd (process_and_settle (recorded S) cfg m job b)))
     = snd (bk_world b) @ [fst (sv_process S job (fst (bk_world b)))]"
proof -
  let ?run = "run_with_ack_progress (sv_process (recorded S) job) b"
  let ?rest = "\<lambda>out. io_bind (io_step (on_world (sv_now_ms (recorded S)))) (\<lambda>now.
     io_bind (io_step (publish_json (nc_result_subject cfg)
         (ResultEvent (result_event_for (recorded S) m job out now)))) (\<lambda>published.
       case published of
         Inr _ \<Rightarrow> settle_published (recorded S) cfg m job out
       | Inl error \<Rightarrow>
           io_bind (settle_unpublished (recorded S) cfg m job out) (\<lambda>_. io_throw error)))"
  have rest: "io_frame (\<lambda>b b'. snd (bk_world b') = snd (bk_world b)) (?rest out)" for out
    by (intro undispatched_intros) (auto split: sum.split intro!: undispatched_intros undispatched_settle)
  have "process_and_settle (recorded S) cfg m job b = ?rest (fst ?run) (snd ?run)"
    by (simp add: process_and_settle_def io_bind_def [of "io_step (run_with_ack_progress (sv_process (recorded S) job))"] io_step_def [of "run_with_ack_progress (sv_process (recorded S) job)"] split_beta)
  with rest have "snd (bk_world (snd (process_and_settle (recorded S) cfg m job b))) = snd (bk_world (snd ?run))"
    by (simp add: io_frame_def)
  also have "\<dots> = snd (bk_world b) @ [fst (sv_process S job (fst (bk_world b)))]"
    using recorded_process [of S job "fst (bk_world b)" "snd (bk_world b)"]
    by (simp add: run_with_ack_progress_world)
  finally show ?thesis .
qed

definition handler_dispatches ::
  "('j, 'o, 'w) ingestion_ops \<Rightarrow> nats_config \<Rightarrow> message \<Rightarrow> ('w, 'o) broker \<Rightarrow> 'o list" where
  "handler_dispatches S cfg m = dispatches (\<lambda>b. snd (handle_message (recorded S) cfg m b))"

lemma accepted_job_recorded: "accepted_job (recorded S) cfg m = accepted_job S cfg m"
  unfolding accepted_job_def recorded_sel by (rule refl)

lemma handler_dispatches_processed: "handler_dispatches S cfg m b = processed S cfg m b"
proof (cases "accepted_job S cfg m")
  case None
  then have "accepted_job (recorded S) cfg m = None" by (simp add: accepted_job_recorded)
  from rejected_handled [OF this] obtain reason job
    where "handle_message (recorded S) cfg m = reject_message (recorded S) cfg m reason job None" by blast
  then show ?thesis
    using None undispatched_reject [of S cfg m reason job None]
    by (simp add: handler_dispatches_def dispatches_def processed_def io_frame_def)
next
  case (Some job)
  then have "accepted_job (recorded S) cfg m = Some job" by (simp add: accepted_job_recorded)
  from accepted_handled [OF this] Some show ?thesis
    using process_and_settle_dispatch [of S cfg m job "watched b"]
    by (simp add: handler_dispatches_def dispatches_def processed_def)
qed

section \<open>What a handler asks of the server\<close>

text \<open>The acknowledgements among these log entries that reached the server.\<close>

fun received :: "'o bus_entry list \<Rightarrow> ack_kind list" where
  "received [] = []"
| "received (Acked kind ok # entries) = (if ok then kind # received entries else received entries)"
| "received (Published subject event ok # entries) = received entries"

lemma received_kinds: "kind \<in> set (received entries) \<Longrightarrow> KAck kind \<in> set (map kind_of entries)"
  by (induction entries rule: received.induct) (auto split: if_splits)

text \<open>What an attempt that uses up a positive budget is, the same for both queues.\<close>

locale budgeted_ingestion = ingestion +
  assumes exhausted_budget: "0 < sint limit \<Longrightarrow> exhausted n limit \<longleftrightarrow> limit \<le> n"
begin

text \<open>
  A handler asks for another delivery only after a retryable outcome, and never at an attempt
  that reaches the budget.
\<close>

lemma nak_within_budget:
  assumes h: "handle_message S cfg m b = (r, b')"
    and nak: "AckNak d \<in> set (received (drop (length (bk_log b)) (bk_log b')))"
  shows "list_all retryable (handler_dispatches S cfg m b)"
    and "0 < sint (nc_max_deliver cfg) \<Longrightarrow> delivery_attempt m < nc_max_deliver cfg"
proof -
  from nak have nak: "KAck (AckNak d) \<in> set (appended b b')"
    unfolding appended_def by (rule received_kinds)
  show "list_all retryable (handler_dispatches S cfg m b)"
  proof (cases "accepted_job S cfg m")
    case (Some job)
    from handle_message_log [where cfg = cfg and m = m and b = b] h Some
    obtain out w ok published where p: "sv_process S job (bk_world b) = (out, w)"
      "appended b b' = replicate (bk_ticks b) (KAck AckProgress) @ KResult published
         # settlement cfg m out published ok" by auto
    with nak have "KAck (AckNak d) \<in> set (settlement cfg m out published ok)" by auto
    then have "retryable out" by (simp add: settlement_nak)
    with p Some show ?thesis by (simp add: handler_dispatches_processed processed_def)
  qed (simp add: handler_dispatches_processed processed_def)
  assume "0 < sint (nc_max_deliver cfg)"
  with exhausted_ends(2) [OF _ h, of d] nak show "delivery_attempt m < nc_max_deliver cfg"
    by (metis exhausted_budget linorder_not_le)
qed

end

interpretation push_budget: budgeted_ingestion "push_ingestion X decode reg"
  "\<lambda>out. is_retryable (po_class out)" push_exhausted for X decode reg
  by unfold_locales (simp add: push_exhausted_def)

interpretation contact_budget: budgeted_ingestion "contact_ingestion X decode reg"
  "\<lambda>out. contact_is_retryable (co_class out)" contact_exhausted for X decode reg
  by unfold_locales (simp add: contact_exhausted_def budget_u64_def)

end
