(* ===== verification/Worker_System.thy ===== *)
theory Worker_System
  imports Worker Dispatch_Log "HOL-Library.Multiset"
begin

text \<open>
  Any number of processes that run the consumer loop of one queue, whatever JetStream sends
  them. The server is not modelled: every delivery is an input, and what is known about it is a
  hypothesis on the history of a message (\<open>on_request\<close>, \<open>numbered\<close>). The history records what
  was sent, what the handlers dispatched in their own runs (theory Dispatch_Log) and which of
  their acknowledgements reached the server. Other traffic of a process may change its world
  between any two steps.
\<close>

section \<open>The history of a message\<close>

datatype 'o message_event =
    Sent message
  | Dispatched 'o
  | Replied ack_kind

fun sent :: "'o message_event list \<Rightarrow> message list" where
  "sent [] = []"
| "sent (Sent m # es) = m # sent es"
| "sent (_ # es) = sent es"

fun dispatched :: "'o message_event list \<Rightarrow> 'o list" where
  "dispatched [] = []"
| "dispatched (Dispatched out # es) = out # dispatched es"
| "dispatched (_ # es) = dispatched es"

fun is_nak :: "ack_kind \<Rightarrow> bool" where
  "is_nak (AckNak delay) = True"
| "is_nak _ = False"

text \<open>Whether a message is due: a negative acknowledgement arrived after it was last sent.\<close>

fun due :: "bool \<Rightarrow> 'o message_event list \<Rightarrow> bool" where
  "due now [] = now"
| "due now (Sent m # es) = due False es"
| "due now (Dispatched out # es) = due now es"
| "due now (Replied kind # es) = due (now \<or> is_nak kind) es"

text \<open>
  The server sends a message once, and again only when it is due: never because the deadline of
  an earlier delivery passed without an acknowledgement.
\<close>

fun on_request :: "bool \<Rightarrow> 'o message_event list \<Rightarrow> bool" where
  "on_request now [] = True"
| "on_request now (Sent m # es) = (now \<and> on_request False es)"
| "on_request now (Dispatched out # es) = on_request now es"
| "on_request now (Replied kind # es) = on_request (now \<or> is_nak kind) es"

text \<open>Deliveries carry their count, from one.\<close>

definition numbered :: "'o message_event list \<Rightarrow> bool" where
  "numbered es \<longleftrightarrow> map ms_delivered (sent es) = map (\<lambda>n. Some (of_nat (Suc n))) [0..<length (sent es)]"

lemma sent_append [simp]: "sent (es @ es') = sent es @ sent es'"
  by (induction es rule: sent.induct) simp_all

lemma dispatched_append [simp]: "dispatched (es @ es') = dispatched es @ dispatched es'"
  by (induction es rule: dispatched.induct) simp_all

lemma due_append [simp]: "due now (es @ es') = due (due now es) es'"
  by (induction now es rule: due.induct) simp_all

lemma on_request_append [simp]:
  "on_request now (es @ es') \<longleftrightarrow> on_request now es \<and> on_request (due now es) es'"
  by (induction now es rule: on_request.induct) auto

text \<open>What a handler adds to the history.\<close>

definition handler_events :: "'o list \<Rightarrow> ack_kind list \<Rightarrow> 'o message_event list" where
  "handler_events outs replies = map Dispatched outs @ map Replied replies"

lemma handler_events_sel [simp]:
  "sent (handler_events outs replies) = []" "dispatched (handler_events outs replies) = outs"
  "on_request now (handler_events outs replies)"
  "due now (handler_events outs replies) \<longleftrightarrow> now \<or> (\<exists>d. AckNak d \<in> set replies)"
proof -
  have outs: "sent (map Dispatched outs) = []" "dispatched (map Dispatched outs) = outs"
    "on_request now (map Dispatched outs)" "due now (map Dispatched outs) = now" for now
    by (induction outs) simp_all
  have replies: "sent (map Replied replies) = []" "dispatched (map Replied replies) = []"
    "on_request now (map Replied replies)" for now
    by (induction replies arbitrary: now) simp_all
  have due: "due now (map Replied replies) \<longleftrightarrow> now \<or> (\<exists>d. AckNak d \<in> set replies)" for now
  proof (induction replies arbitrary: now)
    case (Cons kind replies)
    then show ?case by (cases kind) auto
  qed simp
  from outs replies due show "sent (handler_events outs replies) = []"
    "dispatched (handler_events outs replies) = outs" "on_request now (handler_events outs replies)"
    "due now (handler_events outs replies) \<longleftrightarrow> now \<or> (\<exists>d. AckNak d \<in> set replies)"
    by (simp_all add: handler_events_def)
qed

lemma numbered_sent:
  "numbered (es @ [Sent m]) \<longleftrightarrow> numbered es \<and> ms_delivered m = Some (of_nat (Suc (length (sent es))))"
  by (simp add: numbered_def)

lemma numbered_handler [simp]: "numbered (es @ handler_events outs replies) = numbered es"
  by (simp add: numbered_def)

lemma numbered_last:
  assumes "numbered es" and "sent es \<noteq> []"
  shows "ms_delivered (last (sent es)) = Some (of_nat (length (sent es)))"
proof -
  have "last (map ms_delivered (sent es)) = last (map (\<lambda>n. Some (of_nat (Suc n))) [0..<length (sent es)])"
    using assms(1) by (simp add: numbered_def)
  with assms(2) show ?thesis by (simp add: last_map last_upt del: of_nat_Suc)
qed

section \<open>Processes and their queue\<close>

record ('w, 'o, 's) system =
  sy_workers :: "('w, 'o, 's) worker list"
  sy_history :: "nat \<Rightarrow> 'o message_event list"

definition system_start ::
  "('j, 'o, 'w, 's) worker_ops \<Rightarrow> nats_config \<Rightarrow> ('w, 'o) broker list \<Rightarrow> ('w, 'o, 's) system" where
  "system_start W cfg brokers =
     \<lparr>sy_workers = map (worker_start W cfg) brokers, sy_history = (\<lambda>seq. [])\<rparr>"

text \<open>
  Steps of process \<open>k\<close>: its loop, a delivery of any message under any place in the stream, the
  end of its \<open>i\<close>-th handler, other traffic, and a crash with a restart, which loses whatever it
  held. A handler that dies with its process after processing its job panics first.
\<close>

datatype ('w, 'o) system_event =
    LoopEvent nat event
  | Delivered nat nat message
  | HandlerReturned nat nat
  | HandlerPanicked nat nat bool
  | OtherTraffic nat 'w
  | Restarted nat "('w, 'o) broker"

fun of_the_loop :: "event \<Rightarrow> bool" where
  "of_the_loop (NextMessage seq m) = False"
| "of_the_loop (TaskReturned i) = False"
| "of_the_loop (TaskPanicked i b) = False"
| "of_the_loop e = True"

definition update_worker ::
  "nat \<Rightarrow> ('w, 'o, 's) worker \<Rightarrow> ('w, 'o, 's) system \<Rightarrow> ('w, 'o, 's) system" where
  "update_worker k wk s = s\<lparr>sy_workers := (sy_workers s)[k := wk]\<rparr>"

definition add_events :: "nat \<Rightarrow> 'o message_event list \<Rightarrow> ('w, 'o, 's) system \<Rightarrow> ('w, 'o, 's) system" where
  "add_events seq es s = s\<lparr>sy_history := (sy_history s)(seq := sy_history s seq @ es)\<rparr>"

text \<open>A handler of \<open>wk\<close> that dispatched \<open>outs\<close> has ended and left \<open>wk'\<close>.\<close>

definition task_events ::
  "'o list \<Rightarrow> ('w, 'o, 's) worker \<Rightarrow> ('w, 'o, 's) worker \<Rightarrow> 'o message_event list" where
  "task_events outs wk wk' = handler_events outs
     (received (drop (length (bk_log (wk_broker wk))) (bk_log (wk_broker wk'))))"

fun system_step ::
  "('j, 'o, 'w, 's) worker_ops \<Rightarrow> nats_config \<Rightarrow> ('w, 'o, 's) system \<Rightarrow> ('w, 'o) system_event \<Rightarrow>
   ('w, 'o, 's) system option" where
  "system_step W cfg s (LoopEvent k e) =
     (if k < length (sy_workers s) \<and> of_the_loop e
      then map_option (\<lambda>wk. update_worker k wk s) (worker_step W cfg (sy_workers s ! k) e)
      else None)"
| "system_step W cfg s (Delivered k seq m) =
     (if k < length (sy_workers s)
      then map_option (\<lambda>wk. add_events seq [Sent m] (update_worker k wk s))
             (worker_step W cfg (sy_workers s ! k) (NextMessage seq m))
      else None)"
| "system_step W cfg s (HandlerReturned k i) =
     (if k < length (sy_workers s) \<and> i < length (wk_tasks (sy_workers s ! k))
      then (let wk = sy_workers s ! k; (seq, m) = wk_tasks wk ! i in
        map_option (\<lambda>wk'. add_events seq
            (task_events (handler_dispatches (wo_ingestion W) cfg m (wk_broker wk)) wk wk')
            (update_worker k wk' s))
          (worker_step W cfg wk (TaskReturned i)))
      else None)"
| "system_step W cfg s (HandlerPanicked k i after_processing) =
     (if k < length (sy_workers s) \<and> i < length (wk_tasks (sy_workers s ! k))
      then (let wk = sy_workers s ! k; (seq, m) = wk_tasks wk ! i in
        map_option (\<lambda>wk'. add_events seq
            (task_events (dispatches (panicked_broker (recorded (wo_ingestion W)) cfg m after_processing)
              (wk_broker wk)) wk wk')
            (update_worker k wk' s))
          (worker_step W cfg wk (TaskPanicked i after_processing)))
      else None)"
| "system_step W cfg s (OtherTraffic k w) =
     (if k < length (sy_workers s)
      then (let wk = sy_workers s ! k in
        Some (update_worker k (wk\<lparr>wk_broker := (wk_broker wk)\<lparr>bk_world := w\<rparr>\<rparr>) s))
      else None)"
| "system_step W cfg s (Restarted k b) =
     (if k < length (sy_workers s) then Some (update_worker k (worker_start W cfg b) s) else None)"

fun system_run ::
  "('j, 'o, 'w, 's) worker_ops \<Rightarrow> nats_config \<Rightarrow> ('w, 'o, 's) system \<Rightarrow> ('w, 'o) system_event list \<Rightarrow>
   ('w, 'o, 's) system option" where
  "system_run W cfg s [] = Some s"
| "system_run W cfg s (e # es) = Option.bind (system_step W cfg s e) (\<lambda>s'. system_run W cfg s' es)"

lemma system_selectors [simp]:
  "sy_history (update_worker k wk s) = sy_history s" "sy_workers (add_events q es s) = sy_workers s"
  "sy_workers (update_worker k wk s) = (sy_workers s)[k := wk]"
  "sy_history (add_events q es s) = (sy_history s)(q := sy_history s q @ es)"
  by (simp_all add: update_worker_def add_events_def)

section \<open>Deliveries under way\<close>

text \<open>The deliveries of a message that a worker holds, in hand or in a handler.\<close>

definition holds :: "nat \<Rightarrow> ('w, 'o, 's) worker \<Rightarrow> message multiset" where
  "holds seq wk = mset (map snd (filter (\<lambda>(q, m). q = seq) (wk_tasks wk)))
     + (case wk_phase wk of Acquiring q m \<Rightarrow> if q = seq then {#m#} else {#} | _ \<Rightarrow> {#})"

definition held :: "('w, 'o, 's) system \<Rightarrow> nat \<Rightarrow> message multiset" where
  "held s seq = sum_list (map (holds seq) (sy_workers s))"

lemma sum_list_replace:
  fixes f :: "'a \<Rightarrow> 'b :: comm_monoid_add"
  shows "k < length xs \<Longrightarrow> sum_list (map f (xs[k := y])) + f (xs ! k) = sum_list (map f xs) + f y"
proof (induction xs arbitrary: k)
  case (Cons x xs)
  show ?case
  proof (cases k)
    case (Suc j)
    with Cons have "sum_list (map f (xs[j := y])) + f (xs ! j) = sum_list (map f xs) + f y" by simp
    then show ?thesis using Suc by (simp add: add.assoc)
  qed (simp add: ac_simps)
qed simp

lemma held_update_worker:
  "k < length (sy_workers s) \<Longrightarrow>
     held (update_worker k wk s) seq + holds seq (sy_workers s ! k) = held s seq + holds seq wk"
  by (simp add: held_def sum_list_replace)

lemma held_add_events [simp]: "held (add_events q es s) seq = held s seq"
  by (simp add: held_def)

lemma holds_start [simp]: "holds seq (worker_start W cfg b) = {#}"
  by (simp add: holds_def worker_start_def)

lemma holds_broker [simp]: "holds seq (wk\<lparr>wk_broker := b\<rparr>) = holds seq wk"
  by (simp add: holds_def)

lemma next_call_not_acquiring: "next_call cfg W call ss \<noteq> Some (Acquiring q m)"
  by (induction cfg W call ss rule: next_call.induct) auto

lemma holds_loop:
  "worker_step W cfg wk e = Some wk' \<Longrightarrow> of_the_loop e \<Longrightarrow> holds seq wk' = holds seq wk"
proof (induction W cfg wk e rule: worker_step.induct)
  case (1 W cfg wk ok)
  then obtain call streams where c: "wk_phase wk = Calling call streams"
    "wk' = answered W cfg call streams ok wk" by (auto split: phase.splits)
  then show ?case
    using next_call_not_acquiring [of cfg W call streams]
    by (auto simp: holds_def answered_def Let_def build_consumer_def split: option.splits phase.splits)
qed (auto simp: holds_def build_consumer_def split: phase.split_asm nat.split_asm)

lemma holds_delivery:
  "worker_step W cfg wk (NextMessage q m) = Some wk' \<Longrightarrow>
     holds seq wk' = holds seq wk + (if q = seq then {#m#} else {#})"
  by (auto simp: holds_def split: phase.split_asm)

lemma holds_drop_task:
  assumes "i < length (wk_tasks wk)" and "wk_tasks wk ! i = (q, m)"
  shows "holds seq (drop_task i wk) + (if q = seq then {#m#} else {#}) = holds seq wk"
proof -
  have split: "wk_tasks wk = take i (wk_tasks wk) @ (q, m) # drop (Suc i) (wk_tasks wk)"
    using id_take_nth_drop [OF assms(1)] assms(2) by simp
  let ?held = "\<lambda>ts. mset (map snd (filter (\<lambda>(q, m). q = seq) ts))"
  have "?held (wk_tasks wk) = ?held (take i (wk_tasks wk)) + (if q = seq then {#m#} else {#})
      + ?held (drop (Suc i) (wk_tasks wk))"
    by (subst split) simp
  then show ?thesis by (simp add: holds_def drop_task_def)
qed

section \<open>What every history keeps\<close>

text \<open>
  The books of one message with history \<open>es\<close> and deliveries \<open>h\<close> under way: nothing is dispatched
  but for a delivery; and with a server that sends on request and numbers its deliveries, at
  most the last delivery is under way, all outcomes but the last are retryable, all of them as
  long as the message is under way or due, and deliveries stay within a positive limit.
\<close>

definition requests_ok ::
  "('o \<Rightarrow> bool) \<Rightarrow> i64 \<Rightarrow> message multiset \<Rightarrow> 'o message_event list \<Rightarrow> bool" where
  "requests_ok retryable limit h es \<longleftrightarrow>
     list_all retryable (butlast (dispatched es))
     \<and> (0 < sint limit \<longrightarrow> int (length (sent es)) \<le> sint limit)
     \<and> (h = {#} \<or> h = {#last (sent es)#} \<and> sent es \<noteq> [] \<and> \<not> due True es \<and> list_all retryable (dispatched es))
     \<and> (due True es \<longrightarrow> list_all retryable (dispatched es)
          \<and> (0 < sint limit \<longrightarrow> int (length (sent es)) < sint limit))"

definition books_balance ::
  "('o \<Rightarrow> bool) \<Rightarrow> i64 \<Rightarrow> message multiset \<Rightarrow> 'o message_event list \<Rightarrow> bool" where
  "books_balance retryable limit h es \<longleftrightarrow>
     size h + length (dispatched es) \<le> length (sent es)
     \<and> (on_request True es \<longrightarrow> numbered es \<longrightarrow> requests_ok retryable limit h es)"

lemma books_start: "books_balance retryable limit {#} []"
  by (simp add: books_balance_def requests_ok_def)

lemma books_delivered:
  "books_balance retryable limit h es \<Longrightarrow> books_balance retryable limit (add_mset m h) (es @ [Sent m])"
  by (auto simp: books_balance_def requests_ok_def numbered_sent)

lemma books_lost: "books_balance retryable limit (h + h') es \<Longrightarrow> books_balance retryable limit h es"
  by (auto simp: books_balance_def requests_ok_def union_is_single)

text \<open>The end of a handler: it dispatched at most once, and asked for more only within the budget.\<close>

lemma books_handled:
  assumes books: "books_balance retryable limit (add_mset m h) es" and once: "length outs \<le> 1"
    and nak: "\<And>d. AckNak d \<in> set replies \<Longrightarrow>
      list_all retryable outs \<and> (0 < sint limit \<longrightarrow> delivery_attempt m < limit)"
  shows "books_balance retryable limit h (es @ handler_events outs replies)"
proof -
  have "requests_ok retryable limit h (es @ handler_events outs replies)"
    if server: "on_request True es" "numbered es"
  proof -
    from books server have ok: "requests_ok retryable limit (add_mset m h) es"
      by (simp add: books_balance_def)
    then have h: "h = {#}" "m = last (sent es)" "sent es \<noteq> []" "\<not> due True es"
      and outcomes: "list_all retryable (dispatched es)"
      and bound: "0 < sint limit \<Longrightarrow> int (length (sent es)) \<le> sint limit"
      by (auto simp: requests_ok_def)
    have "int (length (sent es)) < sint limit" if "AckNak d \<in> set replies" "0 < sint limit" for d
    proof (rule ccontr)
      assume "\<not> int (length (sent es)) < sint limit"
      with bound that have n: "int (length (sent es)) = sint limit" by simp
      have "of_nat (length (sent es)) = (of_int (int (length (sent es))) :: i64)" by simp
      also have "\<dots> = limit" by (simp add: n)
      finally have "ms_delivered m = Some limit"
        using numbered_last [OF server(2) h(3)] h(2) by simp
      with that(2) have "delivery_attempt m = limit" by (simp add: delivery_attempt_def then_some_def)
      with nak [OF that(1)] that(2) show False by simp
    qed
    moreover have "list_all retryable (butlast (dispatched es @ outs))"
      using outcomes once by (cases outs) (auto simp: list_all_iff dest: in_set_butlastD)
    ultimately show ?thesis
      using h outcomes bound nak by (auto simp: requests_ok_def)
  qed
  with books once show ?thesis by (simp add: books_balance_def)
qed

definition message_ok :: "('o \<Rightarrow> bool) \<Rightarrow> i64 \<Rightarrow> ('w, 'o, 's) system \<Rightarrow> nat \<Rightarrow> bool" where
  "message_ok retryable limit s seq \<longleftrightarrow> books_balance retryable limit (held s seq) (sy_history s seq)"

lemma message_ok_start: "message_ok retryable limit (system_start W cfg brokers) seq"
proof -
  have "held (system_start W cfg brokers) seq = {#}"
    by (induction brokers) (simp_all add: held_def system_start_def)
  then show ?thesis by (simp add: message_ok_def system_start_def books_start)
qed

text \<open>A handler that panicked dispatched at most once and asked for nothing.\<close>

lemma panicked_once: "length (dispatches (panicked_broker (recorded S) cfg m after_processing) b) \<le> 1"
proof (cases "accepted_job S cfg m")
  case (Some job)
  then show ?thesis
    using recorded_process [of S job "bk_world b" "[]"]
    by (simp add: dispatches_def panicked_broker_def accepted_job_recorded run_with_ack_progress_world)
qed (simp add: dispatches_def panicked_broker_def accepted_job_recorded)

lemma panicked_asks_nothing:
  "AckNak d \<notin> set (received (drop (length (bk_log b)) (bk_log (panicked_broker S cfg m after_processing b))))"
proof
  assume "AckNak d \<in> set (received (drop (length (bk_log b)) (bk_log (panicked_broker S cfg m after_processing b))))"
  then have nak: "KAck (AckNak d) \<in> set (map kind_of (drop (length (bk_log b))
      (bk_log (panicked_broker S cfg m after_processing b))))"
    by (rule received_kinds)
  show False
  proof (cases "accepted_job S cfg m")
    case (Some job)
    obtain x b' where run: "run_with_ack_progress (sv_process S job) b = (x, b')" by fastforce
    obtain acks where "bk_log b' = bk_log b @ acks"
      "map kind_of acks = replicate (bk_ticks b) (KAck AckProgress)"
      by (rule progress_result [OF run])
    with nak run Some show False by (cases after_processing) (auto simp: panicked_broker_def)
  qed (use nak in \<open>simp add: panicked_broker_def\<close>)
qed

lemma message_ok_task_ended:
  assumes ok: "message_ok retryable limit s seq" and k: "k < length (sy_workers s)"
    and task: "i < length (wk_tasks (sy_workers s ! k))" "wk_tasks (sy_workers s ! k) ! i = (q, m)"
    and wk': "wk' = drop_task i ((sy_workers s ! k)\<lparr>wk_broker := b\<rparr>)"
    and once: "length outs \<le> 1"
    and nak: "\<And>d. AckNak d \<in> set (received (drop (length (bk_log (wk_broker (sy_workers s ! k)))) (bk_log b)))
      \<Longrightarrow> list_all retryable outs \<and> (0 < sint limit \<longrightarrow> delivery_attempt m < limit)"
  shows "message_ok retryable limit
    (add_events q (task_events outs (sy_workers s ! k) wk') (update_worker k wk' s)) seq"
proof -
  have "holds seq wk' + (if q = seq then {#m#} else {#}) = holds seq (sy_workers s ! k)"
    using holds_drop_task [of i "(sy_workers s ! k)\<lparr>wk_broker := b\<rparr>" q m seq] task by (simp add: wk')
  with held_update_worker [OF k, of wk' seq]
  have "held (update_worker k wk' s) seq + (if q = seq then {#m#} else {#}) + holds seq wk'
      = held s seq + holds seq wk'"
    by (metis add.assoc add.commute)
  then have held: "held (update_worker k wk' s) seq + (if q = seq then {#m#} else {#}) = held s seq"
    by (rule add_right_imp_eq)
  have b: "wk_broker wk' = b" by (simp add: wk' drop_task_def)
  show ?thesis
  proof (cases "q = seq")
    case True
    with ok held have "books_balance retryable limit
        (add_mset m (held (update_worker k wk' s) seq)) (sy_history s seq)"
      by (simp add: message_ok_def)
    from books_handled [OF this once nak] True show ?thesis
      by (simp add: message_ok_def task_events_def b)
  next
    case False
    with ok held show ?thesis by (simp add: message_ok_def)
  qed
qed

context budgeted_ingestion
begin

lemma message_ok_step:
  assumes W: "wo_ingestion W = S" and step: "system_step W cfg s e = Some s'"
    and ok: "message_ok retryable (nc_max_deliver cfg) s seq"
  shows "message_ok retryable (nc_max_deliver cfg) s' seq"
proof (cases e)
  case (LoopEvent k le)
  with step obtain wk' where k: "k < length (sy_workers s)" "of_the_loop le"
    and w: "worker_step W cfg (sy_workers s ! k) le = Some wk'" "s' = update_worker k wk' s"
    by (auto split: if_splits)
  with ok held_update_worker [OF k(1), of wk' seq] holds_loop [OF w(1) k(2), of seq] show ?thesis
    by (simp add: message_ok_def)
next
  case (Delivered k q m)
  with step obtain wk' where k: "k < length (sy_workers s)"
    and w: "worker_step W cfg (sy_workers s ! k) (NextMessage q m) = Some wk'"
    and s': "s' = add_events q [Sent m] (update_worker k wk' s)"
    by (auto simp del: worker_step.simps split: if_splits)
  have "held s' seq = (if q = seq then add_mset m (held s seq) else held s seq)"
    using held_update_worker [OF k, of wk' seq] holds_delivery [OF w, of seq]
    by (auto simp: s' split: if_splits)
  with ok books_delivered [of retryable "nc_max_deliver cfg" "held s seq" "sy_history s seq" m]
  show ?thesis by (auto simp: message_ok_def s')
next
  case (HandlerReturned k i)
  with step obtain q m wk' where k: "k < length (sy_workers s)" and i: "i < length (wk_tasks (sy_workers s ! k))"
    and t: "wk_tasks (sy_workers s ! k) ! i = (q, m)"
    and w: "worker_step W cfg (sy_workers s ! k) (TaskReturned i) = Some wk'"
    and s': "s' = add_events q (task_events (handler_dispatches S cfg m (wk_broker (sy_workers s ! k)))
        (sy_workers s ! k) wk') (update_worker k wk' s)"
    by (auto simp: Let_def W simp del: worker_step.simps split: if_splits prod.splits)
  obtain r b' where h: "handle_message S cfg m (wk_broker (sy_workers s ! k)) = (r, b')" by fastforce
  have wk': "wk' = drop_task i ((sy_workers s ! k)\<lparr>wk_broker := b'\<rparr>)"
    using w i t h by (auto simp: W)
  show ?thesis
    unfolding s'
    by (rule message_ok_task_ended [OF ok k i t wk'])
       (use nak_within_budget [OF h] in \<open>auto simp: handler_dispatches_processed processed_def split: option.split\<close>)
next
  case (HandlerPanicked k i after_processing)
  with step obtain q m wk' where k: "k < length (sy_workers s)" and i: "i < length (wk_tasks (sy_workers s ! k))"
    and t: "wk_tasks (sy_workers s ! k) ! i = (q, m)"
    and w: "worker_step W cfg (sy_workers s ! k) (TaskPanicked i after_processing) = Some wk'"
    and s': "s' = add_events q (task_events (dispatches (panicked_broker (recorded S) cfg m after_processing)
        (wk_broker (sy_workers s ! k))) (sy_workers s ! k) wk') (update_worker k wk' s)"
    by (auto simp: Let_def W simp del: worker_step.simps split: if_splits prod.splits)
  have wk': "wk' = drop_task i ((sy_workers s ! k)\<lparr>wk_broker :=
      panicked_broker S cfg m after_processing (wk_broker (sy_workers s ! k))\<rparr>)"
    using w i t by (auto simp: W)
  show ?thesis
    unfolding s'
    by (rule message_ok_task_ended [OF ok k i t wk' panicked_once]) (simp add: panicked_asks_nothing)
next
  case (OtherTraffic k w)
  with step have k: "k < length (sy_workers s)" and s': "s' = update_worker k ((sy_workers s ! k)
      \<lparr>wk_broker := (wk_broker (sy_workers s ! k))\<lparr>bk_world := w\<rparr>\<rparr>) s"
    by (auto simp: Let_def split: if_splits)
  have "held s' seq = held s seq"
    using held_update_worker [OF k, of "(sy_workers s ! k)
      \<lparr>wk_broker := (wk_broker (sy_workers s ! k))\<lparr>bk_world := w\<rparr>\<rparr>" seq] by (simp add: s')
  with ok show ?thesis by (simp add: message_ok_def s')
next
  case (Restarted k b)
  with step have k: "k < length (sy_workers s)" and s': "s' = update_worker k (worker_start W cfg b) s"
    by (auto split: if_splits)
  have "held s seq = held s' seq + holds seq (sy_workers s ! k)"
    using held_update_worker [OF k, of "worker_start W cfg b" seq] by (simp add: s')
  with ok show ?thesis by (simp add: message_ok_def s' books_lost)
qed

lemma message_ok_run:
  "wo_ingestion W = S \<Longrightarrow> system_run W cfg s es = Some s' \<Longrightarrow>
     message_ok retryable (nc_max_deliver cfg) s seq \<Longrightarrow> message_ok retryable (nc_max_deliver cfg) s' seq"
proof (induction es arbitrary: s)
  case (Cons e es)
  then obtain s1 where "system_step W cfg s e = Some s1" "system_run W cfg s1 es = Some s'"
    by (auto simp: bind_eq_Some_conv)
  with Cons message_ok_step [OF Cons.prems(1)] show ?case by blast
qed simp

end

lemma permits_balance_broker [simp]: "permits_balance cfg (wk\<lparr>wk_broker := b\<rparr>) = permits_balance cfg wk"
  by (simp add: permits_balance_def)

lemma permits_balance_system:
  "system_step W cfg s e = Some s' \<Longrightarrow> list_all (permits_balance cfg) (sy_workers s) \<Longrightarrow>
     list_all (permits_balance cfg) (sy_workers s')"
proof (induction W cfg s e rule: system_step.induct)
  case (5 W cfg s k w)
  then show ?case
    by (auto simp: list_all_iff Let_def dest!: set_update_subset_insert [THEN subsetD] split: if_splits)
next
  case (6 W cfg s k b)
  then show ?case
    by (auto simp: list_all_iff permits_balance_start dest!: set_update_subset_insert [THEN subsetD] split: if_splits)
qed (auto simp: list_all_iff Let_def simp del: worker_step.simps dest!: set_update_subset_insert [THEN subsetD]
  elim!: permits_balance_step intro!: nth_mem split: option.splits if_splits prod.splits)

lemma permits_balance_system_run:
  "system_run W cfg s es = Some s' \<Longrightarrow> list_all (permits_balance cfg) (sy_workers s) \<Longrightarrow>
     list_all (permits_balance cfg) (sy_workers s')"
  by (induction es arbitrary: s) (auto simp: bind_eq_Some_conv simp del: system_step.simps dest: permits_balance_system)

lemma system_concurrency:
  assumes "system_run W cfg (system_start W cfg brokers) es = Some s"
  shows "list_all (\<lambda>wk. length (wk_tasks wk) \<le> nc_max_concurrency cfg) (sy_workers s)"
proof -
  have "list_all (permits_balance cfg) (sy_workers (system_start W cfg brokers))"
    by (simp add: list_all_iff system_start_def permits_balance_start)
  from permits_balance_system_run [OF assms this] show ?thesis
    by (auto simp: list_all_iff permits_balance_bound)
qed

section \<open>Properties\<close>

text \<open>What the books say of a history.\<close>

lemma message_ok_result:
  assumes "message_ok retryable limit s seq"
  shows "length (dispatched (sy_history s seq)) \<le> length (sent (sy_history s seq))"
    and "on_request True (sy_history s seq) \<Longrightarrow> numbered (sy_history s seq) \<Longrightarrow>
      list_all retryable (butlast (dispatched (sy_history s seq)))
      \<and> (0 < sint limit \<longrightarrow> int (length (sent (sy_history s seq))) \<le> sint limit)
      \<and> (due True (sy_history s seq) \<longrightarrow> list_all retryable (dispatched (sy_history s seq)))"
  using assms by (auto simp: message_ok_def books_balance_def requests_ok_def)

lemma push_system_ok:
  "system_run (push_worker X decode reg) cfg (system_start (push_worker X decode reg) cfg brokers) history = Some s \<Longrightarrow>
     message_ok (\<lambda>out. is_retryable (po_class out)) (nc_max_deliver cfg) s seq"
  by (rule push_budget.message_ok_run [OF _ _ message_ok_start]) (simp_all add: push_worker_def)

lemma contact_system_ok:
  "system_run (contact_worker X decode reg) cfg (system_start (contact_worker X decode reg) cfg brokers) history = Some s \<Longrightarrow>
     message_ok (\<lambda>out. contact_is_retryable (co_class out)) (nc_max_deliver cfg) s seq"
  by (rule contact_budget.message_ok_run [OF _ _ message_ok_start]) (simp_all add: contact_worker_def)

text \<open>
  C2: Any number of push workers on one stream, over any history of deliveries, failed
  publications and acknowledgements, handlers that panic and restarts: a message's job is
  processed at most once per delivery. If the server sends a message again only after a negative
  acknowledgement of it arrived (no acknowledgement deadline ever passes) and numbers its
  deliveries, the handlers ask for at most \<open>max_deliver\<close> deliveries in all when that limit is
  positive, and a terminal outcome is the last one: the message is not asked for again after it,
  and its job is not processed again.
\<close>

theorem push_workers_deliver_once:
  "case system_run (push_worker X decode reg) cfg (system_start (push_worker X decode reg) cfg brokers) history of
     None \<Rightarrow> True
   | Some s \<Rightarrow> (let es = sy_history s seq in
       length (dispatched es) \<le> length (sent es)
       \<and> (if on_request True es \<and> numbered es
          then list_all (\<lambda>out. is_retryable (po_class out)) (butlast (dispatched es))
            \<and> (if due True es then list_all (\<lambda>out. is_retryable (po_class out)) (dispatched es) else True)
            \<and> (if 0 < sint (nc_max_deliver cfg)
               then int (length (sent es)) \<le> sint (nc_max_deliver cfg) else True)
          else True))"
  using message_ok_result [OF push_system_ok [of X decode reg cfg brokers history _ seq]]
  by (auto simp: Let_def split: option.split)

text \<open>
  A provider that is out of reach: the budget of two deliveries is used up, each with a
  retryable outcome, the second one not asked for again.
\<close>

definition demo_unreachable :: push_provider where
  "demo_unreachable = \<lparr>pp_kind = Fcm, pp_readiness = readiness_ready,
     pp_send = (\<lambda>job w. (Inl (err_delivery TransientProviderFailure ''out of reach'' None None), w))\<rparr>"

definition demo_push_history :: "(world, push_outcome) system_event list" where
  "demo_push_history = replicate 7 (LoopEvent 0 (Answered True))
     @ [Delivered 0 7 \<lparr>ms_payload = ''job'', ms_delivered = Some 1\<rparr>, LoopEvent 0 Permit, HandlerReturned 0 0,
        Delivered 0 7 \<lparr>ms_payload = ''job'', ms_delivered = Some 2\<rparr>, LoopEvent 0 Permit, HandlerReturned 0 0]"

definition demo_push_run :: "(world, push_outcome, stream_config) system option" where
  "demo_push_run =
     (let W = push_worker demo_externals demo_decode (registry_new\<lparr>reg_fcm := Some demo_unreachable\<rparr>);
          cfg = demo_nats_config\<lparr>nc_max_deliver := 2\<rparr>
      in system_run W cfg (system_start W cfg [demo_broker\<lparr>bk_publish_ok := (\<lambda>n. True)\<rparr>]) demo_push_history)"

theorem push_workers_deliver_once_witness:
  "case demo_push_run of None \<Rightarrow> False
   | Some s \<Rightarrow> (let es = sy_history s 7 in on_request True es \<and> numbered es
       \<and> map po_class (dispatched es) = [TransientProviderFailure, TransientProviderFailure]
       \<and> length (sent es) = 2 \<and> \<not> due True es
       \<and> list_all (\<lambda>out. is_retryable (po_class out)) (butlast (dispatched es)))"
proof -
  let ?facts = "\<lambda>es. on_request True es \<and> numbered es
       \<and> map po_class (dispatched es) = [TransientProviderFailure, TransientProviderFailure]
       \<and> length (sent es) = 2 \<and> \<not> due True es"
  have run: "case demo_push_run of None \<Rightarrow> False | Some s \<Rightarrow> ?facts (sy_history s 7)"
    by code_simp
  then show ?thesis
    using push_workers_deliver_once [where X = demo_externals and decode = demo_decode
      and reg = "registry_new\<lparr>reg_fcm := Some demo_unreachable\<rparr>" and cfg = "demo_nats_config\<lparr>nc_max_deliver := 2\<rparr>"
      and brokers = "[demo_broker\<lparr>bk_publish_ok := (\<lambda>n. True)\<rparr>]" and history = demo_push_history and seq = 7]
    unfolding demo_push_run_def Let_def
    by (auto split: option.splits)
qed

text \<open>
  C10: The same for contact workers: an email or SMS job is processed at most once per delivery;
  if the server sends its message again only on a negative acknowledgement and numbers its
  deliveries, there are at most \<open>max_deliver\<close> of them when that limit is positive, and the job
  is not processed again after the provider accepted or finally rejected it.
\<close>

theorem contact_workers_deliver_once:
  "case system_run (contact_worker X decode reg) cfg (system_start (contact_worker X decode reg) cfg brokers) history of
     None \<Rightarrow> True
   | Some s \<Rightarrow> (let es = sy_history s seq in
       length (dispatched es) \<le> length (sent es)
       \<and> (if on_request True es \<and> numbered es
          then list_all (\<lambda>out. contact_is_retryable (co_class out)) (butlast (dispatched es))
            \<and> (if due True es then list_all (\<lambda>out. contact_is_retryable (co_class out)) (dispatched es) else True)
            \<and> (if 0 < sint (nc_max_deliver cfg)
               then int (length (sent es)) \<le> sint (nc_max_deliver cfg) else True)
          else True))"
  using message_ok_result [OF contact_system_ok [of X decode reg cfg brokers history _ seq]]
  by (auto simp: Let_def split: option.split)

text \<open>The same course of events for an email.\<close>

definition demo_contact_unreachable :: contact_provider where
  "demo_contact_unreachable = \<lparr>cp_kind = Sendgrid, cp_readiness = readiness_ready,
     cp_send = (\<lambda>job w. (Inl (contact_delivery ContactTransientFailure ''out of reach'' None None), w))\<rparr>"

definition demo_contact_history :: "(contact_world, contact_outcome) system_event list" where
  "demo_contact_history = replicate 7 (LoopEvent 0 (Answered True))
     @ [Delivered 0 7 \<lparr>ms_payload = ''job'', ms_delivered = Some 1\<rparr>, LoopEvent 0 Permit, HandlerReturned 0 0,
        Delivered 0 7 \<lparr>ms_payload = ''job'', ms_delivered = Some 2\<rparr>, LoopEvent 0 Permit, HandlerReturned 0 0]"

definition demo_contact_run :: "(contact_world, contact_outcome, storage \<times> stream_config) system option" where
  "demo_contact_run =
     (let W = contact_worker demo_externals demo_contact_decode
            (contact_registry_new\<lparr>cr_sendgrid := Some demo_contact_unreachable\<rparr>);
          cfg = demo_nats_config\<lparr>nc_max_deliver := 2\<rparr>
      in system_run W cfg (system_start W cfg [demo_contact_broker\<lparr>bk_publish_ok := (\<lambda>n. True)\<rparr>])
           demo_contact_history)"

theorem contact_workers_deliver_once_witness:
  "case demo_contact_run of None \<Rightarrow> False
   | Some s \<Rightarrow> (let es = sy_history s 7 in on_request True es \<and> numbered es
       \<and> map co_class (dispatched es) = [ContactTransientFailure, ContactTransientFailure]
       \<and> length (sent es) = 2 \<and> \<not> due True es
       \<and> list_all (\<lambda>out. contact_is_retryable (co_class out)) (butlast (dispatched es)))"
proof -
  let ?facts = "\<lambda>es. on_request True es \<and> numbered es
       \<and> map co_class (dispatched es) = [ContactTransientFailure, ContactTransientFailure]
       \<and> length (sent es) = 2 \<and> \<not> due True es"
  have run: "case demo_contact_run of None \<Rightarrow> False | Some s \<Rightarrow> ?facts (sy_history s 7)"
    by code_simp
  then show ?thesis
    using contact_workers_deliver_once [where X = demo_externals and decode = demo_contact_decode
      and reg = "contact_registry_new\<lparr>cr_sendgrid := Some demo_contact_unreachable\<rparr>"
      and cfg = "demo_nats_config\<lparr>nc_max_deliver := 2\<rparr>"
      and brokers = "[demo_contact_broker\<lparr>bk_publish_ok := (\<lambda>n. True)\<rparr>]"
      and history = demo_contact_history and seq = 7]
    unfolding demo_contact_run_def Let_def
    by (auto split: option.splits)
qed

end
