(* ===== verification/Runtime.thy ===== *)
theory Runtime
  imports Fcm Apns Expo Web_Push Environment Nats_Ingestion
begin

text \<open>
  Building the push registry and the authenticator from the environment
  (\<open>src/runtime.rs\<close>), and the contract of the registry the server runs with: the locale
  \<open>push_registry\<close> interpreted on whatever registry the environment yields.
\<close>

section \<open>Errors\<close>

datatype runtime_config_error =
    IncompleteProvider string
  | InvalidProvider string string \<comment> \<open>provider and safe detail\<close>
  | InvalidApnsEnvironment
  | InvalidWebPushTtl
  | MissingSharedSecret
  | RuntimeAuth auth_config_error
  | RuntimeRegistry registry_error
  | RuntimePanic \<comment> \<open>an \<open>expect\<close> on a constant URL failed\<close>

text \<open>The \<open>Display\<close> texts of the adapters' configuration errors.\<close>

definition in_quotes :: "string \<Rightarrow> string" where
  "in_quotes s = [CHR 0x27] @ s @ [CHR 0x27]"

fun fcm_error_text :: "fcm_config_error \<Rightarrow> string" where
  "fcm_error_text FcmInvalidJson = ''FCM service-account JSON is invalid''"
| "fcm_error_text (FcmMissingField field) = ''FCM service-account field '' @ in_quotes field @ '' is required''"
| "fcm_error_text FcmInvalidProjectId = ''FCM project_id contains invalid characters''"
| "fcm_error_text FcmInvalidTokenUri = ''FCM token_uri must be an HTTPS URL without embedded credentials''"
| "fcm_error_text FcmHttpClient = ''FCM HTTP client could not be constructed''"
| "fcm_error_text FcmConstantUrlPanic = []"

fun apns_error_text :: "apns_config_error \<Rightarrow> string" where
  "apns_error_text (ApnsMissingField field) = ''APNs configuration field '' @ in_quotes field @ '' is required''"
| "apns_error_text (ApnsInvalidIdentifier field) = ''APNs configuration field '' @ in_quotes field @ '' is invalid''"
| "apns_error_text ApnsInvalidTopic = ''APNs topic is invalid''"
| "apns_error_text ApnsInvalidPrivateKey = ''APNs .p8 private key is invalid''"
| "apns_error_text ApnsHttpClient = ''APNs HTTP client could not be constructed''"
| "apns_error_text ApnsConstantUrlPanic = []"

fun expo_error_text :: "expo_config_error \<Rightarrow> string" where
  "expo_error_text ExpoInvalidEndpoint = ''Expo endpoint must be an HTTPS URL without embedded credentials''"
| "expo_error_text ExpoHttpClient = ''Expo HTTP client could not be constructed''"

fun web_push_error_text :: "web_push_config_error \<Rightarrow> string" where
  "web_push_error_text (WpMissingField field) = ''Web Push configuration field '' @ in_quotes field @ '' is required''"
| "web_push_error_text WpInvalidSubject = ''VAPID subject must be a mailto or HTTPS URI''"
| "web_push_error_text WpInvalidPrivateKey = ''VAPID private key must be a valid P-256 PKCS#8 or SEC1 PEM key''"
| "web_push_error_text WpInvalidTtl = ''Web Push TTL exceeds the 28-day service ceiling''"
| "web_push_error_text WpInvalidAllowedHost = ''Web Push allowlist contains an invalid DNS suffix''"
| "web_push_error_text WpHttpClient = ''Web Push HTTP client could not be constructed''"

definition invalid_fcm :: "fcm_config_error \<Rightarrow> runtime_config_error" where
  "invalid_fcm e = (if e = FcmConstantUrlPanic then RuntimePanic
     else InvalidProvider ''fcm'' (fcm_error_text e))"

definition invalid_apns :: "apns_config_error \<Rightarrow> runtime_config_error" where
  "invalid_apns e = (if e = ApnsConstantUrlPanic then RuntimePanic
     else InvalidProvider ''apns'' (apns_error_text e))"

definition invalid_expo :: "expo_config_error \<Rightarrow> runtime_config_error" where
  "invalid_expo e = InvalidProvider ''expo'' (expo_error_text e)"

definition invalid_web_push :: "web_push_config_error \<Rightarrow> runtime_config_error" where
  "invalid_web_push e = InvalidProvider ''web_push'' (web_push_error_text e)"

section \<open>The push registry\<close>

text \<open>The crates the adapters need, and for which provider an HTTP client can be built.\<close>

record push_parts =
  rt_fcm :: fcm_codec
  rt_apns :: apns_codec
  rt_expo :: expo_codec
  rt_web_push :: web_push_codec
  rt_client :: "provider_kind \<Rightarrow> bool"

definition configure_fcm ::
  "externals \<Rightarrow> push_parts \<Rightarrow> environment \<Rightarrow> provider_registry \<Rightarrow>
   runtime_config_error + provider_registry" where
  "configure_fcm X R env reg =
     (case non_empty_env env ''FCM_SERVICE_ACCOUNT_JSON'' of
        None \<Rightarrow> Ok reg
      | Some service_account \<Rightarrow>
          and_then (map_err invalid_fcm (fcm_from_service_account_json X (rt_fcm R) service_account
              (non_empty_env env ''FCM_PROJECT_ID''))) (\<lambda>cfg.
          and_then (map_err invalid_fcm (fcm_provider_new X (rt_fcm R) (rt_client R Fcm) cfg)) (\<lambda>p.
            map_err RuntimeRegistry (with_provider reg SlotFcm p))))"

definition apns_environment :: "environment \<Rightarrow> runtime_config_error + provider_environment" where
  "apns_environment env =
     (let v = to_ascii_lowercase (unwrap_or ''production'' (non_empty_env env ''APNS_ENVIRONMENT'')) in
      if v = ''production'' then Ok Production
      else if v = ''sandbox'' \<or> v = ''development'' then Ok Sandbox
      else Err InvalidApnsEnvironment)"

fun apns_registry_slot :: "provider_environment \<Rightarrow> provider_slot" where
  "apns_registry_slot Production = SlotApnsProduction"
| "apns_registry_slot Sandbox = SlotApnsSandbox"

definition configure_apns ::
  "externals \<Rightarrow> push_parts \<Rightarrow> environment \<Rightarrow> provider_registry \<Rightarrow>
   runtime_config_error + provider_registry" where
  "configure_apns X R env reg =
     (let key = non_empty_env env ''APNS_KEY_P8'';
          key_id = non_empty_env env ''APNS_KEY_ID'';
          team_id = non_empty_env env ''APNS_TEAM_ID'';
          topic = non_empty_env env ''APNS_TOPIC'';
          values_present = [key \<noteq> None, key_id \<noteq> None, team_id \<noteq> None, topic \<noteq> None]
      in if \<not> list_ex (\<lambda>v. v) values_present then Ok reg
         else if \<not> list_all (\<lambda>v. v) values_present then Err (IncompleteProvider ''apns'')
         else
           and_then (apns_environment env) (\<lambda>e.
           and_then (map_err invalid_apns (apns_config_new X (rt_apns R) (the key_id) (the team_id)
               (the topic) (the key) e)) (\<lambda>cfg.
           and_then (map_err invalid_apns (apns_provider_new X (rt_apns R) (rt_client R Apns) cfg)) (\<lambda>p.
             map_err RuntimeRegistry (with_provider reg (apns_registry_slot e) p)))))"

definition web_push_policy :: "environment \<Rightarrow> runtime_config_error + host_policy" where
  "web_push_policy env =
     (case non_empty_env env ''WEBPUSH_ALLOWED_HOSTS'' of
        None \<Rightarrow> Ok strict_default
      | Some v \<Rightarrow>
          if v = ''*'' then Ok AnyPublic
          else map_err invalid_web_push
            (allowlist (filter (\<lambda>host. host \<noteq> []) (map trim (split_on (CHR '','') v)))))"

definition web_push_ttl ::
  "environment \<Rightarrow> web_push_config \<Rightarrow> runtime_config_error + web_push_config" where
  "web_push_ttl env cfg =
     (case non_empty_env env ''WEBPUSH_TTL_SECONDS'' of
        None \<Rightarrow> Ok cfg
      | Some v \<Rightarrow>
          and_then (ok_or InvalidWebPushTtl (parse_uint 32 v)) (\<lambda>ttl.
            map_err invalid_web_push (with_default_ttl cfg (of_nat ttl))))"

definition configure_web_push ::
  "externals \<Rightarrow> push_parts \<Rightarrow> environment \<Rightarrow> provider_registry \<Rightarrow>
   runtime_config_error + provider_registry" where
  "configure_web_push X R env reg =
     (case non_empty_env env ''VAPID_PRIVATE_KEY'' of
        None \<Rightarrow> Ok reg
      | Some private_key \<Rightarrow>
          and_then (ok_or (IncompleteProvider ''web_push'') (non_empty_env env ''VAPID_SUBJECT'')) (\<lambda>subject.
          and_then (web_push_policy env) (\<lambda>policy.
          and_then (map_err invalid_web_push
              (web_push_config_new X (rt_web_push R) private_key subject policy)) (\<lambda>cfg.
          and_then (web_push_ttl env cfg) (\<lambda>cfg.
          and_then (map_err invalid_web_push
              (web_push_provider_new X (rt_web_push R) (rt_client R WebPush) cfg)) (\<lambda>p.
            map_err RuntimeRegistry (with_provider reg SlotWebPush p)))))))"

definition provider_registry_from_env ::
  "externals \<Rightarrow> push_parts \<Rightarrow> environment \<Rightarrow> runtime_config_error + provider_registry" where
  "provider_registry_from_env X R env =
     and_then (map_err invalid_expo (expo_config_new X (non_empty_env env ''EXPO_ACCESS_TOKEN''))) (\<lambda>cfg.
     and_then (map_err invalid_expo (expo_provider_new X (rt_expo R) (rt_client R Expo) cfg)) (\<lambda>expo.
     and_then (map_err RuntimeRegistry (with_provider registry_new SlotExpo expo)) (\<lambda>reg.
     and_then (configure_fcm X R env reg) (\<lambda>reg.
     and_then (configure_apns X R env reg) (\<lambda>reg.
       configure_web_push X R env reg)))))"

section \<open>The authenticator\<close>

definition request_authenticator_from_env ::
  "environment \<Rightarrow> runtime_config_error + authenticator" where
  "request_authenticator_from_env env =
     (if \<not> environment_flag env ''ENABLE_SHARED_SECRET_AUTH'' then Ok deny_all_authenticator
      else
        and_then (ok_or MissingSharedSecret (non_empty_env env ''SERVER_AUTH_SECRET'')) (\<lambda>secret.
        and_then (map_err RuntimeAuth (shared_secret_new secret)) (\<lambda>secret.
          Ok (shared_secret_authenticator secret))))"

section \<open>Every registry from the environment keeps the contract\<close>

lemma provider_kinds [simp]:
  "pp_kind (fcm_provider X F c) = Fcm" "pp_kind (apns_provider X A c') = Apns"
  "pp_kind (expo_provider X E x) = Expo" "pp_kind (web_push_provider X W v) = WebPush"
  by (simp_all add: fcm_provider_def apns_provider_def expo_provider_def web_push_provider_def)

lemma provider_new_ok:
  "fcm_provider_new X F b c = Inr p \<longleftrightarrow> b \<and> p = fcm_provider X F c"
  "apns_provider_new X A b c' = Inr p \<longleftrightarrow> b \<and> p = apns_provider X A c'"
  "expo_provider_new X E b x = Inr p \<longleftrightarrow> b \<and> p = expo_provider X E x"
  "web_push_provider_new X W b v = Inr p \<longleftrightarrow> b \<and> p = web_push_provider X W v"
  by (auto simp: fcm_provider_new_def apns_provider_new_def expo_provider_new_def web_push_provider_new_def)

lemma configure_fcm_ok:
  assumes "configure_fcm X R env reg = Inr reg'"
  shows "case non_empty_env env ''FCM_SERVICE_ACCOUNT_JSON'' of
      None \<Rightarrow> reg' = reg
    | Some v \<Rightarrow> \<exists>cfg. with_provider reg SlotFcm (fcm_provider X (rt_fcm R) cfg) = Inr reg'"
  using assms by (auto simp: configure_fcm_def and_then_eq_Ok provider_new_ok split: option.splits)

definition apns_variables :: "environment \<Rightarrow> bool list" where
  "apns_variables env = map (\<lambda>name. non_empty_env env name \<noteq> None)
     [''APNS_KEY_P8'', ''APNS_KEY_ID'', ''APNS_TEAM_ID'', ''APNS_TOPIC'']"

lemma configure_apns_ok:
  assumes "configure_apns X R env reg = Inr reg'"
  shows "if list_all (\<lambda>v. v) (apns_variables env)
    then \<exists>e cfg. apns_environment env = Inr e
      \<and> with_provider reg (apns_registry_slot e) (apns_provider X (rt_apns R) cfg) = Inr reg'
    else \<not> list_ex (\<lambda>v. v) (apns_variables env) \<and> reg' = reg"
  using assms
  by (auto simp: configure_apns_def apns_variables_def and_then_eq_Ok provider_new_ok Let_def
      split: if_splits)

lemma configure_web_push_ok:
  assumes "configure_web_push X R env reg = Inr reg'"
  shows "case non_empty_env env ''VAPID_PRIVATE_KEY'' of
      None \<Rightarrow> reg' = reg
    | Some v \<Rightarrow> \<exists>cfg. with_provider reg SlotWebPush (web_push_provider X (rt_web_push R) cfg) = Inr reg'"
  using assms by (auto simp: configure_web_push_def and_then_eq_Ok provider_new_ok split: option.splits)

lemma with_provider_Ok:
  "with_provider reg slot p = Inr reg' \<Longrightarrow> push_adapter X p \<Longrightarrow> push_registry X reg \<Longrightarrow>
     push_registry X reg' \<and> pp_kind p = expected_kind slot
     \<and> slot_provider reg' = (slot_provider reg)(slot := Some p)"
  using push_registry.registered_with_provider [of X reg p slot reg'] with_provider_kind [of reg slot p reg']
    slot_provider_with_provider [of reg slot p reg'] by (auto simp: fun_eq_iff)

lemmas adapters = fcm_push_adapter apns_push_adapter expo_push_adapter web_push_push_adapter

lemma configure_fcm_step:
  assumes "configure_fcm X R env reg = Inr reg'" and "push_registry X reg"
  shows "push_registry X reg'" "slot \<noteq> SlotFcm \<Longrightarrow> slot_provider reg' slot = slot_provider reg slot"
    "slot_provider reg SlotFcm = None \<Longrightarrow> slot_provider reg' SlotFcm = None
       \<longleftrightarrow> non_empty_env env ''FCM_SERVICE_ACCOUNT_JSON'' = None"
  using configure_fcm_ok [OF assms(1)] assms(2)
  by (auto split: option.splits simp del: slot_provider.simps dest!: with_provider_Ok [OF _ fcm_push_adapter])

lemma configure_apns_step:
  assumes "configure_apns X R env reg = Inr reg'" and "push_registry X reg"
  shows "push_registry X reg'"
    "slot \<notin> {SlotApnsProduction, SlotApnsSandbox} \<Longrightarrow> slot_provider reg' slot = slot_provider reg slot"
    "slot_provider reg (apns_registry_slot e) = None \<Longrightarrow> slot_provider reg' (apns_registry_slot e) \<noteq> None
       \<longleftrightarrow> list_all (\<lambda>v. v) (apns_variables env) \<and> apns_environment env = Inr e"
proof -
  have inj: "apns_registry_slot e = apns_registry_slot e' \<longleftrightarrow> e = e'" for e' by (cases e; cases e') simp_all
  have other: "s \<notin> {SlotApnsProduction, SlotApnsSandbox} \<Longrightarrow> s \<noteq> apns_registry_slot e'" for s e' by (cases e') auto
  show "push_registry X reg'"
    "slot \<notin> {SlotApnsProduction, SlotApnsSandbox} \<Longrightarrow> slot_provider reg' slot = slot_provider reg slot"
    "slot_provider reg (apns_registry_slot e) = None \<Longrightarrow> slot_provider reg' (apns_registry_slot e) \<noteq> None
       \<longleftrightarrow> list_all (\<lambda>v. v) (apns_variables env) \<and> apns_environment env = Inr e"
    using configure_apns_ok [OF assms(1)] assms(2) inj other [of slot]
    by (auto split: if_splits simp del: slot_provider.simps dest!: with_provider_Ok [OF _ apns_push_adapter])
qed

lemma configure_web_push_step:
  assumes "configure_web_push X R env reg = Inr reg'" and "push_registry X reg"
  shows "push_registry X reg'" "slot \<noteq> SlotWebPush \<Longrightarrow> slot_provider reg' slot = slot_provider reg slot"
    "slot_provider reg SlotWebPush = None \<Longrightarrow> slot_provider reg' SlotWebPush = None
       \<longleftrightarrow> non_empty_env env ''VAPID_PRIVATE_KEY'' = None"
  using configure_web_push_ok [OF assms(1)] assms(2)
  by (auto split: option.splits simp del: slot_provider.simps dest!: with_provider_Ok [OF _ web_push_push_adapter])

lemma runtime_registry:
  assumes "provider_registry_from_env X R env = Inr reg"
  shows "push_registry X reg" and "slot_provider reg SlotExpo \<noteq> None"
    and "slot_provider reg SlotFcm = None \<longleftrightarrow> non_empty_env env ''FCM_SERVICE_ACCOUNT_JSON'' = None"
    and "slot_provider reg (apns_registry_slot e) \<noteq> None
      \<longleftrightarrow> list_all (\<lambda>v. v) (apns_variables env) \<and> apns_environment env = Inr e"
    and "slot_provider reg SlotWebPush = None \<longleftrightarrow> non_empty_env env ''VAPID_PRIVATE_KEY'' = None"
proof -
  from assms obtain cfg reg0 reg1 reg2 where
    r0: "with_provider registry_new SlotExpo (expo_provider X (rt_expo R) cfg) = Inr reg0"
    and r1: "configure_fcm X R env reg0 = Inr reg1"
    and r2: "configure_apns X R env reg1 = Inr reg2"
    and r3: "configure_web_push X R env reg2 = Inr reg"
    by (auto simp: provider_registry_from_env_def and_then_eq_Ok provider_new_ok)
  have new: "slot_provider registry_new s = None" for s by (cases s) (simp_all add: registry_new_def)
  from with_provider_Ok [OF r0 expo_push_adapter push_registry_new]
  have 0: "push_registry X reg0" "slot_provider reg0 s \<noteq> None \<longleftrightarrow> s = SlotExpo" for s
    by (auto simp: new)
  note 1 = configure_fcm_step [OF r1 0(1)]
  note 2 = configure_apns_step [OF r2 1(1)]
  note 3 = configure_web_push_step [OF r3 2(1)]
  show "push_registry X reg" by (rule 3(1))
  have slots: "apns_registry_slot e \<noteq> SlotFcm" "apns_registry_slot e \<noteq> SlotExpo" "apns_registry_slot e \<noteq> SlotWebPush"
    by (cases e; simp)+
  show "slot_provider reg SlotExpo \<noteq> None"
    "slot_provider reg SlotFcm = None \<longleftrightarrow> non_empty_env env ''FCM_SERVICE_ACCOUNT_JSON'' = None"
    "slot_provider reg SlotWebPush = None \<longleftrightarrow> non_empty_env env ''VAPID_PRIVATE_KEY'' = None"
    "slot_provider reg (apns_registry_slot e) \<noteq> None
      \<longleftrightarrow> list_all (\<lambda>v. v) (apns_variables env) \<and> apns_environment env = Inr e"
    using 0(2) [of SlotExpo] 0(2) [of SlotFcm] 0(2) [of SlotWebPush] 0(2) [of "apns_registry_slot e"]
      1(2) [of SlotExpo] 1(2) [of SlotWebPush] 1(2) [of "apns_registry_slot e"] 1(3)
      2(2) [of SlotExpo] 2(2) [of SlotFcm] 2(2) [of SlotWebPush] 2(3) [of e]
      3(2) [of SlotExpo] 3(2) [of SlotFcm] 3(2) [of "apns_registry_slot e"] 3(3) slots
    by auto
qed

text \<open>The registry the server goes on with; without one it does not start.\<close>

definition registry_or_empty :: "runtime_config_error + provider_registry \<Rightarrow> provider_registry" where
  "registry_or_empty r = (case r of Inl _ \<Rightarrow> registry_new | Inr reg \<Rightarrow> reg)"

interpretation runtime_push: push_registry X "registry_or_empty (provider_registry_from_env X R env)"
  for X R env
  by (cases "provider_registry_from_env X R env")
     (simp_all add: registry_or_empty_def push_registry_new runtime_registry)

lemma authenticator_closed:
  assumes "request_authenticator_from_env env = Inr auth"
    and "\<not> (environment_flag env ''ENABLE_SHARED_SECRET_AUTH'' \<and> headers ''authorization''
      = map_option (\<lambda>secret. ''Bearer '' @ trim secret) (non_empty_env env ''SERVER_AUTH_SECRET''))"
  shows "\<not> auth_authenticate auth headers"
  using assms
  by (auto simp: request_authenticator_from_env_def deny_all_authenticator_def shared_secret_new_def
      bearer_secret and_then_eq_Ok Let_def split: if_splits)

section \<open>Refusals, first cause first\<close>

text \<open>What is wrong with each provider's settings, if anything, in the order of the checks.\<close>

definition expo_refusal :: "externals \<Rightarrow> push_parts \<Rightarrow> environment \<Rightarrow> runtime_config_error option" where
  "expo_refusal X R env =
     (case expo_config_new X (non_empty_env env ''EXPO_ACCESS_TOKEN'') of
        Inl e \<Rightarrow> Some (InvalidProvider ''expo'' (expo_error_text e))
      | Inr _ \<Rightarrow> then_some (\<not> rt_client R Expo)
          (InvalidProvider ''expo'' ''Expo HTTP client could not be constructed''))"

definition fcm_refusal :: "externals \<Rightarrow> push_parts \<Rightarrow> environment \<Rightarrow> runtime_config_error option" where
  "fcm_refusal X R env =
     (case non_empty_env env ''FCM_SERVICE_ACCOUNT_JSON'' of
        None \<Rightarrow> None
      | Some account \<Rightarrow>
          (case fcm_from_service_account_json X (rt_fcm R) account (non_empty_env env ''FCM_PROJECT_ID'') of
             Inl e \<Rightarrow> Some (if e = FcmConstantUrlPanic then RuntimePanic
               else InvalidProvider ''fcm'' (fcm_error_text e))
           | Inr _ \<Rightarrow> then_some (\<not> rt_client R Fcm)
               (InvalidProvider ''fcm'' ''FCM HTTP client could not be constructed'')))"

text \<open>The environment \<open>APNS_ENVIRONMENT\<close> names, in any case; production when it is not set.\<close>

definition apns_named :: "environment \<Rightarrow> provider_environment option" where
  "apns_named env =
     (case non_empty_env env ''APNS_ENVIRONMENT'' of
        None \<Rightarrow> Some Production
      | Some v \<Rightarrow> map_of [(''production'', Production), (''sandbox'', Sandbox), (''development'', Sandbox)]
          (to_ascii_lowercase v))"

definition apns_config_named ::
  "externals \<Rightarrow> push_parts \<Rightarrow> environment \<Rightarrow> provider_environment \<Rightarrow> apns_config_error + apns_config" where
  "apns_config_named X R env e =
     (let v = \<lambda>name. unwrap_or [] (non_empty_env env name) in
      apns_config_new X (rt_apns R) (v ''APNS_KEY_ID'') (v ''APNS_TEAM_ID'') (v ''APNS_TOPIC'')
        (v ''APNS_KEY_P8'') e)"

definition apns_refusal :: "externals \<Rightarrow> push_parts \<Rightarrow> environment \<Rightarrow> runtime_config_error option" where
  "apns_refusal X R env =
     (if \<not> list_ex (\<lambda>v. v) (apns_variables env) then None
      else if \<not> list_all (\<lambda>v. v) (apns_variables env) then Some (IncompleteProvider ''apns'')
      else case apns_named env of
        None \<Rightarrow> Some InvalidApnsEnvironment
      | Some e \<Rightarrow>
          (case apns_config_named X R env e of
             Inl err \<Rightarrow> Some (if err = ApnsConstantUrlPanic then RuntimePanic
               else InvalidProvider ''apns'' (apns_error_text err))
           | Inr _ \<Rightarrow> then_some (\<not> rt_client R Apns)
               (InvalidProvider ''apns'' ''APNs HTTP client could not be constructed'')))"

text \<open>The Web Push settings: host policy and key, then the TTL, then the client.\<close>

definition web_push_settings ::
  "externals \<Rightarrow> push_parts \<Rightarrow> environment \<Rightarrow> string \<Rightarrow> string \<Rightarrow> web_push_config_error + web_push_config" where
  "web_push_settings X R env key subject =
     and_then (case non_empty_env env ''WEBPUSH_ALLOWED_HOSTS'' of
         None \<Rightarrow> Ok strict_default
       | Some v \<Rightarrow> if v = ''*'' then Ok AnyPublic
           else allowlist (filter (\<lambda>host. host \<noteq> []) (map trim (split_on (CHR '','') v)))) (\<lambda>policy.
       web_push_config_new X (rt_web_push R) key subject policy)"

definition web_push_refusal :: "externals \<Rightarrow> push_parts \<Rightarrow> environment \<Rightarrow> runtime_config_error option" where
  "web_push_refusal X R env =
     (case (non_empty_env env ''VAPID_PRIVATE_KEY'', non_empty_env env ''VAPID_SUBJECT'') of
        (None, _) \<Rightarrow> None
      | (Some key, None) \<Rightarrow> Some (IncompleteProvider ''web_push'')
      | (Some key, Some subject) \<Rightarrow>
          (case web_push_settings X R env key subject of
             Inl e \<Rightarrow> Some (InvalidProvider ''web_push'' (web_push_error_text e))
           | Inr _ \<Rightarrow>
               (case map_option (parse_uint 32) (non_empty_env env ''WEBPUSH_TTL_SECONDS'') of
                  Some None \<Rightarrow> Some InvalidWebPushTtl
                | Some (Some ttl) \<Rightarrow>
                    if 2419200 < ttl
                    then Some (InvalidProvider ''web_push'' ''Web Push TTL exceeds the 28-day service ceiling'')
                    else then_some (\<not> rt_client R WebPush)
                      (InvalidProvider ''web_push'' ''Web Push HTTP client could not be constructed'')
                | None \<Rightarrow> then_some (\<not> rt_client R WebPush)
                    (InvalidProvider ''web_push'' ''Web Push HTTP client could not be constructed''))))"

definition registry_refusals :: "externals \<Rightarrow> push_parts \<Rightarrow> environment \<Rightarrow> runtime_config_error option list" where
  "registry_refusals X R env =
     [expo_refusal X R env, fcm_refusal X R env, apns_refusal X R env, web_push_refusal X R env]"

text \<open>The provider each slot holds when nothing is refused.\<close>

definition if_ok :: "('a \<Rightarrow> 'b) \<Rightarrow> 'e + 'a \<Rightarrow> 'b option" where
  "if_ok f r = (case r of Inl _ \<Rightarrow> None | Inr x \<Rightarrow> Some (f x))"

definition expected_registry :: "externals \<Rightarrow> push_parts \<Rightarrow> environment \<Rightarrow> provider_registry" where
  "expected_registry X R env =
     \<lparr>reg_fcm = Option.bind (non_empty_env env ''FCM_SERVICE_ACCOUNT_JSON'') (\<lambda>account.
        if_ok (fcm_provider X (rt_fcm R)) (fcm_from_service_account_json X (rt_fcm R) account
          (non_empty_env env ''FCM_PROJECT_ID''))),
      reg_apns_production = (if list_all (\<lambda>v. v) (apns_variables env) \<and> apns_named env = Some Production
        then if_ok (apns_provider X (rt_apns R)) (apns_config_named X R env Production) else None),
      reg_apns_sandbox = (if list_all (\<lambda>v. v) (apns_variables env) \<and> apns_named env = Some Sandbox
        then if_ok (apns_provider X (rt_apns R)) (apns_config_named X R env Sandbox) else None),
      reg_expo = if_ok (expo_provider X (rt_expo R)) (expo_config_new X (non_empty_env env ''EXPO_ACCESS_TOKEN'')),
      reg_web_push = Option.bind (non_empty_env env ''VAPID_PRIVATE_KEY'') (\<lambda>key.
        Option.bind (non_empty_env env ''VAPID_SUBJECT'') (\<lambda>subject.
          if_ok (\<lambda>cfg. web_push_provider X (rt_web_push R)
              (case Option.bind (non_empty_env env ''WEBPUSH_TTL_SECONDS'') (parse_uint 32) of
                 None \<Rightarrow> cfg | Some ttl \<Rightarrow> cfg\<lparr>wc_default_ttl_seconds := of_nat ttl\<rparr>))
            (web_push_settings X R env key subject)))\<rparr>"

lemma if_ok_simps [simp]: "if_ok f (Inl e) = None" "if_ok f (Inr x) = Some (f x)"
  by (simp_all add: if_ok_def)

lemma with_provider_adapters [simp]:
  "with_provider reg SlotFcm (fcm_provider X F c) = Ok (reg\<lparr>reg_fcm := Some (fcm_provider X F c)\<rparr>)"
  "with_provider reg SlotApnsProduction (apns_provider X A c')
     = Ok (reg\<lparr>reg_apns_production := Some (apns_provider X A c')\<rparr>)"
  "with_provider reg SlotApnsSandbox (apns_provider X A c')
     = Ok (reg\<lparr>reg_apns_sandbox := Some (apns_provider X A c')\<rparr>)"
  "with_provider reg SlotExpo (expo_provider X E x) = Ok (reg\<lparr>reg_expo := Some (expo_provider X E x)\<rparr>)"
  "with_provider reg SlotWebPush (web_push_provider X W v)
     = Ok (reg\<lparr>reg_web_push := Some (web_push_provider X W v)\<rparr>)"
  by (simp_all add: with_provider_def)

lemmas new_providers = fcm_provider_new_def apns_provider_new_def expo_provider_new_def
  web_push_provider_new_def

lemma configure_fcm_eq:
  "reg_fcm reg = None \<Longrightarrow> configure_fcm X R env reg =
     (case fcm_refusal X R env of
        Some e \<Rightarrow> Err e
      | None \<Rightarrow> Ok (reg\<lparr>reg_fcm := reg_fcm (expected_registry X R env)\<rparr>))"
  by (cases "non_empty_env env ''FCM_SERVICE_ACCOUNT_JSON''")
     (auto simp: configure_fcm_def fcm_refusal_def expected_registry_def new_providers invalid_fcm_def
       then_some_def split: sum.split)

lemma apns_environment_eq:
  "apns_environment env = (case apns_named env of None \<Rightarrow> Err InvalidApnsEnvironment | Some e \<Rightarrow> Ok e)"
proof -
  have "to_ascii_lowercase ''production'' = ''production''" by code_simp
  then show ?thesis
    by (cases "non_empty_env env ''APNS_ENVIRONMENT''") (simp_all add: apns_environment_def apns_named_def Let_def)
qed

lemma configure_apns_eq:
  assumes "reg_apns_production reg = None" "reg_apns_sandbox reg = None"
  shows "configure_apns X R env reg =
     (case apns_refusal X R env of
        Some e \<Rightarrow> Err e
      | None \<Rightarrow> Ok (reg\<lparr>reg_apns_production := reg_apns_production (expected_registry X R env),
          reg_apns_sandbox := reg_apns_sandbox (expected_registry X R env)\<rparr>))"
proof (cases "list_all (\<lambda>v. v) (apns_variables env)")
  case False
  with assms show ?thesis
    by (auto simp: configure_apns_def apns_refusal_def expected_registry_def apns_variables_def Let_def)
next
  case True
  then obtain key key_id team_id topic where set: "non_empty_env env ''APNS_KEY_P8'' = Some key"
    "non_empty_env env ''APNS_KEY_ID'' = Some key_id" "non_empty_env env ''APNS_TEAM_ID'' = Some team_id"
    "non_empty_env env ''APNS_TOPIC'' = Some topic"
    by (auto simp: apns_variables_def)
  show ?thesis
  proof (cases "apns_named env")
    case None
    with set show ?thesis
      by (simp add: configure_apns_def apns_refusal_def apns_variables_def apns_environment_eq)
  next
    case (Some e)
    with set assms show ?thesis
      by (cases e; cases "apns_config_named X R env e")
         (auto simp: configure_apns_def apns_refusal_def apns_variables_def apns_environment_eq
           apns_config_named_def expected_registry_def new_providers invalid_apns_def then_some_def)
  qed
qed

lemma web_push_ttl_eq:
  "web_push_ttl env cfg =
     (case map_option (parse_uint 32) (non_empty_env env ''WEBPUSH_TTL_SECONDS'') of
        None \<Rightarrow> Ok cfg
      | Some None \<Rightarrow> Err InvalidWebPushTtl
      | Some (Some ttl) \<Rightarrow>
          if 2419200 < ttl
          then Err (InvalidProvider ''web_push'' ''Web Push TTL exceeds the 28-day service ceiling'')
          else Ok (cfg\<lparr>wc_default_ttl_seconds := of_nat ttl\<rparr>))"
proof (cases "Option.bind (non_empty_env env ''WEBPUSH_TTL_SECONDS'') (parse_uint 32)")
  case None
  then show ?thesis
    by (cases "non_empty_env env ''WEBPUSH_TTL_SECONDS''") (simp_all add: web_push_ttl_def)
next
  case (Some ttl)
  then obtain v where v: "non_empty_env env ''WEBPUSH_TTL_SECONDS'' = Some v" "parse_uint 32 v = Some ttl"
    by (auto simp: bind_eq_Some_conv)
  have "unat (of_nat ttl :: u32) = ttl"
    using parse_uint_bound [OF v(2)] by (simp add: unat_of_nat)
  with v show ?thesis
    by (simp add: web_push_ttl_def with_default_ttl_def web_push_max_ttl_def invalid_web_push_def)
qed

lemma configure_web_push_eq:
  assumes "reg_web_push reg = None"
  shows "configure_web_push X R env reg =
     (case web_push_refusal X R env of
        Some e \<Rightarrow> Err e
      | None \<Rightarrow> Ok (reg\<lparr>reg_web_push := reg_web_push (expected_registry X R env)\<rparr>))"
proof (cases "non_empty_env env ''VAPID_PRIVATE_KEY''")
  case None
  with assms show ?thesis
    by (simp add: configure_web_push_def web_push_refusal_def expected_registry_def)
next
  case key: (Some key)
  show ?thesis
  proof (cases "non_empty_env env ''VAPID_SUBJECT''")
    case None
    with key show ?thesis by (simp add: configure_web_push_def web_push_refusal_def)
  next
    case subject: (Some subject)
    have settings: "and_then (web_push_policy env) (\<lambda>policy. and_then (map_err invalid_web_push
            (web_push_config_new X (rt_web_push R) key subject policy)) f)
        = and_then (map_err invalid_web_push (web_push_settings X R env key subject)) f" for f
      by (auto simp: web_push_policy_def web_push_settings_def and_then_def split: option.split sum.split)
    show ?thesis
    proof (cases "web_push_settings X R env key subject")
      case (Inl e)
      then show ?thesis
        by (simp add: configure_web_push_def web_push_refusal_def key subject settings invalid_web_push_def)
    next
      case (Inr cfg)
      then show ?thesis
        by (auto simp: configure_web_push_def web_push_refusal_def key subject settings web_push_ttl_eq
            expected_registry_def new_providers invalid_web_push_def then_some_def
            split: option.split)
    qed
  qed
qed

section \<open>Properties\<close>

definition all_slots :: "provider_slot list" where
  "all_slots = [SlotFcm, SlotApnsProduction, SlotApnsSandbox, SlotExpo, SlotWebPush]"

text \<open>
  C27: Reading the push providers from the environment, exactly. The first refusal that applies,
  in the order Expo, FCM, APNs, Web Push, is the error returned: a partly set APNs or a Web Push
  key without a subject is incomplete; an \<open>APNS_ENVIRONMENT\<close> other than production, sandbox or
  development (in any case) and a TTL that is no 32-bit number are refused by name; and settings
  an adapter does not accept are invalid, with that adapter's text. Without any refusal the
  registry holds Expo always, FCM and Web Push exactly when their key variable is set, and APNs,
  when all four of its variables are, in the one slot of the named environment: each built from
  the values of the environment, of the kind its slot expects, and ready.
\<close>

theorem provider_registry_from_env_spec:
  "provider_registry_from_env X R env =
     (case flatten (registry_refusals X R env) of
        e # _ \<Rightarrow> Err e
      | [] \<Rightarrow> Ok (expected_registry X R env))
   \<and> (case provider_registry_from_env X R env of
        Inl e \<Rightarrow> flatten (registry_refusals X R env) \<noteq> []
      | Inr reg \<Rightarrow> reg_expo reg \<noteq> None
          \<and> (reg_fcm reg = None \<longleftrightarrow> non_empty_env env ''FCM_SERVICE_ACCOUNT_JSON'' = None)
          \<and> (reg_apns_production reg \<noteq> None
               \<longleftrightarrow> list_all (\<lambda>v. v) (apns_variables env) \<and> apns_named env = Some Production)
          \<and> (reg_apns_sandbox reg \<noteq> None
               \<longleftrightarrow> list_all (\<lambda>v. v) (apns_variables env) \<and> apns_named env = Some Sandbox)
          \<and> (list_all (\<lambda>v. v) (apns_variables env) \<longleftrightarrow> list_ex (\<lambda>v. v) (apns_variables env))
          \<and> (reg_web_push reg = None \<longleftrightarrow> non_empty_env env ''VAPID_PRIVATE_KEY'' = None)
          \<and> list_all (\<lambda>s. is_none_or (\<lambda>p. pp_kind p = expected_kind s \<and> pr_configured (pp_readiness p))
               (slot_provider reg s)) all_slots)"
proof -
  have eq: "provider_registry_from_env X R env =
     (case flatten (registry_refusals X R env) of
        e # _ \<Rightarrow> Err e
      | [] \<Rightarrow> Ok (expected_registry X R env))"
  proof (cases "expo_refusal X R env")
    case (Some e)
    then show ?thesis
      by (cases "expo_config_new X (non_empty_env env ''EXPO_ACCESS_TOKEN'')")
         (auto simp: provider_registry_from_env_def expo_refusal_def registry_refusals_def new_providers
           invalid_expo_def then_some_def split: if_splits)
  next
    case None
    then obtain cfg where cfg: "expo_config_new X (non_empty_env env ''EXPO_ACCESS_TOKEN'') = Inr cfg"
      and client: "rt_client R Expo"
      by (auto simp: expo_refusal_def then_some_def split: sum.splits if_splits)
    have e: "reg_expo (expected_registry X R env) = Some (expo_provider X (rt_expo R) cfg)"
      by (simp add: expected_registry_def cfg)
    have all: "registry_new\<lparr>reg_expo := reg_expo E, reg_fcm := reg_fcm E,
        reg_apns_production := reg_apns_production E, reg_apns_sandbox := reg_apns_sandbox E,
        reg_web_push := reg_web_push E\<rparr> = E" for E
      by (simp add: registry_new_def)
    show ?thesis
      using all [of "expected_registry X R env"]
      by (auto simp: provider_registry_from_env_def cfg new_providers client None registry_refusals_def
          configure_fcm_eq configure_apns_eq configure_web_push_eq registry_new_def e [symmetric]
          split: option.split)
  qed
  have "flatten (registry_refusals X R env) \<noteq> []" if "provider_registry_from_env X R env = Inl e" for e
    using that eq by (auto split: list.splits)
  moreover have "reg_expo reg \<noteq> None
      \<and> (reg_fcm reg = None \<longleftrightarrow> non_empty_env env ''FCM_SERVICE_ACCOUNT_JSON'' = None)
      \<and> (reg_apns_production reg \<noteq> None
           \<longleftrightarrow> list_all (\<lambda>v. v) (apns_variables env) \<and> apns_named env = Some Production)
      \<and> (reg_apns_sandbox reg \<noteq> None
           \<longleftrightarrow> list_all (\<lambda>v. v) (apns_variables env) \<and> apns_named env = Some Sandbox)
      \<and> (list_all (\<lambda>v. v) (apns_variables env) \<longleftrightarrow> list_ex (\<lambda>v. v) (apns_variables env))
      \<and> (reg_web_push reg = None \<longleftrightarrow> non_empty_env env ''VAPID_PRIVATE_KEY'' = None)
      \<and> list_all (\<lambda>s. is_none_or (\<lambda>p. pp_kind p = expected_kind s \<and> pr_configured (pp_readiness p))
           (slot_provider reg s)) all_slots" if Inr: "provider_registry_from_env X R env = Inr reg" for reg
  proof -
    note r = runtime_registry [OF Inr]
    have "flatten (registry_refusals X R env) = []" using Inr eq by (auto split: list.splits)
    then have "list_all (\<lambda>v. v) (apns_variables env) \<longleftrightarrow> list_ex (\<lambda>v. v) (apns_variables env)"
      by (auto simp: flatten_eq_Nil registry_refusals_def apns_refusal_def apns_variables_def split: if_splits)
    moreover have "is_none_or (\<lambda>p. pp_kind p = expected_kind s \<and> pr_configured (pp_readiness p)) (slot_provider reg s)" for s
      using push_registry.registered [OF r(1), of s] push_adapter.is_ready
      by (auto simp: is_none_or_def split: option.splits)
    ultimately show ?thesis
      using r(2,3,5) r(4) [of Production] r(4) [of Sandbox]
      by (simp add: list_all_iff [of _ all_slots] apns_environment_eq split: option.splits)
  qed
  ultimately show ?thesis using eq by (auto split: sum.split)
qed

text \<open>
  C28: The API's authenticator fails closed: without the enabling flag it refuses every request
  and reports itself unconfigured; with it, a missing or malformed secret stops the start, and
  otherwise a request is let in exactly when it carries the trimmed secret as a bearer token.
\<close>

theorem request_authenticator_from_env_spec:
  "case request_authenticator_from_env env of
     Inr auth \<Rightarrow>
       (if environment_flag env ''ENABLE_SHARED_SECRET_AUTH''
        then auth_configured auth \<and> (\<exists>secret. non_empty_env env ''SERVER_AUTH_SECRET'' = Some secret
          \<and> 32 \<le> length (trim secret) \<and> length (trim secret) \<le> 4096
          \<and> \<not> any_char is_control (trim secret)
          \<and> auth_authenticate auth headers
              = (headers ''authorization'' = Some (''Bearer '' @ trim secret)))
        else \<not> auth_configured auth \<and> \<not> auth_authenticate auth headers)
   | Inl e \<Rightarrow> environment_flag env ''ENABLE_SHARED_SECRET_AUTH''
       \<and> (if non_empty_env env ''SERVER_AUTH_SECRET'' = None then e = MissingSharedSecret
           else e = RuntimeAuth InvalidSharedSecret)"
proof (cases "non_empty_env env ''SERVER_AUTH_SECRET''")
  case None
  then show ?thesis by (simp add: request_authenticator_from_env_def deny_all_authenticator_def)
next
  case (Some secret)
  then show ?thesis
    by (auto simp: request_authenticator_from_env_def deny_all_authenticator_def shared_secret_new_def
        bearer_secret Let_def not_less) (simp_all add: shared_secret_authenticator_def)
qed

end
