(* ===== verification/Contact_Runtime.thy ===== *)
theory Contact_Runtime
  imports Sendgrid Twilio Contact_Http Environment
begin

text \<open>
  Building the contact registry from the environment (\<open>src/contact/runtime.rs\<close>): the SendGrid
  and Twilio settings, the rate limits, and the contract of the registry that results.
\<close>

section \<open>Errors and readers\<close>

datatype contact_runtime_error =
    ContactIncomplete string
  | InvalidSendgridRegion
  | InvalidSendgridKey
  | InvalidProviderCredential string
  | InvalidRateLimit string
  | AmbiguousTwilioCredentials
  | AmbiguousTwilioSender
  | InvalidTwilioCallback
  | InvalidTwilioValidity
  | SendgridError sendgrid_config_error
  | TwilioError twilio_config_error

definition validate_provider_credential :: "string \<Rightarrow> string \<Rightarrow> contact_runtime_error + string" where
  "validate_provider_credential name value =
     (if \<not> list_all (\<lambda>b. is_ascii_graphic (byte_val b)) value
      then Err (InvalidProviderCredential name) else Ok value)"

definition provider_credential_env ::
  "environment \<Rightarrow> string \<Rightarrow> contact_runtime_error + string option" where
  "provider_credential_env env name =
     (case env name of
        Present v \<Rightarrow>
          if v = [] then Ok None
          else and_then (validate_provider_credential name v) (\<lambda>v. Ok (Some v))
      | NotPresent \<Rightarrow> Ok None
      | NotUnicode \<Rightarrow> Err (InvalidProviderCredential name))"

definition positive_u32_env :: "environment \<Rightarrow> string \<Rightarrow> u32 \<Rightarrow> contact_runtime_error + u32" where
  "positive_u32_env env name d =
     (case non_empty_env env name of
        None \<Rightarrow> Ok d
      | Some v \<Rightarrow> ok_or (InvalidRateLimit name)
          (map_option of_nat (opt_filter (\<lambda>n. 0 < n) (parse_uint 32 v))))"

section \<open>SendGrid\<close>

definition parse_sendgrid_region :: "string option \<Rightarrow> contact_runtime_error + sendgrid_region" where
  "parse_sendgrid_region value =
     (let v = to_ascii_lowercase (trim (unwrap_or ''global'' value)) in
      if v = ''global'' \<or> v = ''us'' then Ok GlobalRegion
      else if v = ''eu'' \<or> v = ''europe'' then Ok EuropeRegion
      else Err InvalidSendgridRegion)"

definition validate_sendgrid_api_key :: "string \<Rightarrow> contact_runtime_error + unit" where
  "validate_sendgrid_api_key v =
     (if \<not> starts_with ''SG.'' v \<or> \<not> (20 \<le> length v \<and> length v \<le> 69)
      then Err InvalidSendgridKey else Ok ())"

text \<open>The crates the adapters need, and for which provider an HTTP client can be built.\<close>

record contact_parts =
  cpt_sendgrid :: sendgrid_codec
  cpt_twilio :: twilio_codec
  cpt_client :: "contact_provider_kind \<Rightarrow> bool"

definition sendgrid_from_email :: "environment \<Rightarrow> string option" where
  "sendgrid_from_email env =
     or_else (non_empty_env env ''SENDGRID_FROM_EMAIL'') (non_empty_env env ''EMAIL_FROM'')"

definition configure_sendgrid ::
  "externals \<Rightarrow> contact_parts \<Rightarrow> environment \<Rightarrow> contact_registry \<Rightarrow>
   contact_runtime_error + contact_registry" where
  "configure_sendgrid X R env reg =
     and_then (provider_credential_env env ''SENDGRID_API_KEY'') (\<lambda>api_key.
       let from_email = sendgrid_from_email env in
       if api_key = None \<and> from_email = None then Ok reg
       else
         and_then (ok_or (ContactIncomplete ''sendgrid'') api_key) (\<lambda>api_key.
         and_then (validate_sendgrid_api_key api_key) (\<lambda>_.
         and_then (ok_or (ContactIncomplete ''sendgrid'') from_email) (\<lambda>from_email.
         and_then (parse_sendgrid_region (non_empty_env env ''SENDGRID_REGION'')) (\<lambda>region.
         and_then (map_err SendgridError (sendgrid_config_new X api_key from_email
             (non_empty_env env ''SENDGRID_FROM_NAME'') region)) (\<lambda>cfg.
         let cfg = sendgrid_with_sandbox_mode cfg (environment_flag env ''SENDGRID_SANDBOX_MODE'') in
         and_then (map_err SendgridError
             (sendgrid_provider_new X (cpt_sendgrid R) (cpt_client R Sendgrid) cfg)) (\<lambda>p.
           Ok (contact_with_provider reg p))))))))"

section \<open>Twilio\<close>

definition twilio_credentials_of ::
  "string option \<Rightarrow> string option \<Rightarrow> string option \<Rightarrow> contact_runtime_error + twilio_credentials" where
  "twilio_credentials_of auth_token api_key_sid api_key_secret =
     (if auth_token \<noteq> None \<and> (api_key_sid \<noteq> None \<or> api_key_secret \<noteq> None)
      then Err AmbiguousTwilioCredentials
      else case auth_token of
        Some token \<Rightarrow> Ok (AuthToken token)
      | None \<Rightarrow>
          (case (api_key_sid, api_key_secret) of
             (Some sid, Some secret) \<Rightarrow> Ok (ApiKey sid secret)
           | _ \<Rightarrow> Err (ContactIncomplete ''twilio'')))"

fun twilio_sender_of :: "string option \<Rightarrow> string option \<Rightarrow> contact_runtime_error + twilio_sender" where
  "twilio_sender_of (Some _) (Some _) = Err AmbiguousTwilioSender"
| "twilio_sender_of (Some sid) None = Ok (MessagingService sid)"
| "twilio_sender_of None (Some e164) = Ok (PhoneNumber e164)"
| "twilio_sender_of None None = Err (ContactIncomplete ''twilio'')"

definition twilio_callback ::
  "externals \<Rightarrow> string option \<Rightarrow> twilio_config \<Rightarrow> contact_runtime_error + twilio_config" where
  "twilio_callback X status_callback cfg =
     (case status_callback of
        None \<Rightarrow> Ok cfg
      | Some callback \<Rightarrow>
          and_then (ok_or InvalidTwilioCallback (x_parse_url X callback)) (\<lambda>u.
            map_err TwilioError (with_status_callback_url cfg u)))"

definition twilio_validity ::
  "string option \<Rightarrow> twilio_config \<Rightarrow> contact_runtime_error + twilio_config" where
  "twilio_validity validity_period cfg =
     (case validity_period of
        None \<Rightarrow> Ok cfg
      | Some v \<Rightarrow>
          and_then (ok_or InvalidTwilioValidity (opt_filter (\<lambda>n. 0 < n) (parse_uint 32 v))) (\<lambda>n.
            map_err TwilioError (with_validity_period_seconds cfg (of_nat n))))"

definition configure_twilio ::
  "externals \<Rightarrow> contact_parts \<Rightarrow> environment \<Rightarrow> contact_registry \<Rightarrow>
   contact_runtime_error + contact_registry" where
  "configure_twilio X R env reg =
     and_then (provider_credential_env env ''TWILIO_ACCOUNT_SID'') (\<lambda>account_sid.
     and_then (provider_credential_env env ''TWILIO_AUTH_TOKEN'') (\<lambda>auth_token.
     and_then (provider_credential_env env ''TWILIO_API_KEY_SID'') (\<lambda>api_key_sid.
     and_then (provider_credential_env env ''TWILIO_API_KEY_SECRET'') (\<lambda>api_key_secret.
     and_then (provider_credential_env env ''TWILIO_MESSAGING_SERVICE_SID'') (\<lambda>messaging_service_sid.
       let from_number = non_empty_env env ''TWILIO_FROM_NUMBER'';
           status_callback = non_empty_env env ''TWILIO_STATUS_CALLBACK_URL'';
           validity_period = non_empty_env env ''TWILIO_VALIDITY_PERIOD_SECONDS''
       in if \<not> list_ex (\<lambda>v. v \<noteq> None) [account_sid, auth_token, api_key_sid, api_key_secret,
            messaging_service_sid, from_number, status_callback, validity_period]
          then Ok reg
          else
            and_then (ok_or (ContactIncomplete ''twilio'') account_sid) (\<lambda>account_sid.
            and_then (twilio_credentials_of auth_token api_key_sid api_key_secret) (\<lambda>credentials.
            and_then (twilio_sender_of messaging_service_sid from_number) (\<lambda>sender.
            and_then (map_err TwilioError (twilio_config_new X account_sid credentials sender)) (\<lambda>cfg.
            and_then (twilio_callback X status_callback cfg) (\<lambda>cfg.
            and_then (twilio_validity validity_period cfg) (\<lambda>cfg.
            and_then (map_err TwilioError
                (twilio_provider_new X (cpt_twilio R) (cpt_client R Twilio) cfg)) (\<lambda>p.
              Ok (contact_with_provider reg p)))))))))))))"

section \<open>The contact registry\<close>

definition contact_registry_from_env ::
  "externals \<Rightarrow> contact_parts \<Rightarrow> environment \<Rightarrow>
   (contact_runtime_error, contact_world, contact_registry) io" where
  "contact_registry_from_env X R env =
     io_bind (io_lift (configure_sendgrid X R env contact_registry_new)) (\<lambda>reg.
     io_bind (io_lift (configure_twilio X R env reg)) (\<lambda>reg.
     io_bind (io_lift (positive_u32_env env ''EMAIL_RATE_PER_MIN'' 60)) (\<lambda>email.
     io_bind (io_step (contact_with_rate_limit reg Sendgrid email)) (\<lambda>reg.
     io_bind (io_lift (positive_u32_env env ''SMS_RATE_PER_MIN'' 30)) (\<lambda>sms.
       io_step (contact_with_rate_limit reg Twilio sms))))))"

section \<open>The registry keeps the contract\<close>

definition credential_unset :: "env_var set" where
  "credential_unset = {NotPresent, Present []}"

lemma provider_credential_env_ok:
  "provider_credential_env env name = Inr r \<Longrightarrow>
     (case r of None \<Rightarrow> env name \<in> credential_unset
      | Some v \<Rightarrow> env name = Present v \<and> v \<noteq> [] \<and> list_all (\<lambda>b. is_ascii_graphic (byte_val b)) v)"
  by (auto simp: provider_credential_env_def validate_provider_credential_def credential_unset_def split: env_var.splits if_splits)

lemma contact_provider_new_ok:
  "sendgrid_provider_new X C b cfg = Inr p \<longleftrightarrow> b \<and> p = sendgrid_provider X C cfg"
  "twilio_provider_new X C' b cfg' = Inr p \<longleftrightarrow> b \<and> p = twilio_provider X C' cfg'"
  by (auto simp: sendgrid_provider_new_def twilio_provider_new_def)

lemma graphic_trim: "list_all (\<lambda>b. is_ascii_graphic (byte_val b)) s \<Longrightarrow> trim s = s"
proof (rule trim_ascii_id)
  assume g: "list_all (\<lambda>b. is_ascii_graphic (byte_val b)) s"
  then show a: "is_ascii s" by (auto simp: is_ascii_def list_all_iff is_ascii_graphic_def)
  show "\<not> is_whitespace c" if "c \<in> set (chars s)" for c
    using that g by (auto simp: chars_ascii [OF a] list_all_iff is_ascii_graphic_def is_whitespace_def)
qed

definition sendgrid_settled :: "externals \<Rightarrow> contact_parts \<Rightarrow> environment \<Rightarrow> contact_provider option \<Rightarrow> bool" where
  "sendgrid_settled X R env slot \<longleftrightarrow>
     (case slot of
        None \<Rightarrow> env ''SENDGRID_API_KEY'' \<in> credential_unset \<and> sendgrid_from_email env = None
      | Some p \<Rightarrow> \<exists>cfg. p = sendgrid_provider X (cpt_sendgrid R) cfg
          \<and> env ''SENDGRID_API_KEY'' = Present (sg_api_key cfg)
          \<and> starts_with ''SG.'' (sg_api_key cfg) \<and> length (sg_api_key cfg) \<le> 69
          \<and> valid_email_address (sg_from_email cfg)
          \<and> map_option (\<lambda>s. to_ascii_lowercase (trim s)) (sendgrid_from_email env) = Some (sg_from_email cfg)
          \<and> sg_sandbox_mode cfg = environment_flag env ''SENDGRID_SANDBOX_MODE'')"

lemma sendgrid_config_new_ok:
  "sendgrid_config_new X key mail name region = Inr cfg \<Longrightarrow>
     sg_api_key cfg = trim key \<and> sg_from_email cfg = to_ascii_lowercase (trim mail)
     \<and> valid_email_address (sg_from_email cfg)"
  by (auto simp: sendgrid_config_new_def Let_def and_then_eq_Ok split: if_splits)

lemma limiter_slot_provider: "limiter_slot (contact_with_provider reg p) = limiter_slot reg"
proof
  show "limiter_slot (contact_with_provider reg p) k = limiter_slot reg k" for k
    by (cases k) (simp_all add: contact_with_provider_def split: contact_provider_kind.splits)
qed

lemma contact_provider_kinds [simp]:
  "cp_kind (sendgrid_provider X C cfg) = Sendgrid" "cp_kind (twilio_provider X C' cfg') = Twilio"
  by (simp_all add: sendgrid_provider_def twilio_provider_def)

lemma configure_sendgrid_ok:
  assumes "configure_sendgrid X R env reg = Inr reg'" and "contact_slot reg Sendgrid = None"
  shows "sendgrid_settled X R env (contact_slot reg' Sendgrid)"
    "contact_slot reg' Twilio = contact_slot reg Twilio" "limiter_slot reg' = limiter_slot reg"
proof -
  obtain key where k: "provider_credential_env env ''SENDGRID_API_KEY'' = Inr key"
    using assms(1) by (auto simp: configure_sendgrid_def and_then_eq_Ok)
  note key = provider_credential_env_ok [OF k]
  have "sendgrid_settled X R env (contact_slot reg' Sendgrid)
    \<and> contact_slot reg' Twilio = contact_slot reg Twilio \<and> limiter_slot reg' = limiter_slot reg"
  proof (cases "key = None \<and> sendgrid_from_email env = None")
    case True
    with assms k key show ?thesis
      by (simp add: configure_sendgrid_def sendgrid_settled_def)
  next
    case False
    with assms k obtain v mail region cfg0 cfg where v: "key = Some v"
      "validate_sendgrid_api_key v = Inr ()" and mail: "sendgrid_from_email env = Some mail"
      and c: "sendgrid_config_new X v mail (non_empty_env env ''SENDGRID_FROM_NAME'') region = Inr cfg0"
      and cfg: "cfg = sendgrid_with_sandbox_mode cfg0 (environment_flag env ''SENDGRID_SANDBOX_MODE'')"
      and reg': "reg' = contact_with_provider reg (sendgrid_provider X (cpt_sendgrid R) cfg)"
      by (auto simp: configure_sendgrid_def and_then_eq_Ok contact_provider_new_ok Let_def)
    have "trim v = v" using key v(1) graphic_trim by simp
    with sendgrid_config_new_ok [OF c] v key mail cfg have "sendgrid_settled X R env
        (Some (sendgrid_provider X (cpt_sendgrid R) cfg))"
      by (auto simp: sendgrid_settled_def sendgrid_with_sandbox_mode_def validate_sendgrid_api_key_def
          split: if_splits)
    then show ?thesis
      by (simp add: reg' contact_slot_with_provider limiter_slot_provider del: contact_slot.simps)
  qed
  then show "sendgrid_settled X R env (contact_slot reg' Sendgrid)"
    "contact_slot reg' Twilio = contact_slot reg Twilio" "limiter_slot reg' = limiter_slot reg"
    by simp_all
qed

definition twilio_settled :: "externals \<Rightarrow> contact_parts \<Rightarrow> environment \<Rightarrow> contact_provider option \<Rightarrow> bool" where
  "twilio_settled X R env slot \<longleftrightarrow>
     (case slot of
        None \<Rightarrow> list_all (\<lambda>name. env name \<in> credential_unset)
          [''TWILIO_ACCOUNT_SID'', ''TWILIO_AUTH_TOKEN'', ''TWILIO_API_KEY_SID'', ''TWILIO_API_KEY_SECRET'',
           ''TWILIO_MESSAGING_SERVICE_SID'']
      | Some p \<Rightarrow> \<exists>cfg. p = twilio_provider X (cpt_twilio R) cfg
          \<and> env ''TWILIO_ACCOUNT_SID'' = Present (tw_account_sid cfg)
          \<and> (case tw_credentials cfg of
               AuthToken token \<Rightarrow> env ''TWILIO_AUTH_TOKEN'' = Present token
                 \<and> env ''TWILIO_API_KEY_SID'' \<in> credential_unset
                 \<and> env ''TWILIO_API_KEY_SECRET'' \<in> credential_unset
             | ApiKey sid secret \<Rightarrow> env ''TWILIO_AUTH_TOKEN'' \<in> credential_unset
                 \<and> env ''TWILIO_API_KEY_SID'' = Present sid \<and> env ''TWILIO_API_KEY_SECRET'' = Present secret)
          \<and> (case tw_sender cfg of
               MessagingService sid \<Rightarrow> env ''TWILIO_MESSAGING_SERVICE_SID'' = Present sid
                 \<and> non_empty_env env ''TWILIO_FROM_NUMBER'' = None
             | PhoneNumber e164 \<Rightarrow> env ''TWILIO_MESSAGING_SERVICE_SID'' \<in> credential_unset
                 \<and> non_empty_env env ''TWILIO_FROM_NUMBER'' = Some e164))"

lemma twilio_config_new_ok:
  "twilio_config_new X sid cred sender = Inr cfg \<Longrightarrow>
     tw_account_sid cfg = trim sid \<and> tw_credentials cfg = cred \<and> tw_sender cfg = sender"
  by (auto simp: twilio_config_new_def Let_def and_then_eq_Ok split: if_splits)

lemma twilio_optional_ok:
  "twilio_callback X cb cfg = Inr cfg' \<Longrightarrow> tw_account_sid cfg' = tw_account_sid cfg
     \<and> tw_credentials cfg' = tw_credentials cfg \<and> tw_sender cfg' = tw_sender cfg"
  "twilio_validity v cfg = Inr cfg' \<Longrightarrow> tw_account_sid cfg' = tw_account_sid cfg
     \<and> tw_credentials cfg' = tw_credentials cfg \<and> tw_sender cfg' = tw_sender cfg"
  by (auto simp: twilio_callback_def twilio_validity_def with_status_callback_url_def
      with_validity_period_seconds_def and_then_eq_Ok split: option.splits if_splits)

lemma twilio_credentials_of_ok:
  "twilio_credentials_of auth sid secret = Inr cred \<Longrightarrow>
     (case cred of AuthToken t \<Rightarrow> auth = Some t \<and> sid = None \<and> secret = None
      | ApiKey a b \<Rightarrow> auth = None \<and> sid = Some a \<and> secret = Some b)"
  by (auto simp: twilio_credentials_of_def split: option.splits if_splits)

lemma twilio_sender_of_ok:
  "twilio_sender_of service from_number = Inr sender \<Longrightarrow>
     (case sender of MessagingService a \<Rightarrow> service = Some a \<and> from_number = None
      | PhoneNumber a \<Rightarrow> service = None \<and> from_number = Some a)"
  by (cases service; cases from_number) auto

lemma configure_twilio_ok:
  assumes "configure_twilio X R env reg = Inr reg'" and "contact_slot reg Twilio = None"
  shows "twilio_settled X R env (contact_slot reg' Twilio)"
    "contact_slot reg' Sendgrid = contact_slot reg Sendgrid" "limiter_slot reg' = limiter_slot reg"
proof -
  let ?names = "[''TWILIO_ACCOUNT_SID'', ''TWILIO_AUTH_TOKEN'', ''TWILIO_API_KEY_SID'',
      ''TWILIO_API_KEY_SECRET'', ''TWILIO_MESSAGING_SERVICE_SID'']"
  obtain account auth sid secret service where
    k: "provider_credential_env env ''TWILIO_ACCOUNT_SID'' = Inr account"
      "provider_credential_env env ''TWILIO_AUTH_TOKEN'' = Inr auth"
      "provider_credential_env env ''TWILIO_API_KEY_SID'' = Inr sid"
      "provider_credential_env env ''TWILIO_API_KEY_SECRET'' = Inr secret"
      "provider_credential_env env ''TWILIO_MESSAGING_SERVICE_SID'' = Inr service"
    using assms(1) by (auto simp: configure_twilio_def and_then_eq_Ok)
  note keys = k [THEN provider_credential_env_ok]
  let ?from = "non_empty_env env ''TWILIO_FROM_NUMBER''"
  let ?present = "list_ex (\<lambda>v. v \<noteq> None) [account, auth, sid, secret, service, ?from,
      non_empty_env env ''TWILIO_STATUS_CALLBACK_URL'', non_empty_env env ''TWILIO_VALIDITY_PERIOD_SECONDS'']"
  have "twilio_settled X R env (contact_slot reg' Twilio)
    \<and> contact_slot reg' Sendgrid = contact_slot reg Sendgrid \<and> limiter_slot reg' = limiter_slot reg"
  proof (cases ?present)
    case False
    with assms k keys show ?thesis
      by (auto simp: configure_twilio_def twilio_settled_def Let_def)
  next
    case True
    with assms(1) k obtain v cred sender cfg0 cfg1 cfg where v: "account = Some v"
      and cred: "twilio_credentials_of auth sid secret = Inr cred"
      and sender: "twilio_sender_of service ?from = Inr sender"
      and c: "twilio_config_new X v cred sender = Inr cfg0"
      and cfg1: "twilio_callback X (non_empty_env env ''TWILIO_STATUS_CALLBACK_URL'') cfg0 = Inr cfg1"
      and cfg: "twilio_validity (non_empty_env env ''TWILIO_VALIDITY_PERIOD_SECONDS'') cfg1 = Inr cfg"
      and reg': "reg' = contact_with_provider reg (twilio_provider X (cpt_twilio R) cfg)"
      unfolding configure_twilio_def
      by (auto simp only: and_then_simps Let_def and_then_eq_Ok contact_provider_new_ok if_True
          not_True_eq_False if_False map_err_eq_Ok ok_or_eq_Ok sum.inject)
    have "trim v = v" using keys(1) v graphic_trim by simp
    with twilio_config_new_ok [OF c] twilio_optional_ok(1) [OF cfg1] twilio_optional_ok(2) [OF cfg]
    have "tw_account_sid cfg = v" "tw_credentials cfg = cred" "tw_sender cfg = sender" by simp_all
    with keys v twilio_credentials_of_ok [OF cred] twilio_sender_of_ok [OF sender]
    have "twilio_settled X R env (Some (twilio_provider X (cpt_twilio R) cfg))"
      unfolding twilio_settled_def option.case
      by (intro exI [of _ cfg]) (auto split: twilio_credentials.splits twilio_sender.splits)
    then show ?thesis
      by (simp add: reg' contact_slot_with_provider limiter_slot_provider del: contact_slot.simps)
  qed
  then show "twilio_settled X R env (contact_slot reg' Twilio)"
    "contact_slot reg' Sendgrid = contact_slot reg Sendgrid" "limiter_slot reg' = limiter_slot reg"
    by simp_all
qed

lemma configure_contact_dispatcher:
  "contact_dispatcher X reg \<Longrightarrow> configure_sendgrid X R env reg = Inr reg' \<Longrightarrow> contact_dispatcher X reg'"
  "contact_dispatcher X reg \<Longrightarrow> configure_twilio X R env reg = Inr reg' \<Longrightarrow> contact_dispatcher X reg'"
  by (auto simp: configure_sendgrid_def configure_twilio_def and_then_eq_Ok contact_provider_new_ok Let_def
      split: if_splits intro: contact_dispatcher.registered_with_provider sendgrid_contact_adapter
        twilio_contact_adapter)

text \<open>The rate a provider is limited to.\<close>

fun contact_rate :: "environment \<Rightarrow> contact_provider_kind \<Rightarrow> contact_runtime_error + u32" where
  "contact_rate env Sendgrid = positive_u32_env env ''EMAIL_RATE_PER_MIN'' 60"
| "contact_rate env Twilio = positive_u32_env env ''SMS_RATE_PER_MIN'' 30"

lemma contact_registry_built:
  assumes "contact_registry_from_env X R env w0 = (Inr reg, w)"
  obtains reg0 email sms reg1 w1 where "contact_dispatcher X reg0" "limiter_slot reg0 = limiter_slot contact_registry_new"
    "sendgrid_settled X R env (contact_slot reg0 Sendgrid)" "twilio_settled X R env (contact_slot reg0 Twilio)"
    "contact_rate env Sendgrid = Inr email" "contact_rate env Twilio = Inr sms"
    "contact_with_rate_limit reg0 Sendgrid email w0 = (reg1, w1)"
    "contact_with_rate_limit reg1 Twilio sms w1 = (reg, w)"
proof -
  from assms obtain regs reg0 email sms reg1 w1 where
    s: "configure_sendgrid X R env contact_registry_new = Inr regs"
    and t: "configure_twilio X R env regs = Inr reg0"
    and l: "contact_rate env Sendgrid = Inr email" "contact_rate env Twilio = Inr sms"
      "contact_with_rate_limit reg0 Sendgrid email w0 = (reg1, w1)"
      "contact_with_rate_limit reg1 Twilio sms w1 = (reg, w)"
    by (auto simp: contact_registry_from_env_def io_bind_def io_lift_def io_step_def
        split: sum.splits prod.splits)
  have new: "contact_slot contact_registry_new k = None" for k
    by (cases k) (simp_all add: contact_registry_new_def)
  note s' = configure_sendgrid_ok [OF s new] and d = configure_contact_dispatcher
  have none: "contact_slot regs Twilio = None" using s'(2) new [of Twilio] by (rule trans)
  note t' = configure_twilio_ok [OF t none]
  show thesis
  proof (rule that [OF _ _ _ _ l])
    show "contact_dispatcher X reg0" by (rule d(2) [OF d(1) [OF contact_dispatcher_new s] t])
    show "limiter_slot reg0 = limiter_slot contact_registry_new" using s'(3) t'(3) by simp
    show "sendgrid_settled X R env (contact_slot reg0 Sendgrid)" using s'(1) t'(2) by simp
    show "twilio_settled X R env (contact_slot reg0 Twilio)" by (rule t'(1))
  qed
qed

lemma fresh_limiters_wf:
  "limiter_slot reg = limiter_slot contact_registry_new \<Longrightarrow> limiters_wf reg w"
proof -
  assume l: "limiter_slot reg = limiter_slot contact_registry_new"
  have "limiter_slot reg k = None" for k by (cases k) (simp_all only: l, simp_all add: contact_registry_new_def)
  from this [of Sendgrid] this [of Twilio] show ?thesis by (simp add: limiters_wf_def is_none_or_def)
qed

lemma contact_registry_limits:
  assumes "contact_registry_from_env X R env w0 = (Inr reg, w)"
  shows "limiters_wf reg w"
    and "\<exists>i limit start. limiter_slot reg k = Some i \<and> contact_rate env k = Inr limit
      \<and> cw_buckets w ! i = limiter_per_minute limit start"
    and "silent (cw_world w0) (cw_world w)" and "contact_dispatcher X reg"
    and "sendgrid_settled X R env (contact_slot reg Sendgrid)"
    and "twilio_settled X R env (contact_slot reg Twilio)"
proof -
  obtain reg0 email sms reg1 w1 where d: "contact_dispatcher X reg0"
    and slots: "limiter_slot reg0 = limiter_slot contact_registry_new"
    and settled: "sendgrid_settled X R env (contact_slot reg0 Sendgrid)"
      "twilio_settled X R env (contact_slot reg0 Twilio)"
    and rates: "contact_rate env Sendgrid = Inr email" "contact_rate env Twilio = Inr sms"
    and l: "contact_with_rate_limit reg0 Sendgrid email w0 = (reg1, w1)"
      "contact_with_rate_limit reg1 Twilio sms w1 = (reg, w)"
    by (rule contact_registry_built [OF assms])
  note 1 = with_rate_limit_result [OF l(1) fresh_limiters_wf [OF slots]]
  note 2 = with_rate_limit_result [OF l(2) 1(1)]
  show "limiters_wf reg w" by (rule 2(1))
  show "silent (cw_world w0) (cw_world w)" using 1(6) 2(6) by (rule silent_trans)
  show "contact_dispatcher X reg"
    using contact_dispatcher.registered_with_rate_limit [of X reg1 Twilio sms w1]
      contact_dispatcher.registered_with_rate_limit [OF d, of Sendgrid email w0] l by simp
  show "sendgrid_settled X R env (contact_slot reg Sendgrid)" "twilio_settled X R env (contact_slot reg Twilio)"
    unfolding 2(7) 1(7) by fact+
  show "\<exists>i limit start. limiter_slot reg k = Some i \<and> contact_rate env k = Inr limit
      \<and> cw_buckets w ! i = limiter_per_minute limit start"
  proof (cases k)
    case Sendgrid
    have "limiter_slot reg Sendgrid = Some (length (cw_buckets w0))" using 2(5) [of Sendgrid] 1(2) by simp
    moreover have "cw_buckets w ! length (cw_buckets w0)
        = limiter_per_minute email (fst (instant_now (cw_world w0)))"
      using 2(4) [of "length (cw_buckets w0)"] 1(3,8) by simp
    ultimately show ?thesis using rates Sendgrid by blast
  next
    case Twilio
    then show ?thesis using 2(2,3) rates by blast
  qed
qed

lemma rate_limit_silent: "silent (cw_world w) (cw_world (snd (contact_with_rate_limit reg k n w)))"
  using silent_clock(2) by (auto simp: contact_with_rate_limit_def new_limiter_def split: prod.splits)

lemma contact_registry_silent:
  "silent (cw_world w) (cw_world (snd (contact_registry_from_env X R env w)))"
proof -
  have "silent (cw_world w) (cw_world w2)"
    if "contact_with_rate_limit reg k n w = (reg1, w1)" "contact_with_rate_limit reg1 k' n' w1 = (reg2, w2)"
    for reg k n reg1 w1 k' n' reg2 w2
    using rate_limit_silent [of w reg k n] rate_limit_silent [of w1 reg1 k' n'] that silent_trans by simp
  moreover have "silent (cw_world w) (cw_world w1)" if "contact_with_rate_limit reg k n w = (reg1, w1)"
    for reg k n reg1 w1
    using rate_limit_silent [of w reg k n] that by simp
  ultimately show ?thesis
    by (auto simp: contact_registry_from_env_def io_bind_def io_lift_def io_step_def
        split: sum.splits prod.splits)
qed

definition contact_registry_or_empty :: "contact_runtime_error + contact_registry \<Rightarrow> contact_registry" where
  "contact_registry_or_empty r = (case r of Inl _ \<Rightarrow> contact_registry_new | Inr reg \<Rightarrow> reg)"

interpretation runtime_contact: contact_dispatcher X
  "contact_registry_or_empty (fst (contact_registry_from_env X R env w))" for X R env w
proof -
  obtain r w' where r: "contact_registry_from_env X R env w = (r, w')" by fastforce
  show "contact_dispatcher X (contact_registry_or_empty (fst (contact_registry_from_env X R env w)))"
    using contact_registry_limits(4) [of X R env w _ w'] r
    by (cases r) (simp_all add: contact_registry_or_empty_def contact_dispatcher_new)
qed

text \<open>More regions are accepted than the error text names.\<close>

lemma sendgrid_region_aliases:
  "parse_sendgrid_region (Some ''us'') = Ok GlobalRegion \<and> parse_sendgrid_region (Some ''Europe'') = Ok EuropeRegion"
  by code_simp

section \<open>Properties\<close>

text \<open>
  C29: The contact registry the environment yields: SendGrid is registered unless neither its
  key nor a sender address is set, with the exact key of the environment (\<open>SG.\<close>, at most 69
  bytes) and a valid sender; Twilio unless none of its credentials is set, with exactly one
  credential mode and exactly one sender, those of the environment; each provider gets a limiter of its
  own, and building sends nothing.
\<close>

theorem contact_registry_from_env_spec:
  "case contact_registry_from_env X R env w of
     (Inr reg, w') \<Rightarrow> sendgrid_settled X R env (contact_slot reg Sendgrid)
       \<and> twilio_settled X R env (contact_slot reg Twilio)
       \<and> limiter_slot reg Sendgrid \<noteq> None \<and> limiter_slot reg Twilio \<noteq> None
       \<and> limiters_wf reg w' \<and> silent (cw_world w) (cw_world w')
   | (Inl e, w') \<Rightarrow> silent (cw_world w) (cw_world w')"
proof -
  obtain r w' where r: "contact_registry_from_env X R env w = (r, w')" by fastforce
  show ?thesis
  proof (cases r)
    case (Inl e)
    with r contact_registry_silent [of w X R env] show ?thesis by simp
  next
    case (Inr reg)
    note c = contact_registry_limits [OF r [unfolded Inr]]
    show ?thesis
      using c(1,3,5,6) c(2) [of Sendgrid] c(2) [of Twilio] by (auto simp: r Inr simp del: contact_slot.simps)
  qed
qed

text \<open>
  C5: The configured rates hold: whatever jobs are dispatched through the registry built from
  the environment, the jobs of a provider that have a request sent number at most its rate
  (\<open>EMAIL_RATE_PER_MIN\<close>, 60 by default; \<open>SMS_RATE_PER_MIN\<close>, 30) plus that rate for each minute
  the limiter's clock shows since it was made, up to rounding; the other provider's jobs neither use nor
  refill it.
\<close>

theorem runtime_rate_limits:
  "case contact_registry_from_env X R env w0 of
     (Inl e, w) \<Rightarrow> True
   | (Inr reg, w) \<Rightarrow> \<exists>limit i. contact_rate env k = Inr limit \<and> limiter_slot reg k = Some i
       \<and> of_nat (deliveries reg k jobs w)
         \<le> of_nat (limit_of limit)
           + seconds (elapsed (tb_last (cw_buckets w ! i)) (limiter_readings reg k jobs w))
               * (of_nat (limit_of limit) / 60) * (1 + 1 / 2 ^ 50)
           + (of_nat (length (limiter_readings reg k jobs w)) / 2 ^ 20 :: rat)"
proof -
  obtain r w where r: "contact_registry_from_env X R env w0 = (r, w)" by fastforce
  show ?thesis
  proof (cases r)
    case (Inr reg)
    note c = contact_registry_limits [OF r [unfolded Inr]]
    from c(2) [of k] obtain i limit start where i: "limiter_slot reg k = Some i"
      and limit: "contact_rate env k = Inr limit" and b: "cw_buckets w ! i = limiter_per_minute limit start"
      by blast
    have "tb_last (cw_buckets w ! i) = start"
      by (simp add: b limiter_per_minute_def bucket_new_def Let_def)
    with deliveries_limited [OF c(1) i b, of jobs] i limit show ?thesis by (auto simp: r Inr)
  qed (simp add: r)
qed

end
