(* ===== verification/Api_Docs.thy ===== *)
theory Api_Docs
  imports Contact_Http
begin

text \<open>
  The OpenAPI documents and the application router (\<open>src/api_docs.rs\<close>): the fail-closed public
  projection of the internal document, with the closure of its schema references, the
  documentation routes, and the three routers merged into one. The document type of
  \<open>utoipa\<close> and its JSON conversions are the record \<open>openapi_codec\<close>; \<open>BTreeSet\<close> is a set.
\<close>

section \<open>Schema references\<close>

definition schema_ref_prefix :: string where "schema_ref_prefix = ''#/components/schemas/''"

definition own_schema_ref :: "(string \<times> json) list \<Rightarrow> string set" where
  "own_schema_ref object =
     set (flatten [Option.bind (Option.bind (map_of object ''$ref'') json_as_str)
       (strip_prefix schema_ref_prefix)])"

fun schema_refs :: "json \<Rightarrow> string set" where
  "schema_refs (JObj object) =
     own_schema_ref object \<union> \<Union> (set (map (\<lambda>(k, v). schema_refs v) object))"
| "schema_refs (JArr items) = \<Union> (set (map schema_refs items))"
| "schema_refs _ = {}"

lemma finite_schema_refs [simp]: "finite (schema_refs v)"
  by (induction v rule: schema_refs.induct) (auto simp: own_schema_ref_def)

text \<open>The references inside the schema of a name; a name without a schema has none.\<close>

definition refs_of :: "(string \<times> json) list \<Rightarrow> string \<Rightarrow> string set" where
  "refs_of all_schemas name =
     (case map_of all_schemas name of None \<Rightarrow> {} | Some schema \<Rightarrow> schema_refs schema)"

definition mentioned :: "(string \<times> json) list \<Rightarrow> string set" where
  "mentioned all_schemas = \<Union> (set (map (\<lambda>(k, v). schema_refs v) all_schemas))"

lemma finite_mentioned [simp]: "finite (mentioned all_schemas)"
  by (auto simp: mentioned_def)

lemma refs_of_mentioned: "refs_of all_schemas name \<subseteq> mentioned all_schemas"
  by (auto simp: refs_of_def mentioned_def dest: map_of_SomeD split: option.splits)

definition undiscovered :: "string set \<Rightarrow> string set \<Rightarrow> (string \<times> json) list \<Rightarrow> nat" where
  "undiscovered reached frontier all_schemas = card (mentioned all_schemas - reached - frontier)"

lemma discovery_decreases:
  assumes "d \<subseteq> mentioned all_schemas - reached - frontier" and "d \<noteq> {}"
  shows "undiscovered (reached \<union> frontier) d all_schemas < undiscovered reached frontier all_schemas"
  unfolding undiscovered_def using assms by (intro psubset_card_mono) auto

text \<open>Each step only discovers names not seen before, and only finitely many are mentioned.\<close>

function transitive_schema_refs ::
  "string set \<Rightarrow> string set \<Rightarrow> (string \<times> json) list \<Rightarrow> string set" where
  "transitive_schema_refs reached frontier all_schemas =
     (if frontier = {} then reached
      else let discovered = \<Union> (refs_of all_schemas ` frontier) - reached - frontier
           in transitive_schema_refs (reached \<union> frontier) discovered all_schemas)"
  by pat_completeness auto

termination transitive_schema_refs
proof (relation "measures [\<lambda>(r, f, s). undiscovered r f s, \<lambda>(r, f, s). if f = {} then 0 else 1]")
  fix r f :: "string set" and s d
  assume f: "f \<noteq> {}" and d: "d = \<Union> (refs_of s ` f) - r - f"
  have sub: "d \<subseteq> mentioned s - r - f" using refs_of_mentioned d by fastforce
  show "((r \<union> f, d, s), r, f, s)
      \<in> measures [\<lambda>(r, f, s). undiscovered r f s, \<lambda>(r, f, s). if f = {} then 0 else 1]"
  proof (cases "d = {}")
    case True
    have "undiscovered (r \<union> f) {} s = undiscovered r f s"
      by (simp add: undiscovered_def Diff_Un Diff_Int_distrib set_diff_eq)
    with True f show ?thesis by simp
  next
    case False
    with discovery_decreases [OF sub] show ?thesis by simp
  qed
qed simp

declare transitive_schema_refs.simps [simp del]

section \<open>The public projection\<close>

definition docs_public_paths :: "string list" where
  "docs_public_paths = [''/healthz'', ''/readyz'', ''/v1/contact/readyz'', ''/openapi.json'',
     ''/api/docs.json'', ''/api/docs'', ''/docs/api'']"

definition reachable_public_schemas ::
  "(string \<times> json) list \<Rightarrow> (string \<times> json) list \<Rightarrow> (string \<times> json) list" where
  "reachable_public_schemas paths all_schemas =
     (let direct = schema_refs (JObj paths) in
      bt_collect (flatten (map (\<lambda>name. map_option (Pair name) (map_of all_schemas name))
        (sorted_list_of_set (transitive_schema_refs {} direct all_schemas)))))"

definition docs_public_title :: string where
  "docs_public_title = ''push-notification-server API (public)''"

text \<open>From value to value; \<open>None\<close> is a failed \<open>expect\<close>.\<close>

definition project_public :: "json \<Rightarrow> json option" where
  "project_public internal =
     Option.bind (json_as_object (json_index internal ''paths'')) (\<lambda>paths.
     let public_paths = bt_collect (filter (\<lambda>(path, item). path \<in> set docs_public_paths) paths);
         all_schemas = unwrap_or []
           (json_as_object (json_index (json_index internal ''components'') ''schemas''));
         schemas = reachable_public_schemas public_paths all_schemas
     in Option.bind (json_as_object (json_index internal ''info'')) (\<lambda>info.
        let public_info = bt_collect (filter (\<lambda>(key, v). key \<notin> set [''title'', ''contact'', ''license'']) info
              @ [(''title'', JStr docs_public_title)])
        in Option.bind (json_as_object internal) (\<lambda>members.
           Some (JObj (bt_collect (filter (\<lambda>(key, v).
               key \<notin> set [''paths'', ''components'', ''info'', ''x-dd-contract-scope'']) members
             @ [(''paths'', JObj public_paths),
                (''components'', JObj (bt_collect [(''schemas'', JObj schemas)])),
                (''info'', JObj public_info),
                (''x-dd-contract-scope'', JStr ''public'')]))))))"

text \<open>\<open>utoipa\<close>'s document and its conversions.\<close>

record 'doc openapi_codec =
  ox_to_value :: "'doc \<Rightarrow> json option"
  ox_from_value :: "json \<Rightarrow> 'doc option"
  ox_pretty :: "'doc \<Rightarrow> string option"
  ox_html :: "'doc \<Rightarrow> string"

datatype docs_error = DocsSerde | DocsPanic

definition public_projection :: "'doc openapi_codec \<Rightarrow> 'doc \<Rightarrow> docs_error + 'doc" where
  "public_projection D openapi =
     and_then (ok_or DocsSerde (ox_to_value D openapi)) (\<lambda>internal.
     and_then (ok_or DocsPanic (project_public internal)) (\<lambda>projected.
       ok_or DocsSerde (ox_from_value D projected)))"

definition canonical_json :: "'doc openapi_codec \<Rightarrow> 'doc \<Rightarrow> docs_error + string" where
  "canonical_json D openapi = ok_or DocsSerde (map_option (\<lambda>json. json @ [CHR 0x0A]) (ox_pretty D openapi))"

section \<open>The documentation routes\<close>

record docs_state =
  ds_public_json :: string
  ds_internal_json :: string
  ds_public_html :: string
  ds_internal_html :: string
  ds_authenticator :: authenticator

definition docs_state_new ::
  "'doc openapi_codec \<Rightarrow> 'doc \<Rightarrow> authenticator \<Rightarrow> docs_error + docs_state" where
  "docs_state_new D openapi auth =
     and_then (public_projection D openapi) (\<lambda>public.
     and_then (canonical_json D public) (\<lambda>public_json.
     and_then (canonical_json D openapi) (\<lambda>internal_json.
       Ok \<lparr>ds_public_json = public_json, ds_internal_json = internal_json,
           ds_public_html = ox_html D public, ds_internal_html = ox_html D openapi,
           ds_authenticator = auth\<rparr>)))"

record docs_reply =
  dr_status :: nat
  dr_content_type :: "string option" \<comment> \<open>\<open>None\<close>: axum's own for a text body\<close>
  dr_body :: string

definition openapi_response :: "string \<Rightarrow> docs_reply" where
  "openapi_response bytes = \<lparr>dr_status = 200,
     dr_content_type = Some ''application/vnd.oai.openapi+json;version=3.1'', dr_body = bytes\<rparr>"

definition html_response :: "string \<Rightarrow> docs_reply" where
  "html_response bytes = \<lparr>dr_status = 200,
     dr_content_type = Some ''text/html; charset=utf-8'', dr_body = bytes\<rparr>"

definition docs_unauthorized :: docs_reply where
  "docs_unauthorized = \<lparr>dr_status = 401, dr_content_type = None,
     dr_body = ''request authentication failed''\<rparr>"

datatype docs_request =
    GetOpenapiJson | GetApiDocsJson | GetApiDocs | GetDocsApi | GetInternalOpenapi | GetInternalDocs

fun docs_router :: "docs_state \<Rightarrow> header_map \<Rightarrow> docs_request \<Rightarrow> docs_reply" where
  "docs_router st headers GetOpenapiJson = openapi_response (ds_public_json st)"
| "docs_router st headers GetApiDocsJson = openapi_response (ds_public_json st)"
| "docs_router st headers GetApiDocs = html_response (ds_public_html st)"
| "docs_router st headers GetDocsApi = html_response (ds_public_html st)"
| "docs_router st headers GetInternalOpenapi =
     (if \<not> auth_authenticate (ds_authenticator st) headers then docs_unauthorized
      else openapi_response (ds_internal_json st))"
| "docs_router st headers GetInternalDocs =
     (if \<not> auth_authenticate (ds_authenticator st) headers then docs_unauthorized
      else html_response (ds_internal_html st))"

section \<open>The application\<close>

text \<open>axum's \<open>Json\<close> extractors, for the four bodies.\<close>

record extractors =
  exr_job :: "nat \<Rightarrow> string \<Rightarrow> (nat \<times> string) + push_job"
  exr_batch :: "nat \<Rightarrow> string \<Rightarrow> (nat \<times> string) + push_job list"
  exr_contact_job :: "nat \<Rightarrow> string \<Rightarrow> (nat \<times> string) + contact_job"
  exr_contact_batch :: "nat \<Rightarrow> string \<Rightarrow> (nat \<times> string) + contact_job list"

datatype app_request = PushRoute api_request | ContactRoute contact_request | DocsRoute docs_request

datatype app_reply = PushReply http_reply | ContactReply contact_reply | DocsReply docs_reply

record app_state =
  app_push :: api_state
  app_contact :: contact_api_state
  app_docs :: docs_state

fun app_router ::
  "externals \<Rightarrow> extractors \<Rightarrow> app_state \<Rightarrow> header_map \<Rightarrow> app_request \<Rightarrow> contact_world \<Rightarrow>
   app_reply \<times> contact_world" where
  "app_router X E st headers (PushRoute rq) w =
     apfst PushReply (on_contact_world
       (push_router X (exr_job E) (exr_batch E) (app_push st) headers rq) w)"
| "app_router X E st headers (ContactRoute rq) w =
     apfst ContactReply (contact_router X (exr_contact_job E) (exr_contact_batch E) (app_contact st) headers rq w)"
| "app_router X E st headers (DocsRoute rq) w = (DocsReply (docs_router (app_docs st) headers rq), w)"

definition application_router ::
  "'doc openapi_codec \<Rightarrow> 'doc \<Rightarrow> api_state \<Rightarrow> contact_api_state \<Rightarrow> authenticator \<Rightarrow>
   docs_error + app_state" where
  "application_router D openapi push_state contact_state auth =
     and_then (docs_state_new D openapi auth) (\<lambda>docs.
       Ok \<lparr>app_push = push_state, app_contact = contact_state, app_docs = docs\<rparr>)"

section \<open>The closure is reachability\<close>

inductive schema_reachable :: "(string \<times> json) list \<Rightarrow> string set \<Rightarrow> string \<Rightarrow> bool"
  for all_schemas start where
  direct: "name \<in> start \<Longrightarrow> schema_reachable all_schemas start name"
| further: "schema_reachable all_schemas start name \<Longrightarrow> name' \<in> refs_of all_schemas name \<Longrightarrow>
     schema_reachable all_schemas start name'"

lemma reachable_closed:
  assumes "\<And>n. n \<in> start \<Longrightarrow> refs_of all_schemas n \<subseteq> start" and "schema_reachable all_schemas start n"
  shows "n \<in> start"
  using assms(2,1) by induction auto

lemma reachable_trans:
  assumes "schema_reachable all_schemas start n" and "\<And>m. m \<in> start \<Longrightarrow> schema_reachable all_schemas start' m"
  shows "schema_reachable all_schemas start' n"
  using assms by induction (auto intro: schema_reachable.further)

lemma transitive_reachable:
  "(\<And>n. n \<in> reached \<Longrightarrow> refs_of s n \<subseteq> reached \<union> frontier) \<Longrightarrow>
     transitive_schema_refs reached frontier s = Collect (schema_reachable s (reached \<union> frontier))"
proof (induction reached frontier s rule: transitive_schema_refs.induct)
  case (1 reached frontier s)
  show ?case
  proof (cases "frontier = {}")
    case True
    then show ?thesis
      using 1(2) reachable_closed [of reached s]
      by (subst transitive_schema_refs.simps) (auto intro: schema_reachable.direct)
  next
    case False
    let ?d = "\<Union> (refs_of s ` frontier) - reached - frontier"
    have closed: "refs_of s n \<subseteq> reached \<union> frontier \<union> ?d" if "n \<in> reached \<union> frontier" for n
      using that 1(2) by blast
    have d: "schema_reachable s (reached \<union> frontier) n" if "n \<in> reached \<union> frontier \<union> ?d" for n
    proof (cases "n \<in> ?d")
      case True
      then obtain m where "m \<in> frontier" "n \<in> refs_of s m" by blast
      then show ?thesis by (auto intro: schema_reachable.intros)
    next
      case False
      with that show ?thesis by (auto intro: schema_reachable.direct)
    qed
    have up: "schema_reachable s (reached \<union> frontier \<union> ?d) n" if "n \<in> reached \<union> frontier" for n
      using that by (auto intro: schema_reachable.direct)
    have "transitive_schema_refs reached frontier s = transitive_schema_refs (reached \<union> frontier) ?d s"
      using False by (subst transitive_schema_refs.simps) (simp add: Let_def)
    also have "\<dots> = Collect (schema_reachable s (reached \<union> frontier \<union> ?d))"
      using False closed by (intro 1(1)) auto
    also have "\<dots> = Collect (schema_reachable s (reached \<union> frontier))"
      using reachable_trans [OF _ d] reachable_trans [OF _ up] by blast
    finally show ?thesis .
  qed
qed

lemma finite_transitive: "finite start \<Longrightarrow> finite (transitive_schema_refs {} start s)"
proof -
  assume fin: "finite start"
  have "schema_reachable s start n \<Longrightarrow> n \<in> start \<union> mentioned s" for n
    by (induction rule: schema_reachable.induct) (use refs_of_mentioned in auto)
  then have "Collect (schema_reachable s start) \<subseteq> start \<union> mentioned s" by blast
  moreover have "finite (start \<union> mentioned s)" using fin by simp
  ultimately have "finite (Collect (schema_reachable s start))" by (rule finite_subset)
  then show ?thesis using transitive_reachable [of "{}" s start] by simp
qed

section \<open>Looking up in projected objects\<close>

lemma map_of_filter_keys:
  "map_of (filter (\<lambda>(k, v). P k) m) k = (if P k then map_of m k else None)"
  by (induction m) auto

lemma map_of_collect_filter:
  assumes "bt_wf m"
  shows "map_of (bt_collect (filter (\<lambda>(k, v). P k) m @ extra)) k =
     (case map_of (rev extra) k of Some v \<Rightarrow> Some v | None \<Rightarrow> if P k then map_of m k else None)"
proof -
  have "distinct (map fst (filter (\<lambda>(k, v). P k) m))"
    using bt_wf_distinct [OF assms] by (rule distinct_map_filter)
  then show ?thesis
    by (simp add: map_of_bt_collect map_add_def map_of_rev_distinct map_of_filter_keys
        split: option.split)
qed

lemma map_of_collected_names:
  assumes "distinct names"
  shows "map_of (bt_collect (flatten (map (\<lambda>name. map_option (Pair name) (map_of m name)) names))) n
     = (if n \<in> set names then map_of m n else None)"
proof -
  let ?kvs = "\<lambda>names. flatten (map (\<lambda>name. map_option (Pair name) (map_of m name)) names)"
  have keys: "fst ` set (?kvs names) \<subseteq> set names" for names
  proof (induction names)
    case (Cons a names)
    then show ?case by (cases "map_of m a") auto
  qed simp
  have dist: "distinct (map fst (?kvs names))"
    using assms
  proof (induction names)
    case (Cons a names)
    with keys [of names] show ?case by (cases "map_of m a") auto
  qed simp
  have "map_of (?kvs names) n = (if n \<in> set names then map_of m n else None)"
    using assms
  proof (induction names)
    case (Cons a names)
    then show ?case by (cases "map_of m a") auto
  qed simp
  then show ?thesis by (simp add: map_of_bt_collect map_of_rev_distinct [OF dist])
qed

lemma reachable_public_schemas_get:
  "map_of (reachable_public_schemas paths s) n =
     (if schema_reachable s (schema_refs (JObj paths)) n then map_of s n else None)"
proof -
  have fin: "finite (transitive_schema_refs {} (schema_refs (JObj paths)) s)"
    by (intro finite_transitive finite_schema_refs)
  show ?thesis
    unfolding reachable_public_schemas_def Let_def map_of_collected_names [OF distinct_sorted_list_of_set]
    using fin transitive_reachable [of "{}" s "schema_refs (JObj paths)"] by (simp del: schema_refs.simps)
qed

section \<open>Properties\<close>

text \<open>
  C18: The closure of schema references terminates on every document, cyclic references and
  names without a schema included, and yields exactly the names reachable from the start.
\<close>

theorem transitive_schema_refs_closure:
  "transitive_schema_refs {} start all_schemas = {name. schema_reachable all_schemas start name}"
  using transitive_reachable [of "{}" all_schemas start] by simp

text \<open>The members of a document's schema table.\<close>

definition schemas_of :: "json \<Rightarrow> (string \<times> json) list" where
  "schemas_of doc = unwrap_or [] (json_as_object (json_index (json_index doc ''components'') ''schemas''))"

lemma json_as_object_eq_Some: "json_as_object v = Some m \<longleftrightarrow> v = JObj m"
  by (cases v) auto

lemma json_wf_member: "json_wf (JObj m) \<Longrightarrow> json_index (JObj m) k = JObj m' \<Longrightarrow> bt_wf m'"
  by (auto simp: unwrap_or_def list_all_iff dest!: map_of_SomeD split: option.splits)

lemma project_public_None:
  assumes "project_public internal = None"
  shows "json_as_object (json_index internal ''paths'') = None
    \<or> json_as_object (json_index internal ''info'') = None"
proof -
  have obj: "json_as_object (json_index internal k) \<noteq> None \<Longrightarrow> json_as_object internal \<noteq> None" for k
    by (cases internal) (simp_all add: json_index_def)
  from assms obj [of "''info''"] show ?thesis
    unfolding project_public_def Let_def
    by (cases "json_as_object (json_index internal ''paths'')";
        cases "json_as_object (json_index internal ''info'')") auto
qed

text \<open>
  C17: The public document is a fail-closed projection: of the paths it keeps exactly the
  allowlisted ones, unchanged; of the schemas exactly those reachable from these paths; of the
  components nothing else, so no security scheme; the title and scope are the public ones, and
  contact and license are gone. It exists unless the document has no paths or no info object.
\<close>

theorem project_public_spec:
  assumes "json_wf internal"
  shows "case project_public internal of
     None \<Rightarrow> json_as_object (json_index internal ''paths'') = None
       \<or> json_as_object (json_index internal ''info'') = None
   | Some public \<Rightarrow>
       json_get (json_index public ''paths'') path
         = (if path \<in> set docs_public_paths then json_get (json_index internal ''paths'') path else None)
       \<and> json_get (json_index (json_index public ''components'') ''schemas'') name
         = (if schema_reachable (schemas_of internal) (schema_refs (json_index public ''paths'')) name
            then map_of (schemas_of internal) name else None)
       \<and> (json_get (json_index public ''components'') key \<noteq> None \<longleftrightarrow> key = ''schemas'')
       \<and> json_get public ''x-dd-contract-scope'' = Some (JStr ''public'')
       \<and> json_get (json_index public ''info'') key
         = (if key = ''title'' then Some (JStr docs_public_title)
            else if key = ''contact'' \<or> key = ''license'' then None
            else json_get (json_index internal ''info'') key)"
proof (cases "project_public internal")
  case None
  then show ?thesis by (auto dest: project_public_None)
next
  case (Some public)
  then obtain paths info members where m: "internal = JObj members"
    and p: "json_index internal ''paths'' = JObj paths" and i: "json_index internal ''info'' = JObj info"
    by (auto simp: project_public_def Let_def bind_eq_Some_conv json_as_object_eq_Some)
  define ps where "ps = bt_collect (filter (\<lambda>(path, item). path \<in> set docs_public_paths) paths)"
  define inf where "inf = bt_collect (filter (\<lambda>(key, v). key \<notin> set [''title'', ''contact'', ''license'']) info
      @ [(''title'', JStr docs_public_title)])"
  define comp where "comp = bt_collect [(''schemas'', JObj (reachable_public_schemas ps (schemas_of internal)))]"
  define doc where "doc = bt_collect (filter (\<lambda>(key, v).
        key \<notin> set [''paths'', ''components'', ''info'', ''x-dd-contract-scope'']) members
      @ [(''paths'', JObj ps), (''components'', JObj comp), (''info'', JObj inf),
         (''x-dd-contract-scope'', JStr ''public'')])"
  have public: "public = JObj doc"
    using Some p i unfolding doc_def comp_def inf_def ps_def
    by (simp add: project_public_def Let_def m schemas_of_def)
  have wf: "bt_wf members" "bt_wf paths" "bt_wf info"
    using assms json_wf_member p i by (auto simp: m)
  have members: "map_of doc ''paths'' = Some (JObj ps)" "map_of doc ''components'' = Some (JObj comp)"
    "map_of doc ''info'' = Some (JObj inf)" "map_of doc ''x-dd-contract-scope'' = Some (JStr ''public'')"
    unfolding doc_def map_of_collect_filter [OF wf(1)] by simp_all
  have path: "map_of ps path = (if path \<in> set docs_public_paths then map_of paths path else None)"
    using map_of_collect_filter [OF wf(2), of "\<lambda>k. k \<in> set docs_public_paths" "[]"] by (simp add: ps_def)
  have inf: "map_of inf key = (if key = ''title'' then Some (JStr docs_public_title)
      else if key = ''contact'' \<or> key = ''license'' then None else map_of info key)"
    unfolding inf_def map_of_collect_filter [OF wf(3)] by simp
  have comp: "map_of comp k = (if k = ''schemas''
      then Some (JObj (reachable_public_schemas ps (schemas_of internal))) else None)" for k
    by (simp add: comp_def map_of_bt_collect)
  have index: "json_index (JObj doc) ''paths'' = JObj ps" "json_index (JObj doc) ''components'' = JObj comp"
    "json_index (JObj doc) ''info'' = JObj inf"
    "json_index (JObj comp) ''schemas'' = JObj (reachable_public_schemas ps (schemas_of internal))"
    by (simp_all add: members comp unwrap_or_def)
  show ?thesis
    unfolding Some option.case public index p i json_get.simps members path inf comp
      reachable_public_schemas_get by simp
qed

definition demo_openapi :: json where
  "demo_openapi = JObj (bt_collect
     [(''components'', JObj (bt_collect [(''schemas'', JObj (bt_collect
         [(''Health'', JObj [(''$ref'', JStr ''#/components/schemas/Health'')]), (''PushJob'', JNull)])),
        (''securitySchemes'', JNull)])),
      (''info'', JObj (bt_collect [(''license'', JNull), (''title'', JStr ''internal'')])),
      (''paths'', JObj (bt_collect
         [(''/healthz'', JObj [(''$ref'', JStr ''#/components/schemas/Health'')]), (''/v1/push/jobs'', JNull)]))])"

theorem project_public_spec_witness:
  "\<exists>public. project_public demo_openapi = Some public
     \<and> json_get (json_index public ''paths'') ''/v1/push/jobs'' = None
     \<and> json_get (json_index public ''components'') ''securitySchemes'' = None
     \<and> json_get (json_index public ''info'') ''license'' = None"
proof -
  have wf: "json_wf demo_openapi" by code_simp
  have "json_as_object (json_index demo_openapi ''paths'') \<noteq> None"
    "json_as_object (json_index demo_openapi ''info'') \<noteq> None" by code_simp+
  moreover have "''/v1/push/jobs'' \<notin> set docs_public_paths" by code_simp
  ultimately show ?thesis
    using project_public_spec [OF wf, of "''/v1/push/jobs''" _ "''securitySchemes''"]
      project_public_spec [OF wf, of _ _ "''license''"]
    by (cases "project_public demo_openapi") auto
qed

fun guarded_route :: "app_request \<Rightarrow> bool" where
  "guarded_route (PushRoute rq) \<longleftrightarrow> rq \<noteq> GetHealthz \<and> rq \<noteq> GetReadyz"
| "guarded_route (ContactRoute rq) \<longleftrightarrow> rq \<noteq> GetContactReadyz"
| "guarded_route (DocsRoute rq) \<longleftrightarrow> rq = GetInternalOpenapi \<or> rq = GetInternalDocs"

fun app_status :: "app_reply \<Rightarrow> nat" where
  "app_status (PushReply r) = hr_status r"
| "app_status (ContactReply r) = ch_status r"
| "app_status (DocsReply r) = dr_status r"

text \<open>The status of the extractor's rejection, when it rejects the body.\<close>

fun rejected_status :: "extractors \<Rightarrow> app_request \<Rightarrow> nat option" where
  "rejected_status E (PushRoute (PostJob body)) = (case exr_job E max_http_body_bytes body of
     Inl (status, _) \<Rightarrow> Some status | Inr _ \<Rightarrow> None)"
| "rejected_status E (PushRoute (PostBatch body)) = (case exr_batch E max_http_body_bytes body of
     Inl (status, _) \<Rightarrow> Some status | Inr _ \<Rightarrow> None)"
| "rejected_status E (ContactRoute (PostContactJob body)) =
     (case exr_contact_job E max_contact_http_body_bytes body of
        Inl (status, _) \<Rightarrow> Some status | Inr _ \<Rightarrow> None)"
| "rejected_status E (ContactRoute (PostContactBatch body)) =
     (case exr_contact_batch E max_contact_http_body_bytes body of
        Inl (status, _) \<Rightarrow> Some status | Inr _ \<Rightarrow> None)"
| "rejected_status E _ = None"

text \<open>Without authentication no route but the public ones does anything.\<close>

lemma app_unauthenticated:
  assumes "\<not> auth_authenticate (as_authenticator (app_push st)) headers"
    and "\<not> auth_authenticate (ca_authenticator (app_contact st)) headers"
    and "\<not> auth_authenticate (ds_authenticator (app_docs st)) headers"
  shows "case app_router X E st headers rq w of (rep, w') \<Rightarrow> w' = w
     \<and> (if guarded_route rq then app_status rep = unwrap_or 401 (rejected_status E rq)
         else app_status rep \<in> {200, 503})"
proof (cases rq)
  case (PushRoute q)
  show ?thesis
    unfolding PushRoute using assms
    by (cases q) (auto simp: on_contact_world_def apfst_def with_extracted_def submit_job_def submit_batch_def
      healthz_def readyz_def reply_def unauthorized_def api_error_def unwrap_or_def Let_def split: sum.splits)
next
  case (ContactRoute q)
  show ?thesis
    unfolding ContactRoute using assms
    by (cases q) (auto simp: with_contact_extracted_def contact_submit_job_def contact_submit_batch_def
      contact_readyz_def contact_reply_of_def contact_unauthorized_def contact_api_error_def unwrap_or_def
      Let_def split: sum.splits)
next
  case (DocsRoute q)
  show ?thesis
    unfolding DocsRoute using assms
    by (cases q) (auto simp: docs_unauthorized_def openapi_response_def html_response_def unwrap_or_def)
qed

end
