(* ===== verification/Api_Operations.thy ===== *)
theory Api_Operations
  imports Api_Docs
begin

text \<open>
  The documented operations: what the \<open>utoipa::path\<close> annotation of every handler says of its
  method, path, security and responses (\<open>src/http_api.rs\<close>, \<open>src/contact/http.rs\<close>,
  \<open>src/api_docs.rs\<close>), the routers that register them, and the OpenAPI document built from them
  (\<open>merge_and_finalize\<close>). What \<open>utoipa\<close> does with them, generating a router's document and
  merging two documents, is an argument.
\<close>

section \<open>Operations\<close>

datatype http_method = MethodGet | MethodPost

datatype security = Anonymous | BearerAuth

text \<open>A documented response: status, schema of the body if any, content type if not JSON.\<close>

type_synonym documented_response = "nat \<times> string option \<times> string option"

record operation =
  op_method :: http_method
  op_path :: string
  op_id :: string
  op_tag :: string
  op_request_body :: "string option"
  op_security :: security
  op_responses :: "documented_response list"

definition json_response :: "nat \<Rightarrow> string \<Rightarrow> documented_response" where
  "json_response status schema = (status, Some schema, None)"

definition openapi_content_type :: string where
  "openapi_content_type = ''application/vnd.oai.openapi+json;version=3.1''"

definition healthz_operation :: operation where
  "healthz_operation = \<lparr>op_method = MethodGet, op_path = ''/healthz'',
     op_id = ''getPushServiceHealth'', op_tag = ''operations'', op_request_body = None,
     op_security = Anonymous, op_responses = [json_response 200 ''ServiceHealth'']\<rparr>"

definition readyz_operation :: operation where
  "readyz_operation = \<lparr>op_method = MethodGet, op_path = ''/readyz'',
     op_id = ''getPushServiceReadiness'', op_tag = ''operations'', op_request_body = None,
     op_security = Anonymous,
     op_responses = [json_response 200 ''ReadinessResponse'', json_response 503 ''ReadinessResponse'']\<rparr>"

definition submit_job_operation :: operation where
  "submit_job_operation = \<lparr>op_method = MethodPost, op_path = ''/v1/push/jobs'',
     op_id = ''submitPushJob'', op_tag = ''push'', op_request_body = Some ''PushJob'',
     op_security = BearerAuth,
     op_responses = [json_response 202 ''PushOutcome'', json_response 400 ''ErrorEnvelope'',
       json_response 401 ''ErrorEnvelope'', json_response 422 ''PushOutcome'',
       json_response 429 ''PushOutcome'', json_response 502 ''PushOutcome'',
       json_response 503 ''PushOutcome'']\<rparr>"

definition submit_batch_operation :: operation where
  "submit_batch_operation = \<lparr>op_method = MethodPost, op_path = ''/v1/push/jobs/batch'',
     op_id = ''submitPushBatch'', op_tag = ''push'', op_request_body = Some ''BatchRequest'',
     op_security = BearerAuth,
     op_responses = [json_response 202 ''BatchResponse'', json_response 207 ''BatchResponse'',
       json_response 400 ''ErrorEnvelope'', json_response 401 ''ErrorEnvelope'']\<rparr>"

definition contact_readyz_operation :: operation where
  "contact_readyz_operation = \<lparr>op_method = MethodGet, op_path = ''/v1/contact/readyz'',
     op_id = ''getContactServiceReadiness'', op_tag = ''operations'', op_request_body = None,
     op_security = Anonymous,
     op_responses = [json_response 200 ''ContactReadinessResponse'',
       json_response 503 ''ContactReadinessResponse'']\<rparr>"

definition contact_submit_job_operation :: operation where
  "contact_submit_job_operation = \<lparr>op_method = MethodPost, op_path = ''/v1/contact/jobs'',
     op_id = ''submitContactJob'', op_tag = ''contact'', op_request_body = Some ''ContactJob'',
     op_security = BearerAuth,
     op_responses = [json_response 202 ''ContactOutcome'', json_response 400 ''ContactErrorEnvelope'',
       json_response 401 ''ContactErrorEnvelope'', json_response 422 ''ContactOutcome'',
       json_response 429 ''ContactOutcome'', json_response 502 ''ContactOutcome'',
       json_response 503 ''ContactOutcome'']\<rparr>"

definition contact_submit_batch_operation :: operation where
  "contact_submit_batch_operation = \<lparr>op_method = MethodPost, op_path = ''/v1/contact/jobs/batch'',
     op_id = ''submitContactBatch'', op_tag = ''contact'', op_request_body = Some ''ContactBatchRequest'',
     op_security = BearerAuth,
     op_responses = [json_response 202 ''ContactBatchResponse'', json_response 207 ''ContactBatchResponse'',
       json_response 400 ''ContactErrorEnvelope'', json_response 401 ''ContactErrorEnvelope'']\<rparr>"

definition public_openapi_json_operation :: operation where
  "public_openapi_json_operation = \<lparr>op_method = MethodGet, op_path = ''/openapi.json'',
     op_id = ''getPublicOpenApi'', op_tag = ''documentation'', op_request_body = None,
     op_security = Anonymous, op_responses = [(200, Some ''String'', Some openapi_content_type)]\<rparr>"

definition public_openapi_alias_operation :: operation where
  "public_openapi_alias_operation = \<lparr>op_method = MethodGet, op_path = ''/api/docs.json'',
     op_id = ''getPublicOpenApiCompatibilityAlias'', op_tag = ''documentation'', op_request_body = None,
     op_security = Anonymous, op_responses = [(200, Some ''String'', Some openapi_content_type)]\<rparr>"

definition public_api_docs_operation :: operation where
  "public_api_docs_operation = \<lparr>op_method = MethodGet, op_path = ''/api/docs'',
     op_id = ''getPublicApiReference'', op_tag = ''documentation'', op_request_body = None,
     op_security = Anonymous, op_responses = [(200, Some ''String'', Some ''text/html'')]\<rparr>"

definition public_api_docs_alias_operation :: operation where
  "public_api_docs_alias_operation = \<lparr>op_method = MethodGet, op_path = ''/docs/api'',
     op_id = ''getPublicApiReferenceCompatibilityAlias'', op_tag = ''documentation'', op_request_body = None,
     op_security = Anonymous, op_responses = [(200, Some ''String'', Some ''text/html'')]\<rparr>"

definition internal_openapi_json_operation :: operation where
  "internal_openapi_json_operation = \<lparr>op_method = MethodGet, op_path = ''/internal/openapi.json'',
     op_id = ''getInternalOpenApi'', op_tag = ''documentation'', op_request_body = None,
     op_security = BearerAuth,
     op_responses = [(200, Some ''String'', Some openapi_content_type), (401, None, None)]\<rparr>"

definition internal_api_docs_operation :: operation where
  "internal_api_docs_operation = \<lparr>op_method = MethodGet, op_path = ''/internal/docs/api'',
     op_id = ''getInternalApiReference'', op_tag = ''documentation'', op_request_body = None,
     op_security = BearerAuth,
     op_responses = [(200, Some ''String'', Some ''text/html''), (401, None, None)]\<rparr>"

section \<open>Routers\<close>

definition push_openapi_router :: "operation list" where
  "push_openapi_router =
     [healthz_operation, readyz_operation, submit_job_operation, submit_batch_operation]"

definition contact_openapi_router :: "operation list" where
  "contact_openapi_router =
     [contact_readyz_operation, contact_submit_job_operation, contact_submit_batch_operation]"

definition docs_openapi_router :: "operation list" where
  "docs_openapi_router =
     [public_openapi_json_operation, public_openapi_alias_operation, public_api_docs_operation,
      public_api_docs_alias_operation, internal_openapi_json_operation, internal_api_docs_operation]"

fun operation_of :: "app_request \<Rightarrow> operation" where
  "operation_of (PushRoute GetHealthz) = healthz_operation"
| "operation_of (PushRoute GetReadyz) = readyz_operation"
| "operation_of (PushRoute (PostJob body)) = submit_job_operation"
| "operation_of (PushRoute (PostBatch body)) = submit_batch_operation"
| "operation_of (ContactRoute GetContactReadyz) = contact_readyz_operation"
| "operation_of (ContactRoute (PostContactJob body)) = contact_submit_job_operation"
| "operation_of (ContactRoute (PostContactBatch body)) = contact_submit_batch_operation"
| "operation_of (DocsRoute GetOpenapiJson) = public_openapi_json_operation"
| "operation_of (DocsRoute GetApiDocsJson) = public_openapi_alias_operation"
| "operation_of (DocsRoute GetApiDocs) = public_api_docs_operation"
| "operation_of (DocsRoute GetDocsApi) = public_api_docs_alias_operation"
| "operation_of (DocsRoute GetInternalOpenapi) = internal_openapi_json_operation"
| "operation_of (DocsRoute GetInternalDocs) = internal_api_docs_operation"

text \<open>The schema names of the bodies, as \<open>ToSchema\<close> derives them from the response types.\<close>

fun push_body_schema :: "response_body \<Rightarrow> string option" where
  "push_body_schema (HealthBody ok service) = Some ''ServiceHealth''"
| "push_body_schema (ReadinessBody r) = Some ''ReadinessResponse''"
| "push_body_schema (OutcomeBody out) = Some ''PushOutcome''"
| "push_body_schema (BatchBody r) = Some ''BatchResponse''"
| "push_body_schema (ErrorEnvelope e) = Some ''ErrorEnvelope''"
| "push_body_schema (ExtractorRejection rejection) = None"

fun contact_body_schema :: "contact_response_body \<Rightarrow> string option" where
  "contact_body_schema (ContactReadinessBody r) = Some ''ContactReadinessResponse''"
| "contact_body_schema (ContactOutcomeBody out) = Some ''ContactOutcome''"
| "contact_body_schema (ContactBatchBody r) = Some ''ContactBatchResponse''"
| "contact_body_schema (ContactErrorEnvelope e) = Some ''ContactErrorEnvelope''"
| "contact_body_schema (ContactExtractorRejection rejection) = None"

text \<open>The type without its parameters, which is what the annotations name for HTML.\<close>

definition documented_type :: "string \<Rightarrow> string" where
  "documented_type t = (if t = ''text/html; charset=utf-8'' then ''text/html'' else t)"

fun documented_as :: "app_reply \<Rightarrow> documented_response" where
  "documented_as (PushReply r) = (hr_status r, push_body_schema (hr_body r), None)"
| "documented_as (ContactReply r) = (ch_status r, contact_body_schema (ch_body r), None)"
| "documented_as (DocsReply r) = (dr_status r, map_option (\<lambda>t. ''String'') (dr_content_type r),
     map_option documented_type (dr_content_type r))"

section \<open>The document\<close>

text \<open>The parts of \<open>utoipa::openapi::OpenApi\<close> that \<open>finalize\<close> touches; the rest is \<open>'r\<close>.\<close>

record openapi_info =
  oi_title :: string
  oi_version :: string
  oi_description :: "string option"
  oi_contact :: "json option"
  oi_license :: "json option"

datatype security_scheme =
    HttpBearer string "string option" \<comment> \<open>bearer format, description\<close>
  | OtherScheme json

record openapi_components =
  oc_schemas :: "string \<Rightarrow> json option"
  oc_security_schemes :: "string \<Rightarrow> security_scheme option"

record 'r openapi_doc =
  oa_info :: openapi_info
  oa_components :: "openapi_components option"
  oa_extensions :: "(string \<Rightarrow> json option) option"
  oa_rest :: 'r

definition no_components :: openapi_components where
  "no_components = \<lparr>oc_schemas = (\<lambda>name. None), oc_security_schemes = (\<lambda>name. None)\<rparr>"

definition add_security_scheme ::
  "string \<Rightarrow> security_scheme \<Rightarrow> openapi_components \<Rightarrow> openapi_components" where
  "add_security_scheme name scheme c =
     c\<lparr>oc_security_schemes := (oc_security_schemes c)(name := Some scheme)\<rparr>"

definition cargo_pkg_version :: string where "cargo_pkg_version = ''0.1.0''"

definition finalize :: "'r openapi_doc \<Rightarrow> 'r openapi_doc" where
  "finalize doc = doc\<lparr>
     oa_info := \<lparr>oi_title = ''push-notification-server API'',
       oi_version = cargo_pkg_version,
       oi_description = Some (''Provider-neutral push, email, and SMS delivery API. The contract is ''
         @ ''generated from the same annotated handlers and Serde DTOs mounted by the running Axum process.''),
       oi_contact = None,
       oi_license = None\<rparr>,
     oa_extensions := Some ((unwrap_or (\<lambda>key. None) (oa_extensions doc))
       (''x-dd-contract-scope'' := Some (JStr ''internal''))),
     oa_components := Some (add_security_scheme ''bearer_auth''
       (HttpBearer ''opaque service token'' (Some (''Set Authorization: Bearer <token>. ''
         @ ''Protected routes fail closed when authentication is not configured.'')))
       (unwrap_or no_components (oa_components doc)))\<rparr>"

text \<open>\<open>utoipa\<close>: the document of a router's operations, and \<open>OpenApi::merge\<close>.\<close>

record 'r openapi_generator =
  og_into_openapi :: "operation list \<Rightarrow> 'r openapi_doc"
  og_merge :: "'r openapi_doc \<Rightarrow> 'r openapi_doc \<Rightarrow> 'r openapi_doc"

definition merge_and_finalize ::
  "'r openapi_generator \<Rightarrow> 'r openapi_doc \<Rightarrow> 'r openapi_doc \<Rightarrow> 'r openapi_doc \<Rightarrow> 'r openapi_doc" where
  "merge_and_finalize G push contact docs = finalize (og_merge G (og_merge G push contact) docs)"

definition openapi_document :: "'r openapi_generator \<Rightarrow> 'r openapi_doc" where
  "openapi_document G = merge_and_finalize G (og_into_openapi G push_openapi_router)
     (og_into_openapi G contact_openapi_router) (og_into_openapi G docs_openapi_router)"

definition public_openapi_document ::
  "'r openapi_doc openapi_codec \<Rightarrow> 'r openapi_generator \<Rightarrow> docs_error + 'r openapi_doc" where
  "public_openapi_document D G = public_projection D (openapi_document G)"

text \<open>The merged operations, in the order of registration.\<close>

definition all_operations :: "operation list" where
  "all_operations = push_openapi_router @ contact_openapi_router @ docs_openapi_router"

lemmas operation_defs = healthz_operation_def readyz_operation_def submit_job_operation_def
  submit_batch_operation_def contact_readyz_operation_def contact_submit_job_operation_def
  contact_submit_batch_operation_def public_openapi_json_operation_def
  public_openapi_alias_operation_def public_api_docs_operation_def
  public_api_docs_alias_operation_def internal_openapi_json_operation_def
  internal_api_docs_operation_def json_response_def openapi_content_type_def

lemma finalize_idempotent: "finalize (finalize doc) = finalize doc"
  by (simp add: finalize_def add_security_scheme_def)

lemma finalize_keeps:
  "oa_rest (finalize doc) = oa_rest doc"
  "oc_schemas (unwrap_or no_components (oa_components (finalize doc)))
     = oc_schemas (unwrap_or no_components (oa_components doc))"
  by (simp_all add: finalize_def add_security_scheme_def)

text \<open>Merging the routers cannot panic: no two share a method and a path, nor an operation id.\<close>

theorem routes_distinct:
  "distinct (map (\<lambda>op. (op_method op, op_path op)) all_operations) \<and> distinct (map op_id all_operations)"
  by code_simp

lemma operation_of_registered: "operation_of rq \<in> set all_operations"
  by (cases rq rule: operation_of.cases)
     (simp_all add: all_operations_def push_openapi_router_def contact_openapi_router_def docs_openapi_router_def)

lemma status_documented:
  "(status_for_outcome c, Some ''PushOutcome'', None) \<in> set (op_responses submit_job_operation)
     \<longleftrightarrow> c \<noteq> InvalidPayload"
  by (cases c) (simp_all add: operation_defs)

lemma contact_status_documented:
  "(contact_status_for_outcome c, Some ''ContactOutcome'', None) \<in> set (op_responses contact_submit_job_operation)
     \<longleftrightarrow> c \<noteq> ContactInvalidPayload"
  by (cases c) (simp_all add: operation_defs)

text \<open>The replies of each handler, as documented responses.\<close>

definition reply_documented :: "operation \<Rightarrow> string \<Rightarrow> documented_response \<Rightarrow> bool" where
  "reply_documented op outcome_schema r \<longleftrightarrow>
     (if fst r = 400 then r = (400, Some outcome_schema, None) else r \<in> set (op_responses op))"

text \<open>The routes whose reply may be a bare outcome of status 400, and that outcome's schema.\<close>

fun outcome_schema_of :: "app_request \<Rightarrow> string option" where
  "outcome_schema_of (PushRoute (PostJob body)) = Some ''PushOutcome''"
| "outcome_schema_of (ContactRoute (PostContactJob body)) = Some ''ContactOutcome''"
| "outcome_schema_of _ = None"

lemma statuses_400:
  "status_for_outcome c = 400 \<longleftrightarrow> c = InvalidPayload"
  "contact_status_for_outcome d = 400 \<longleftrightarrow> d = ContactInvalidPayload"
  by (cases c; simp) (cases d; simp)

text \<open>
  No operation that takes a body documents a reply without one, and none documents a bare
  outcome of status 400.
\<close>

lemma undocumented_replies:
  "list_all (\<lambda>op. list_all (\<lambda>(status, body, t). (op_request_body op = None \<or> body \<noteq> None)
       \<and> (status = 400 \<longrightarrow> body \<notin> set [Some ''PushOutcome'', Some ''ContactOutcome''])) (op_responses op))
     all_operations"
  by code_simp

lemma undocumented:
  "op_request_body (operation_of rq) \<noteq> None \<Longrightarrow> (status, None, t) \<notin> set (op_responses (operation_of rq))"
  "(400, Some ''PushOutcome'', t) \<notin> set (op_responses (operation_of rq))"
  "(400, Some ''ContactOutcome'', t) \<notin> set (op_responses (operation_of rq))"
  using undocumented_replies operation_of_registered [of rq] by (fastforce simp: list_all_iff)+

lemma rejected_takes_body: "rejected_status E rq = Some status \<Longrightarrow> op_request_body (operation_of rq) \<noteq> None"
  by (cases rq rule: operation_of.cases) (simp_all add: operation_defs)

lemma submit_job_documented:
  "reply_documented submit_job_operation ''PushOutcome''
     (documented_as (PushReply (fst (submit_job X st headers job w))))"
proof (cases "auth_authenticate (as_authenticator st) headers")
  case True
  obtain out w' where d: "dispatch_job X (as_registry st) job w = (out, w')" by fastforce
  show ?thesis
    using True d status_documented [of "po_class out"]
    by (cases "po_class out = InvalidPayload")
       (auto simp: submit_job_def reply_documented_def reply_def statuses_400)
next
  case False
  then show ?thesis
    by (simp add: submit_job_def unauthorized_def api_error_def reply_def reply_documented_def operation_defs)
qed

lemma submit_batch_documented:
  "documented_as (PushReply (fst (submit_batch X st headers jobs w))) \<in> set (op_responses submit_batch_operation)"
  by (auto simp: submit_batch_def unauthorized_def api_error_def reply_def operation_defs Let_def split: prod.splits)

lemma contact_submit_job_documented:
  "reply_documented contact_submit_job_operation ''ContactOutcome''
     (documented_as (ContactReply (fst (contact_submit_job X st headers job w))))"
proof (cases "auth_authenticate (ca_authenticator st) headers")
  case True
  obtain out w' where d: "contact_dispatch_job X (ca_registry st) job w = (out, w')" by fastforce
  show ?thesis
    using True d contact_status_documented [of "co_class out"]
    by (cases "co_class out = ContactInvalidPayload")
       (auto simp: contact_submit_job_def reply_documented_def contact_reply_of_def statuses_400)
next
  case False
  then show ?thesis
    by (simp add: contact_submit_job_def contact_unauthorized_def contact_api_error_def contact_reply_of_def
        reply_documented_def operation_defs)
qed

lemma contact_submit_batch_documented:
  "documented_as (ContactReply (fst (contact_submit_batch X st headers jobs w)))
     \<in> set (op_responses contact_submit_batch_operation)"
  by (auto simp: contact_submit_batch_def contact_unauthorized_def contact_api_error_def contact_reply_of_def
      operation_defs Let_def split: prod.splits)

lemma readiness_documented:
  "documented_as (PushReply healthz) \<in> set (op_responses healthz_operation)"
  "documented_as (PushReply (readyz push)) \<in> set (op_responses readyz_operation)"
  "documented_as (ContactReply (contact_readyz contact)) \<in> set (op_responses contact_readyz_operation)"
  by (simp_all add: healthz_def readyz_def contact_readyz_def reply_def contact_reply_of_def operation_defs Let_def)

text \<open>
  C21: Every route against its OpenAPI annotation. What a handler answers is a documented status
  with the documented body and content type, with one exception: on the two job routes an
  outcome of class \<open>invalid_payload\<close> is answered as a bare outcome of status 400, where the
  annotation promises an error envelope. What axum answers itself when it cannot extract the
  body has the extractor's status and a text that no operation documents. Routes documented
  without security are those that ask for no secret, and exactly their paths are on the public
  document's list.
\<close>

theorem replies_documented:
  "case app_router X E st headers rq w of (rep, w') \<Rightarrow>
     (case rejected_status E rq of
        Some status \<Rightarrow> documented_as rep = (status, None, None)
          \<and> documented_as rep \<notin> set (op_responses (operation_of rq))
      | None \<Rightarrow>
          (case outcome_schema_of rq of
             None \<Rightarrow> documented_as rep \<in> set (op_responses (operation_of rq))
           | Some schema \<Rightarrow>
               if app_status rep = 400
               then documented_as rep = (400, Some schema, None)
                 \<and> documented_as rep \<notin> set (op_responses (operation_of rq))
               else documented_as rep \<in> set (op_responses (operation_of rq))))
     \<and> (op_security (operation_of rq) = BearerAuth \<longleftrightarrow> guarded_route rq)
     \<and> (op_path (operation_of rq) \<in> set docs_public_paths \<longleftrightarrow> \<not> guarded_route rq)"
proof -
  have security: "(op_security (operation_of rq) = BearerAuth \<longleftrightarrow> guarded_route rq)
      \<and> (op_path (operation_of rq) \<in> set docs_public_paths \<longleftrightarrow> \<not> guarded_route rq)"
    by (cases rq rule: operation_of.cases) (simp_all add: operation_defs docs_public_paths_def)
  obtain rep w' where r: "app_router X E st headers rq w = (rep, w')" by fastforce
  have reply: "case rejected_status E rq of
        Some status \<Rightarrow> documented_as rep = (status, None, None)
      | None \<Rightarrow>
          (case outcome_schema_of rq of
             None \<Rightarrow> documented_as rep \<in> set (op_responses (operation_of rq))
           | Some schema \<Rightarrow> reply_documented (operation_of rq) schema (documented_as rep)
               \<and> fst (documented_as rep) = app_status rep)"
  proof (cases rq)
    case (PushRoute q)
    then obtain push where push: "rep = PushReply push"
      "fst (push_router X (exr_job E) (exr_batch E) (app_push st) headers q (cw_world w)) = push"
      using r by (auto simp: on_contact_world_def split: prod.splits)
    show ?thesis
    proof (cases q)
      case (PostJob body)
      with push PushRoute submit_job_documented [where st = "app_push st" and headers = headers and X = X
          and w = "cw_world w"] show ?thesis
        by (cases "exr_job E max_http_body_bytes body") (auto simp: with_extracted_def reply_def)
    next
      case (PostBatch body)
      with push PushRoute submit_batch_documented [where st = "app_push st" and headers = headers and X = X
          and w = "cw_world w"] show ?thesis
        by (cases "exr_batch E max_http_body_bytes body") (auto simp: with_extracted_def reply_def)
    qed (use push PushRoute readiness_documented in auto)
  next
    case (ContactRoute q)
    then obtain contact where contact: "rep = ContactReply contact"
      "fst (contact_router X (exr_contact_job E) (exr_contact_batch E) (app_contact st) headers q w) = contact"
      using r by (auto simp: apfst_def map_prod_def split: prod.splits)
    show ?thesis
    proof (cases q)
      case (PostContactJob body)
      with contact ContactRoute contact_submit_job_documented [where st = "app_contact st" and headers = headers
          and X = X and w = w] show ?thesis
        by (cases "exr_contact_job E max_contact_http_body_bytes body")
           (auto simp: with_contact_extracted_def contact_reply_of_def)
    next
      case (PostContactBatch body)
      with contact ContactRoute contact_submit_batch_documented [where st = "app_contact st" and headers = headers
          and X = X and w = w] show ?thesis
        by (cases "exr_contact_batch E max_contact_http_body_bytes body")
           (auto simp: with_contact_extracted_def contact_reply_of_def)
    qed (use contact ContactRoute readiness_documented in auto)
  next
    case (DocsRoute q)
    with r show ?thesis
      by (cases q; cases "auth_authenticate (ds_authenticator (app_docs st)) headers")
         (auto simp: operation_defs openapi_response_def html_response_def docs_unauthorized_def
           documented_type_def)
  qed
  show ?thesis
  proof (cases "rejected_status E rq")
    case (Some status)
    with r reply security undocumented(1) [OF rejected_takes_body [OF Some]] show ?thesis by simp
  next
    case None
    with r reply security undocumented(2,3) [of None rq] show ?thesis
      by (cases rq rule: outcome_schema_of.cases) (auto simp: reply_documented_def)
  qed
qed

end
