(* ===== verification/Startup_Errors.thy ===== *)
theory Startup_Errors
  imports Runtime Contact_Runtime Contact_Nats
begin

text \<open>
  The errors a start can end with. The entry point returns them as they are, so their contents
  reach the process log: the lemmas here bound the errors of every configuration reader by an
  explicit list, which no part of the environment enters.
\<close>

section \<open>Which errors a result may hold\<close>

definition errors_in :: "'e set \<Rightarrow> 'e + 'a \<Rightarrow> bool" where
  "errors_in E r \<longleftrightarrow> (\<forall>e. r = Inl e \<longrightarrow> e \<in> E)"

named_theorems errors_intros \<open>rules for the errors of a result\<close>

lemma errors_in_Inl [errors_intros]: "e \<in> E \<Longrightarrow> errors_in E (Inl e)"
  by (simp add: errors_in_def)

lemma errors_in_Inr [errors_intros]: "errors_in E (Inr x)"
  by (simp add: errors_in_def)

lemma errors_in_and_then [errors_intros]:
  "errors_in E r \<Longrightarrow> (\<And>x. errors_in E (f x)) \<Longrightarrow> errors_in E (and_then r f)"
  by (auto simp: errors_in_def and_then_eq_Err)

lemma errors_in_ok_or [errors_intros]: "e \<in> E \<Longrightarrow> errors_in E (ok_or e x)"
  by (cases x) (simp_all add: errors_in_def)

lemma errors_in_if [errors_intros]:
  "(b \<Longrightarrow> errors_in E r) \<Longrightarrow> (\<not> b \<Longrightarrow> errors_in E s) \<Longrightarrow> errors_in E (if b then r else s)"
  by simp

lemma errors_in_option [errors_intros]:
  "errors_in E r \<Longrightarrow> (\<And>x. errors_in E (f x)) \<Longrightarrow> errors_in E (case y of None \<Rightarrow> r | Some x \<Rightarrow> f x)"
  by (cases y) simp_all

lemma errors_in_Let [errors_intros]: "(\<And>x. errors_in E (f x)) \<Longrightarrow> errors_in E (let x = y in f x)"
  by simp

lemma errors_in_case_prod [errors_intros]:
  "(\<And>a b. errors_in E (f a b)) \<Longrightarrow> errors_in E (case p of (a, b) \<Rightarrow> f a b)"
  by (cases p) simp

lemma errors_in_map_err: "errors_in E r \<Longrightarrow> errors_in (h ` E) (map_err h r)"
  by (auto simp: errors_in_def map_err_eq_Err)

lemma errors_in_mono: "errors_in E r \<Longrightarrow> E \<subseteq> E' \<Longrightarrow> errors_in E' r"
  by (auto simp: errors_in_def)

lemma errors_in_map_err_into:
  "errors_in E r \<Longrightarrow> h ` E \<subseteq> E' \<Longrightarrow> errors_in E' (map_err h r)"
  by (rule errors_in_mono [OF errors_in_map_err])

lemma errors_in_UNIV: "errors_in UNIV r"
  by (simp add: errors_in_def)

text \<open>The same of a step that may change the world.\<close>

abbreviation step_errors_in :: "'e set \<Rightarrow> ('e, 'w, 'a) io \<Rightarrow> bool" where
  "step_errors_in E m \<equiv> io_post (\<lambda>e. e \<in> E) (\<lambda>_. True) m"

lemma step_errors_lift [errors_intros]: "errors_in E r \<Longrightarrow> step_errors_in E (io_lift r)"
  by (auto simp: errors_in_def split: sum.splits)

lemma step_errors_step [errors_intros]: "step_errors_in E (io_step m)"
  by (rule io_post_step) simp

lemma step_errors_return [errors_intros]: "step_errors_in E (io_return x)"
  by simp

lemma step_errors_bind [errors_intros]:
  "step_errors_in E m \<Longrightarrow> (\<And>x. step_errors_in E (f x)) \<Longrightarrow> step_errors_in E (io_bind m f)"
  by (rule io_post_bind)

lemma step_errors_option [errors_intros]:
  "step_errors_in E m \<Longrightarrow> (\<And>x. step_errors_in E (f x))
     \<Longrightarrow> step_errors_in E (case y of None \<Rightarrow> m | Some x \<Rightarrow> f x)"
  by (cases y) simp_all

lemma step_errors_map_err:
  "step_errors_in E m \<Longrightarrow> h ` E \<subseteq> E' \<Longrightarrow> step_errors_in E' (\<lambda>w. apfst (map_err h) (m w))"
  by (fastforce simp: io_post_def map_err_eq_Err split: sum.splits)

section \<open>The push providers\<close>

definition fcm_errors :: "fcm_config_error list" where
  "fcm_errors = [FcmInvalidJson, FcmMissingField ''project_id'', FcmMissingField ''client_email'',
     FcmMissingField ''private_key'', FcmInvalidProjectId, FcmInvalidTokenUri, FcmHttpClient,
     FcmConstantUrlPanic]"

definition apns_errors :: "apns_config_error list" where
  "apns_errors = [ApnsMissingField ''key_id'', ApnsMissingField ''team_id'', ApnsMissingField ''topic'',
     ApnsInvalidIdentifier ''key_id'', ApnsInvalidIdentifier ''team_id'', ApnsInvalidTopic,
     ApnsInvalidPrivateKey, ApnsHttpClient, ApnsConstantUrlPanic]"

definition web_push_errors :: "web_push_config_error list" where
  "web_push_errors = [WpMissingField ''vapid_private_key_pem'', WpMissingField ''vapid_subject'',
     WpInvalidSubject, WpInvalidPrivateKey, WpInvalidTtl, WpInvalidAllowedHost, WpHttpClient]"

lemma fcm_errors_in:
  "errors_in (set fcm_errors) (fcm_from_service_account_json X C raw override)"
  "errors_in (set fcm_errors) (fcm_provider_new X C client cfg)"
  unfolding fcm_from_service_account_json_def validate_project_id_def fcm_required_def
    validate_token_uri_def fcm_provider_new_def
  by (intro errors_intros; simp add: fcm_errors_def)+

lemma apns_errors_in:
  "errors_in (set apns_errors) (apns_config_new X C key_id team_id topic key e)"
  "errors_in (set apns_errors) (apns_provider_new X C client cfg)"
  unfolding apns_config_new_def apns_required_def validate_apple_identifier_def validate_topic_def
    apns_provider_new_def
  by (intro errors_intros; simp add: apns_errors_def)+

lemma allowlist_errors: "errors_in {WpInvalidAllowedHost} (fold_allowed_hosts seen hosts)"
  unfolding normalize_allowed_host_def
  by (induction seen hosts rule: fold_allowed_hosts.induct)
    (auto simp: normalize_allowed_host_def intro!: errors_intros)

lemma web_push_errors_in:
  "errors_in (set web_push_errors) (allowlist hosts)"
  "errors_in (set web_push_errors) (web_push_config_new X C pem subject policy)"
  "errors_in (set web_push_errors) (with_default_ttl cfg ttl)"
  "errors_in (set web_push_errors) (web_push_provider_new X C client cfg)"
  unfolding allowlist_def web_push_config_new_def web_push_required_def validate_vapid_subject_def
    parse_vapid_private_key_def with_default_ttl_def web_push_provider_new_def
  by (intro errors_intros errors_in_mono [OF allowlist_errors]; simp add: web_push_errors_def)+

text \<open>What is printed of an error; a panic has no value to print.\<close>

fun runtime_error_text :: "runtime_config_error \<Rightarrow> string" where
  "runtime_error_text (IncompleteProvider p) = p @ '' configuration is incomplete''"
| "runtime_error_text (InvalidProvider p safe_detail) = p @ '' configuration is invalid: '' @ safe_detail"
| "runtime_error_text InvalidApnsEnvironment = ''APNS_ENVIRONMENT must be production or sandbox''"
| "runtime_error_text InvalidWebPushTtl = ''WEBPUSH_TTL_SECONDS must be a valid non-negative integer''"
| "runtime_error_text MissingSharedSecret =
     ''ENABLE_SHARED_SECRET_AUTH is true but SERVER_AUTH_SECRET is absent''"
| "runtime_error_text (RuntimeAuth InvalidSharedSecret) =
     ''migration shared secret must contain 32 to 4096 non-control characters''"
| "runtime_error_text (RuntimeRegistry KindMismatch) = ''provider kind does not match registry slot''"
| "runtime_error_text RuntimePanic = []"

definition runtime_errors :: "runtime_config_error list" where
  "runtime_errors =
     map invalid_fcm fcm_errors @ map invalid_apns apns_errors
     @ map invalid_expo [ExpoInvalidEndpoint, ExpoHttpClient] @ map invalid_web_push web_push_errors
     @ [IncompleteProvider ''apns'', IncompleteProvider ''web_push'', InvalidApnsEnvironment,
        InvalidWebPushTtl, MissingSharedSecret, RuntimeAuth InvalidSharedSecret,
        RuntimeRegistry KindMismatch, RuntimePanic]"

lemma runtime_errors_map [errors_intros]:
  "errors_in (set fcm_errors) r1 \<Longrightarrow> errors_in (set runtime_errors) (map_err invalid_fcm r1)"
  "errors_in (set apns_errors) r2 \<Longrightarrow> errors_in (set runtime_errors) (map_err invalid_apns r2)"
  "errors_in (set web_push_errors) r3 \<Longrightarrow> errors_in (set runtime_errors) (map_err invalid_web_push r3)"
  by (rule errors_in_map_err_into, assumption, simp only: runtime_errors_def set_append set_map, blast)+

lemma runtime_errors_enum [errors_intros]:
  "errors_in (set runtime_errors) (map_err invalid_expo r)"
  "errors_in (set runtime_errors) (map_err RuntimeRegistry r')"
  "errors_in (set runtime_errors) (map_err RuntimeAuth r'')"
proof -
  have "invalid_expo e \<in> set (map invalid_expo [ExpoInvalidEndpoint, ExpoHttpClient])" for e
    by (cases e) simp_all
  then have r: "range invalid_expo \<subseteq> set runtime_errors"
    by (simp only: runtime_errors_def set_append) blast
  show "errors_in (set runtime_errors) (map_err invalid_expo r)"
    by (rule errors_in_map_err_into [OF errors_in_UNIV r])
  show "errors_in (set runtime_errors) (map_err RuntimeRegistry r')"
    using registry_error.exhaust by (auto simp: errors_in_def map_err_eq_Err runtime_errors_def)
  show "errors_in (set runtime_errors) (map_err RuntimeAuth r'')"
    using auth_config_error.exhaust by (auto simp: errors_in_def map_err_eq_Err runtime_errors_def)
qed

lemma runtime_errors_in:
  "errors_in (set runtime_errors) (provider_registry_from_env X R env)"
  "errors_in (set runtime_errors) (request_authenticator_from_env env)"
  unfolding provider_registry_from_env_def configure_fcm_def configure_apns_def apns_environment_def
    configure_web_push_def web_push_policy_def web_push_ttl_def request_authenticator_from_env_def
  by (intro errors_intros fcm_errors_in apns_errors_in web_push_errors_in; simp add: runtime_errors_def)+

section \<open>The contact providers\<close>

definition sendgrid_errors :: "sendgrid_config_error list" where
  "sendgrid_errors = [SendgridInvalidApiKey, SendgridInvalidFromEmail, SendgridInvalidFromName,
     SendgridInvalidApiBaseUrl, SendgridHttpClient, SendgridConstantUrlPanic]"

definition twilio_errors :: "twilio_config_error list" where
  "twilio_errors = [InvalidAccountSid, InvalidAuthToken, InvalidApiKeySid, InvalidApiKeySecret,
     InvalidMessagingServiceSid, InvalidFromNumber, InvalidStatusCallbackUrl, InvalidValidityPeriod,
     TwilioInvalidApiBaseUrl, TwilioHttpClient, TwilioConstantUrlPanic]"

definition contact_errors :: "contact_runtime_error list" where
  "contact_errors =
     map SendgridError sendgrid_errors @ map TwilioError twilio_errors
     @ map InvalidProviderCredential
         [''SENDGRID_API_KEY'', ''TWILIO_ACCOUNT_SID'', ''TWILIO_AUTH_TOKEN'', ''TWILIO_API_KEY_SID'',
          ''TWILIO_API_KEY_SECRET'', ''TWILIO_MESSAGING_SERVICE_SID'']
     @ map InvalidRateLimit [''EMAIL_RATE_PER_MIN'', ''SMS_RATE_PER_MIN'']
     @ [ContactIncomplete ''sendgrid'', ContactIncomplete ''twilio'', InvalidSendgridRegion,
        InvalidSendgridKey, AmbiguousTwilioCredentials, AmbiguousTwilioSender, InvalidTwilioCallback,
        InvalidTwilioValidity]"

lemma contact_errors_map [errors_intros]:
  "errors_in (set contact_errors) (map_err SendgridError r)"
  "errors_in (set contact_errors) (map_err TwilioError r')"
proof -
  have "e \<in> set sendgrid_errors" for e by (cases e) (simp_all add: sendgrid_errors_def)
  then show "errors_in (set contact_errors) (map_err SendgridError r)"
    by (auto simp only: errors_in_def map_err_eq_Err contact_errors_def set_append set_map)
  have "e \<in> set twilio_errors" for e by (cases e) (simp_all add: twilio_errors_def)
  then show "errors_in (set contact_errors) (map_err TwilioError r')"
    by (auto simp only: errors_in_def map_err_eq_Err contact_errors_def set_append set_map)
qed

lemma errors_in_credential [errors_intros]:
  "InvalidProviderCredential name \<in> E \<Longrightarrow> errors_in E (provider_credential_env env name)"
  by (auto simp: provider_credential_env_def validate_provider_credential_def errors_in_def
      split: env_var.splits if_splits)

lemma errors_in_rate [errors_intros]:
  "InvalidRateLimit name \<in> E \<Longrightarrow> errors_in E (positive_u32_env env name d)"
  unfolding positive_u32_env_def by (intro errors_intros)

lemma twilio_choice_errors [errors_intros]:
  "errors_in (set contact_errors) (twilio_credentials_of token sid secret)"
  "errors_in (set contact_errors) (twilio_sender_of service number)"
proof -
  show "errors_in (set contact_errors) (twilio_credentials_of token sid secret)"
    by (simp add: twilio_credentials_of_def errors_in_def contact_errors_def split: option.splits)
  show "errors_in (set contact_errors) (twilio_sender_of service number)"
    by (cases service; cases number) (simp_all add: errors_in_def contact_errors_def)
qed

lemma contact_errors_in:
  "errors_in (set contact_errors) (configure_sendgrid X R env reg)"
  "errors_in (set contact_errors) (configure_twilio X R env reg)"
  unfolding configure_sendgrid_def validate_sendgrid_api_key_def parse_sendgrid_region_def
    configure_twilio_def twilio_callback_def twilio_validity_def
  by (intro errors_intros; simp add: contact_errors_def)+

lemma contact_registry_errors:
  "step_errors_in (set contact_errors) (contact_registry_from_env X R env)"
  unfolding contact_registry_from_env_def
  by (intro contact_errors_in errors_intros; simp add: contact_errors_def)

section \<open>The queues\<close>

definition queue_errors :: "nats_config_error list" where
  "queue_errors = MissingEnvelopeSecret # InvalidEnvelopeSecret #
     map (\<lambda>name. NatsEnvError (InvalidPositiveInteger name))
       [''NATS_PUSH_ACK_WAIT_SECONDS'', ''NATS_PUSH_NAK_DELAY_SECONDS'', ''NATS_PUSH_MAX_DELIVER'',
        ''NATS_PUSH_MAX_PAYLOAD_BYTES'', ''NATS_PUSH_MAX_CONCURRENCY'']"

definition contact_queue_errors :: "contact_nats_config_error list" where
  "contact_queue_errors = MissingNatsUrl # MissingContactSecret # InvalidContactSecret #
     map InvalidContactInteger
       [''NATS_CONTACT_ACK_WAIT_SECONDS'', ''NATS_CONTACT_NAK_DELAY_SECONDS'', ''NATS_CONTACT_MAX_DELIVER'',
        ''NATS_CONTACT_MAX_PAYLOAD_BYTES'', ''NATS_CONTACT_MAX_CONCURRENCY'']"

lemma errors_in_positive:
  "h (InvalidPositiveInteger name) \<in> E \<Longrightarrow> errors_in E (map_err h (positive_u64 env name d))"
  "h (InvalidPositiveInteger name) \<in> E \<Longrightarrow> errors_in E (map_err h (positive_usize env name d))"
  "h (InvalidPositiveInteger name) \<in> E \<Longrightarrow> errors_in E (map_err h (positive_i64 env name n))"
  by (auto simp: errors_in_def map_err_eq_Err dest: positive_error)

lemma queue_errors_in: "errors_in (set queue_errors) (nats_config_from_env env)"
  unfolding nats_config_from_env_def nats_envelope_secret_def nats_validate_secret_def
  by (intro errors_intros errors_in_positive; simp add: queue_errors_def)

lemma contact_queue_errors_in: "errors_in (set contact_queue_errors) (contact_nats_config_from_env env)"
  unfolding contact_nats_config_from_env_def contact_envelope_secret_def contact_validate_secret_def
    contact_positive_eq
  by (intro errors_intros errors_in_positive; simp add: contact_queue_errors_def)

end
