(* ===== verification/Server.thy ===== *)
theory Server
  imports Startup_Errors Api_Operations
begin

text \<open>
  The server process (\<open>src/server.rs\<close>): command-line flags merged over the environment, the
  bind address, and the start-up sequence, which reads every part of the configuration and
  spawns the queue workers on its way and assembles the application, or exports the OpenAPI
  document and exits. The flag parser
  (\<open>flags2env\<close>) is the record \<open>flag_parser\<close>.
\<close>

section \<open>Flags\<close>

type_synonym env_map = "string \<Rightarrow> string option"

record parsed_flags =
  pf_unknown_options :: "string list"
  pf_errors :: "string list"
  pf_command :: string
  pf_provided_flags :: env_map

datatype env_value_kind = StringKind | IntegerKind

record binding_spec =
  bs_field :: string
  bs_env :: string
  bs_kind :: env_value_kind

record flag_parser =
  fp_audit_config :: "string \<Rightarrow> string option" \<comment> \<open>the error\<close>
  fp_parse_structured :: "string list \<Rightarrow> string \<Rightarrow> string + parsed_flags"
  fp_resolve_bindings :: "env_map \<Rightarrow> binding_spec list \<Rightarrow> string list" \<comment> \<open>the diagnostics\<close>

datatype openapi_scope = InternalScope | PublicScope

record runtime_args =
  ra_merged_env :: env_map
  ra_export_openapi :: "openapi_scope option"

definition parse_openapi_scope :: "string \<Rightarrow> string + openapi_scope" where
  "parse_openapi_scope v =
     (if v = ''internal'' then Ok InternalScope
      else if v = ''public'' then Ok PublicScope
      else Err (''unsupported OpenAPI scope: '' @ v))"

definition runtime_specs :: "binding_spec list" where
  "runtime_specs =
     [\<lparr>bs_field = ''host'', bs_env = ''HOST'', bs_kind = StringKind\<rparr>,
      \<lparr>bs_field = ''port'', bs_env = ''PORT'', bs_kind = IntegerKind\<rparr>,
      \<lparr>bs_field = ''export_openapi'', bs_env = ''FANWAAVE_EXPORT_OPENAPI'', bs_kind = StringKind\<rparr>]"

definition validate_runtime_env :: "flag_parser \<Rightarrow> env_map \<Rightarrow> string + unit" where
  "validate_runtime_env P runtime_env =
     (case fp_resolve_bindings P runtime_env runtime_specs of
        [] \<Rightarrow> Ok ()
      | diagnostics \<Rightarrow> Err (''runtime environment preflight failed: '' @ join_with ''; '' diagnostics))"

text \<open>\<open>get(..).map(parse).transpose()\<close>\<close>

definition export_scope :: "env_map \<Rightarrow> string + openapi_scope option" where
  "export_scope merged =
     (case merged ''FANWAAVE_EXPORT_OPENAPI'' of
        None \<Rightarrow> Ok None
      | Some v \<Rightarrow> and_then (parse_openapi_scope v) (\<lambda>scope. Ok (Some scope)))"

definition check_flags :: "parsed_flags \<Rightarrow> string + unit" where
  "check_flags parsed =
     (if pf_unknown_options parsed \<noteq> []
      then Err (''unknown command-line option(s): '' @ join_with '', '' (pf_unknown_options parsed))
      else if pf_errors parsed \<noteq> []
      then Err (''invalid command-line value(s): '' @ join_with ''; '' (pf_errors parsed))
      else if pf_command parsed \<noteq> []
      then Err (''unexpected command or positional argument: '' @ pf_command parsed)
      else Ok ())"

definition audit_config :: "flag_parser \<Rightarrow> string \<Rightarrow> string + unit" where
  "audit_config P path =
     (case fp_audit_config P path of
        None \<Rightarrow> Ok ()
      | Some e \<Rightarrow> Err (''flags-2-env configuration audit failed: '' @ e))"

definition parse_runtime_args ::
  "flag_parser \<Rightarrow> string list \<Rightarrow> env_map \<Rightarrow> string option \<Rightarrow> string + runtime_args" where
  "parse_runtime_args P args ambient config_path =
     and_then (ok_or ''.cli-flags.toml path is not valid UTF-8'' config_path) (\<lambda>path.
     and_then (audit_config P path) (\<lambda>_.
     and_then (map_err (\<lambda>e. ''flags-2-env parse failed: '' @ e) (fp_parse_structured P args path)) (\<lambda>parsed.
     and_then (check_flags parsed) (\<lambda>_.
     let merged = ambient ++ pf_provided_flags parsed in
     and_then (validate_runtime_env P merged) (\<lambda>_.
     and_then (export_scope merged) (\<lambda>scope.
       Ok \<lparr>ra_merged_env = merged, ra_export_openapi = scope\<rparr>))))))"

section \<open>The bind address\<close>

datatype socket_addr = SocketV4 ipv4 u16 | SocketV6 ipv6 u32 u16 \<comment> \<open>address, scope, port\<close>

text \<open>The standard library's reader of \<open>address:port\<close> and \<open>[address%scope]:port\<close>.\<close>

definition read_port :: "string \<Rightarrow> (u16 \<times> string) option" where
  "read_port s = Option.bind (read_given_char (CHR '':'') s) (\<lambda>r.
     map_option (apfst of_nat) (read_number 10 (length r) True 65536 r))"

definition read_socket_v4 :: "string \<Rightarrow> (socket_addr \<times> string) option" where
  "read_socket_v4 s = Option.bind (read_ipv4_addr s) (\<lambda>(a, r).
     map_option (apfst (SocketV4 a)) (read_port r))"

definition read_scope_id :: "string \<Rightarrow> (u32 \<times> string) option" where
  "read_scope_id s = Option.bind (read_given_char (CHR ''%'') s) (\<lambda>r.
     map_option (apfst of_nat) (read_number 10 (length r) True (2 ^ 32) r))"

definition read_socket_v6 :: "string \<Rightarrow> (socket_addr \<times> string) option" where
  "read_socket_v6 s =
     Option.bind (read_given_char (CHR ''['') s) (\<lambda>r.
     Option.bind (read_ipv6_addr r) (\<lambda>(a, r).
     case unwrap_or (0, r) (read_scope_id r) of (scope, r) \<Rightarrow>
     Option.bind (read_given_char (CHR '']'') r) (\<lambda>r.
       map_option (apfst (SocketV6 a scope)) (read_port r))))"

definition parse_socket_addr :: "string \<Rightarrow> socket_addr option" where
  "parse_socket_addr s =
     (case or_else (read_socket_v4 s) (read_socket_v6 s) of
        Some (a, []) \<Rightarrow> Some a
      | _ \<Rightarrow> None)"

definition parse_bind_address :: "string \<Rightarrow> string \<Rightarrow> socket_addr option" where
  "parse_bind_address host port = parse_socket_addr (host @ '':'' @ port)"

definition bind_address :: "env_map \<Rightarrow> socket_addr option" where
  "bind_address env = parse_bind_address (unwrap_or ''0.0.0.0'' (env ''HOST''))
     (unwrap_or ''8121'' (env ''PORT''))"

section \<open>Starting\<close>

datatype startup_error =
    StartEnvironmentPanic \<comment> \<open>\<open>env::vars()\<close> met a value that is not Unicode\<close>
  | StartArgument string
  | StartAddress
  | StartRuntime runtime_config_error
  | StartContact contact_runtime_error
  | StartNats nats_config_error
  | StartContactNats contact_nats_config_error
  | StartDocs docs_error
  | StartBind socket_addr

record server_setup =
  su_address :: socket_addr
  su_app :: app_state
  su_push_queue :: "nats_config option"
  su_contact_queue :: "nats_config option"

datatype server_run = Exported string | Serving server_setup

text \<open>Everything outside the repository that starting relies on.\<close>

record 'r server_parts =
  sp_externals :: externals
  sp_flags :: flag_parser
  sp_push :: push_parts
  sp_contact :: contact_parts
  sp_codec :: "'r openapi_doc openapi_codec"
  sp_generator :: "'r openapi_generator"
  sp_can_bind :: "socket_addr \<Rightarrow> bool" \<comment> \<open>\<open>TcpListener::bind\<close> succeeds\<close>

definition export_openapi :: "'r server_parts \<Rightarrow> openapi_scope \<Rightarrow> docs_error + string" where
  "export_openapi S scope =
     and_then (case scope of
         InternalScope \<Rightarrow> Ok (openapi_document (sp_generator S))
       | PublicScope \<Rightarrow> public_openapi_document (sp_codec S) (sp_generator S)) (\<lambda>openapi.
       canonical_json (sp_codec S) openapi)"

text \<open>
  What starting acts on: the contact world, in which the limiters are created, and the queue
  workers handed to the runtime, in order. A spawned worker runs beside the rest of the start,
  as \<open>run_nats_consumer\<close> or \<open>run_contact_nats_consumer\<close> over its own broker; no later step of the
  start reads what it does.
\<close>

datatype spawned_task =
    PushWorker nats_config provider_registry
  | ContactWorker contact_nats_config contact_registry

record start_world =
  sw_world :: contact_world
  sw_tasks :: "spawned_task list"

definition on_start_world :: "('e, contact_world, 'a) io \<Rightarrow> ('e, start_world, 'a) io" where
  "on_start_world m w = (case m (sw_world w) of (r, cw) \<Rightarrow> (r, w\<lparr>sw_world := cw\<rparr>))"

text \<open>\<open>if let Some(config) = .. { tokio::spawn(..) }\<close>\<close>

definition spawn_worker :: "('c \<Rightarrow> spawned_task) \<Rightarrow> 'c option \<Rightarrow> ('e, start_world, unit) io" where
  "spawn_worker task config w =
     (Ok (), case config of None \<Rightarrow> w | Some cfg \<Rightarrow> w\<lparr>sw_tasks := sw_tasks w @ [task cfg]\<rparr>)"

definition serve ::
  "'r server_parts \<Rightarrow> environment \<Rightarrow> env_map \<Rightarrow> (startup_error, start_world, server_run) io" where
  "serve S env merged =
     io_bind (io_lift (ok_or StartAddress (bind_address merged))) (\<lambda>address.
     io_bind (io_lift (map_err StartRuntime
         (provider_registry_from_env (sp_externals S) (sp_push S) env))) (\<lambda>registry.
     io_bind (on_start_world (\<lambda>w. apfst (map_err StartContact)
         (contact_registry_from_env (sp_externals S) (sp_contact S) env w))) (\<lambda>contact_registry.
     io_bind (io_lift (map_err StartRuntime (request_authenticator_from_env env))) (\<lambda>auth.
     io_bind (io_lift (map_err StartNats (nats_config_from_env env))) (\<lambda>push_queue.
     io_bind (spawn_worker (\<lambda>cfg. PushWorker cfg registry) push_queue) (\<lambda>_.
     io_bind (io_lift (map_err StartContactNats (contact_nats_config_from_env env))) (\<lambda>contact_queue.
     io_bind (spawn_worker (\<lambda>cfg. ContactWorker cfg contact_registry) contact_queue) (\<lambda>_.
     io_bind (io_lift (map_err StartDocs (application_router (sp_codec S) (openapi_document (sp_generator S))
         \<lparr>as_registry = registry, as_authenticator = auth\<rparr>
         \<lparr>ca_registry = contact_registry, ca_authenticator = auth\<rparr> auth))) (\<lambda>app.
     io_bind (io_lift (if sp_can_bind S address then Ok () else Err (StartBind address))) (\<lambda>_.
       io_return (Serving \<lparr>su_address = address, su_app = app, su_push_queue = push_queue,
         su_contact_queue = contact_queue\<rparr>)))))))))))"

text \<open>\<open>env::vars().collect()\<close>, which panics on a value that is not Unicode.\<close>

definition ambient_env :: "environment \<Rightarrow> env_map option" where
  "ambient_env env = (if \<exists>name. env name = NotUnicode then None else Some (env_ok env))"

definition run_server ::
  "'r server_parts \<Rightarrow> string list \<Rightarrow> environment \<Rightarrow> string option \<Rightarrow>
   (startup_error, start_world, server_run) io" where
  "run_server S args env config_path =
     io_bind (io_lift (ok_or StartEnvironmentPanic (ambient_env env))) (\<lambda>ambient.
     io_bind (io_lift (map_err StartArgument
         (parse_runtime_args (sp_flags S) args ambient config_path))) (\<lambda>runtime.
     case ra_export_openapi runtime of
       Some scope \<Rightarrow> io_lift (map_err StartDocs (map_sum id Exported (export_openapi S scope)))
     | None \<Rightarrow> serve S env (ra_merged_env runtime)))"

section \<open>Shutting down\<close>

text \<open>When a signal future is ready: a handler that cannot be registered is ready at once.\<close>

datatype signal_future = NotRegistered | Arrives nat | NeverArrives

fun ready_at :: "signal_future \<Rightarrow> nat option" where
  "ready_at NotRegistered = Some 0"
| "ready_at (Arrives t) = Some t"
| "ready_at NeverArrives = None"

text \<open>\<open>select!\<close> over Ctrl-C and \<open>SIGTERM\<close>: when the graceful shutdown begins, if ever.\<close>

definition shutdown_signal :: "signal_future \<Rightarrow> signal_future \<Rightarrow> nat option" where
  "shutdown_signal ctrl_c terminate =
     (case (ready_at ctrl_c, ready_at terminate) of
        (None, t) \<Rightarrow> t
      | (t, None) \<Rightarrow> t
      | (Some a, Some b) \<Rightarrow> Some (min a b))"

lemma shutdown_signal_iff:
  "shutdown_signal c t = Some n \<longleftrightarrow> (ready_at c = Some n \<or> ready_at t = Some n)
     \<and> is_none_or (\<lambda>m. n \<le> m) (ready_at c) \<and> is_none_or (\<lambda>m. n \<le> m) (ready_at t)"
  by (cases "ready_at c"; cases "ready_at t") (auto simp: shutdown_signal_def min_def)

section \<open>Printed addresses are read back\<close>

lemma digit_char_of: "d < 10 \<Longrightarrow> digit_of 10 (digit_char d) = Some d"
  by (simp add: digit_of_def digit_char_def is_ascii_digit_def Let_def opt_filter_def)

lemma digit_of_digit: "is_digit_of 10 c \<longleftrightarrow> is_ascii_digit (byte_val c)"
  by (auto simp: is_digit_of_def digit_of_def is_ascii_digit_def Let_def opt_filter_def)

lemma number_of_show: "number_of_digits 10 (show_nat n) = n"
proof (induction n rule: show_nat.induct)
  case (1 n)
  show ?case
  proof (cases "n < 10")
    case False
    with 1 show ?thesis
      by (subst show_nat.simps) (simp add: number_of_digits_def digit_char_of)
  qed (subst show_nat.simps, simp add: number_of_digits_def digit_char_of)
qed

lemma byte_val_zero: "byte_val (CHR ''0'') = 48"
  by simp

lemma show_nat_leading: "n \<noteq> 0 \<Longrightarrow> hd (show_nat n) \<noteq> CHR ''0''"
proof (induction n rule: show_nat.induct)
  case (1 n)
  have char: "0 < d \<Longrightarrow> d < 10 \<Longrightarrow> digit_char d \<noteq> CHR ''0''" for d
    using byte_val_digit [of d] by (metis add_cancel_left_right byte_val_zero less_irrefl)
  show ?case
  proof (cases "n < 10")
    case True
    with 1 char show ?thesis by (subst show_nat.simps) simp
  next
    case False
    with 1 show ?thesis by (subst show_nat.simps) (simp add: hd_append)
  qed
qed

lemma show_nat_length: "n < 10 ^ k \<Longrightarrow> 0 < k \<Longrightarrow> length (show_nat n) \<le> k"
proof (induction n arbitrary: k rule: show_nat.induct)
  case (1 n)
  show ?case
  proof (cases "n < 10")
    case True
    with 1 show ?thesis by (subst show_nat.simps) simp
  next
    case False
    then obtain j where k: "k = Suc j" "0 < j" using 1 by (cases k; cases "k - 1") auto
    with 1 False have "length (show_nat (n div 10)) \<le> j" by (intro 1(1)) auto
    with False k show ?thesis by (subst show_nat.simps) simp
  qed
qed

lemma read_number_show:
  assumes "rest = [] \<or> \<not> is_ascii_digit (byte_val (hd rest))"
  shows "read_number 10 m z limit (show_nat n @ rest) =
    (if length (show_nat n) \<le> m \<and> n < limit then Some (n, rest) else None)"
proof -
  have "takeWhile (is_digit_of 10) (show_nat n @ rest) = show_nat n @ takeWhile (is_digit_of 10) rest"
    using show_nat_digits by (intro takeWhile_append2) (simp add: digit_of_digit)
  also have "takeWhile (is_digit_of 10) rest = []"
    using assms by (cases rest) (auto simp: digit_of_digit)
  finally have t: "takeWhile (is_digit_of 10) (show_nat n @ rest) = show_nat n" by simp
  have "show_nat 0 = [digit_char 0]" by (subst show_nat.simps) simp
  then have "length (show_nat n) \<le> 1 \<or> hd (show_nat n) \<noteq> CHR ''0''"
    using show_nat_leading [of n] by (cases "n = 0") auto
  then show ?thesis
    by (auto simp: read_number_def t number_of_show Let_def)
qed

fun show_ipv4 :: "ipv4 \<Rightarrow> string" where
  "show_ipv4 (Ipv4 a b c d) = show_nat (unat a) @ ''.'' @ show_nat (unat b) @ ''.''
     @ show_nat (unat c) @ ''.'' @ show_nat (unat d)"

lemma read_ipv4_show:
  assumes "rest = [] \<or> \<not> is_ascii_digit (byte_val (hd rest))"
  shows "read_ipv4_addr (show_ipv4 a @ rest) = Some (a, rest)"
proof (cases a)
  case (Ipv4 a1 a2 a3 a4)
  have lt: "unat (b :: u8) < 256" for b using unsigned_less [of b] by simp
  have len: "length (show_nat (unat (b :: u8))) \<le> 3" for b
    using lt [of b] by (intro show_nat_length) simp_all
  have octet: "read_number 10 3 False 256 (show_nat (unat (b :: u8)) @ CHR ''.'' # r)
      = Some (unat b, CHR ''.'' # r)" for b r
    by (subst read_number_show) (simp_all add: len lt is_ascii_digit_def)
  have last: "read_number 10 3 False 256 (show_nat (unat (b :: u8)) @ rest) = Some (unat b, rest)" for b
    using assms by (simp add: read_number_show len lt)
  have four: "read_octets 4 i s = read_octets (Suc (Suc (Suc (Suc 0)))) i s" for i s
    by (simp add: eval_nat_numeral)
  show ?thesis
    by (simp add: Ipv4 read_ipv4_addr_def four read_separator_def read_given_char_def
        octet [simplified] last [simplified])
qed

section \<open>What a server that starts runs with\<close>

text \<open>The queue workers a start spawns once it is past their configuration.\<close>

definition push_task :: "'r server_parts \<Rightarrow> environment \<Rightarrow> spawned_task list" where
  "push_task S env =
     (case (provider_registry_from_env (sp_externals S) (sp_push S) env, nats_config_from_env env) of
        (Inr reg, Inr (Some cfg)) \<Rightarrow> [PushWorker cfg reg]
      | _ \<Rightarrow> [])"

definition contact_task :: "'r server_parts \<Rightarrow> environment \<Rightarrow> contact_world \<Rightarrow> spawned_task list" where
  "contact_task S env w =
     (case (fst (contact_registry_from_env (sp_externals S) (sp_contact S) env w),
         contact_nats_config_from_env env) of
        (Inr reg, Inr (Some cfg)) \<Rightarrow> [ContactWorker cfg reg]
      | _ \<Rightarrow> [])"

lemma serve_result:
  assumes "serve S env merged w = (Inr run, w')"
  obtains su auth where "run = Serving su" "bind_address merged = Some (su_address su)"
    "sp_can_bind S (su_address su)"
    "provider_registry_from_env (sp_externals S) (sp_push S) env = Inr (as_registry (app_push (su_app su)))"
    "contact_registry_from_env (sp_externals S) (sp_contact S) env (sw_world w)
       = (Inr (ca_registry (app_contact (su_app su))), sw_world w')"
    "request_authenticator_from_env env = Inr auth"
    "as_authenticator (app_push (su_app su)) = auth" "ca_authenticator (app_contact (su_app su)) = auth"
    "ds_authenticator (app_docs (su_app su)) = auth"
    "nats_config_from_env env = Inr (su_push_queue su)"
    "contact_nats_config_from_env env = Inr (su_contact_queue su)"
    "sw_tasks w' = sw_tasks w @ push_task S env @ contact_task S env (sw_world w)"
proof -
  from assms obtain address registry contact_registry auth push_queue contact_queue app where
    "bind_address merged = Some address" "sp_can_bind S address"
    "provider_registry_from_env (sp_externals S) (sp_push S) env = Inr registry"
    "contact_registry_from_env (sp_externals S) (sp_contact S) env (sw_world w) = (Inr contact_registry, sw_world w')"
    "request_authenticator_from_env env = Inr auth" "nats_config_from_env env = Inr push_queue"
    "contact_nats_config_from_env env = Inr contact_queue"
    "sw_tasks w' = sw_tasks w @ push_task S env @ contact_task S env (sw_world w)"
    and app: "application_router (sp_codec S) (openapi_document (sp_generator S))
         \<lparr>as_registry = registry, as_authenticator = auth\<rparr>
         \<lparr>ca_registry = contact_registry, ca_authenticator = auth\<rparr> auth = Inr app"
    and "run = Serving \<lparr>su_address = address, su_app = app, su_push_queue = push_queue,
         su_contact_queue = contact_queue\<rparr>"
    by (auto simp: serve_def io_bind_def io_lift_def io_return_def apfst_def map_prod_def on_start_world_def
        spawn_worker_def push_task_def contact_task_def
        split: sum.splits prod.splits if_splits option.splits)
  moreover from app have "as_registry (app_push app) = registry" "as_authenticator (app_push app) = auth"
    "ca_registry (app_contact app) = contact_registry" "ca_authenticator (app_contact app) = auth"
    "ds_authenticator (app_docs app) = auth"
    by (auto simp: application_router_def docs_state_new_def and_then_eq_Ok)
  ultimately show thesis
    by (intro that [of "\<lparr>su_address = address, su_app = app, su_push_queue = push_queue,
         su_contact_queue = contact_queue\<rparr>" auth]) simp_all
qed

text \<open>Which workers a failed start leaves behind: those spawned before the step that failed.\<close>

lemma serve_failed:
  assumes "serve S env merged w = (Inl e, w')"
  shows "sw_tasks w' = sw_tasks w @ (case e of
      StartContactNats _ \<Rightarrow> push_task S env
    | StartDocs _ \<Rightarrow> push_task S env @ contact_task S env (sw_world w)
    | StartBind _ \<Rightarrow> push_task S env @ contact_task S env (sw_world w)
    | _ \<Rightarrow> [])"
  using assms
  by (auto simp: serve_def io_bind_def io_lift_def io_return_def apfst_def map_prod_def on_start_world_def
      spawn_worker_def push_task_def contact_task_def map_err_eq_Err ok_or_def
      split: sum.splits prod.splits if_splits option.splits)

lemma export_not_serving [simp]: "map_sum id Exported r \<noteq> Inr (Serving su)"
  by (cases r) simp_all

lemma map_sum_eq_Inr: "map_sum id g r = Inr y \<longleftrightarrow> (\<exists>x. r = Inr x \<and> y = g x)"
  by (cases r) auto

lemma serve_not_exported: "serve S env merged w = (Inr (Exported text), w') \<Longrightarrow> False"
  by (erule serve_result) simp

lemma run_server_serving:
  assumes "run_server S args env path w = (Inr (Serving su), w')"
  obtains rt where "ambient_env env = Some (env_ok env)"
    "parse_runtime_args (sp_flags S) args (env_ok env) path = Inr rt"
    "ra_export_openapi rt = None" "serve S env (ra_merged_env rt) w = (Inr (Serving su), w')"
  using assms
  by (auto simp: run_server_def io_bind_def io_lift_def ambient_env_def split: sum.splits option.splits if_splits)

section \<open>Properties\<close>

text \<open>
  C40: The bind address: any IPv4 address and port, printed and joined by a colon, is read back
  exactly, and a port above 65535 is refused; without \<open>HOST\<close> and \<open>PORT\<close> it is
  \<open>0.0.0.0:8121\<close>.
\<close>

theorem bind_address_roundtrip:
  "parse_bind_address (show_ipv4 a) (show_nat n)
     = (if n < 65536 then Some (SocketV4 a (of_nat n)) else None)
   \<and> bind_address (\<lambda>name. None) = Some (SocketV4 (Ipv4 0 0 0 0) 8121)"
proof
  have ip: "read_ipv4_addr (show_ipv4 a @ '':'' @ show_nat n) = Some (a, '':'' @ show_nat n)"
    by (rule read_ipv4_show) (simp add: is_ascii_digit_def)
  have num: "read_number 10 (length (show_nat n)) True 65536 (show_nat n)
      = (if n < 65536 then Some (n, []) else None)"
    using read_number_show [of "[]" "length (show_nat n)" True 65536 n] by simp
  have "show_ipv4 a \<noteq> []" "hd (show_ipv4 a) \<noteq> CHR ''[''"
  proof -
    obtain a1 a2 a3 a4 where a: "a = Ipv4 a1 a2 a3 a4" by (cases a)
    have "is_ascii_digit (byte_val (hd (show_nat m)))" for m
      by (rule show_nat_digits [of _ m]) simp
    from this [of "unat a1"] show "show_ipv4 a \<noteq> []" "hd (show_ipv4 a) \<noteq> CHR ''[''"
      by (simp_all add: a hd_append is_ascii_digit_def) (cases "hd (show_nat (unat a1)) = CHR ''[''"; simp)
  qed
  then have v6: "read_socket_v6 (show_ipv4 a @ '':'' @ show_nat n) = None"
    by (cases "show_ipv4 a") (auto simp: read_socket_v6_def read_given_char_def)
  show "parse_bind_address (show_ipv4 a) (show_nat n)
     = (if n < 65536 then Some (SocketV4 a (of_nat n)) else None)"
    by (simp add: parse_bind_address_def parse_socket_addr_def read_socket_v4_def ip [simplified]
        v6 [simplified] read_port_def read_given_char_def num)
  show "bind_address (\<lambda>name. None) = Some (SocketV4 (Ipv4 0 0 0 0) 8121)"
    by code_simp
qed

section \<open>The errors of a start\<close>

text \<open>The errors of a start that depend neither on the flags nor on the address to bind.\<close>

definition startup_errors :: "startup_error list" where
  "startup_errors =
     map StartRuntime runtime_errors @ map StartContact contact_errors @ map StartNats queue_errors
     @ map StartContactNats contact_queue_errors @ [StartEnvironmentPanic, StartAddress, StartDocs DocsSerde, StartDocs DocsPanic]"

lemma startup_errors_fixed: "StartArgument t \<notin> set startup_errors" "StartBind a \<notin> set startup_errors"
  by (auto simp: startup_errors_def)

text \<open>
  The errors of the argument parser, by cause: the texts of the flag parser, the command line,
  or, the one variable it ever quotes itself, the value of \<open>FANWAAVE_EXPORT_OPENAPI\<close>.
\<close>

inductive argument_refusal ::
  "flag_parser \<Rightarrow> string list \<Rightarrow> env_map \<Rightarrow> string option \<Rightarrow> string \<Rightarrow> bool"
  for P args ambient path where
  no_path: "path = None \<Longrightarrow>
     argument_refusal P args ambient path ''.cli-flags.toml path is not valid UTF-8''"
| audit: "path = Some p \<Longrightarrow> fp_audit_config P p = Some e \<Longrightarrow>
     argument_refusal P args ambient path (''flags-2-env configuration audit failed: '' @ e)"
| parse: "path = Some p \<Longrightarrow> fp_parse_structured P args p = Inl e \<Longrightarrow>
     argument_refusal P args ambient path (''flags-2-env parse failed: '' @ e)"
| unknown: "path = Some p \<Longrightarrow> fp_parse_structured P args p = Inr parsed \<Longrightarrow>
     pf_unknown_options parsed \<noteq> [] \<Longrightarrow> argument_refusal P args ambient path
       (''unknown command-line option(s): '' @ join_with '', '' (pf_unknown_options parsed))"
| invalid: "path = Some p \<Longrightarrow> fp_parse_structured P args p = Inr parsed \<Longrightarrow>
     pf_errors parsed \<noteq> [] \<Longrightarrow> argument_refusal P args ambient path
       (''invalid command-line value(s): '' @ join_with ''; '' (pf_errors parsed))"
| positional: "path = Some p \<Longrightarrow> fp_parse_structured P args p = Inr parsed \<Longrightarrow>
     pf_command parsed \<noteq> [] \<Longrightarrow> argument_refusal P args ambient path
       (''unexpected command or positional argument: '' @ pf_command parsed)"
| preflight: "path = Some p \<Longrightarrow> fp_parse_structured P args p = Inr parsed \<Longrightarrow>
     fp_resolve_bindings P (ambient ++ pf_provided_flags parsed) runtime_specs = diagnostics \<Longrightarrow>
     diagnostics \<noteq> [] \<Longrightarrow> argument_refusal P args ambient path
       (''runtime environment preflight failed: '' @ join_with ''; '' diagnostics)"
| scope: "path = Some p \<Longrightarrow> fp_parse_structured P args p = Inr parsed \<Longrightarrow>
     (ambient ++ pf_provided_flags parsed) ''FANWAAVE_EXPORT_OPENAPI'' = Some v \<Longrightarrow>
     v \<noteq> ''internal'' \<Longrightarrow> v \<noteq> ''public'' \<Longrightarrow>
     argument_refusal P args ambient path (''unsupported OpenAPI scope: '' @ v)"

lemma parse_runtime_args_refusal:
  assumes "parse_runtime_args P args ambient path = Inl text"
  shows "argument_refusal P args ambient path text"
proof (cases path)
  case None
  with assms show ?thesis
    by (auto simp: parse_runtime_args_def intro: argument_refusal.no_path)
next
  case (Some p)
  show ?thesis
  proof (cases "fp_parse_structured P args p")
    case (Inl e)
    show ?thesis
    proof (cases "fp_audit_config P p")
      case None
      with Some Inl assms have "text = ''flags-2-env parse failed: '' @ e"
        by (simp add: parse_runtime_args_def audit_config_def)
      with argument_refusal.parse [OF Some Inl] show ?thesis by simp
    next
      case audit: (Some e)
      with Some assms have "text = ''flags-2-env configuration audit failed: '' @ e"
        by (simp add: parse_runtime_args_def audit_config_def)
      with argument_refusal.audit [OF Some audit] show ?thesis by simp
    qed
  next
    case (Inr parsed)
    consider e where "fp_audit_config P p = Some e"
        "text = ''flags-2-env configuration audit failed: '' @ e"
      | "check_flags parsed = Inl text"
      | "validate_runtime_env P (ambient ++ pf_provided_flags parsed) = Inl text"
      | "export_scope (ambient ++ pf_provided_flags parsed) = Inl text"
      using assms Some Inr
      by (auto simp: parse_runtime_args_def audit_config_def and_then_eq_Err Let_def split: option.splits)
    then show ?thesis
    proof cases
      case 1
      with argument_refusal.audit [OF Some] show ?thesis by simp
    next
      case 2
      with argument_refusal.unknown [OF Some Inr] argument_refusal.invalid [OF Some Inr]
        argument_refusal.positional [OF Some Inr] show ?thesis
        by (auto simp: check_flags_def split: if_splits)
    next
      case 3
      let ?diagnostics = "fp_resolve_bindings P (ambient ++ pf_provided_flags parsed) runtime_specs"
      from 3 have "?diagnostics \<noteq> []"
        "text = ''runtime environment preflight failed: '' @ join_with ''; '' ?diagnostics"
        by (cases ?diagnostics; simp add: validate_runtime_env_def)+
      with argument_refusal.preflight [OF Some Inr refl] show ?thesis by simp
    next
      case 4
      then obtain v where v: "(ambient ++ pf_provided_flags parsed) ''FANWAAVE_EXPORT_OPENAPI'' = Some v"
        and refused: "parse_openapi_scope v = Inl text"
        by (auto simp: export_scope_def and_then_eq_Err split: option.splits)
      from refused have "v \<noteq> ''internal''" "v \<noteq> ''public''" "text = ''unsupported OpenAPI scope: '' @ v"
        by (auto simp: parse_openapi_scope_def split: if_split_asm)
      with argument_refusal.scope [OF Some Inr v] show ?thesis by simp
    qed
  qed
qed

definition start_errors ::
  "'r server_parts \<Rightarrow> string list \<Rightarrow> environment \<Rightarrow> string option \<Rightarrow> startup_error set" where
  "start_errors S args env path = set startup_errors \<union> {StartBind a | a. \<not> sp_can_bind S a}
     \<union> {StartArgument t | t. argument_refusal (sp_flags S) args (env_ok env) path t}"

lemma start_errors_images:
  "StartRuntime ` set runtime_errors \<subseteq> start_errors S args env path"
  "StartContact ` set contact_errors \<subseteq> start_errors S args env path"
  "StartNats ` set queue_errors \<subseteq> start_errors S args env path"
  "StartContactNats ` set contact_queue_errors \<subseteq> start_errors S args env path"
  by (auto simp: start_errors_def startup_errors_def)

lemma start_errors_docs: "range StartDocs \<subseteq> start_errors S args env path"
proof -
  have "StartDocs e \<in> set startup_errors" for e by (cases e) (simp_all add: startup_errors_def)
  then show ?thesis by (auto simp: start_errors_def)
qed

lemmas start_errors_map [errors_intros] =
  start_errors_images [THEN errors_in_map_err_into [rotated]]
  errors_in_map_err_into [OF errors_in_UNIV start_errors_docs]

lemmas start_errors_contact [errors_intros] =
  step_errors_map_err [OF contact_registry_errors start_errors_images(2)]

lemma step_errors_start_world [errors_intros]: "step_errors_in E m \<Longrightarrow> step_errors_in E (on_start_world m)"
  by (auto simp: io_post_def on_start_world_def split: prod.splits) (metis fst_conv)

lemma step_errors_spawn [errors_intros]: "step_errors_in E (spawn_worker task config)"
  by (simp add: io_post_def spawn_worker_def)

lemma serve_errors: "step_errors_in (start_errors S args env path) (serve S env merged)"
  unfolding serve_def
  by (intro errors_intros runtime_errors_in queue_errors_in contact_queue_errors_in)
    (simp_all add: start_errors_def startup_errors_def)

lemma run_server_errors: "step_errors_in (start_errors S args env path) (run_server S args env path)"
proof (cases "ambient_env env")
  case None
  then show ?thesis
    by (simp add: run_server_def start_errors_def startup_errors_def)
next
  case (Some ambient)
  then have "ambient = env_ok env" by (auto simp: ambient_env_def split: if_splits)
  then have args: "errors_in (start_errors S args env path)
      (map_err StartArgument (parse_runtime_args (sp_flags S) args ambient path))"
    using parse_runtime_args_refusal by (auto simp: errors_in_def map_err_eq_Err start_errors_def)
  show ?thesis
    unfolding run_server_def Some ok_or_simps io_lift_simps
    by (intro errors_intros serve_errors args)
qed

lemma serve_silent: "serve S env merged w = (r, w') \<Longrightarrow> silent (cw_world (sw_world w)) (cw_world (sw_world w'))"
  using contact_registry_silent [of "sw_world w" "sp_externals S" "sp_contact S" env]
  by (auto simp: serve_def io_bind_def io_lift_def io_return_def apfst_def map_prod_def on_start_world_def
      spawn_worker_def split: sum.splits prod.splits option.splits if_splits)

text \<open>The workers a failed start leaves behind, by its error.\<close>

definition tasks_left ::
  "'r server_parts \<Rightarrow> environment \<Rightarrow> contact_world \<Rightarrow> bool \<Rightarrow> startup_error \<Rightarrow> spawned_task list" where
  "tasks_left S env w exporting e =
     (case e of
        StartContactNats _ \<Rightarrow> push_task S env
      | StartDocs _ \<Rightarrow> if exporting then [] else push_task S env @ contact_task S env w
      | StartBind _ \<Rightarrow> push_task S env @ contact_task S env w
      | _ \<Rightarrow> [])"

text \<open>Whether the flags ask for an export of the document.\<close>

definition asks_export :: "'r server_parts \<Rightarrow> string list \<Rightarrow> environment \<Rightarrow> string option \<Rightarrow> bool" where
  "asks_export S args env path =
     (case parse_runtime_args (sp_flags S) args (env_ok env) path of
        Inl _ \<Rightarrow> False
      | Inr rt \<Rightarrow> ra_export_openapi rt \<noteq> None)"

lemma run_server_failed:
  assumes "run_server S args env path w = (Inl e, w')"
  shows "silent (cw_world (sw_world w)) (cw_world (sw_world w'))
    \<and> sw_tasks w' = sw_tasks w @ tasks_left S env (sw_world w) (asks_export S args env path) e"
proof (cases "ambient_env env")
  case None
  with assms show ?thesis
    by (auto simp: run_server_def tasks_left_def io_throw_def)
next
  case (Some ambient)
  then have ambient: "ambient = env_ok env" by (auto simp: ambient_env_def split: if_splits)
  show ?thesis
  proof (cases "parse_runtime_args (sp_flags S) args (env_ok env) path")
    case (Inl refusal)
    with assms Some ambient show ?thesis
      by (auto simp: run_server_def tasks_left_def io_throw_def)
  next
    case (Inr rt)
    show ?thesis
    proof (cases "ra_export_openapi rt")
      case None
      then have sv: "serve S env (ra_merged_env rt) w = (Inl e, w')"
        using assms Some ambient Inr by (simp add: run_server_def)
      show ?thesis
        using serve_failed [OF sv] serve_silent [OF sv] None Inr
        by (cases e) (simp_all add: tasks_left_def asks_export_def)
    next
      case (Some scope)
      with assms \<open>ambient_env env = Some ambient\<close> ambient Inr show ?thesis
        by (auto simp: run_server_def tasks_left_def asks_export_def io_lift_def map_err_eq_Err)
    qed
  qed
qed

text \<open>What is wrong when a start fails with an error.\<close>

definition start_cause ::
  "'r server_parts \<Rightarrow> string list \<Rightarrow> environment \<Rightarrow> string option \<Rightarrow> contact_world \<Rightarrow> startup_error \<Rightarrow> bool" where
  "start_cause S args env path w e \<longleftrightarrow>
     (case e of
        StartEnvironmentPanic \<Rightarrow> ambient_env env = None
      | StartArgument refusal \<Rightarrow> parse_runtime_args (sp_flags S) args (env_ok env) path = Inl refusal
      | StartAddress \<Rightarrow> \<exists>rt. parse_runtime_args (sp_flags S) args (env_ok env) path = Inr rt
          \<and> bind_address (ra_merged_env rt) = None
      | StartRuntime e \<Rightarrow> provider_registry_from_env (sp_externals S) (sp_push S) env = Inl e
          \<or> request_authenticator_from_env env = Inl e
      | StartContact e \<Rightarrow> fst (contact_registry_from_env (sp_externals S) (sp_contact S) env w) = Inl e
      | StartNats e \<Rightarrow> nats_config_from_env env = Inl e
      | StartContactNats e \<Rightarrow> contact_nats_config_from_env env = Inl e
      | StartDocs e \<Rightarrow> (\<exists>scope. export_openapi S scope = Inl e)
          \<or> (\<exists>a c auth. application_router (sp_codec S) (openapi_document (sp_generator S)) a c auth = Inl e)
      | StartBind address \<Rightarrow> \<not> sp_can_bind S address
          \<and> (\<exists>rt. parse_runtime_args (sp_flags S) args (env_ok env) path = Inr rt
              \<and> bind_address (ra_merged_env rt) = Some address))"

lemma serve_cause:
  assumes "serve S env (ra_merged_env rt) w = (Inl e, w')"
    and "parse_runtime_args (sp_flags S) args (env_ok env) path = Inr rt"
  shows "start_cause S args env path (sw_world w) e"
  using assms
  by (auto simp: start_cause_def serve_def io_bind_def io_lift_def io_return_def apfst_def map_prod_def
      on_start_world_def spawn_worker_def map_err_eq_Err ok_or_def
      split: sum.splits prod.splits if_splits option.splits)

lemma run_server_cause:
  assumes "run_server S args env path w = (Inl e, w')"
  shows "start_cause S args env path (sw_world w) e"
proof (cases "ambient_env env")
  case None
  with assms show ?thesis by (auto simp: run_server_def start_cause_def io_throw_def)
next
  case (Some ambient)
  then have ambient: "ambient = env_ok env" by (auto simp: ambient_env_def split: if_splits)
  show ?thesis
  proof (cases "parse_runtime_args (sp_flags S) args (env_ok env) path")
    case (Inl refusal)
    with assms Some ambient show ?thesis by (auto simp: run_server_def start_cause_def io_throw_def)
  next
    case (Inr rt)
    show ?thesis
    proof (cases "ra_export_openapi rt")
      case None
      then have sv: "serve S env (ra_merged_env rt) w = (Inl e, w')"
        using assms Some ambient Inr by (simp add: run_server_def)
      show ?thesis by (rule serve_cause [OF sv Inr])
    next
      case (Some scope)
      with assms \<open>ambient_env env = Some ambient\<close> ambient Inr show ?thesis
        by (cases "export_openapi S scope") (auto simp: run_server_def start_cause_def io_lift_def)
    qed
  qed
qed

text \<open>
  C26: Starting, on every branch. An export needs nothing but the flags and changes nothing. A
  server that serves has read every part of its configuration successfully (flags merged over
  the environment for the address only, everything else from the environment itself), uses one
  authenticator for all three routers and has spawned exactly the queue workers that are
  configured, with the configured registries. The steps of the start itself contact no provider
  on any branch; a failed start leaves behind exactly the workers spawned before the step that
  failed: none before the push queue is configured, the push worker when the contact queue's
  configuration fails, both when the documents or the bind do. The error is that of the step that
  failed (\<open>start_cause\<close>): a fixed value that no configured value enters, or names the address that cannot be bound, or is the argument
  parser's, which quotes the command line, the flag parser's own text or the value of
  \<open>FANWAAVE_EXPORT_OPENAPI\<close>.
\<close>

theorem run_server_spec:
  "case run_server S args env path w of
     (Inr (Serving su), w') \<Rightarrow> silent (cw_world (sw_world w)) (cw_world (sw_world w'))
       \<and> sw_tasks w' = sw_tasks w @ push_task S env @ contact_task S env (sw_world w)
       \<and> (\<exists>rt auth. parse_runtime_args (sp_flags S) args (env_ok env) path = Inr rt
         \<and> ambient_env env = Some (env_ok env)
         \<and> ra_export_openapi rt = None \<and> bind_address (ra_merged_env rt) = Some (su_address su)
         \<and> sp_can_bind S (su_address su)
         \<and> provider_registry_from_env (sp_externals S) (sp_push S) env = Inr (as_registry (app_push (su_app su)))
         \<and> contact_registry_from_env (sp_externals S) (sp_contact S) env (sw_world w)
             = (Inr (ca_registry (app_contact (su_app su))), sw_world w')
         \<and> request_authenticator_from_env env = Inr auth
         \<and> as_authenticator (app_push (su_app su)) = auth \<and> ca_authenticator (app_contact (su_app su)) = auth
         \<and> ds_authenticator (app_docs (su_app su)) = auth
         \<and> nats_config_from_env env = Inr (su_push_queue su)
         \<and> contact_nats_config_from_env env = Inr (su_contact_queue su))
   | (Inr (Exported text), w') \<Rightarrow> w' = w \<and> (\<exists>rt scope. ra_export_openapi rt = Some scope
       \<and> parse_runtime_args (sp_flags S) args (env_ok env) path = Inr rt \<and> export_openapi S scope = Inr text)
   | (Inl e, w') \<Rightarrow> silent (cw_world (sw_world w)) (cw_world (sw_world w'))
       \<and> sw_tasks w' = sw_tasks w @ tasks_left S env (sw_world w) (asks_export S args env path) e
       \<and> start_cause S args env path (sw_world w) e
       \<and> (case e of
            StartArgument text \<Rightarrow> argument_refusal (sp_flags S) args (env_ok env) path text
          | StartBind address \<Rightarrow> \<not> sp_can_bind S address
          | _ \<Rightarrow> e \<in> set startup_errors)"
proof -
  obtain r w' where r: "run_server S args env path w = (r, w')" by fastforce
  show ?thesis
  proof (cases r)
    case (Inr run)
    show ?thesis
    proof (cases run)
      case (Exported body)
      then show ?thesis
        using r Inr
        by (auto simp: run_server_def io_bind_def io_lift_def map_sum_eq_Inr ambient_env_def
            dest: serve_not_exported split: sum.splits option.splits if_splits)
    next
      case (Serving su)
      from r Inr Serving have s: "run_server S args env path w = (Inr (Serving su), w')" by simp
      obtain rt where rt: "ambient_env env = Some (env_ok env)"
        "parse_runtime_args (sp_flags S) args (env_ok env) path = Inr rt"
        "ra_export_openapi rt = None" and sv: "serve S env (ra_merged_env rt) w = (Inr (Serving su), w')"
        by (rule run_server_serving [OF s])
      show ?thesis
        unfolding s by (rule serve_result [OF sv]) (use rt serve_silent [OF sv] in auto)
    qed
  next
    case (Inl e)
    have "e \<in> start_errors S args env path"
      by (rule io_postD(1) [OF run_server_errors]) (use r Inl in simp)
    with r Inl run_server_failed [of S args env path w e w'] run_server_cause [of S args env path w e w']
    show ?thesis
      by (auto simp: start_errors_def startup_errors_fixed split: startup_error.split)
  qed
qed

end
