(* ===== verification/Mobile_Tests.thy ===== *)
theory Mobile_Tests
  imports Test_Fixtures Fcm Apns Expo
begin

text \<open>
  The unit tests of \<open>providers/apns.rs\<close>, \<open>providers/fcm.rs\<close> and \<open>providers/expo.rs\<close>, run on
  the model as in theory Push_Tests.
\<close>

section \<open>APNs\<close>

definition fixture_uuid :: string where
  "fixture_uuid = join_with ''-'' [''123e4567'', ''e89b'', ''12d3'', ''a456'', ''426655440000'']"

definition fixture_device_token :: string where
  "fixture_device_token = concat (replicate 32 ''01'')"

definition fixture_provider_token :: string where
  "fixture_provider_token = join_with ''-'' [''cached'', ''provider'', ''fixture'']"

definition apns_test_job :: "provider_environment \<Rightarrow> push_job" where
  "apns_test_job env = \<lparr>
     pj_version = V1,
     pj_job_id = ''job-1'',
     pj_tenant_id = ''tenant-1'',
     pj_application_id = ''app-1'',
     pj_idempotency_key = fixture_uuid,
     pj_provider = Apns,
     pj_target = ApnsTarget fixture_device_token env,
     pj_notification = \<lparr>nt_title = Some ''Hello'', nt_body = Some ''World'',
       nt_image_url = Some ''https://cdn.example.invalid/image.jpg'',
       nt_data = [(''screen'', JStr ''inbox'')]\<rparr>,
     pj_options = \<lparr>op_ttl_seconds = Some 120, op_priority = High,
       op_collapse_key = Some ''inbox'', op_dry_run = False\<rparr>,
     pj_trace = default_trace\<rparr>"

definition apns_for_test :: "string \<Rightarrow> provider_environment \<Rightarrow> url \<Rightarrow> apns_config" where
  "apns_for_test topic env api_base_url = \<lparr>
     ac_key_id = ''KEY1234567'',
     ac_team_id = ''TEAM123456'',
     ac_topic = topic,
     ac_environment = env,
     ac_signing_key = ''fixture'',
     ac_api_base_url = api_base_url,
     ac_request_timeout = from_secs 20\<rparr>"

definition no_apns_codec :: apns_codec where
  "no_apns_codec = \<lparr>ax_ec_key = (\<lambda>pem. None), ax_encode = (\<lambda>header claims key. None),
     ax_error_reason = (\<lambda>body. None)\<rparr>"

definition validates_config_and_selects_environment_host :: "externals \<Rightarrow> apns_codec \<Rightarrow> bool" where
  "validates_config_and_selects_environment_host X C \<longleftrightarrow>
     apns_config_new X C ''short'' ''TEAM123456'' ''com.example.app'' ''not-a-key'' Sandbox
       = Err (ApnsInvalidIdentifier ''key_id'')
     \<and> Option.bind (default_api_base_url X Sandbox) url_host_str = Some ''api.sandbox.push.apple.com''
     \<and> Option.bind (default_api_base_url X Production) url_host_str = Some ''api.push.apple.com''"

text \<open>The claims serialize to the members they have: \<open>iss\<close> and \<open>iat\<close>, no \<open>exp\<close>.\<close>

definition constructs_es256_header_and_team_claims :: bool where
  "constructs_es256_header_and_team_claims \<longleftrightarrow>
     (let header = provider_token_header ''KEY1234567''; claims = provider_token_claims ''TEAM123456'' 1000 in
      jh_alg header = ''ES256'' \<and> jh_kid header = Some ''KEY1234567''
      \<and> acl_iss claims = ''TEAM123456'' \<and> acl_iat claims = 1000)"

definition cached_provider_token_is_reused :: "externals \<Rightarrow> apns_codec \<Rightarrow> world \<Rightarrow> bool" where
  "cached_provider_token_is_reused X C w \<longleftrightarrow>
     (case default_api_base_url X Production of
        None \<Rightarrow> False
      | Some u \<Rightarrow>
          let config = apns_for_test ''com.example.app'' Production u;
              (now, w) = instant_now w;
              w = put_apns_token Production
                \<lparr>ct_value = fixture_provider_token, ct_expires_at = now + from_secs 60\<rparr> w
          in fst (apns_token C config w) = Ok fixture_provider_token)"

definition builds_alert_and_background_payloads :: "externals \<Rightarrow> bool" where
  "builds_alert_and_background_payloads X \<longleftrightarrow>
     (case build_request X (apns_test_job Production) 1000 of
        Inl _ \<Rightarrow> False
      | Inr alert \<Rightarrow>
          ar_push_type alert = ''alert'' \<and> ar_priority alert = ''10'' \<and> ar_expiration alert = 1120
          \<and> json_index (json_index (json_index (ar_payload alert) ''aps'') ''alert'') ''title'' = JStr ''Hello''
          \<and> json_index (json_index (ar_payload alert) ''aps'') ''mutable-content'' = json_u64 1
          \<and> json_index (ar_payload alert) ''screen'' = JStr ''inbox'')
     \<and> (let job = apns_test_job Sandbox;
            job = job\<lparr>pj_notification := (pj_notification job)
              \<lparr>nt_title := None, nt_body := None, nt_image_url := None\<rparr>\<rparr>
        in case build_request X job 1000 of
             Inl _ \<Rightarrow> False
           | Inr background \<Rightarrow>
               ar_push_type background = ''background'' \<and> ar_priority background = ''5''
               \<and> json_index (json_index (ar_payload background) ''aps'') ''content-available'' = json_u64 1)"

definition rejects_reserved_aps :: "externals \<Rightarrow> bool" where
  "rejects_reserved_aps X \<longleftrightarrow>
     (let job = apns_test_job Production;
          n = pj_notification job;
          job = job\<lparr>pj_notification := n\<lparr>nt_data := bt_insert ''aps'' (JObj []) (nt_data n)\<rparr>\<rparr>
      in case build_request X job 1000 of
           Inl error \<Rightarrow> invalid_payload_error error
         | Inr _ \<Rightarrow> False)"

definition classifies_apple_error_reasons :: bool where
  "classifies_apple_error_reasons \<longleftrightarrow>
     classify_apns_response 410 (Some ''Unregistered'') = InvalidToken
     \<and> classify_apns_response 400 (Some ''BadPriority'') = InvalidPayload
     \<and> classify_apns_response 429 (Some ''TooManyProviderTokenUpdates'') = Throttled
     \<and> classify_apns_response 503 (Some ''Shutdown'') = TransientProviderFailure
     \<and> classify_apns_response 403 (Some ''ExpiredProviderToken'') = PermanentProviderFailure"

definition apns_capture_send :: "http_request \<Rightarrow> http_response" where
  "apns_capture_send rq = reply_with 200 [(''apns-id'', ''mock-apns-id'')] ''''"

definition apns_sends_to_mock_endpoint :: "externals \<Rightarrow> apns_codec \<Rightarrow> bool" where
  "apns_sends_to_mock_endpoint X C \<longleftrightarrow>
     (let config = apns_for_test ''com.example.app'' Production (mock_url '''');
          (now, w) = instant_now (mock_world apns_capture_send);
          w = put_apns_token Production
            \<lparr>ct_value = fixture_provider_token, ct_expires_at = now + from_secs 60\<rparr> w
      in case pp_send (apns_provider X C config) (apns_test_job Production) w of
           (Inl _, w') \<Rightarrow> False
         | (Inr outcome, w') \<Rightarrow>
             po_class outcome = Accepted \<and> po_provider_code outcome = Some ''mock-apns-id''
             \<and> (case w_sent w' of
                  [rq] \<Rightarrow>
                    rq_auth rq = Bearer fixture_provider_token
                    \<and> map_of (rq_headers rq) ''apns-topic'' = Some ''com.example.app''
                    \<and> map_of (rq_headers rq) ''apns-push-type'' = Some ''alert''
                    \<and> url_as_str (rq_url rq) = url_as_str (mock_url (''3/device/'' @ fixture_device_token))
                    \<and> json_index (json_index (json_index (json_body rq) ''aps'') ''alert'') ''body'' = JStr ''World''
                | _ \<Rightarrow> False))"

definition rejects_target_environment_mismatch :: "externals \<Rightarrow> apns_codec \<Rightarrow> world \<Rightarrow> bool" where
  "rejects_target_environment_mismatch X C w \<longleftrightarrow>
     (case default_api_base_url X Production of
        None \<Rightarrow> False
      | Some u \<Rightarrow>
          let config = apns_for_test ''com.example.app'' Production u in
          case pp_send (apns_provider X C config) (apns_test_job Sandbox) w of
            (Inl error, w') \<Rightarrow> invalid_payload_error error
          | (Inr _, w') \<Rightarrow> False)"

lemma apns_tests:
  "validates_config_and_selects_environment_host test_externals C
   \<and> constructs_es256_header_and_team_claims
   \<and> cached_provider_token_is_reused test_externals no_apns_codec demo_world
   \<and> builds_alert_and_background_payloads test_externals
   \<and> rejects_reserved_aps test_externals
   \<and> classifies_apple_error_reasons
   \<and> apns_sends_to_mock_endpoint test_externals no_apns_codec
   \<and> rejects_target_environment_mismatch test_externals no_apns_codec demo_world"
  by code_simp

section \<open>FCM\<close>

definition service_account_json :: "string \<Rightarrow> string" where
  "service_account_json token_uri =
     ''{\"client_email\":\"push-test@example.invalid\",\"private_key\":\"not-a-real-private-key\",''
     @ ''\"project_id\":\"test-project\",\"token_uri\":\"'' @ token_uri @ ''\"}''"

definition service_account_document :: "string \<Rightarrow> fcm_document" where
  "service_account_document token_uri = \<lparr>fd_client_email = ''push-test@example.invalid'',
     fd_private_key = ''not-a-real-private-key'', fd_token_uri = token_uri,
     fd_project_id = Some ''test-project''\<rparr>"

text \<open>\<open>serde\<close> decodes the two documents the tests write.\<close>

definition fcm_test_codec :: fcm_codec where
  "fcm_test_codec = \<lparr>
     fx_document = map_of (map (\<lambda>uri. (service_account_json uri, service_account_document uri))
       [default_token_uri, ''http://oauth.example.invalid/token'']),
     fx_rsa_key = (\<lambda>pem. None), fx_encode = (\<lambda>claims key. None),
     fx_token_response = (\<lambda>s. None), fx_oauth_error = (\<lambda>s. None)\<rparr>"

definition fcm_test_job :: push_job where
  "fcm_test_job = \<lparr>
     pj_version = V1,
     pj_job_id = ''job-1'',
     pj_tenant_id = ''tenant-1'',
     pj_application_id = ''app-1'',
     pj_idempotency_key = ''event-1:user-1'',
     pj_provider = Fcm,
     pj_target = FcmTarget ''test-device'',
     pj_notification = \<lparr>nt_title = Some ''Hello'', nt_body = Some ''World'', nt_image_url = None,
       nt_data = bt_collect [(''enabled'', JBool True), (''count'', json_u64 3),
         (''nested'', JObj [(''a'', json_u64 1)])]\<rparr>,
     pj_options = \<lparr>op_ttl_seconds = Some 120, op_priority = High,
       op_collapse_key = Some ''status'', op_dry_run = True\<rparr>,
     pj_trace = default_trace\<rparr>"

definition parses_service_account_without_exposing_secrets :: "externals \<Rightarrow> fcm_codec \<Rightarrow> bool" where
  "parses_service_account_without_exposing_secrets X C \<longleftrightarrow>
     (case fcm_from_service_account_json X C (service_account_json default_token_uri) None of
        Inl _ \<Rightarrow> False
      | Inr config \<Rightarrow> fc_project_id config = ''test-project'')"

definition project_override_wins_and_invalid_urls_are_rejected :: "externals \<Rightarrow> fcm_codec \<Rightarrow> bool" where
  "project_override_wins_and_invalid_urls_are_rejected X C \<longleftrightarrow>
     (case fcm_from_service_account_json X C (service_account_json default_token_uri)
         (Some ''override-project'') of
        Inl _ \<Rightarrow> False
      | Inr config \<Rightarrow> fc_project_id config = ''override-project'')
     \<and> fcm_from_service_account_json X C (service_account_json ''http://oauth.example.invalid/token'') None
         = Err FcmInvalidTokenUri"

definition oauth_claims_match_fcm_scope_and_audience :: bool where
  "oauth_claims_match_fcm_scope_and_audience \<longleftrightarrow>
     (let claims = build_oauth_claims ''push-test@example.invalid'' default_token_uri 1000 in
      fcl_iss claims = ''push-test@example.invalid'' \<and> fcl_scope claims = fcm_scope
      \<and> fcl_aud claims = default_token_uri \<and> fcl_iat claims = 1000
      \<and> fcl_exp claims = 1000 + jwt_lifetime_seconds)"

definition builds_fcm_message_and_coerces_data_values_to_strings :: "externals \<Rightarrow> bool" where
  "builds_fcm_message_and_coerces_data_values_to_strings X \<longleftrightarrow>
     (let body = build_send_body X fcm_test_job ''test-device'';
          message = json_index body ''message'';
          d = json_index message ''data'';
          android = json_index message ''android''
      in json_index message ''token'' = JStr ''test-device''
         \<and> json_index (json_index message ''notification'') ''title'' = JStr ''Hello''
         \<and> json_index d ''enabled'' = JStr ''true''
         \<and> json_index d ''count'' = JStr ''3''
         \<and> json_index d ''nested'' = JStr ''{\"a\":1}''
         \<and> json_index android ''ttl'' = JStr ''120s''
         \<and> json_index android ''priority'' = JStr ''HIGH''
         \<and> json_index android ''collapse_key'' = JStr ''status''
         \<and> json_index body ''validate_only'' = JBool True)"

definition classifies_fcm_error_codes :: bool where
  "classifies_fcm_error_codes \<longleftrightarrow>
     (let unregistered = JObj [(''error'', JObj
            [(''details'', JArr [JObj [(''errorCode'', JStr ''UNREGISTERED'')]]),
             (''message'', JStr ''Requested entity was not found.''),
             (''status'', JStr ''NOT_FOUND'')])];
          quota = JObj [(''error'', JObj
            [(''details'', JArr [JObj [(''errorCode'', JStr ''QUOTA_EXCEEDED'')]]),
             (''status'', JStr ''RESOURCE_EXHAUSTED'')])];
          unavailable = JObj [(''error'', JObj [(''status'', JStr ''UNAVAILABLE'')])]
      in cf_class (classify_fcm_response 404 unregistered) = InvalidToken
         \<and> cf_class (classify_fcm_response 429 quota) = Throttled
         \<and> cf_class (classify_fcm_response 503 unavailable) = TransientProviderFailure)"

definition fcm_capture_send :: "http_request \<Rightarrow> http_response" where
  "fcm_capture_send rq = reply_with 200 [] ''{\"name\":\"projects/test-project/messages/message-1\"}''"

definition fcm_sends_to_mock_endpoint :: "externals \<Rightarrow> fcm_codec \<Rightarrow> bool" where
  "fcm_sends_to_mock_endpoint X C \<longleftrightarrow>
     (case fcm_from_service_account_json X C (service_account_json default_token_uri) None of
        Inl _ \<Rightarrow> False
      | Inr config \<Rightarrow>
          let config = config\<lparr>fc_api_base_url := mock_url ''''\<rparr>;
              (now, w) = instant_now (mock_world fcm_capture_send);
              w = put_fcm_token \<lparr>ct_value = ''test-access'', ct_expires_at = now + from_secs 60\<rparr> w
          in case pp_send (fcm_provider X C config) fcm_test_job w of
               (Inl _, w') \<Rightarrow> False
             | (Inr outcome, w') \<Rightarrow>
                 po_class outcome = Accepted
                 \<and> (case w_sent w' of
                      [rq] \<Rightarrow>
                        url_as_str (rq_url rq) = url_as_str (mock_url ''v1/projects/test-project/messages:send'')
                        \<and> rq_auth rq = Bearer ''test-access''
                        \<and> json_index (json_index (json_index (json_body rq) ''message'') ''data'') ''enabled''
                            = JStr ''true''
                    | _ \<Rightarrow> False))"

lemma fcm_tests:
  "parses_service_account_without_exposing_secrets test_externals fcm_test_codec
   \<and> project_override_wins_and_invalid_urls_are_rejected test_externals fcm_test_codec
   \<and> oauth_claims_match_fcm_scope_and_audience
   \<and> builds_fcm_message_and_coerces_data_values_to_strings test_externals
   \<and> classifies_fcm_error_codes
   \<and> fcm_sends_to_mock_endpoint test_externals fcm_test_codec"
  by code_simp

section \<open>Expo\<close>

definition expo_token :: "string \<Rightarrow> string" where
  "expo_token suffix = ''ExpoPushToken[fixture_'' @ suffix @ '']''"

definition expo_test_job :: "string \<Rightarrow> push_job" where
  "expo_test_job suffix = \<lparr>
     pj_version = V1,
     pj_job_id = ''job-'' @ suffix,
     pj_tenant_id = ''tenant-1'',
     pj_application_id = ''app-1'',
     pj_idempotency_key = ''event-'' @ suffix,
     pj_provider = Expo,
     pj_target = ExpoTarget (expo_token suffix),
     pj_notification = \<lparr>nt_title = Some ''Hello'', nt_body = Some ''World'',
       nt_image_url = Some ''https://cdn.example.invalid/image.jpg'',
       nt_data = [(''count'', json_u64 3)]\<rparr>,
     pj_options = \<lparr>op_ttl_seconds = Some 120, op_priority = High,
       op_collapse_key = Some ''inbox'', op_dry_run = False\<rparr>,
     pj_trace = default_trace\<rparr>"

definition validates_expo_token_shapes :: bool where
  "validates_expo_token_shapes \<longleftrightarrow>
     valid_expo_push_token (expo_token ''abcdefgh'')
     \<and> valid_expo_push_token ''ExponentPushToken[abcdefgh]''
     \<and> \<not> valid_expo_push_token ''ExpoPushToken[bad space]''
     \<and> \<not> valid_expo_push_token ''https://example.invalid/token''"

definition builds_message_fields :: bool where
  "builds_message_fields \<longleftrightarrow>
     (case build_message (expo_test_job ''one'') of
        Inl _ \<Rightarrow> False
      | Inr message \<Rightarrow>
          json_index message ''to'' = JStr (expo_token ''one'')
          \<and> json_index message ''title'' = JStr ''Hello''
          \<and> json_index message ''body'' = JStr ''World''
          \<and> json_index (json_index message ''data'') ''count'' = json_u64 3
          \<and> json_index (json_index message ''richContent'') ''image''
              = JStr ''https://cdn.example.invalid/image.jpg''
          \<and> json_index message ''ttl'' = json_u64 120
          \<and> json_index message ''priority'' = JStr ''high''
          \<and> json_index message ''collapseId'' = JStr ''inbox'')"

definition parses_http_200_ticket_errors :: "externals \<Rightarrow> bool" where
  "parses_http_200_ticket_errors X \<longleftrightarrow>
     (let ticket = \<lparr>tk_status = ''error'', tk_id = None,
            tk_message = Some ''device is no longer registered'',
            tk_details = Some (JObj [(''error'', JStr ''DeviceNotRegistered'')])\<rparr>;
          outcome = outcome_from_ticket X (expo_test_job ''one'') ticket
      in po_class outcome = InvalidToken \<and> po_provider_code outcome = Some ''DeviceNotRegistered'')"

definition classifies_receipt_errors :: "externals \<Rightarrow> bool" where
  "classifies_receipt_errors X \<longleftrightarrow>
     list_all (\<lambda>(code, expected).
         case receipt_request_new ''job-1'' (fingerprint_target X (pj_target (expo_test_job ''one''))) ''ticket-1'' of
           Inl _ \<Rightarrow> False
         | Inr request \<Rightarrow>
             po_class (outcome_from_receipt request \<lparr>rc_status = ''error'', rc_message = Some ''fixture error'',
               rc_details = Some (JObj [(''error'', JStr code)])\<rparr>) = expected)
       [(''DeviceNotRegistered'', InvalidToken), (''MessageTooBig'', InvalidPayload),
        (''MessageRateExceeded'', Throttled), (''MismatchSenderId'', PermanentProviderFailure),
        (''InvalidCredentials'', PermanentProviderFailure)]"

text \<open>The two handlers, as texts, with what \<open>serde\<close> reads from them.\<close>

definition tickets_text :: string where
  "tickets_text = ''{\"data\":[{\"id\":\"ticket-one\",\"status\":\"ok\"},''
     @ ''{\"details\":{\"error\":\"DeviceNotRegistered\"},\"message\":\"not registered\",\"status\":\"error\"}]}''"

definition receipts_text :: string where
  "receipts_text = ''{\"data\":{\"ticket-one\":{\"status\":\"ok\"},''
     @ ''\"ticket-two\":{\"details\":{\"error\":\"MessageRateExceeded\"},\"message\":\"too fast\",\"status\":\"error\"}}}''"

definition expo_test_codec :: expo_codec where
  "expo_test_codec = \<lparr>
     ex_send_response = map_of [(tickets_text, \<lparr>sr_data = Some
       [\<lparr>tk_status = ''ok'', tk_id = Some ''ticket-one'', tk_message = None, tk_details = None\<rparr>,
        \<lparr>tk_status = ''error'', tk_id = None, tk_message = Some ''not registered'',
          tk_details = Some (JObj [(''error'', JStr ''DeviceNotRegistered'')])\<rparr>],
       sr_errors = None\<rparr>)],
     ex_receipt_response = map_of [(receipts_text, \<lparr>rr_data = Some
       [(''ticket-one'', \<lparr>rc_status = ''ok'', rc_message = None, rc_details = None\<rparr>),
        (''ticket-two'', \<lparr>rc_status = ''error'', rc_message = Some ''too fast'',
          rc_details = Some (JObj [(''error'', JStr ''MessageRateExceeded'')])\<rparr>)],
       rr_errors = None\<rparr>)]\<rparr>"

definition expo_handlers :: "http_request \<Rightarrow> http_response" where
  "expo_handlers rq = reply_with 200 []
     (if ends_with ''/send'' (url_as_str (rq_url rq)) then tickets_text else receipts_text)"

definition expo_for_test :: "url \<Rightarrow> url \<Rightarrow> string option \<Rightarrow> expo_config" where
  "expo_for_test send_url receipts_url access_token =
     \<lparr>xc_access_token = access_token, xc_send_url = send_url, xc_receipts_url = receipts_url,
      xc_request_timeout = from_secs 20\<rparr>"

definition sends_batches_and_processes_receipts_with_optional_auth :: "externals \<Rightarrow> expo_codec \<Rightarrow> bool" where
  "sends_batches_and_processes_receipts_with_optional_auth X C \<longleftrightarrow>
     (let config = expo_for_test (mock_url ''send'') (mock_url ''receipts'') (Some ''fixture-access'');
          jobs = [expo_test_job ''one'', expo_test_job ''two''];
          fingerprint = (\<lambda>job. fingerprint_target X (pj_target job))
      in case send_batch X C config jobs (mock_world expo_handlers) of
           (Inr [first, second], w) \<Rightarrow>
             po_class first = Accepted \<and> po_provider_code first = Some ''ticket-one''
             \<and> po_class second = InvalidToken
             \<and> (case w_sent w of
                  [rq] \<Rightarrow> rq_auth rq = Bearer ''fixture-access''
                    \<and> json_index (json_nth (json_body rq) 0) ''to'' = JStr (expo_token ''one'')
                | _ \<Rightarrow> False)
             \<and> (case (receipt_request_new ''job-one'' (fingerprint (jobs ! 0)) ''ticket-one'',
                   receipt_request_new ''job-two'' (fingerprint (jobs ! 1)) ''ticket-two'') of
                  (Inr one, Inr two) \<Rightarrow>
                    (case get_receipts X C config [one, two] w of
                       (Inr [first, second], w') \<Rightarrow>
                         po_class first = Accepted \<and> po_class second = Throttled
                         \<and> json_index (json_body (last (w_sent w'))) ''ids''
                             = JArr [JStr ''ticket-one'', JStr ''ticket-two'']
                     | _ \<Rightarrow> False)
                | _ \<Rightarrow> False)
         | _ \<Rightarrow> False)"

lemma expo_tests:
  "validates_expo_token_shapes
   \<and> builds_message_fields
   \<and> parses_http_200_ticket_errors test_externals
   \<and> classifies_receipt_errors test_externals
   \<and> sends_batches_and_processes_receipts_with_optional_auth test_externals expo_test_codec"
  by code_simp

end
