(* ===== verification/Contact_Tests.thy ===== *)
theory Contact_Tests
  imports Test_Fixtures Contact_Runtime
begin

text \<open>
  The unit tests of \<open>contact/*.rs\<close> below the HTTP layer, run on the model as in theories
  Push_Tests and Test_Fixtures.
\<close>

section \<open>Contracts and validation\<close>

definition contact_target_fingerprints_do_not_expose_capabilities :: "externals \<Rightarrow> bool" where
  "contact_target_fingerprints_do_not_expose_capabilities X \<longleftrightarrow>
     (let email = contact_fingerprint X (EmailTarget ''person@example.com'' None);
          sms = contact_fingerprint X (SmsTarget ''+15551234567'')
      in \<not> contains_str ''person'' email \<and> \<not> contains_str ''5551234567'' sms \<and> email \<noteq> sms)"

definition providers_are_derived_from_target_and_content :: bool where
  "providers_are_derived_from_target_and_content \<longleftrightarrow>
     contact_target_provider (SmsTarget ''+15551234567'') = Twilio
     \<and> content_provider (SmsContent ''Hello'') = Twilio"

definition email_job :: "contact_content \<Rightarrow> contact_job" where
  "email_job content = \<lparr>
     cj_version = V1,
     cj_job_id = ''job-1'',
     cj_tenant_id = ''tenant-1'',
     cj_application_id = ''app-1'',
     cj_idempotency_key = ''event-1'',
     cj_provider = Sendgrid,
     cj_target = EmailTarget ''person@example.com'' (Some ''Person''),
     cj_content = content,
     cj_trace = default_trace\<rparr>"

definition no_email_content :: email_content where
  "no_email_content = \<lparr>ec_subject = None, ec_text = None, ec_html = None, ec_template_id = None,
     ec_dynamic_template_data = [], ec_reply_to = None\<rparr>"

definition accepts_explicit_and_template_email_modes :: "externals \<Rightarrow> bool" where
  "accepts_explicit_and_template_email_modes X \<longleftrightarrow>
     validate_contact_job X (email_job (EmailContent (no_email_content
       \<lparr>ec_subject := Some ''Hello'', ec_text := Some ''Hello'',
         ec_reply_to := Some ''support@example.com''\<rparr>))) = Ok ()
     \<and> validate_contact_job X (email_job (EmailContent (no_email_content
       \<lparr>ec_template_id := Some ''d-0123456789abcdef'',
         ec_dynamic_template_data := [(''name'', JStr ''Person'')]\<rparr>))) = Ok ()"

definition rejects_ambiguous_email_modes_and_bad_targets :: "externals \<Rightarrow> bool" where
  "rejects_ambiguous_email_modes_and_bad_targets X \<longleftrightarrow>
     (case validate_contact_job X (email_job (EmailContent (no_email_content
         \<lparr>ec_subject := Some ''ignored'', ec_template_id := Some ''d-template''\<rparr>))) of
        Inr _ \<Rightarrow> False
      | Inl errors \<Rightarrow> InvalidEmailContentMode \<in> set errors)
     \<and> \<not> valid_email_address ''person @example.com''
     \<and> \<not> valid_e164 ''5551234567''"

text \<open>\<open>\r\n\<close>\<close>

definition crlf :: string where "crlf = [CHR 0x0D, CHR 0x0A]"

definition rejects_control_characters_in_subject_and_display_name :: "externals \<Rightarrow> bool" where
  "rejects_control_characters_in_subject_and_display_name X \<longleftrightarrow>
     (case validate_contact_job X (email_job (EmailContent (no_email_content
         \<lparr>ec_subject := Some (''Hello'' @ crlf @ ''Bcc: attacker@example.invalid''),
           ec_text := Some ''Body''\<rparr>))) of
        Inr _ \<Rightarrow> False
      | Inl errors \<Rightarrow> ContactInvalidCharacters ''content.subject'' \<in> set errors)
     \<and> (let job = email_job (EmailContent (no_email_content
              \<lparr>ec_subject := Some ''Hello'', ec_text := Some ''Body''\<rparr>));
            job = job\<lparr>cj_target := EmailTarget ''person@example.com'' (Some (''Evil'' @ crlf @ ''Name''))\<rparr>
        in case validate_contact_job X job of
             Inr _ \<Rightarrow> False
           | Inl errors \<Rightarrow> ContactInvalidCharacters ''target.email.name'' \<in> set errors)"

definition sms_job :: "string \<Rightarrow> contact_job" where
  "sms_job body = \<lparr>
     cj_version = V1,
     cj_job_id = ''job-1'',
     cj_tenant_id = ''tenant-1'',
     cj_application_id = ''app-1'',
     cj_idempotency_key = ''event-1'',
     cj_provider = Twilio,
     cj_target = SmsTarget ''+15551234567'',
     cj_content = SmsContent body,
     cj_trace = default_trace\<rparr>"

definition enforces_twilio_character_limit :: "externals \<Rightarrow> bool" where
  "enforces_twilio_character_limit X \<longleftrightarrow>
     (case validate_contact_job X (sms_job (replicate (max_sms_characters + 1) CHR ''x'')) of
        Inr _ \<Rightarrow> False
      | Inl errors \<Rightarrow> SmsTooLong max_sms_characters \<in> set errors)"

lemma contact_contract_tests:
  "contact_target_fingerprints_do_not_expose_capabilities test_externals
   \<and> providers_are_derived_from_target_and_content"
  by code_simp

lemma contact_validation_tests:
  "accepts_explicit_and_template_email_modes test_externals
   \<and> rejects_ambiguous_email_modes_and_bad_targets test_externals
   \<and> rejects_control_characters_in_subject_and_display_name test_externals"
  by code_simp

lemma sms_limit_test: "enforces_twilio_character_limit X"
proof -
  have "length (chars (replicate n CHR ''x'')) = n" for n
    by (induction n) simp_all
  then have "SmsTooLong max_sms_characters
      \<in> set (contact_job_errors X (sms_job (replicate (max_sms_characters + 1) CHR ''x'')))"
    by (simp add: contact_job_errors_def sms_job_def then_some_def del: replicate_Suc)
  then show ?thesis
    by (auto simp: enforces_twilio_character_limit_def validate_contact_job_def Let_def)
qed

section \<open>Dispatch and rate limiter\<close>

definition contact_accepting_provider :: "externals \<Rightarrow> contact_provider_kind \<Rightarrow> contact_provider" where
  "contact_accepting_provider X kind = \<lparr>cp_kind = kind, cp_readiness = readiness_ready,
     cp_send = (\<lambda>job w. (Ok (contact_accepted X job (Some ''accepted-id'')), w))\<rparr>"

definition dispatch_email_job :: contact_job where
  "dispatch_email_job = (email_job (EmailContent (no_email_content
     \<lparr>ec_subject := Some ''Hello'', ec_text := Some ''World''\<rparr>)))
       \<lparr>cj_target := EmailTarget ''person@example.com'' None\<rparr>"

definition dispatches_to_the_registered_contact_provider :: "externals \<Rightarrow> contact_world \<Rightarrow> bool" where
  "dispatches_to_the_registered_contact_provider X w \<longleftrightarrow>
     (let registry = contact_with_provider contact_registry_new (contact_accepting_provider X Sendgrid) in
      case contact_dispatch registry dispatch_email_job w of
        (Inl _, w') \<Rightarrow> False
      | (Inr outcome, w') \<Rightarrow> co_provider outcome = Sendgrid \<and> co_provider_code outcome = Some ''accepted-id'')"

definition configured_rate_limit_throttles_before_provider_send :: "externals \<Rightarrow> contact_world \<Rightarrow> bool" where
  "configured_rate_limit_throttles_before_provider_send X w \<longleftrightarrow>
     (let registry = contact_with_provider contact_registry_new (contact_accepting_provider X Sendgrid);
          (registry, w) = contact_with_rate_limit registry Sendgrid 1 w
      in case contact_dispatch registry dispatch_email_job w of
           (Inl _, w) \<Rightarrow> False
         | (Inr _, w) \<Rightarrow>
             (case contact_dispatch registry dispatch_email_job w of
                (Inl (ContactDelivery class _ _ _), w) \<Rightarrow> class = ContactThrottled
              | _ \<Rightarrow> False))"

definition missing_providers_are_not_ready :: bool where
  "missing_providers_are_not_ready \<longleftrightarrow>
     (let readiness = contact_registry_readiness_of contact_registry_new in
      \<not> rv_configured (crr_sendgrid readiness) \<and> \<not> rv_configured (crr_twilio readiness))"

text \<open>A limiter, and calls at given instants.\<close>

definition bucket_allows_burst_then_returns_retry_hint :: "duration \<Rightarrow> duration list \<Rightarrow> bool" where
  "bucket_allows_burst_then_returns_retry_hint created calls \<longleftrightarrow>
     (let b = limiter_per_minute 2 created;
          (first, b) = try_take b (calls ! 0);
          (second, b) = try_take b (calls ! 1);
          (third, b) = try_take b (calls ! 2)
      in first = Ok () \<and> second = Ok ()
         \<and> (case third of Inr _ \<Rightarrow> False | Inl retry \<Rightarrow> 0 < retry \<and> retry \<le> from_secs 60))"

text \<open>A world whose clock stands still while the test runs.\<close>

definition still_contact_world :: "duration \<Rightarrow> contact_world" where
  "still_contact_world t = \<lparr>cw_world = demo_world\<lparr>w_monotonic_clock := (\<lambda>n. t)\<rparr>, cw_buckets = []\<rparr>"

lemma take_token:
  assumes "bucket_wf n b" "tb_last b = t" "tb_tokens b = of_nat (Suc m)"
  shows "try_take b t = (Ok (), b\<lparr>tb_tokens := of_nat m\<rparr>)"
proof -
  have "(of_nat m :: rat) + 1 \<le> of_nat n" "n < 2 ^ 32" using assms by (simp_all add: bucket_wf_def)
  then have "Suc m \<le> n" by (metis of_nat_Suc add.commute of_nat_le_iff)
  with \<open>n < 2 ^ 32\<close> have "f64 (of_nat m) = of_nat m" by (intro f64_nat) simp
  with assms show ?thesis
    using refilled_same_instant [OF assms] by (simp add: try_take_def Let_def)
qed

lemma no_token:
  "bucket_wf n b \<Longrightarrow> tb_last b = t \<Longrightarrow> tb_tokens b = 0 \<Longrightarrow>
     \<exists>hint. try_take b t = (Err hint, b) \<and> from_millis 50 \<le> hint \<and> hint \<le> from_secs 60"
  using refilled_same_instant [of n b t 0] retry_hint_bounds
  by (simp add: try_take_def Let_def)

lemma fresh_limiter:
  "tb_tokens (limiter_per_minute limit t) = of_nat (limit_of limit)"
  "tb_last (limiter_per_minute limit t) = t"
  using limit_of_bounds(1) [of limit]
  by (simp_all add: limiter_per_minute_def bucket_new_def Let_def max_def)

lemma rate_limit_tests: "bucket_allows_burst_then_returns_retry_hint t [t, t, t]"
proof -
  let ?b = "limiter_per_minute 2 t"
  have two: "limit_of 2 = 2" by code_simp
  have wf: "bucket_wf 2 ?b" using limiter_wf [of 2 t] by (simp add: two)
  have first: "try_take ?b t = (Ok (), ?b\<lparr>tb_tokens := 1\<rparr>)"
    using take_token [of 2 ?b t 1] wf by (simp add: fresh_limiter two)
  have second: "try_take (?b\<lparr>tb_tokens := 1\<rparr>) t = (Ok (), ?b\<lparr>tb_tokens := 0\<rparr>)"
    using take_token [of 2 "?b\<lparr>tb_tokens := 1\<rparr>" t 0] wf
    by (simp add: fresh_limiter bucket_wf_def)
  obtain hint where third: "try_take (?b\<lparr>tb_tokens := 0\<rparr>) t = (Err hint, ?b\<lparr>tb_tokens := 0\<rparr>)"
    "from_millis 50 \<le> hint" "hint \<le> from_secs 60"
    using no_token [of 2 "?b\<lparr>tb_tokens := 0\<rparr>" t] wf
    by (auto simp: fresh_limiter bucket_wf_def)
  from third(2) have "0 < hint" by (simp add: from_millis_def)
  with third show ?thesis
    by (simp add: bucket_allows_burst_then_returns_retry_hint_def first second)
qed

lemma contact_dispatch_tests:
  "dispatches_to_the_registered_contact_provider X w"
  "missing_providers_are_not_ready"
  by (simp_all add: dispatches_to_the_registered_contact_provider_def missing_providers_are_not_ready_def
      contact_dispatch_def contact_with_provider_def contact_accepting_provider_def dispatch_email_job_def
      email_job_def contact_registry_new_def on_contact_world_def contact_accepted_def Let_def
      contact_registry_readiness_of_def contact_readiness_def readiness_view_of_def readiness_not_ready_def
      split: prod.splits)

lemma throttle_test: "configured_rate_limit_throttles_before_provider_send X (still_contact_world t)"
proof -
  let ?b = "limiter_per_minute 1 t"
  have one: "limit_of 1 = 1" by code_simp
  have wf: "bucket_wf 1 ?b" using limiter_wf [of 1 t] by (simp add: one)
  have first: "try_take ?b t = (Ok (), ?b\<lparr>tb_tokens := 0\<rparr>)"
    using take_token [of 1 ?b t 0] wf by (simp add: fresh_limiter one)
  obtain hint where second: "try_take (?b\<lparr>tb_tokens := 0\<rparr>) t = (Err hint, ?b\<lparr>tb_tokens := 0\<rparr>)"
    using no_token [of 1 "?b\<lparr>tb_tokens := 0\<rparr>" t] wf by (auto simp: fresh_limiter bucket_wf_def)
  show ?thesis
    by (simp add: configured_rate_limit_throttles_before_provider_send_def still_contact_world_def
        contact_with_rate_limit_def new_limiter_def instant_now_def contact_dispatch_def try_acquire_def
        contact_with_provider_def contact_accepting_provider_def dispatch_email_job_def email_job_def
        contact_registry_new_def on_contact_world_def first second contact_throttled_def contact_delivery_def)
qed

section \<open>Providers\<close>

text \<open>The strings of an outcome's JSON text.\<close>

definition contact_outcome_texts :: "contact_outcome \<Rightarrow> string" where
  "contact_outcome_texts outcome = co_job_id outcome @ co_target_fingerprint outcome
     @ unwrap_or [] (co_provider_code outcome) @ unwrap_or [] (co_safe_detail outcome)"

definition long_contact_text :: string where
  "long_contact_text = concat (replicate 600 [CHR 0xC3, CHR 0xA9])"

definition provider_errors_bound_safe_text :: bool where
  "provider_errors_bound_safe_text \<longleftrightarrow>
     (let error = ''internal contact provider failure: '' @ contact_error_detail (contact_internal long_contact_text)
      in length error < length long_contact_text \<and> valid_utf8 error)"

definition explicit_job :: contact_job where
  "explicit_job = email_job (EmailContent (no_email_content
     \<lparr>ec_subject := Some ''Hello'', ec_text := Some ''Plain'', ec_html := Some ''<p>Hello</p>'',
       ec_reply_to := Some ''support@example.com''\<rparr>))"

definition builds_explicit_and_template_payloads_without_sender_override :: "externals \<Rightarrow> bool" where
  "builds_explicit_and_template_payloads_without_sender_override X \<longleftrightarrow>
     (case sendgrid_config_new X ''SG.fixture-key-that-is-long-enough'' ''verified@example.com''
         (Some ''Verified Sender'') GlobalRegion of
        Inl _ \<Rightarrow> False
      | Inr config \<Rightarrow>
          let config = sendgrid_with_sandbox_mode config True;
              template = explicit_job\<lparr>cj_content := EmailContent (no_email_content
                \<lparr>ec_template_id := Some ''d-0123456789abcdef'',
                  ec_dynamic_template_data := [(''name'', JStr ''Person'')]\<rparr>)\<rparr>
          in case (build_mail_send_body explicit_job config, build_mail_send_body template config) of
               (Inr explicit, Inr payload) \<Rightarrow>
                 json_index (json_index explicit ''from'') ''email'' = JStr ''verified@example.com''
                 \<and> json_index (json_nth (json_index (json_nth (json_index explicit ''personalizations'') 0) ''to'') 0)
                     ''email'' = JStr ''person@example.com''
                 \<and> json_index (json_index (json_index explicit ''mail_settings'') ''sandbox_mode'') ''enable''
                     = JBool True
                 \<and> json_index payload ''template_id'' = JStr ''d-0123456789abcdef''
                 \<and> json_index (json_index (json_nth (json_index payload ''personalizations'') 0)
                     ''dynamic_template_data'') ''name'' = JStr ''Person''
                 \<and> json_get payload ''content'' = None
             | _ \<Rightarrow> False)"

definition sendgrid_error_text :: string where
  "sendgrid_error_text = ''{\"errors\":[{\"message\":\"invalid recipient person@example.com\",''
     @ ''\"field\":\"personalizations.0.to.0.email\"}]}''"

definition sendgrid_test_codec :: sendgrid_codec where
  "sendgrid_test_codec = \<lparr>sgx_error_fields =
     map_of [(sendgrid_error_text, [Some ''personalizations.0.to.0.email''])]\<rparr>"

definition classifies_failures_without_echoing_provider_body :: "sendgrid_codec \<Rightarrow> bool" where
  "classifies_failures_without_echoing_provider_body C \<longleftrightarrow>
     (case classify_sendgrid_failure C 400 sendgrid_error_text None of
        (class, detail, code) \<Rightarrow> class = ContactInvalidPayload
          \<and> \<not> contains_str ''person@example.com'' detail \<and> code = Some ''http_400'')"

definition sendgrid_capture_send :: "http_request \<Rightarrow> http_response" where
  "sendgrid_capture_send rq = reply_with 202 [(''x-message-id'', ''message-1'')] ''''"

definition sendgrid_sends_to_mock_endpoint :: "externals \<Rightarrow> sendgrid_codec \<Rightarrow> bool" where
  "sendgrid_sends_to_mock_endpoint X C \<longleftrightarrow>
     (case sendgrid_config_new X ''SG.fixture-key-that-is-long-enough'' ''verified@example.com'' None
         GlobalRegion of
        Inl _ \<Rightarrow> False
      | Inr config \<Rightarrow>
          let config = config\<lparr>sg_api_base_url := mock_url ''''\<rparr> in
          case cp_send (sendgrid_provider X C config) explicit_job (mock_world sendgrid_capture_send) of
            (Inl _, w) \<Rightarrow> False
          | (Inr outcome, w) \<Rightarrow>
              co_class outcome = ContactAccepted \<and> co_provider_code outcome = Some ''message-1''
              \<and> co_target_fingerprint outcome = contact_fingerprint X (cj_target explicit_job)
              \<and> (case w_sent w of
                   [rq] \<Rightarrow> url_as_str (rq_url rq) = url_as_str (mock_url ''v3/mail/send'')
                     \<and> rq_auth rq = Bearer ''SG.fixture-key-that-is-long-enough''
                 | _ \<Rightarrow> False)
              \<and> \<not> contains_str ''person@example.com'' (contact_outcome_texts outcome))"

lemma sendgrid_tests:
  "builds_explicit_and_template_payloads_without_sender_override test_externals
   \<and> classifies_failures_without_echoing_provider_body sendgrid_test_codec
   \<and> sendgrid_sends_to_mock_endpoint test_externals sendgrid_test_codec"
  by code_simp

lemma contact_provider_tests: "provider_errors_bound_safe_text"
proof -
  have wf: "valid_utf8 (concat (replicate n [CHR 0xC3, CHR 0xA9]))" for n
    by (induction n) (simp_all add: is_cont_byte_def utf8_tail_def)
  have len: "length long_contact_text = 1200"
    by (simp add: long_contact_text_def length_concat sum_list_replicate)
  have "valid_utf8 (truncate_utf8 long_contact_text 512)"
    by (rule truncate_valid) (simp add: long_contact_text_def wf)
  moreover have "length (truncate_utf8 long_contact_text 512) \<le> 512" by (rule truncate_length)
  ultimately show ?thesis
    using len
    by (cases "truncate_utf8 long_contact_text 512")
      (simp_all add: provider_errors_bound_safe_text_def contact_internal_def max_safe_error_bytes_def
        is_cont_byte_def utf8_tail_def)
qed

section \<open>Twilio\<close>

definition fixture_sid :: "string \<Rightarrow> string" where
  "fixture_sid prefix = prefix @ replicate 32 CHR ''0''"

definition supports_messaging_services_status_callbacks_and_validity_periods :: "externals \<Rightarrow> bool" where
  "supports_messaging_services_status_callbacks_and_validity_periods X \<longleftrightarrow>
     (case and_then (twilio_config_new X (fixture_sid ''AC'')
         (AuthToken ''fixture-auth-token-that-is-long-enough'') (MessagingService (fixture_sid ''MG''))) (\<lambda>config.
       case x_parse_url X ''https://callbacks.example.com/twilio/status'' of
         None \<Rightarrow> Err InvalidStatusCallbackUrl
       | Some callback \<Rightarrow> and_then (with_status_callback_url config callback) (\<lambda>config.
           with_validity_period_seconds config 600)) of
        Inl _ \<Rightarrow> False
      | Inr config \<Rightarrow>
          (case build_twilio_form (sms_job ''Hello'') config of
             Inl _ \<Rightarrow> False
           | Inr form \<Rightarrow>
               map_of form ''MessagingServiceSid'' = Some (fixture_sid ''MG'')
               \<and> map_of form ''ValidityPeriod'' = Some ''600''
               \<and> map_of form ''StatusCallback'' = Some ''https://callbacks.example.com/twilio/status''
               \<and> \<not> contains_key form ''From''))"

definition classifies_invalid_targets_and_throttling_without_recipient_leakage :: "externals \<Rightarrow> bool" where
  "classifies_invalid_targets_and_throttling_without_recipient_leakage X \<longleftrightarrow>
     (let job = sms_job ''Hello'';
          invalid = outcome_for_twilio_error X job 400 (Some 21211) None;
          throttled = outcome_for_twilio_error X job 429 None (Some (from_secs 3))
      in co_class invalid = ContactInvalidTarget
         \<and> \<not> contains_str ''+15551234567'' (contact_outcome_texts invalid)
         \<and> co_class throttled = ContactThrottled \<and> co_retry_after_ms throttled = Some 3000)"

definition message_text :: string where
  "message_text = ''{\"error_code\":null,\"sid\":\"'' @ fixture_sid ''SM'' @ ''\",\"status\":\"queued\"}''"

definition twilio_test_codec :: twilio_codec where
  "twilio_test_codec = \<lparr>twx_message = map_of [(message_text,
     \<lparr>tm_sid = Some (fixture_sid ''SM''), tm_code = None, tm_error_code = None\<rparr>)]\<rparr>"

definition twilio_capture_send :: "http_request \<Rightarrow> http_response" where
  "twilio_capture_send rq = reply_with 201 [] message_text"

definition twilio_sends_to_mock_endpoint :: "externals \<Rightarrow> twilio_codec \<Rightarrow> bool" where
  "twilio_sends_to_mock_endpoint X C \<longleftrightarrow>
     (case twilio_config_new X (fixture_sid ''AC'')
         (ApiKey (fixture_sid ''SK'') ''fixture-api-key-secret-that-is-long-enough'')
         (MessagingService (fixture_sid ''MG'')) of
        Inl _ \<Rightarrow> False
      | Inr config \<Rightarrow>
          let config = config\<lparr>tw_api_base_url := mock_url ''''\<rparr> in
          case cp_send (twilio_provider X C config) (sms_job ''Hello'') (mock_world twilio_capture_send) of
            (Inl _, w) \<Rightarrow> False
          | (Inr outcome, w) \<Rightarrow>
              co_class outcome = ContactAccepted
              \<and> co_provider_code outcome = Some (fixture_sid ''SM'')
              \<and> (case w_sent w of
                   [rq] \<Rightarrow>
                     (case rq_auth rq of Basic _ _ \<Rightarrow> True | _ \<Rightarrow> False)
                     \<and> (case rq_body rq of FormBody form \<Rightarrow> map_of form ''To'' = Some ''+15551234567'' | _ \<Rightarrow> False)
                 | _ \<Rightarrow> False)
              \<and> \<not> contains_str ''+15551234567'' (contact_outcome_texts outcome))"

lemma twilio_tests:
  "supports_messaging_services_status_callbacks_and_validity_periods test_externals
   \<and> classifies_invalid_targets_and_throttling_without_recipient_leakage test_externals
   \<and> twilio_sends_to_mock_endpoint test_externals twilio_test_codec"
  by code_simp

section \<open>Configuration\<close>

definition parses_sendgrid_regions :: bool where
  "parses_sendgrid_regions \<longleftrightarrow>
     parse_sendgrid_region None = Ok GlobalRegion
     \<and> parse_sendgrid_region (Some ''EU'') = Ok EuropeRegion
     \<and> isl (parse_sendgrid_region (Some ''moon''))"

text \<open>The texts of the errors are constants with the variable's name; the value is not in them.\<close>

definition validates_sendgrid_key_shape_without_echoing_values :: bool where
  "validates_sendgrid_key_shape_without_echoing_values \<longleftrightarrow>
     validate_sendgrid_api_key (''SG.'' @ replicate 22 CHR ''a'' @ ''.'' @ replicate 43 CHR ''b'') = Ok ()
     \<and> validate_sendgrid_api_key ''not-a-sendgrid-key'' = Err InvalidSendgridKey"

definition rejects_provider_credential_whitespace_without_echoing_values :: bool where
  "rejects_provider_credential_whitespace_without_echoing_values \<longleftrightarrow>
     validate_provider_credential ''TWILIO_AUTH_TOKEN'' ''secret with whitespace''
       = Err (InvalidProviderCredential ''TWILIO_AUTH_TOKEN'')"

definition rejects_ambiguous_twilio_configuration :: bool where
  "rejects_ambiguous_twilio_configuration \<longleftrightarrow>
     twilio_credentials_of (Some ''auth-token-that-is-long-enough'')
         (Some (''SK'' @ replicate 32 CHR ''0'')) (Some ''api-key-secret-that-is-long-enough'')
       = Err AmbiguousTwilioCredentials
     \<and> twilio_sender_of (Some (''MG'' @ replicate 32 CHR ''0'')) (Some ''+15551234567'')
       = Err AmbiguousTwilioSender"

definition rejects_invalid_rate_limits :: "environment \<Rightarrow> bool" where
  "rejects_invalid_rate_limits env \<longleftrightarrow>
     positive_u32_env env ''FANWAAVE_TEST_RATE_LIMIT_NOT_SET'' 60 = Ok 60"

lemma contact_runtime_tests:
  "parses_sendgrid_regions
   \<and> validates_sendgrid_key_shape_without_echoing_values
   \<and> rejects_provider_credential_whitespace_without_echoing_values
   \<and> rejects_ambiguous_twilio_configuration"
  by code_simp

lemma rate_variable_test:
  "env ''FANWAAVE_TEST_RATE_LIMIT_NOT_SET'' = NotPresent \<Longrightarrow> rejects_invalid_rate_limits env"
  by (simp add: rejects_invalid_rate_limits_def positive_u32_env_def non_empty_env_def env_ok_def)

end
