(* ===== verification/Service_Tests.thy ===== *)
theory Service_Tests
  imports Push_Tests Contact_Tests Worker Server
begin

text \<open>
  The unit tests of the HTTP and queue front ends and of the server's start, run on the model.
  Requests reach the router with a stand-in extractor that yields the fixture job; the flag parser
  is a stand-in that knows the three options \<open>.cli-flags.toml\<close> declares.
\<close>

section \<open>The push API\<close>

definition http_job :: push_job where
  "http_job = \<lparr>
     pj_version = V1,
     pj_job_id = ''job-1'',
     pj_tenant_id = ''tenant-1'',
     pj_application_id = ''app-1'',
     pj_idempotency_key = ''event-1'',
     pj_provider = Fcm,
     pj_target = FcmTarget ''fixture-token-123'',
     pj_notification = empty_notification\<lparr>nt_title := Some ''Hello'',
       nt_data := [(''count'', json_u64 1)]\<rparr>,
     pj_options = default_options,
     pj_trace = default_trace\<rparr>"

definition repeated_secret :: string where
  "repeated_secret = replicate 32 CHR ''x''"

definition bearer_headers :: header_map where
  "bearer_headers = [''authorization'' \<mapsto> ''Bearer '' @ repeated_secret]"

definition authenticated_state :: "externals \<Rightarrow> api_state option" where
  "authenticated_state X =
     (case with_provider registry_new SlotFcm (accepting_provider X Fcm) of
        Inl _ \<Rightarrow> None
      | Inr registry \<Rightarrow>
          (case shared_secret_new repeated_secret of
             Inl _ \<Rightarrow> None
           | Inr secret \<Rightarrow> Some \<lparr>as_registry = registry,
               as_authenticator = shared_secret_authenticator secret\<rparr>))"

definition oneshot :: "externals \<Rightarrow> api_state \<Rightarrow> header_map \<Rightarrow> push_job \<Rightarrow> http_reply" where
  "oneshot X st headers job = fst (push_router X (\<lambda>limit body. Ok job) (\<lambda>limit body. Ok [])
     st headers (PostJob ''{}'') demo_world)"

definition oneshot_batch :: "externals \<Rightarrow> api_state \<Rightarrow> header_map \<Rightarrow> push_job list \<Rightarrow> http_reply" where
  "oneshot_batch X st headers jobs = fst (push_router X (\<lambda>limit body. Err (400, ''not a job''))
     (\<lambda>limit body. Ok jobs) st headers (PostBatch ''{}'') demo_world)"

lemma oneshot_code [code]: "oneshot X st headers job = fst (submit_job X st headers job demo_world)"
  by (simp add: oneshot_def with_extracted_def)

lemma oneshot_batch_code [code]:
  "oneshot_batch X st headers jobs = fst (submit_batch X st headers jobs demo_world)"
  by (simp add: oneshot_batch_def with_extracted_def)

definition fails_closed_without_auth_configuration :: "externals \<Rightarrow> bool" where
  "fails_closed_without_auth_configuration X \<longleftrightarrow>
     hr_status (oneshot X \<lparr>as_registry = registry_new, as_authenticator = deny_all_authenticator\<rparr>
       Map.empty http_job) = 401"

definition authenticates_and_dispatches_a_job :: "externals \<Rightarrow> bool" where
  "authenticates_and_dispatches_a_job X \<longleftrightarrow>
     (case authenticated_state X of
        None \<Rightarrow> False
      | Some st \<Rightarrow>
          let response = oneshot X st bearer_headers http_job
          in hr_status response = 202
             \<and> (case hr_body response of OutcomeBody outcome \<Rightarrow> po_class outcome = Accepted | _ \<Rightarrow> False))"

definition validation_failures_do_not_echo_capability_tokens :: "externals \<Rightarrow> bool" where
  "validation_failures_do_not_echo_capability_tokens X \<longleftrightarrow>
     (case authenticated_state X of
        None \<Rightarrow> False
      | Some st \<Rightarrow>
          let invalid = http_job\<lparr>pj_notification := empty_notification\<rparr>;
              response = oneshot X st bearer_headers invalid
          in hr_status response = 400
             \<and> (case hr_body response of
                  OutcomeBody outcome \<Rightarrow>
                    \<not> contains_str ''fixture-token-123'' (push_outcome_texts outcome)
                | _ \<Rightarrow> False))"

definition rejects_oversized_batches_before_dispatch :: "externals \<Rightarrow> bool" where
  "rejects_oversized_batches_before_dispatch X \<longleftrightarrow>
     (case authenticated_state X of
        None \<Rightarrow> False
      | Some st \<Rightarrow>
          hr_status (oneshot_batch X st bearer_headers (replicate (max_batch_jobs + 1) http_job)) = 400)"

lemma http_api_tests:
  "fails_closed_without_auth_configuration X
   \<and> authenticates_and_dispatches_a_job test_externals
   \<and> validation_failures_do_not_echo_capability_tokens test_externals
   \<and> rejects_oversized_batches_before_dispatch X"
  by code_simp

section \<open>The contact API\<close>

definition http_contact_provider :: "externals \<Rightarrow> contact_provider" where
  "http_contact_provider X = \<lparr>cp_kind = Sendgrid, cp_readiness = readiness_ready,
     cp_send = (\<lambda>job w. (Ok (contact_accepted X job (Some ''message-1'')), w))\<rparr>"

definition contact_authenticated_state :: "externals \<Rightarrow> contact_api_state option" where
  "contact_authenticated_state X =
     (let registry = contact_with_provider contact_registry_new (http_contact_provider X) in
      case shared_secret_new repeated_secret of
        Inl _ \<Rightarrow> None
      | Inr secret \<Rightarrow> Some \<lparr>ca_registry = registry,
          ca_authenticator = shared_secret_authenticator secret\<rparr>)"

definition contact_oneshot ::
  "externals \<Rightarrow> contact_api_state \<Rightarrow> header_map \<Rightarrow> contact_job \<Rightarrow> contact_reply" where
  "contact_oneshot X st headers job = fst (contact_router X (\<lambda>limit body. Ok job)
     (\<lambda>limit body. Ok [job]) st headers (PostContactJob ''{}'') demo_contact_world)"

lemma contact_oneshot_code [code]:
  "contact_oneshot X st headers job = fst (contact_submit_job X st headers job demo_contact_world)"
  by (simp add: contact_oneshot_def with_contact_extracted_def)

definition contact_submission_fails_closed_without_authentication :: "externals \<Rightarrow> bool" where
  "contact_submission_fails_closed_without_authentication X \<longleftrightarrow>
     ch_status (contact_oneshot X \<lparr>ca_registry = contact_registry_new,
       ca_authenticator = deny_all_authenticator\<rparr> Map.empty dispatch_email_job) = 401"

definition outcome_body :: "contact_reply \<Rightarrow> contact_outcome option" where
  "outcome_body r = (case ch_body r of ContactOutcomeBody outcome \<Rightarrow> Some outcome | _ \<Rightarrow> None)"

definition authenticated_submission_dispatches_and_redacts_recipient :: "externals \<Rightarrow> bool" where
  "authenticated_submission_dispatches_and_redacts_recipient X \<longleftrightarrow>
     (case contact_authenticated_state X of
        None \<Rightarrow> False
      | Some st \<Rightarrow>
          let response = contact_oneshot X st bearer_headers dispatch_email_job
          in ch_status response = 202
             \<and> (case outcome_body response of
                  None \<Rightarrow> False
                | Some outcome \<Rightarrow> co_provider_code outcome = Some ''message-1''
                    \<and> \<not> contains_str ''person@example.com'' (contact_outcome_texts outcome)))"

definition invalid_jobs_return_bounded_safe_errors :: "externals \<Rightarrow> bool" where
  "invalid_jobs_return_bounded_safe_errors X \<longleftrightarrow>
     (case contact_authenticated_state X of
        None \<Rightarrow> False
      | Some st \<Rightarrow>
          let invalid = dispatch_email_job\<lparr>cj_target := SmsTarget ''+15551234567''\<rparr>;
              response = contact_oneshot X st bearer_headers invalid
          in ch_status response = 400
             \<and> (case outcome_body response of
                  None \<Rightarrow> False
                | Some outcome \<Rightarrow> \<not> contains_str ''+15551234567'' (contact_outcome_texts outcome)
                    \<and> co_provider_code outcome = Some ''contract_validation_failed''))"

lemma contact_http_tests:
  "contact_submission_fails_closed_without_authentication X
   \<and> authenticated_submission_dispatches_and_redacts_recipient test_externals
   \<and> invalid_jobs_return_bounded_safe_errors test_externals"
  by code_simp

section \<open>The queues\<close>

definition config_with_secret :: "string option \<Rightarrow> nats_config" where
  "config_with_secret secret = \<lparr>
     nc_url = ''nats://127.0.0.1:4222'',
     nc_job_stream = ''PUSH_JOBS_V1'',
     nc_result_stream = ''PUSH_RESULTS_V1'',
     nc_dead_stream = ''PUSH_DEAD_V1'',
     nc_job_subject = ''push.jobs.v1'',
     nc_result_subject = ''push.results.v1'',
     nc_dead_subject = ''push.dead.v1'',
     nc_consumer = ''push-notification-server-v1'',
     nc_ack_wait = from_secs 120,
     nc_nak_delay = from_secs 15,
     nc_max_deliver = 5,
     nc_max_payload_bytes = 512 * 1024,
     nc_max_concurrency = 8,
     nc_envelope_secret = secret\<rparr>"

definition envelope_authentication_is_explicit :: bool where
  "envelope_authentication_is_explicit \<longleftrightarrow>
     (let secret = replicate 32 CHR ''s'';
          required = config_with_secret (Some secret)
      in nats_authenticate required (Some secret)
         \<and> \<not> nats_authenticate required (Some ''wrong'')
         \<and> \<not> nats_authenticate required None
         \<and> nats_authenticate (config_with_secret None) None)"

definition maps_outcomes_to_ack_nak_or_dead_letter :: bool where
  "maps_outcomes_to_ack_nak_or_dead_letter \<longleftrightarrow>
     (let delay = from_secs 15 in
      disposition_for_outcome Accepted 1 5 delay = DoAck
      \<and> disposition_for_outcome InvalidToken 1 5 delay = DoAck
      \<and> disposition_for_outcome Throttled 2 5 delay = DoNak delay
      \<and> disposition_for_outcome InternalFailure 5 5 delay = DoDeadLetter)"

definition result_publish_failures_do_not_redeliver_terminal_provider_outcomes :: bool where
  "result_publish_failures_do_not_redeliver_terminal_provider_outcomes \<longleftrightarrow>
     (let delay = from_secs 15 in
      disposition_for_result_publish_failure Accepted 1 5 delay = DoDeadLetter
      \<and> disposition_for_result_publish_failure InvalidToken 1 5 delay = DoDeadLetter
      \<and> disposition_for_result_publish_failure Throttled 2 5 delay = DoNak delay
      \<and> disposition_for_result_publish_failure InternalFailure 5 5 delay = DoDeadLetter)"

text \<open>The strings of the event other than its trace, which the fixture leaves empty.\<close>

definition processing_and_result_events_never_echo_target_capabilities :: bool where
  "processing_and_result_events_never_echo_target_capabilities \<longleftrightarrow>
     (case with_provider registry_new SlotFcm (accepting_provider test_externals Fcm) of
        Inl _ \<Rightarrow> False
      | Inr registry \<Rightarrow>
          let outcome = fst (process_job test_externals registry http_job demo_world);
              event = \<lparr>re_schema = result_schema, re_outcome = outcome, re_trace = pj_trace http_job,
                re_delivery_attempt = 1, re_emitted_at_ms = 1\<rparr>;
              encoded = re_schema event @ push_outcome_texts (re_outcome event)
          in \<not> contains_str ''fixture-token-123'' encoded)"

definition dead_letters_hash_payloads_without_copying_raw_capabilities :: "string \<Rightarrow> bool" where
  "dead_letters_hash_payloads_without_copying_raw_capabilities payload \<longleftrightarrow>
     (let event = fst (dead_letter_for_payload (push_ingestion test_externals (\<lambda>p. None) registry_new)
            payload ''invalid_envelope_json'' None None 1 5 demo_world)
      in dl_payload_bytes event = length payload
         \<and> \<not> contains_str ''fixture-token-123'' (dl_schema event @ dl_reason_code event @ dl_payload_sha256 event)
         \<and> length (dl_payload_sha256 event) = 64)"

lemma nats_ingestion_tests:
  "envelope_authentication_is_explicit
   \<and> maps_outcomes_to_ack_nak_or_dead_letter
   \<and> result_publish_failures_do_not_redeliver_terminal_provider_outcomes
   \<and> processing_and_result_events_never_echo_target_capabilities
   \<and> dead_letters_hash_payloads_without_copying_raw_capabilities ''fixture-token-123''"
  by code_simp

definition terminal_contact_outcomes_are_acked :: bool where
  "terminal_contact_outcomes_are_acked \<longleftrightarrow>
     (let delay = from_secs 10 in
      contact_disposition_for_outcome ContactAccepted 1 5 delay = DoAck
      \<and> contact_disposition_for_outcome ContactInvalidPayload 1 5 delay = DoAck
      \<and> contact_disposition_for_outcome ContactPermanentFailure 1 5 delay = DoAck)"

definition retryable_contact_outcomes_nak_then_dead_letter :: bool where
  "retryable_contact_outcomes_nak_then_dead_letter \<longleftrightarrow>
     (let delay = from_secs 10 in
      contact_disposition_for_outcome ContactThrottled 2 5 delay = DoNak delay
      \<and> contact_disposition_for_outcome ContactTransientFailure 5 5 delay = DoDeadLetter)"

definition accepted_delivery_is_never_replayed_to_repair_result_publication :: bool where
  "accepted_delivery_is_never_replayed_to_repair_result_publication \<longleftrightarrow>
     contact_disposition_for_result_publish_failure ContactAccepted 1 5 (from_secs 10) = DoDeadLetter"

definition constant_time_secret_comparison_rejects_mismatches :: bool where
  "constant_time_secret_comparison_rejects_mismatches \<longleftrightarrow>
     contact_constant_time_eq ''same'' ''same''
     \<and> \<not> contact_constant_time_eq ''same'' ''diff''
     \<and> \<not> contact_constant_time_eq ''short'' ''longer''"

lemma contact_nats_ingestion_tests:
  "terminal_contact_outcomes_are_acked
   \<and> retryable_contact_outcomes_nak_then_dead_letter
   \<and> accepted_delivery_is_never_replayed_to_repair_result_publication
   \<and> constant_time_secret_comparison_rejects_mismatches"
  by code_simp

section \<open>Starting the server\<close>

definition flag_names :: "(string \<times> string) list" where
  "flag_names = [(''--host='', ''HOST''), (''--port='', ''PORT''),
     (''--export-openapi='', ''FANWAAVE_EXPORT_OPENAPI'')]"

definition provided_flag :: "string \<Rightarrow> (string \<times> string) option" where
  "provided_flag arg = (case flatten (map (\<lambda>(flag, name).
       map_option (Pair name) (strip_prefix flag arg)) flag_names) of
     [] \<Rightarrow> None | p # _ \<Rightarrow> Some p)"

definition canonical_integer :: "string \<Rightarrow> bool" where
  "canonical_integer s \<longleftrightarrow> s \<noteq> [] \<and> list_all (\<lambda>c. is_ascii_digit (byte_val c)) s
     \<and> (s = ''0'' \<or> hd s \<noteq> CHR ''0'')"

definition test_flag_parser :: flag_parser where
  "test_flag_parser = \<lparr>
     fp_audit_config = (\<lambda>path. None),
     fp_parse_structured = (\<lambda>args path. Ok \<lparr>
       pf_unknown_options = filter (\<lambda>a. provided_flag a = None) (tl args), pf_errors = [],
       pf_command = [], pf_provided_flags = map_of (flatten (map provided_flag (tl args)))\<rparr>),
     fp_resolve_bindings = (\<lambda>env specs. flatten (map (\<lambda>s. Option.bind (env (bs_env s)) (\<lambda>v.
       if bs_kind s = IntegerKind \<and> \<not> canonical_integer v
       then Some (''ENV_PARSE '' @ bs_env s) else None)) specs))\<rparr>"

definition flags_contract :: "string option" where
  "flags_contract = Some ''.cli-flags.toml''"

definition export_scope_is_owned_by_flags_2_env :: "flag_parser \<Rightarrow> bool" where
  "export_scope_is_owned_by_flags_2_env P \<longleftrightarrow>
     map_sum id ra_export_openapi
       (parse_runtime_args P [''server'', ''--export-openapi=public''] Map.empty flags_contract)
       = Ok (Some PublicScope)
     \<and> map_sum id ra_export_openapi
       (parse_runtime_args P [''server'', ''--export-openapi=internal''] Map.empty flags_contract)
       = Ok (Some InternalScope)"

definition rejects_unknown_flags_and_unsupported_openapi_scope :: "flag_parser \<Rightarrow> bool" where
  "rejects_unknown_flags_and_unsupported_openapi_scope P \<longleftrightarrow>
     isl (parse_runtime_args P [''server'', ''--not-declared=yes''] Map.empty flags_contract)
     \<and> isl (parse_runtime_args P [''server'', ''--export-openapi=partner''] Map.empty flags_contract)"

definition rejects_noncanonical_ambient_port_before_socket_startup :: "flag_parser \<Rightarrow> bool" where
  "rejects_noncanonical_ambient_port_before_socket_startup P \<longleftrightarrow>
     (case parse_runtime_args P [''server''] [''PORT'' \<mapsto> ''08121''] flags_contract of
        Inr _ \<Rightarrow> False
      | Inl error \<Rightarrow> contains_str ''ENV_PARSE'' error \<and> contains_str ''PORT'' error
          \<and> \<not> contains_str ''08121'' error)"

definition argv_overrides_ambient_env :: "flag_parser \<Rightarrow> bool" where
  "argv_overrides_ambient_env P \<longleftrightarrow>
     (case parse_runtime_args P [''server'', ''--port=9001'']
         [''HOST'' \<mapsto> ''127.0.0.1'', ''PORT'' \<mapsto> ''9000''] flags_contract of
        Inl _ \<Rightarrow> False
      | Inr runtime \<Rightarrow> ra_merged_env runtime ''PORT'' = Some ''9001''
          \<and> bind_address (ra_merged_env runtime) = Some (SocketV4 (Ipv4 127 0 0 1) 9001))"

definition ambient_env_beats_contract_default_when_argv_is_silent :: "flag_parser \<Rightarrow> bool" where
  "ambient_env_beats_contract_default_when_argv_is_silent P \<longleftrightarrow>
     (case parse_runtime_args P [''server'']
         [''HOST'' \<mapsto> ''127.0.0.1'', ''PORT'' \<mapsto> ''9443''] flags_contract of
        Inl _ \<Rightarrow> False
      | Inr runtime \<Rightarrow>
          bind_address (ra_merged_env runtime) = Some (SocketV4 (Ipv4 127 0 0 1) 9443))"

definition bind_address_parser_preserves_the_runtime_contract :: bool where
  "bind_address_parser_preserves_the_runtime_contract \<longleftrightarrow>
     parse_bind_address ''0.0.0.0'' ''8121'' = Some (SocketV4 (Ipv4 0 0 0 0) 8121)
     \<and> parse_bind_address ''0.0.0.0'' ''not-a-port'' = None"

definition environment_flag_is_false_for_absent_values :: bool where
  "environment_flag_is_false_for_absent_values \<longleftrightarrow>
     \<not> environment_flag (\<lambda>name. NotPresent)
       ''PUSH_NOTIFICATION_TEST_FLAG_THAT_IS_NOT_SET''"

definition provider_errors_do_not_require_secret_debug_output :: bool where
  "provider_errors_do_not_require_secret_debug_output \<longleftrightarrow>
     (let error = InvalidProvider ''fcm'' ''invalid service-account document'' in
      contains_str ''fcm'' (runtime_error_text error)
      \<and> \<not> contains_str ''PRIVATE KEY'' (runtime_error_text error))"

lemma server_tests:
  "export_scope_is_owned_by_flags_2_env test_flag_parser
   \<and> rejects_unknown_flags_and_unsupported_openapi_scope test_flag_parser
   \<and> rejects_noncanonical_ambient_port_before_socket_startup test_flag_parser
   \<and> argv_overrides_ambient_env test_flag_parser
   \<and> ambient_env_beats_contract_default_when_argv_is_silent test_flag_parser
   \<and> bind_address_parser_preserves_the_runtime_contract
   \<and> environment_flag_is_false_for_absent_values
   \<and> provider_errors_do_not_require_secret_debug_output"
  by code_simp

end
