(* ===== verification/Spec2Isabelle.thy ===== *)
theory Spec2Isabelle
  imports Retry Validation Provider Http_Api Environment Fcm Apns Expo Web_Push Receipt
    Jetstream Nats_Ingestion Rate_Limit Contact_Contracts Contact_Validation Contact_Dispatch
    Sendgrid Twilio Contact_Http Contact_Nats Worker Worker_System Runtime Contact_Runtime Api_Docs
    Api_Operations Server Push_Tests Mobile_Tests Web_Push_Tests Contact_Tests Service_Tests
begin

text \<open>
  A verification development of the push notification server: a service that accepts push,
  email and SMS jobs over HTTP and from NATS JetStream, validates them, delivers each through
  one provider (FCM, APNs, Expo, Web Push, SendGrid, Twilio) and reports a redacted outcome.

  \<^bold>\<open>Parts and where they are modelled.\<close> Paths are relative to \<open>src/\<close>.

  \<^item> Prelude, Rust_Std, Ip_Addr, Externals, Adapter: what the code takes from the language,
    its standard library and other crates. Strings are lists of bytes (\<open>chars\<close> decodes UTF-8
    for \<open>chars()\<close>), \<open>Result\<close> is a sum, \<open>Duration\<close> a number of nanoseconds, \<open>BTreeMap\<close> an ordered
    association list with the laws of the locale \<open>lookup_map\<close>, machine integers are words.
    Externals collects third-party functions as the record \<open>externals\<close> and the network, DNS,
    clocks and token caches as the record \<open>world\<close>, with oracles for the answers; Adapter is
    the monad \<open>io\<close> of fallible steps on it, with rules for postconditions (\<open>io_post_intros\<close>)
    and for what a step leaves unchanged (\<open>io_frame_intros\<close>, the locale \<open>step_frame\<close>).
  \<^item> Contracts, Validation, Retry, Provider, Http_Api: \<open>contracts.rs\<close>, \<open>redaction.rs\<close>,
    \<open>validation.rs\<close>, \<open>retry.rs\<close>, \<open>provider.rs\<close>, \<open>dispatch.rs\<close>, \<open>http_api.rs\<close>. The trait
    \<open>PushProvider\<close> is the record \<open>push_provider\<close> with the contract \<open>push_adapter\<close>; the registry's
    is \<open>push_registry\<close>, and a batch relies on \<open>job_service\<close>.
  \<^item> Fcm, Apns, Expo, Web_Push: \<open>providers/*.rs\<close>, each with an interpretation of
    \<open>push_adapter\<close>. Receipt: \<open>receipt.rs\<close>.
  \<^item> Environment, Jetstream, Nats_Ingestion: the environment readers and \<open>nats_ingestion.rs\<close>.
    Both queues run the handler of Jetstream with their own operations; the locale \<open>ingestion\<close>
    states what their disposition functions promise.
  \<^item> Worker: \<open>run_nats_consumer\<close> and \<open>run_contact_nats_consumer\<close>. One loop is the step function
    \<open>worker_step\<close> over events (a client call answered, a message fetched, a permit free, a
    spawned handler returning or panicking); \<open>progress_acks\<close> gives the times of a handler's
    heartbeats. Dispatch_Log reads off a run of the handler which outcomes it dispatched, and
    Worker_System runs any number of loops over any history of deliveries, crashes and other
    traffic. JetStream itself is not modelled: a delivery is an input, and two hypotheses on the
    history of a message, \<open>on_request\<close> (sent again only after a negative acknowledgement of it
    arrived) and \<open>numbered\<close> (deliveries carry their count), say what some results rely on.
  \<^item> Contact_Contracts, Contact_Validation, Rate_Limit, Contact_Dispatch, Sendgrid, Twilio,
    Contact_Http, Contact_Nats: \<open>contact/*.rs\<close> and \<open>contact_nats_ingestion.rs\<close>. The limiters
    shared by the clones of a registry are addresses into the store \<open>cw_buckets\<close> of
    \<open>contact_world\<close>; the locales are \<open>contact_adapter\<close> and \<open>contact_dispatcher\<close>.
  \<^item> Runtime, Contact_Runtime, Startup_Errors, Api_Docs, Api_Operations, Server: \<open>runtime.rs\<close>,
    \<open>contact/runtime.rs\<close>, \<open>api_docs.rs\<close> with the annotations of the handlers, \<open>server.rs\<close>:
    registries and authenticator from the environment, the API documents, the merged router,
    the start-up sequence with the queue workers it spawns on the way (\<open>sw_tasks\<close>, also when a
    later step fails) and the shutdown signal. The registry locales are
    interpreted on whatever the environment yields (\<open>runtime_push\<close>, \<open>runtime_contact\<close>),
    and rules (\<open>errors_intros\<close>) bound the errors of every reader by an explicit list.
  \<^item> Test_Fixtures, Push_Tests, Mobile_Tests, Web_Push_Tests, Contact_Tests, Service_Tests: the
    unit tests of the crate as definitions, each with a lemma that the model passes it. Mock
    servers are oracles of the network, third-party functions stand-ins that return what the
    tests' inputs need, and an assertion about JSON text is made of the strings in the value.
    Tests that only run \<open>serde\<close>, the encryption crate or \<open>utoipa\<close> have no counterpart.

  \<^bold>\<open>What the lemmas show.\<close> Validation accepts exactly the well-formed jobs; adapters
  send only requests of valid jobs, to the hosts they may contact, and answer every branch as
  specified; token caches are reused exactly while unexpired; outcomes belong to their jobs in
  every batch; a delivered queue message is settled as the settlement specifications say; no
  handler processes a job twice for one delivery; as long as the server redelivers on request
  only, a terminal outcome is not repeated and there are at most \<open>max_deliver\<close> deliveries, also
  with several workers that fail and restart (a deadline that expires, or an acknowledgement
  that is lost, can make the server send a job again); at the budget a message is settled
  unless its dead letter cannot be published; heartbeats keep a message exactly when its
  deadline is long enough; a consumer loop ends exactly when a call fails or its semaphore cannot be made; handlers answer as
  the API document lists, apart from the bare outcome of an invalid job, and axum's own
  rejections of a body are undocumented; the configured rates bound the jobs that are sent;
  the push providers and the contact queue are configured exactly as specified, error by error;
  configuration fails closed, and its errors echo no configured value, except that the argument
  parser quotes the command line, the flag parser's text and \<open>FANWAAVE_EXPORT_OPENAPI\<close>, and a
  failed bind its address; the public API document is
  the reachable part of the allowlisted paths; a request without the secret has no effect on a
  started server. This root theory holds the properties that span all of it.

  \<^bold>\<open>Recursion and bounds.\<close> Every definition is total. The only recursion that is not
  structural is \<open>transitive_schema_refs\<close>, whose measure counts the mentioned names not yet
  seen, \<open>progress_acks\<close>, whose measure is the time left, and the UTF-8 and decimal helpers of
  the prelude. No fuel is used: a consumer loop never ends by itself, so it is run over a list
  of events of any length (\<open>worker_run\<close>, \<open>system_run\<close>), and one message's deliveries are the
  inductive relation \<open>delivered\<close>. The limiter's 64-bit floats are
  rationals rounded to 53 bits after each operation (\<open>f64\<close>), which is exact for normal
  numbers; the rate bounds carry the rounding error explicitly.

  \<^bold>\<open>Not modelled.\<close> Serde decoding, cryptography, URL and HTTP-date parsing, the flag
  parser, the OpenAPI generator of \<open>utoipa\<close> and the HTML of its reference page are parameters;
  whether a NATS call, a fetch or the bind succeeds, what JetStream delivers and when a signal
  arrives is input. A spawned worker is a value of the start; what it does meanwhile is a run of
  its loop. A spawned handler acts at the moment it ends, and heartbeats take no time.
  Draining open connections after the signal is axum's. Concurrent requests are
  sequences of whole steps: the code holds its mutexes across a token mint and across one
  limiter call. Request and client timeouts appear as failed answers of the network oracle.
  \<open>Instant\<close> is unbounded, so the panic of an overflowing token expiry is outside the model,
  and so are environment variables whose name is not Unicode. Logging, metrics,
  \<open>Debug\<close> implementations and schema derivations have no counterpart.
\<close>

section \<open>Properties of the running server\<close>

text \<open>
  C1: A server that started fails closed: a request that does not carry the configured secret
  as its bearer token (any request, when shared-secret authentication is not enabled) changes
  nothing: no provider is contacted and no limiter asked; guarded routes answer 401, or
  axum's rejection of the body, and only health, readiness and public documentation are served.
\<close>

theorem server_requires_secret:
  "case run_server S args env path w0 of
     (Inr (Serving su), w1) \<Rightarrow>
       if environment_flag env ''ENABLE_SHARED_SECRET_AUTH'' \<and> headers ''authorization''
           = map_option (\<lambda>secret. ''Bearer '' @ trim secret) (non_empty_env env ''SERVER_AUTH_SECRET'')
       then True
       else (case app_router (sp_externals S) E (su_app su) headers rq w of
         (rep, w') \<Rightarrow> w' = w
           \<and> (if guarded_route rq then app_status rep = unwrap_or 401 (rejected_status E rq)
               else app_status rep \<in> {200, 503}))
   | _ \<Rightarrow> True"
proof -
  have closed: "case app_router (sp_externals S) E (su_app su) headers rq w of
      (rep, w') \<Rightarrow> w' = w
        \<and> (if guarded_route rq then app_status rep = unwrap_or 401 (rejected_status E rq)
            else app_status rep \<in> {200, 503})"
    if run: "run_server S args env path w0 = (Inr (Serving su), w1)"
      and no: "\<not> (environment_flag env ''ENABLE_SHARED_SECRET_AUTH'' \<and> headers ''authorization''
           = map_option (\<lambda>secret. ''Bearer '' @ trim secret) (non_empty_env env ''SERVER_AUTH_SECRET''))"
    for su w1
  proof -
    from run obtain rt :: runtime_args where "serve S env (ra_merged_env rt) w0 = (Inr (Serving su), w1)"
      by (rule run_server_serving) blast
    then obtain auth where auth: "request_authenticator_from_env env = Inr auth"
      and same: "as_authenticator (app_push (su_app su)) = auth"
        "ca_authenticator (app_contact (su_app su)) = auth" "ds_authenticator (app_docs (su_app su)) = auth"
      by (rule serve_result) auto
    have "\<not> auth_authenticate auth headers"
      using no by (rule authenticator_closed [OF auth])
    then show ?thesis using same by (intro app_unauthenticated) simp_all
  qed
  then show ?thesis by (auto split: prod.splits sum.splits server_run.splits)
qed

text \<open>
  C6: Whatever a started server is sent, outcomes belong to their jobs: in a batch of push or
  of contact jobs the n-th outcome carries the n-th job's id, provider and target fingerprint,
  and an invalid job reaches neither a provider nor a limiter, whichever providers the
  environment configured.
\<close>

theorem server_outcomes_belong:
  "case run_server S args env path w0 of
     (Inr (Serving su), w1) \<Rightarrow>
       list_all2 (outcome_of_job (sp_externals S)) jobs
         (fst (run_each (dispatch_job (sp_externals S) (as_registry (app_push (su_app su)))) jobs w))
       \<and> list_all2 (contact_outcome_of (sp_externals S)) contact_jobs
         (fst (run_each (contact_dispatch_job (sp_externals S) (ca_registry (app_contact (su_app su))))
           contact_jobs cw))
       \<and> (if push_job_ok (sp_externals S) job then True else
           silent w (snd (dispatch_job (sp_externals S) (as_registry (app_push (su_app su))) job w)))
       \<and> (if contact_job_ok (sp_externals S) cjob then True else
           snd (contact_dispatch_job (sp_externals S) (ca_registry (app_contact (su_app su))) cjob cw) = cw)
   | _ \<Rightarrow> True"
proof -
  have belong: "list_all2 (outcome_of_job (sp_externals S)) jobs
         (fst (run_each (dispatch_job (sp_externals S) (as_registry (app_push (su_app su)))) jobs w))
       \<and> list_all2 (contact_outcome_of (sp_externals S)) contact_jobs
         (fst (run_each (contact_dispatch_job (sp_externals S) (ca_registry (app_contact (su_app su))))
           contact_jobs cw))"
    if run: "run_server S args env path w0 = (Inr (Serving su), w1)" for su w1
  proof -
    let ?X = "sp_externals S"
    from run obtain rt :: runtime_args where "serve S env (ra_merged_env rt) w0 = (Inr (Serving su), w1)"
      by (rule run_server_serving) blast
    then have "provider_registry_from_env ?X (sp_push S) env = Inr (as_registry (app_push (su_app su)))"
      "contact_registry_from_env ?X (sp_contact S) env (sw_world w0)
         = (Inr (ca_registry (app_contact (su_app su))), sw_world w1)"
      by (rule serve_result; simp)+
    then have reg: "registry_or_empty (provider_registry_from_env ?X (sp_push S) env) = as_registry (app_push (su_app su))"
      "contact_registry_or_empty (fst (contact_registry_from_env ?X (sp_contact S) env (sw_world w0)))
         = ca_registry (app_contact (su_app su))"
      by (simp_all add: registry_or_empty_def contact_registry_or_empty_def)
    show ?thesis
      unfolding reg [symmetric]
      by (intro conjI runtime_push.jobs.run_each_belongs [OF prod.collapse [symmetric]]
          runtime_contact.contact_jobs.run_each_belongs [OF prod.collapse [symmetric]])
  qed
  then show ?thesis
    by (auto simp: dispatch_job_invalid contact_dispatch_job_eq split: prod.splits sum.splits server_run.splits)
qed

text \<open>
  C11: The queue workers of a started server, any number of its replicas on the same stream, over
  any history of deliveries, lost publications and acknowledgements, handlers that panic and
  restarts: no worker runs more handlers than the configured \<open>max_concurrency\<close>, and no push, email
  or SMS job is processed more often than its message is delivered. If JetStream sends a message
  again only on a negative acknowledgement that arrived, and numbers its deliveries, then the
  handlers never ask for more deliveries than the configured \<open>max_deliver\<close>, which is positive
  in every environment the server starts in.
\<close>

theorem server_queue_deliveries_bounded:
  "case run_server S args env path w0 of
     (Inr (Serving su), w1) \<Rightarrow>
       (case su_push_queue su of None \<Rightarrow> True | Some cfg \<Rightarrow>
          let W = push_worker (sp_externals S) decode (as_registry (app_push (su_app su))) in
          case system_run W cfg (system_start W cfg brokers) history of None \<Rightarrow> True | Some s \<Rightarrow>
            list_all (\<lambda>wk. length (wk_tasks wk) \<le> nc_max_concurrency cfg) (sy_workers s)
            \<and> length (dispatched (sy_history s seq)) \<le> length (sent (sy_history s seq))
            \<and> (if on_request True (sy_history s seq) \<and> numbered (sy_history s seq)
               then int (length (sent (sy_history s seq))) \<le> sint (nc_max_deliver cfg) else True))
       \<and> (case su_contact_queue su of None \<Rightarrow> True | Some cfg \<Rightarrow>
          let W = contact_worker (sp_externals S) decode2 (ca_registry (app_contact (su_app su))) in
          case system_run W cfg (system_start W cfg brokers2) history2 of None \<Rightarrow> True | Some s \<Rightarrow>
            list_all (\<lambda>wk. length (wk_tasks wk) \<le> nc_max_concurrency cfg) (sy_workers s)
            \<and> length (dispatched (sy_history s seq)) \<le> length (sent (sy_history s seq))
            \<and> (if on_request True (sy_history s seq) \<and> numbered (sy_history s seq)
               then int (length (sent (sy_history s seq))) \<le> sint (nc_max_deliver cfg) else True))
   | _ \<Rightarrow> True"
proof -
  have positive: "(\<forall>cfg. su_push_queue su = Some cfg \<longrightarrow> 0 < sint (nc_max_deliver cfg))
      \<and> (\<forall>cfg. su_contact_queue su = Some cfg \<longrightarrow> 0 < sint (nc_max_deliver cfg))"
    if run: "run_server S args env path w0 = (Inr (Serving su), w1)" for su w1
  proof -
    from run obtain rt :: runtime_args where "serve S env (ra_merged_env rt) w0 = (Inr (Serving su), w1)"
      by (rule run_server_serving) blast
    then have "nats_config_from_env env = Inr (su_push_queue su)"
      "contact_nats_config_from_env env = Inr (su_contact_queue su)"
      by (rule serve_result; simp)+
    then show ?thesis
      using nats_config_wf [of env] contact_config_positive [of env]
      by (auto split: option.splits)
  qed
  have push: "list_all (\<lambda>wk. length (wk_tasks wk) \<le> nc_max_concurrency cfg) (sy_workers s)
      \<and> length (dispatched (sy_history s seq)) \<le> length (sent (sy_history s seq))
      \<and> (on_request True (sy_history s seq) \<longrightarrow> numbered (sy_history s seq) \<longrightarrow>
           int (length (sent (sy_history s seq))) \<le> sint (nc_max_deliver cfg))"
    if "system_run (push_worker X decode reg) cfg (system_start (push_worker X decode reg) cfg brokers) history = Some s"
      "0 < sint (nc_max_deliver cfg)" for X reg cfg s
    using that message_ok_result [OF push_system_ok, where seq = seq] system_concurrency by blast
  have contact: "list_all (\<lambda>wk. length (wk_tasks wk) \<le> nc_max_concurrency cfg) (sy_workers s)
      \<and> length (dispatched (sy_history s seq)) \<le> length (sent (sy_history s seq))
      \<and> (on_request True (sy_history s seq) \<longrightarrow> numbered (sy_history s seq) \<longrightarrow>
           int (length (sent (sy_history s seq))) \<le> sint (nc_max_deliver cfg))"
    if "system_run (contact_worker X decode2 reg) cfg (system_start (contact_worker X decode2 reg) cfg brokers2) history2 = Some s"
      "0 < sint (nc_max_deliver cfg)" for X reg cfg s
    using that message_ok_result [OF contact_system_ok, where seq = seq] system_concurrency by blast
  show ?thesis
  proof (cases "run_server S args env path w0")
    case (Pair res w1)
    show ?thesis
    proof (cases "\<exists>su. res = Inr (Serving su)")
      case True
      then obtain su where "run_server S args env path w0 = (Inr (Serving su), w1)"
        using Pair by blast
      from positive [OF this] this show ?thesis
        by (cases "su_push_queue su"; cases "su_contact_queue su")
          (simp_all add: Let_def option.case_eq_if push contact del: list_all_iff)
    qed (auto simp: Pair split: sum.splits server_run.splits)
  qed
qed

end
